theory Spec2Isabelle
  imports Complex_Main "HOL-Library.Sublist"
begin

section \<open>Python values, exceptions and the collaborators\<close>

text \<open>
  Modelled from the spec: the enum \<open>ActivationType\<close> lives in
  \<open>agentipy.utils.meteora_dlmm.types\<close>, which is not part of the source tree; the
  adapter names its two members \<open>ActivationType.Slot\<close> and \<open>ActivationType.Timestamp\<close>.
\<close>

datatype activation_type = Slot | Timestamp

text \<open>
  The values that flow through the adapters: what \<open>json.loads\<close> produces (a dict is
  an association list in insertion order, keys are strings), \<open>Pubkey\<close> objects (their
  bytes) and members of \<open>ActivationType\<close>. A float carries the rational it denotes; no
  float arithmetic is performed anywhere in the adapters.
\<close>

datatype pyval =
    PNone
  | PBool bool
  | PInt int
  | PFloat rat
  | PStr string
  | PList "pyval list"
  | PDict "(string \<times> pyval) list"
  | PPubkey "nat list"
  | PActivationType activation_type

text \<open>
  A raised exception. \<open>Exc c m code\<close> is an instance of a subclass \<open>c\<close> of
  \<open>Exception\<close> with \<open>str(e) = m\<close> and the attribute \<open>code\<close> when it has one;
  \<open>BaseExc c\<close> is an instance of a class that derives from \<open>BaseException\<close> only
  (\<open>KeyboardInterrupt\<close>, \<open>asyncio.CancelledError\<close>), which the clause
  \<open>except Exception\<close> does not catch.
\<close>

datatype pyexc =
    Exc string string "pyval option"
  | BaseExc string

text \<open>One call of a method of the agent kit: name, positional and keyword arguments.\<close>

datatype kit_call = Call string "pyval list" "(string \<times> pyval) list"

text \<open>
  The agent kit is an external collaborator: a stub that answers each call with a value
  or an exception.
\<close>

type_synonym kit = "kit_call \<Rightarrow> pyexc + pyval"

text \<open>
  The library functions the adapters call and that are not part of the repository:
  \<open>json.loads\<close>, \<open>Pubkey.from_string\<close> (solders), \<open>int\<close> applied to a string, the
  wording of the interpreter's own \<open>TypeError\<close>/\<open>AttributeError\<close> messages (by operation
  and operand), what \<open>validate_input\<close> does when \<open>json.loads\<close> returned something
  that is not a mapping (the spec defines it on mappings only), \<open>json.dumps\<close>, the
  constructor \<open>Pubkey(...)\<close>, \<open>str\<close> of a value that is not a string, \<open>str.strip\<close>,
  the method \<open>dict()\<close> of an object the agent kit returned, and \<open>\<le>\<close> between operands
  that are not both numbers.
\<close>

record env =
  json_loads :: "string \<Rightarrow> pyexc + pyval"
  Pubkey_from_string :: "pyval \<Rightarrow> pyexc + pyval"
  int_of_str :: "string \<Rightarrow> pyexc + int"
  interp_msg :: "string \<Rightarrow> pyval \<Rightarrow> string"
  validate_nonmapping :: "pyval \<Rightarrow> pyexc + unit"
  json_dumps :: "pyval \<Rightarrow> pyexc + string"
  Pubkey_new :: "pyval \<Rightarrow> pyexc + pyval"
  str_of_val :: "pyval \<Rightarrow> string"
  str_strip :: "string \<Rightarrow> string"
  obj_dict :: "pyval \<Rightarrow> pyexc + pyval"
  compare_other :: "pyval \<Rightarrow> pyval \<Rightarrow> pyexc + bool"

subsection \<open>Python operations on values\<close>

text \<open>
  \<open>data[key]\<close> with a string key. The text of a \<open>KeyError\<close> is the key in single
  quotes (the keys the adapters use are plain identifiers).
\<close>

fun py_getitem :: "env \<Rightarrow> pyval \<Rightarrow> string \<Rightarrow> pyexc + pyval" where
  "py_getitem E (PDict d) k =
     (case map_of d k of
        Some v \<Rightarrow> Inr v
      | None \<Rightarrow> Inl (Exc ''KeyError'' ([CHR 0x27] @ k @ [CHR 0x27]) None))"
| "py_getitem E v k = Inl (Exc ''TypeError'' (interp_msg E ''getitem'' v) None)"

text \<open>\<open>data.get(key, default)\<close>; only a dict has the method.\<close>

fun py_get :: "env \<Rightarrow> pyval \<Rightarrow> string \<Rightarrow> pyval \<Rightarrow> pyexc + pyval" where
  "py_get E (PDict d) k dflt =
     (case map_of d k of Some v \<Rightarrow> Inr v | None \<Rightarrow> Inr dflt)"
| "py_get E v k dflt = Inl (Exc ''AttributeError'' (interp_msg E ''get'' v) None)"

text \<open>Truth value of an object, as \<open>and\<close>, \<open>or\<close> and \<open>if\<close> test it.\<close>

fun py_truthy :: "pyval \<Rightarrow> bool" where
  "py_truthy PNone = False"
| "py_truthy (PBool b) = b"
| "py_truthy (PInt i) = (i \<noteq> 0)"
| "py_truthy (PFloat r) = (r \<noteq> 0)"
| "py_truthy (PStr s) = (s \<noteq> [])"
| "py_truthy (PList xs) = (xs \<noteq> [])"
| "py_truthy (PDict d) = (d \<noteq> [])"
| "py_truthy (PPubkey bs) = True"
| "py_truthy (PActivationType a) = True"

fun starts_with :: "string \<Rightarrow> string \<Rightarrow> bool" where
  "starts_with s [] = True"
| "starts_with [] (c # cs) = False"
| "starts_with (x # xs) (c # cs) = (x = c \<and> starts_with xs cs)"

text \<open>\<open>t in s\<close> for two strings: \<open>t\<close> occurs in \<open>s\<close> as a substring.\<close>

fun str_contains :: "string \<Rightarrow> string \<Rightarrow> bool" where
  "str_contains [] t = (t = [])"
| "str_contains (x # xs) t = (starts_with (x # xs) t \<or> str_contains xs t)"

text \<open>\<open>key in data\<close> with a string key.\<close>

fun py_contains :: "env \<Rightarrow> pyval \<Rightarrow> string \<Rightarrow> pyexc + bool" where
  "py_contains E (PDict d) k = Inr (map_of d k \<noteq> None)"
| "py_contains E (PList xs) k = Inr (PStr k \<in> set xs)"
| "py_contains E (PStr s) k = Inr (str_contains s k)"
| "py_contains E v k = Inl (Exc ''TypeError'' (interp_msg E ''contains'' v) None)"

text \<open>\<open>isinstance(v, str)\<close>, \<open>isinstance(v, float)\<close> and \<open>isinstance(v, int)\<close>; \<open>bool\<close> is a
  subclass of \<open>int\<close>.\<close>

fun isinstance_str :: "pyval \<Rightarrow> bool" where
  "isinstance_str (PStr s) = True"
| "isinstance_str v = False"

fun isinstance_float :: "pyval \<Rightarrow> bool" where
  "isinstance_float (PFloat r) = True"
| "isinstance_float v = False"

fun isinstance_int :: "pyval \<Rightarrow> bool" where
  "isinstance_int (PInt i) = True"
| "isinstance_int (PBool b) = True"
| "isinstance_int v = False"

text \<open>\<open>a <= b\<close>: numbers (\<open>True\<close> is 1, \<open>False\<close> is 0) compare by magnitude.\<close>

fun py_number :: "pyval \<Rightarrow> rat option" where
  "py_number (PBool b) = Some (if b then 1 else 0)"
| "py_number (PInt i) = Some (of_int i)"
| "py_number (PFloat r) = Some r"
| "py_number v = None"

definition py_le :: "env \<Rightarrow> pyval \<Rightarrow> pyval \<Rightarrow> pyexc + bool" where
  "py_le E a b =
     (case (py_number a, py_number b) of
        (Some x, Some y) \<Rightarrow> Inr (x \<le> y)
      | _ \<Rightarrow> compare_other E a b)"

text \<open>\<open>str(v)\<close>, also what an f-string puts for \<open>{v}\<close>.\<close>

fun py_str :: "env \<Rightarrow> pyval \<Rightarrow> string" where
  "py_str E (PStr s) = s"
| "py_str E v = str_of_val E v"

text \<open>\<open>v.strip()\<close>; only a string has the method.\<close>

fun py_strip :: "env \<Rightarrow> pyval \<Rightarrow> pyexc + pyval" where
  "py_strip E (PStr s) = Inr (PStr (str_strip E s))"
| "py_strip E v = Inl (Exc ''AttributeError'' (interp_msg E ''strip'' v) None)"

text \<open>
  The keyword arguments of a call \<open>f(k1=v1, ..., **m)\<close>: \<open>m\<close> has to be a mapping, and
  a key of \<open>m\<close> that repeats one of the keywords written out is a \<open>TypeError\<close>; the
  function is not called then.
\<close>

fun py_splat :: "env \<Rightarrow> (string \<times> pyval) list \<Rightarrow> pyval \<Rightarrow> pyexc + (string \<times> pyval) list" where
  "py_splat E kws (PDict d) =
     (if list_ex (\<lambda>(k, v). map_of kws k \<noteq> None) d
      then Inl (Exc ''TypeError'' (interp_msg E ''keyword'' (PDict d)) None)
      else Inr (kws @ d))"
| "py_splat E kws v = Inl (Exc ''TypeError'' (interp_msg E ''splat'' v) None)"

text \<open>
  \<open>for field in required_fields: if field not in data: raise ValueError(f"...{field}")\<close>,
  the text before the field being \<open>msg\<close>.
\<close>

fun required_loop :: "env \<Rightarrow> pyval \<Rightarrow> string \<Rightarrow> string list \<Rightarrow> pyexc + unit" where
  "required_loop E data msg [] = Inr ()"
| "required_loop E data msg (field # rest) =
     (case py_contains E data field of
        Inl e \<Rightarrow> Inl e
      | Inr present \<Rightarrow>
          (if \<not> present
           then Inl (Exc ''ValueError'' (msg @ field) None)
           else required_loop E data msg rest))"

text \<open>\<open>getattr(e, "code", "UNKNOWN_ERROR")\<close> and \<open>str(e)\<close> on a caught exception.\<close>

fun getattr_code :: "pyexc \<Rightarrow> pyval" where
  "getattr_code (Exc c m (Some code)) = code"
| "getattr_code (Exc c m None) = PStr ''UNKNOWN_ERROR''"
| "getattr_code (BaseExc c) = PStr ''UNKNOWN_ERROR''"

fun str_of_exc :: "pyexc \<Rightarrow> string" where
  "str_of_exc (Exc c m code) = m"
| "str_of_exc (BaseExc c) = []"

subsection \<open>Computations that may raise and that call the agent kit\<close>

text \<open>
  A computation threads the log of the calls made on the agent kit so far and ends in a
  value or in a raised exception.
\<close>

type_synonym 'a comp = "kit_call list \<Rightarrow> (pyexc + 'a) \<times> kit_call list"

definition ret :: "'a \<Rightarrow> 'a comp" where
  "ret x cs = (Inr x, cs)"

definition raise :: "pyexc \<Rightarrow> 'a comp" where
  "raise e cs = (Inl e, cs)"

definition lift :: "pyexc + 'a \<Rightarrow> 'a comp" where
  "lift r cs = (r, cs)"

definition bnd :: "'a comp \<Rightarrow> ('a \<Rightarrow> 'b comp) \<Rightarrow> 'b comp" where
  "bnd m f cs =
     (case m cs of
        (Inl e, cs') \<Rightarrow> (Inl e, cs')
      | (Inr x, cs') \<Rightarrow> f x cs')"

text \<open>\<open>await self.solana_kit.method(...)\<close>: the call is logged, the kit answers.\<close>

definition await_kit :: "kit \<Rightarrow> kit_call \<Rightarrow> pyval comp" where
  "await_kit K c cs = (K c, cs @ [c])"

text \<open>
  \<open>self.solana_kit.method(...)\<close> without \<open>await\<close>, for the methods of the kit that
  are not coroutines.
\<close>

definition call_kit :: "kit \<Rightarrow> kit_call \<Rightarrow> pyval comp" where
  "call_kit K c cs = (K c, cs @ [c])"

text \<open>\<open>await self.solana_kit.attribute\<close>: the kit answers for the attribute.\<close>

definition await_kit_attr :: "kit \<Rightarrow> string \<Rightarrow> pyval comp" where
  "await_kit_attr K a = await_kit K (Call a [] [])"

text \<open>
  Modelled from the spec: \<open>create_image\<close> is imported from \<open>agentipy.tools\<close>, which is
  not part of the source tree; \<open>await create_image(self.solana_kit, prompt, size, n)\<close> is
  the delegate of the image adapter, an operation of the opaque asynchronous service
  on the agent kit it is given.
\<close>

definition create_image :: "kit \<Rightarrow> pyval \<Rightarrow> pyval \<Rightarrow> pyval \<Rightarrow> pyval comp" where
  "create_image K prompt image_size n =
     await_kit K (Call ''create_image'' [prompt, image_size, n] [])"

text \<open>
  \<open>try: body  except Exception as e: return handler(e)\<close>, run from an empty log.
  An exception that is not an instance of \<open>Exception\<close> passes through.
\<close>

definition try_except :: "pyval comp \<Rightarrow> (pyexc \<Rightarrow> pyval) \<Rightarrow> (pyexc + pyval) \<times> kit_call list" where
  "try_except body handler =
     (case body [] of
        (Inr v, cs) \<Rightarrow> (Inr v, cs)
      | (Inl (Exc c m code), cs) \<Rightarrow> (Inr (handler (Exc c m code)), cs)
      | (Inl (BaseExc c), cs) \<Rightarrow> (Inl (BaseExc c), cs))"

text \<open>
  The same statement with a handler that evaluates \<open>json.dumps\<close>, which may raise
  in its turn; nothing catches that exception.
\<close>

definition try_except_raising ::
  "pyval comp \<Rightarrow> (pyexc \<Rightarrow> pyexc + pyval) \<Rightarrow> (pyexc + pyval) \<times> kit_call list" where
  "try_except_raising body handler =
     (case body [] of
        (Inr v, cs) \<Rightarrow> (Inr v, cs)
      | (Inl (Exc c m code), cs) \<Rightarrow> (handler (Exc c m code), cs)
      | (Inl (BaseExc c), cs) \<Rightarrow> (Inl (BaseExc c), cs))"

section \<open>The schema validator\<close>

text \<open>
  A schema is written in the adapters as a dict literal: field name to rule, a rule
  having the keys \<open>type\<close>, \<open>required\<close> and, where given, \<open>min\<close> and \<open>max\<close>. The types
  that occur are \<open>str\<close>, \<open>int\<close>, \<open>float\<close>, \<open>bool\<close>, \<open>list\<close> and \<open>dict\<close>, the bounds
  are integers.
\<close>

datatype pytype = T_str | T_int | T_float | T_bool | T_list | T_dict

record field_rule =
  rtype :: "pytype list"
  required :: bool
  rmin :: "int option"
  rmax :: "int option"

type_synonym schema = "(string \<times> field_rule) list"

text \<open>The runtime type of a value, among the types a schema can name.\<close>

fun type_of_py :: "pyval \<Rightarrow> pytype option" where
  "type_of_py (PStr s) = Some T_str"
| "type_of_py (PInt i) = Some T_int"
| "type_of_py (PFloat r) = Some T_float"
| "type_of_py (PBool b) = Some T_bool"
| "type_of_py (PList xs) = Some T_list"
| "type_of_py (PDict d) = Some T_dict"
| "type_of_py v = None"

text \<open>The magnitude of a number; no other value has one.\<close>

fun num_of :: "pyval \<Rightarrow> rat option" where
  "num_of (PInt i) = Some (of_int i)"
| "num_of (PFloat r) = Some r"
| "num_of v = None"

text \<open>
  Modelled from the spec: the exception with which validation fails (4.1); it carries a
  message and no code.
\<close>

definition ValidationError :: "string \<Rightarrow> pyexc" where
  "ValidationError m = Exc ''ValidationError'' m None"

text \<open>
  Modelled from the spec: rule 1 of 4.1, required-field presence, over the fields of the
  schema in their order.
\<close>

fun check_required :: "(string \<times> pyval) list \<Rightarrow> schema \<Rightarrow> pyexc + unit" where
  "check_required d [] = Inr ()"
| "check_required d ((f, r) # S) =
     (if required r \<and> map_of d f = None
      then Inl (ValidationError (''Missing required field: '' @ f))
      else check_required d S)"

text \<open>
  Modelled from the spec: rule 2 of 4.1, type conformance of every field that is present
  and that the schema names; a value conforms when its runtime type is one of the types
  the rule accepts.
\<close>

fun check_types :: "(string \<times> pyval) list \<Rightarrow> schema \<Rightarrow> pyexc + unit" where
  "check_types d [] = Inr ()"
| "check_types d ((f, r) # S) =
     (case map_of d f of
        None \<Rightarrow> check_types d S
      | Some v \<Rightarrow>
          (if type_of_py v \<in> Some ` set (rtype r) then check_types d S
           else Inl (ValidationError (''Invalid type for field: '' @ f))))"

text \<open>
  Modelled from the spec: rule 3 of 4.1, the bounds of a number that is present. A value
  violates a bound only if it lies strictly outside: the interval is inclusive. The spec
  leaves the wording of the two messages open and asks that they identify the field.
\<close>

definition below_min :: "pyval \<Rightarrow> field_rule \<Rightarrow> bool" where
  "below_min v r =
     (case (num_of v, rmin r) of (Some x, Some lo) \<Rightarrow> x < of_int lo | _ \<Rightarrow> False)"

definition above_max :: "pyval \<Rightarrow> field_rule \<Rightarrow> bool" where
  "above_max v r =
     (case (num_of v, rmax r) of (Some x, Some hi) \<Rightarrow> of_int hi < x | _ \<Rightarrow> False)"

fun check_bounds :: "(string \<times> pyval) list \<Rightarrow> schema \<Rightarrow> pyexc + unit" where
  "check_bounds d [] = Inr ()"
| "check_bounds d ((f, r) # S) =
     (case map_of d f of
        None \<Rightarrow> check_bounds d S
      | Some v \<Rightarrow>
          (if below_min v r
           then Inl (ValidationError (''Value below minimum for field: '' @ f))
           else if above_max v r
           then Inl (ValidationError (''Value above maximum for field: '' @ f))
           else check_bounds d S))"

text \<open>
  Modelled from the spec: \<open>validate_input\<close> is imported from \<open>agentipy.helpers\<close>, which
  is not part of the source tree. The spec (4.1) gives its rules in precedence order:
  required-field presence, then type conformance of the fields present, then the
  inclusive bounds of the numbers present; fields outside the schema are ignored; the
  first violation raises a \<open>ValidationError\<close> with a message.
\<close>

definition validate_input :: "(string \<times> pyval) list \<Rightarrow> schema \<Rightarrow> pyexc + unit" where
  "validate_input d S =
     (case check_required d S of
        Inl e \<Rightarrow> Inl e
      | Inr u \<Rightarrow>
          (case check_types d S of
             Inl e \<Rightarrow> Inl e
           | Inr u \<Rightarrow> check_bounds d S))"

text \<open>
  Modelled from the spec: the call \<open>validate_input(data, schema)\<close> as the adapter sees
  it, with the mapping as the call leaves it. The spec (4.1, rule 5) says that validation
  only inspects: it neither coerces a value nor stores a default.
\<close>

definition validate_input_call ::
  "(string \<times> pyval) list \<Rightarrow> schema \<Rightarrow> (pyexc + unit) \<times> (string \<times> pyval) list" where
  "validate_input_call d S = (validate_input d S, d)"

text \<open>The statement \<open>validate_input(data, schema)\<close> inside an adapter.\<close>

fun validate_stmt :: "env \<Rightarrow> pyval \<Rightarrow> schema \<Rightarrow> pyexc + pyval" where
  "validate_stmt E (PDict d) S =
     (case validate_input_call d S of
        (Inl e, d') \<Rightarrow> Inl e
      | (Inr u, d') \<Rightarrow> Inr (PDict d'))"
| "validate_stmt E v S =
     (case validate_nonmapping E v of Inl e \<Rightarrow> Inl e | Inr u \<Rightarrow> Inr v)"

section \<open>The adapters\<close>

text \<open>
  The adapters follow their classes in \<open>agentipy/langchain/__init__.py\<close> statement by
  statement, in the order of the module: \<open>X_schema\<close> is the schema literal of class
  \<open>X\<close>, \<open>X_try\<close> the block under \<open>try:\<close> of its asynchronous method, \<open>X_except\<close> what
  its handler \<open>except Exception as e\<close> returns. An expression is evaluated in the order
  in which Python evaluates it, each operation that can raise being one step. For
  seven classes the whole method \<open>X_arun\<close> is written out as well. The result of a
  method pairs what the coroutine returns (or the exception that leaves it) with the
  calls it made on the agent kit.
\<close>

type_synonym outcome = "(pyexc + pyval) \<times> kit_call list"

text \<open>The handler of seven of the classes below, written once.\<close>

definition error_result :: "pyexc \<Rightarrow> pyval" where
  "error_result e =
     PDict [(''status'', PStr ''error''),
            (''message'', PStr (str_of_exc e)),
            (''code'', getattr_code e)]"

subsection \<open>SolanaBalanceTool\<close>

definition SolanaBalanceTool_try :: "env \<Rightarrow> kit \<Rightarrow> string \<Rightarrow> pyval comp" where
  "SolanaBalanceTool_try E K input =
     bnd (if input \<noteq> [] then lift (Pubkey_from_string E (PStr input)) else ret PNone)
       (\<lambda>token_address.
     bnd (await_kit K (Call ''get_balance'' [token_address] [])) (\<lambda>balance.
     ret (PDict [(''status'', PStr ''success''),
                 (''balance'', balance),
                 (''token'', PStr (if input \<noteq> [] then input else ''SOL''))])))"

definition SolanaBalanceTool_arun :: "env \<Rightarrow> kit \<Rightarrow> string \<Rightarrow> outcome" where
  "SolanaBalanceTool_arun E K input = try_except (SolanaBalanceTool_try E K input) error_result"

subsection \<open>SolanaTransferTool\<close>

definition transfer_schema :: schema where
  "transfer_schema =
     [(''to'', \<lparr>rtype = [T_str], required = True, rmin = None, rmax = None\<rparr>),
      (''amount'', \<lparr>rtype = [T_int], required = True, rmin = Some 1, rmax = None\<rparr>),
      (''mint'', \<lparr>rtype = [T_str], required = False, rmin = None, rmax = None\<rparr>)]"

text \<open>\<open>data.get("mint") and Pubkey.from_string(data["mint"])\<close>\<close>

definition transfer_mint_address :: "env \<Rightarrow> pyval \<Rightarrow> pyval comp" where
  "transfer_mint_address E data =
     bnd (lift (py_get E data ''mint'' PNone)) (\<lambda>m.
     if py_truthy m
     then bnd (lift (py_getitem E data ''mint'')) (\<lambda>s. lift (Pubkey_from_string E s))
     else ret m)"

definition SolanaTransferTool_try :: "env \<Rightarrow> kit \<Rightarrow> string \<Rightarrow> pyval comp" where
  "SolanaTransferTool_try E K input =
     bnd (lift (json_loads E input)) (\<lambda>parsed.
     bnd (lift (validate_stmt E parsed transfer_schema)) (\<lambda>data.
     bnd (lift (py_getitem E data ''to'')) (\<lambda>to.
     bnd (lift (Pubkey_from_string E to)) (\<lambda>recipient.
     bnd (transfer_mint_address E data) (\<lambda>mint_address.
     bnd (lift (py_getitem E data ''amount'')) (\<lambda>amount.
     bnd (await_kit K (Call ''transfer'' [recipient, amount, mint_address] []))
       (\<lambda>transaction.
     bnd (lift (py_getitem E data ''amount'')) (\<lambda>amount'.
     bnd (lift (py_getitem E data ''to'')) (\<lambda>to'.
     bnd (lift (py_get E data ''mint'' (PStr ''SOL''))) (\<lambda>token.
     ret (PDict [(''status'', PStr ''success''),
                 (''message'', PStr ''Transfer completed successfully''),
                 (''amount'', amount'),
                 (''recipient'', to'),
                 (''token'', token),
                 (''transaction'', transaction)])))))))))))"

definition SolanaTransferTool_arun :: "env \<Rightarrow> kit \<Rightarrow> string \<Rightarrow> outcome" where
  "SolanaTransferTool_arun E K input = try_except (SolanaTransferTool_try E K input) error_result"

subsection \<open>SolanaDeployTokenTool\<close>

definition deploy_token_schema :: schema where
  "deploy_token_schema =
     [(''decimals'', \<lparr>rtype = [T_int], required = True, rmin = Some 0, rmax = Some 9\<rparr>),
      (''initialSupply'', \<lparr>rtype = [T_int], required = True, rmin = Some 1, rmax = None\<rparr>)]"

definition SolanaDeployTokenTool_try :: "env \<Rightarrow> kit \<Rightarrow> string \<Rightarrow> pyval comp" where
  "SolanaDeployTokenTool_try E K input =
     bnd (lift (json_loads E input)) (\<lambda>parsed.
     bnd (lift (validate_stmt E parsed deploy_token_schema)) (\<lambda>data.
     bnd (lift (py_get E data ''decimals'' (PInt 9))) (\<lambda>decimals.
     bnd (await_kit K (Call ''deploy_token'' [decimals] [])) (\<lambda>token_details.
     bnd (lift (py_getitem E token_details ''mint'')) (\<lambda>mint.
     ret (PDict [(''status'', PStr ''success''),
                 (''message'', PStr ''Token deployed successfully''),
                 (''mintAddress'', mint),
                 (''decimals'', decimals)]))))))"

definition SolanaDeployTokenTool_arun :: "env \<Rightarrow> kit \<Rightarrow> string \<Rightarrow> outcome" where
  "SolanaDeployTokenTool_arun E K input = try_except (SolanaDeployTokenTool_try E K input) error_result"

subsection \<open>SolanaTradeTool\<close>

definition SolanaTradeTool_schema :: schema where
  "SolanaTradeTool_schema =
     [(''output_mint'', \<lparr>rtype = [T_str], required = True, rmin = None, rmax = None\<rparr>),
      (''input_amount'', \<lparr>rtype = [T_int], required = True, rmin = Some 1, rmax = None\<rparr>),
      (''input_mint'', \<lparr>rtype = [T_str], required = False, rmin = None, rmax = None\<rparr>),
      (''slippage_bps'', \<lparr>rtype = [T_int], required = False, rmin = None, rmax = None\<rparr>)]"

definition SolanaTradeTool_try :: "env \<Rightarrow> kit \<Rightarrow> string \<Rightarrow> pyval comp" where
  "SolanaTradeTool_try E K input =
     bnd (lift (json_loads E input)) (\<lambda>data.
     bnd (lift (validate_stmt E data SolanaTradeTool_schema)) (\<lambda>data.
     bnd (lift (py_getitem E data ''output_mint'')) (\<lambda>output_mint'.
     bnd (lift (Pubkey_from_string E output_mint')) (\<lambda>output_mint.
     bnd (lift (py_contains E data ''input_mint'')) (\<lambda>b.
     bnd (if b then bnd (lift (py_getitem E data ''input_mint'')) (\<lambda>input_mint'.
     lift (Pubkey_from_string E input_mint')) else ret PNone) (\<lambda>input_mint.
     bnd (lift (py_get E data ''slippage_bps'' (PInt 100))) (\<lambda>slippage_bps.
     bnd (lift (py_getitem E data ''input_amount'')) (\<lambda>input_amount.
     bnd (await_kit K (Call ''trade'' [output_mint, input_amount, input_mint, slippage_bps] [])) (\<lambda>transaction.
     ret (PDict [(''status'', PStr ''success''),
                 (''message'', PStr ''Trade executed successfully''),
                 (''transaction'', transaction)]))))))))))"

definition SolanaTradeTool_except :: "string \<Rightarrow> pyexc \<Rightarrow> pyval" where
  "SolanaTradeTool_except input e =
     PDict [(''status'', PStr ''error''),
            (''message'', PStr (str_of_exc e)),
            (''code'', getattr_code e)]"

subsection \<open>SolanaFaucetTool\<close>

definition SolanaFaucetTool_try :: "env \<Rightarrow> kit \<Rightarrow> pyval comp" where
  "SolanaFaucetTool_try E K =
     bnd (await_kit K (Call ''request_faucet_funds'' [] [])) (\<lambda>result.
     ret (PDict [(''status'', PStr ''success''),
                 (''message'', PStr ''Faucet funds requested successfully''),
                 (''result'', result)]))"

definition SolanaFaucetTool_except :: "pyexc \<Rightarrow> pyval" where
  "SolanaFaucetTool_except e =
     PDict [(''status'', PStr ''error''),
            (''message'', PStr (str_of_exc e)),
            (''code'', getattr_code e)]"

subsection \<open>SolanaStakeTool\<close>

definition SolanaStakeTool_try :: "env \<Rightarrow> kit \<Rightarrow> string \<Rightarrow> pyval comp" where
  "SolanaStakeTool_try E K input =
     bnd (lift (int_of_str E input)) (\<lambda>amount.
     bnd (await_kit K (Call ''stake'' [PInt amount] [])) (\<lambda>result.
     ret (PDict [(''status'', PStr ''success''),
                 (''message'', PStr ''Assets staked successfully''),
                 (''result'', result)])))"

definition SolanaStakeTool_arun :: "env \<Rightarrow> kit \<Rightarrow> string \<Rightarrow> outcome" where
  "SolanaStakeTool_arun E K input = try_except (SolanaStakeTool_try E K input) error_result"

subsection \<open>SolanaGetWalletAddressTool\<close>

definition SolanaGetWalletAddressTool_try :: "env \<Rightarrow> kit \<Rightarrow> pyval comp" where
  "SolanaGetWalletAddressTool_try E K =
     bnd (await_kit_attr K ''wallet_address'') (\<lambda>result.
     ret (PDict [(''status'', PStr ''success''),
                 (''message'', PStr ''Wallet address fetched successfully''),
                 (''result'', PStr (py_str E result))]))"

definition SolanaGetWalletAddressTool_except :: "pyexc \<Rightarrow> pyval" where
  "SolanaGetWalletAddressTool_except e =
     PDict [(''status'', PStr ''error''),
            (''message'', PStr (str_of_exc e)),
            (''code'', getattr_code e)]"

subsection \<open>SolanaCreateImageTool\<close>

definition SolanaCreateImageTool_schema :: schema where
  "SolanaCreateImageTool_schema =
     [(''prompt'', \<lparr>rtype = [T_str], required = True, rmin = None, rmax = None\<rparr>),
      (''size'', \<lparr>rtype = [T_str], required = False, rmin = None, rmax = None\<rparr>),
      (''n'', \<lparr>rtype = [T_int], required = False, rmin = None, rmax = None\<rparr>)]"

definition SolanaCreateImageTool_try :: "env \<Rightarrow> kit \<Rightarrow> string \<Rightarrow> pyval comp" where
  "SolanaCreateImageTool_try E K input =
     bnd (lift (json_loads E input)) (\<lambda>data.
     bnd (lift (validate_stmt E data SolanaCreateImageTool_schema)) (\<lambda>data.
     bnd (lift (py_getitem E data ''prompt'')) (\<lambda>prompt.
     bnd (lift (py_get E data ''size'' (PStr ''1024x1024''))) (\<lambda>size.
     bnd (lift (py_getitem E data ''prompt'')) (\<lambda>prompt.
     bnd (lift (py_get E data ''size'' (PStr ''1024x1024''))) (\<lambda>size.
     bnd (lift (py_get E data ''n'' (PInt 1))) (\<lambda>n.
     bnd (lift (py_strip E prompt)) (\<lambda>s.
     bnd (if \<not> py_truthy s
      then raise (Exc ''ValueError'' ''Prompt must be a non-empty string.'' None)
      else ret ()) (\<lambda>u.
     bnd (create_image K prompt size n) (\<lambda>result.
     bnd (lift (py_getitem E result ''images'')) (\<lambda>images.
     ret (PDict [(''status'', PStr ''success''),
                 (''message'', PStr ''Image created successfully''),
                 (''images'', images)]))))))))))))"

definition SolanaCreateImageTool_except :: "string \<Rightarrow> pyexc \<Rightarrow> pyval" where
  "SolanaCreateImageTool_except input e =
     PDict [(''status'', PStr ''error''),
            (''message'', PStr (str_of_exc e)),
            (''code'', getattr_code e)]"

subsection \<open>SolanaTPSCalculatorTool\<close>

definition SolanaTPSCalculatorTool_try :: "env \<Rightarrow> kit \<Rightarrow> pyval comp" where
  "SolanaTPSCalculatorTool_try E K =
     bnd (await_kit K (Call ''get_tps'' [] [])) (\<lambda>tps.
     ret (PDict [(''status'', PStr ''success''),
                 (''message'', PStr (''Solana (mainnet-beta) current transactions per second: '' @ py_str E tps))]))"

definition SolanaTPSCalculatorTool_except :: "pyexc \<Rightarrow> pyval" where
  "SolanaTPSCalculatorTool_except e =
     PDict [(''status'', PStr ''error''),
            (''message'', PStr (''Error fetching TPS: '' @ str_of_exc e)),
            (''code'', getattr_code e)]"

subsection \<open>SolanaPumpFunTokenTool\<close>

definition SolanaPumpFunTokenTool_schema :: schema where
  "SolanaPumpFunTokenTool_schema =
     [(''token_name'', \<lparr>rtype = [T_str], required = True, rmin = None, rmax = None\<rparr>),
      (''token_ticker'', \<lparr>rtype = [T_str], required = True, rmin = None, rmax = None\<rparr>),
      (''description'', \<lparr>rtype = [T_str], required = True, rmin = None, rmax = None\<rparr>),
      (''image_url'', \<lparr>rtype = [T_str], required = True, rmin = None, rmax = None\<rparr>)]"

definition SolanaPumpFunTokenTool_try :: "env \<Rightarrow> kit \<Rightarrow> string \<Rightarrow> pyval comp" where
  "SolanaPumpFunTokenTool_try E K input =
     bnd (lift (json_loads E input)) (\<lambda>data.
     bnd (lift (validate_stmt E data SolanaPumpFunTokenTool_schema)) (\<lambda>data.
     bnd (lift (py_getitem E data ''token_name'')) (\<lambda>token_name.
     bnd (lift (py_getitem E data ''token_ticker'')) (\<lambda>token_ticker.
     bnd (lift (py_getitem E data ''description'')) (\<lambda>description.
     bnd (lift (py_getitem E data ''image_url'')) (\<lambda>image_url.
     bnd (lift (py_get E data ''options'' PNone)) (\<lambda>options.
     bnd (await_kit K (Call ''launch_pump_fun_token'' [token_name, token_ticker, description, image_url] [(''options'', options)])) (\<lambda>result.
     ret (PDict [(''status'', PStr ''success''),
                 (''message'', PStr ''Pump Fun token launched successfully''),
                 (''result'', result)])))))))))"

definition SolanaPumpFunTokenTool_except :: "string \<Rightarrow> pyexc \<Rightarrow> pyval" where
  "SolanaPumpFunTokenTool_except input e =
     PDict [(''status'', PStr ''error''),
            (''message'', PStr (str_of_exc e)),
            (''code'', getattr_code e)]"

subsection \<open>SolanaFetchPriceTool\<close>

definition SolanaFetchPriceTool_schema :: schema where
  "SolanaFetchPriceTool_schema =
     [(''token_id'', \<lparr>rtype = [T_str], required = True, rmin = None, rmax = None\<rparr>)]"

definition SolanaFetchPriceTool_try :: "env \<Rightarrow> kit \<Rightarrow> string \<Rightarrow> pyval comp" where
  "SolanaFetchPriceTool_try E K input =
     bnd (lift (json_loads E input)) (\<lambda>data.
     bnd (lift (validate_stmt E data SolanaFetchPriceTool_schema)) (\<lambda>data.
     bnd (lift (py_getitem E data ''token_id'')) (\<lambda>token_id.
     bnd (await_kit K (Call ''fetch_price'' [token_id] [])) (\<lambda>price.
     bnd (lift (json_dumps E (PDict [(''status'', PStr ''success''),
                                     (''tokenId'', token_id),
                                     (''priceInUSDC'', price)]))) (\<lambda>s.
     ret (PStr s))))))"

definition SolanaFetchPriceTool_except :: "env \<Rightarrow> pyexc \<Rightarrow> pyexc + pyval" where
  "SolanaFetchPriceTool_except E e =
     (case json_dumps E
        (PDict [(''status'', PStr ''error''),
            (''message'', PStr (str_of_exc e)),
            (''code'', getattr_code e)]) of
        Inl x \<Rightarrow> Inl x
      | Inr s \<Rightarrow> Inr (PStr s))"

subsection \<open>SolanaTokenDataTool\<close>

definition SolanaTokenDataTool_schema :: schema where
  "SolanaTokenDataTool_schema =
     [(''mint_address'', \<lparr>rtype = [T_str], required = True, rmin = None, rmax = None\<rparr>)]"

definition SolanaTokenDataTool_try :: "env \<Rightarrow> kit \<Rightarrow> string \<Rightarrow> pyval comp" where
  "SolanaTokenDataTool_try E K input =
     bnd (lift (json_loads E input)) (\<lambda>data.
     bnd (lift (validate_stmt E data SolanaTokenDataTool_schema)) (\<lambda>data.
     bnd (lift (py_getitem E data ''mint_address'')) (\<lambda>mint_address.
     bnd (await_kit K (Call ''get_token_data_by_address'' [mint_address] [])) (\<lambda>token_data.
     bnd (lift (json_dumps E (PDict [(''status'', PStr ''success''),
                                     (''tokenData'', token_data)]))) (\<lambda>s.
     ret (PStr s))))))"

definition SolanaTokenDataTool_except :: "env \<Rightarrow> pyexc \<Rightarrow> pyexc + pyval" where
  "SolanaTokenDataTool_except E e =
     (case json_dumps E
        (PDict [(''status'', PStr ''error''),
            (''message'', PStr (str_of_exc e)),
            (''code'', getattr_code e)]) of
        Inl x \<Rightarrow> Inl x
      | Inr s \<Rightarrow> Inr (PStr s))"

subsection \<open>SolanaTokenDataByTickerTool\<close>

definition SolanaTokenDataByTickerTool_schema :: schema where
  "SolanaTokenDataByTickerTool_schema =
     [(''ticker'', \<lparr>rtype = [T_str], required = True, rmin = None, rmax = None\<rparr>)]"

definition SolanaTokenDataByTickerTool_try :: "env \<Rightarrow> kit \<Rightarrow> string \<Rightarrow> pyval comp" where
  "SolanaTokenDataByTickerTool_try E K input =
     bnd (lift (json_loads E input)) (\<lambda>data.
     bnd (lift (validate_stmt E data SolanaTokenDataByTickerTool_schema)) (\<lambda>data.
     bnd (lift (py_getitem E data ''ticker'')) (\<lambda>ticker.
     bnd (await_kit K (Call ''get_token_data_by_ticker'' [ticker] [])) (\<lambda>token_data.
     bnd (lift (json_dumps E (PDict [(''status'', PStr ''success''),
                                     (''tokenData'', token_data)]))) (\<lambda>s.
     ret (PStr s))))))"

definition SolanaTokenDataByTickerTool_except :: "env \<Rightarrow> pyexc \<Rightarrow> pyexc + pyval" where
  "SolanaTokenDataByTickerTool_except E e =
     (case json_dumps E
        (PDict [(''status'', PStr ''error''),
            (''message'', PStr (str_of_exc e)),
            (''code'', getattr_code e)]) of
        Inl x \<Rightarrow> Inl x
      | Inr s \<Rightarrow> Inr (PStr s))"

subsection \<open>SolanaMeteoraDLMMTool\<close>

definition meteora_schema :: schema where
  "meteora_schema =
     [(''bin_step'', \<lparr>rtype = [T_int], required = True, rmin = None, rmax = None\<rparr>),
      (''token_a_mint'', \<lparr>rtype = [T_str], required = True, rmin = None, rmax = None\<rparr>),
      (''token_b_mint'', \<lparr>rtype = [T_str], required = True, rmin = None, rmax = None\<rparr>),
      (''initial_price'', \<lparr>rtype = [T_float], required = True, rmin = None, rmax = None\<rparr>),
      (''price_rounding_up'', \<lparr>rtype = [T_bool], required = True, rmin = None, rmax = None\<rparr>),
      (''fee_bps'', \<lparr>rtype = [T_int], required = True, rmin = None, rmax = None\<rparr>),
      (''activation_type'', \<lparr>rtype = [T_str], required = True, rmin = None, rmax = None\<rparr>),
      (''has_alpha_vault'', \<lparr>rtype = [T_bool], required = True, rmin = None, rmax = None\<rparr>),
      (''activation_point'', \<lparr>rtype = [T_str], required = False, rmin = None, rmax = None\<rparr>)]"

text \<open>
  \<open>activation_type_mapping.get(key)\<close> on the dict literal
  \<open>{"Slot": ActivationType.Slot, "Timestamp": ActivationType.Timestamp}\<close>: a key
  that is not in the dict gives \<open>None\<close>, a list or a dict is not hashable.
\<close>

fun activation_type_mapping_get :: "env \<Rightarrow> pyval \<Rightarrow> pyexc + pyval" where
  "activation_type_mapping_get E (PStr s) =
     (if s = ''Slot'' then Inr (PActivationType Slot)
      else if s = ''Timestamp'' then Inr (PActivationType Timestamp)
      else Inr PNone)"
| "activation_type_mapping_get E (PList xs) =
     Inl (Exc ''TypeError'' (interp_msg E ''hash'' (PList xs)) None)"
| "activation_type_mapping_get E (PDict d) =
     Inl (Exc ''TypeError'' (interp_msg E ''hash'' (PDict d)) None)"
| "activation_type_mapping_get E v = Inr PNone"

definition meteora_error_result :: "string \<Rightarrow> pyexc \<Rightarrow> pyval" where
  "meteora_error_result input e =
     PDict [(''status'', PStr ''error''),
            (''message'',
               PStr (''Failed to process input: '' @ input @ ''. Error: '' @ str_of_exc e)),
            (''code'', getattr_code e)]"

definition SolanaMeteoraDLMMTool_try :: "env \<Rightarrow> kit \<Rightarrow> string \<Rightarrow> pyval comp" where
  "SolanaMeteoraDLMMTool_try E K input =
     bnd (lift (json_loads E input)) (\<lambda>parsed.
     bnd (lift (validate_stmt E parsed meteora_schema)) (\<lambda>data.
     bnd (lift (py_getitem E data ''activation_type'')) (\<lambda>key.
     bnd (lift (activation_type_mapping_get E key)) (\<lambda>activation_type.
     bnd (if activation_type = PNone
          then raise (Exc ''ValueError''
                 ''Invalid activation_type. Valid options are: Slot, Timestamp.'' None)
          else ret ()) (\<lambda>u.
     bnd (lift (py_get E data ''activation_point'' PNone)) (\<lambda>activation_point.
     bnd (lift (py_getitem E data ''bin_step'')) (\<lambda>bin_step.
     bnd (lift (py_getitem E data ''token_a_mint'')) (\<lambda>token_a_mint.
     bnd (lift (py_getitem E data ''token_b_mint'')) (\<lambda>token_b_mint.
     bnd (lift (py_getitem E data ''initial_price'')) (\<lambda>initial_price.
     bnd (lift (py_getitem E data ''price_rounding_up'')) (\<lambda>price_rounding_up.
     bnd (lift (py_getitem E data ''fee_bps'')) (\<lambda>fee_bps.
     bnd (lift (py_getitem E data ''has_alpha_vault'')) (\<lambda>has_alpha_vault.
     bnd (await_kit K (Call ''create_meteora_dlmm_pool'' []
            [(''bin_step'', bin_step),
             (''token_a_mint'', token_a_mint),
             (''token_b_mint'', token_b_mint),
             (''initial_price'', initial_price),
             (''price_rounding_up'', price_rounding_up),
             (''fee_bps'', fee_bps),
             (''activation_type'', activation_type),
             (''has_alpha_vault'', has_alpha_vault),
             (''activation_point'', activation_point)])) (\<lambda>result.
     ret (PDict [(''status'', PStr ''success''),
                 (''message'', PStr ''Meteora DLMM pool created successfully''),
                 (''result'', result)])))))))))))))))"

definition SolanaMeteoraDLMMTool_arun :: "env \<Rightarrow> kit \<Rightarrow> string \<Rightarrow> outcome" where
  "SolanaMeteoraDLMMTool_arun E K input = try_except (SolanaMeteoraDLMMTool_try E K input) (meteora_error_result input)"

subsection \<open>SolanaRaydiumBuyTool\<close>

definition SolanaRaydiumBuyTool_try :: "env \<Rightarrow> kit \<Rightarrow> string \<Rightarrow> pyval comp" where
  "SolanaRaydiumBuyTool_try E K input =
     bnd (lift (json_loads E input)) (\<lambda>data.
     bnd (lift (required_loop E data ''Missing required field: '' [''pair_address'', ''sol_in'', ''slippage''])) (\<lambda>u.
     bnd (lift (py_getitem E data ''pair_address'')) (\<lambda>pair_address'.
     bnd (if \<not> isinstance_str pair_address'
      then raise (Exc ''ValueError'' ''Pair address must be a string'' None)
      else ret ()) (\<lambda>u.
     bnd (lift (py_getitem E data ''sol_in'')) (\<lambda>sol_in'.
     bnd (if \<not> isinstance_float sol_in' then ret True else bnd (lift (py_getitem E data ''sol_in'')) (\<lambda>sol_in''.
     lift (py_le E sol_in'' (PInt 0)))) (\<lambda>b'.
     bnd (if b'
      then raise (Exc ''ValueError'' ''SOL in must be a positive float'' None)
      else ret ()) (\<lambda>u.
     bnd (lift (py_getitem E data ''slippage'')) (\<lambda>slippage'.
     bnd (if \<not> isinstance_int slippage' then ret True else bnd (lift (py_getitem E data ''slippage'')) (\<lambda>slippage''.
     bnd (lift (py_le E (PInt 0) slippage'')) (\<lambda>b''.
     bnd (if b'' then lift (py_le E slippage'' (PInt 100)) else ret False) (\<lambda>b'''.
     ret (\<not> b'''))))) (\<lambda>b''''.
     bnd (if b''''
      then raise (Exc ''ValueError'' ''Slippage must be an integer between 0 and 100'' None)
      else ret ()) (\<lambda>u.
     bnd (lift (py_getitem E data ''pair_address'')) (\<lambda>pair_address.
     bnd (lift (py_get E data ''sol_in'' (PFloat (5764607523034235 / 576460752303423488)))) (\<lambda>sol_in.
     bnd (lift (py_get E data ''slippage'' (PInt 5))) (\<lambda>slippage.
     bnd (await_kit K (Call ''buy_with_raydium'' [pair_address, sol_in, slippage] [])) (\<lambda>result.
     ret (PDict [(''status'', PStr ''success''),
                 (''message'', PStr ''Buy transaction completed successfully''),
                 (''pair_address'', pair_address),
                 (''sol_in'', sol_in),
                 (''slippage'', slippage),
                 (''transaction'', result)])))))))))))))))"

definition SolanaRaydiumBuyTool_except :: "string \<Rightarrow> pyexc \<Rightarrow> pyval" where
  "SolanaRaydiumBuyTool_except input e =
     PDict [(''status'', PStr ''error''),
            (''message'', PStr (str_of_exc e)),
            (''code'', getattr_code e)]"

subsection \<open>SolanaRaydiumSellTool\<close>

definition SolanaRaydiumSellTool_try :: "env \<Rightarrow> kit \<Rightarrow> string \<Rightarrow> pyval comp" where
  "SolanaRaydiumSellTool_try E K input =
     bnd (lift (json_loads E input)) (\<lambda>data.
     bnd (lift (required_loop E data ''Missing required key: '' [''pair_address'', ''percentage'', ''slippage''])) (\<lambda>u.
     bnd (lift (py_getitem E data ''percentage'')) (\<lambda>percentage'.
     bnd (if \<not> isinstance_int percentage' then ret True else bnd (lift (py_getitem E data ''percentage'')) (\<lambda>percentage''.
     bnd (lift (py_le E (PInt 0) percentage'')) (\<lambda>b.
     bnd (if b then lift (py_le E percentage'' (PInt 100)) else ret False) (\<lambda>b'.
     ret (\<not> b'))))) (\<lambda>b''.
     bnd (if b''
      then raise (Exc ''ValueError'' ''percentage must be an integer between 0 and 100'' None)
      else ret ()) (\<lambda>u.
     bnd (lift (py_getitem E data ''slippage'')) (\<lambda>slippage'.
     bnd (if \<not> isinstance_int slippage' then ret True else bnd (lift (py_getitem E data ''slippage'')) (\<lambda>slippage''.
     bnd (lift (py_le E (PInt 0) slippage'')) (\<lambda>b'''.
     bnd (if b''' then lift (py_le E slippage'' (PInt 100)) else ret False) (\<lambda>b''''.
     ret (\<not> b''''))))) (\<lambda>b'''''.
     bnd (if b'''''
      then raise (Exc ''ValueError'' ''slippage must be an integer between 0 and 100'' None)
      else ret ()) (\<lambda>u.
     bnd (lift (py_getitem E data ''pair_address'')) (\<lambda>pair_address.
     bnd (lift (py_get E data ''percentage'' (PInt 100))) (\<lambda>percentage.
     bnd (lift (py_get E data ''slippage'' (PInt 5))) (\<lambda>slippage.
     bnd (await_kit K (Call ''sell_with_raydium'' [pair_address, percentage, slippage] [])) (\<lambda>result.
     ret (PDict [(''status'', PStr ''success''),
                 (''message'', PStr ''Sell transaction completed successfully''),
                 (''pair_address'', pair_address),
                 (''percentage'', percentage),
                 (''slippage'', slippage),
                 (''transaction'', result)])))))))))))))"

definition SolanaRaydiumSellTool_except :: "string \<Rightarrow> pyexc \<Rightarrow> pyval" where
  "SolanaRaydiumSellTool_except input e =
     PDict [(''status'', PStr ''error''),
            (''message'', PStr (str_of_exc e)),
            (''code'', getattr_code e)]"

subsection \<open>SolanaBurnAndCloseTool\<close>

text \<open>
  \<open>for field in required_fields: if field not in data: raise ValueError(...)\<close>
\<close>

fun burn_required_loop :: "env \<Rightarrow> pyval \<Rightarrow> string list \<Rightarrow> pyexc + unit" where
  "burn_required_loop E data [] = Inr ()"
| "burn_required_loop E data (field # rest) =
     (case py_contains E data field of
        Inl e \<Rightarrow> Inl e
      | Inr present \<Rightarrow>
          (if \<not> present
           then Inl (Exc ''ValueError'' (''Missing required field: '' @ field) None)
           else burn_required_loop E data rest))"

definition SolanaBurnAndCloseTool_try :: "env \<Rightarrow> kit \<Rightarrow> string \<Rightarrow> pyval comp" where
  "SolanaBurnAndCloseTool_try E K input =
     bnd (lift (json_loads E input)) (\<lambda>data.
     bnd (lift (burn_required_loop E data [''token_account''])) (\<lambda>u.
     bnd (lift (py_getitem E data ''token_account'')) (\<lambda>v.
     bnd (if \<not> isinstance_str v
          then raise (Exc ''ValueError'' ''Token account must be a string'' None)
          else ret ()) (\<lambda>u.
     bnd (lift (py_getitem E data ''token_account'')) (\<lambda>token_account.
     bnd (await_kit K (Call ''burn_and_close_accounts'' [token_account] [])) (\<lambda>result.
     ret (PDict [(''status'', PStr ''success''),
                 (''message'', PStr ''Token account burned and closed successfully.''),
                 (''result'', result)])))))))"

definition SolanaBurnAndCloseTool_arun :: "env \<Rightarrow> kit \<Rightarrow> string \<Rightarrow> outcome" where
  "SolanaBurnAndCloseTool_arun E K input = try_except (SolanaBurnAndCloseTool_try E K input) error_result"

subsection \<open>SolanaBurnAndCloseMultipleTool\<close>

definition SolanaBurnAndCloseMultipleTool_schema :: schema where
  "SolanaBurnAndCloseMultipleTool_schema =
     [(''token_accounts'', \<lparr>rtype = [T_list], required = True, rmin = None, rmax = None\<rparr>)]"

definition SolanaBurnAndCloseMultipleTool_try :: "env \<Rightarrow> kit \<Rightarrow> string \<Rightarrow> pyval comp" where
  "SolanaBurnAndCloseMultipleTool_try E K input =
     bnd (lift (json_loads E input)) (\<lambda>data.
     bnd (lift (validate_stmt E data SolanaBurnAndCloseMultipleTool_schema)) (\<lambda>data.
     bnd (lift (py_get E data ''token_accounts'' (PList []))) (\<lambda>token_accounts.
     bnd (await_kit K (Call ''multiple_burn_and_close_accounts'' [token_accounts] [])) (\<lambda>result.
     ret (PDict [(''status'', PStr ''success''),
                 (''message'', PStr ''Token accounts burned and closed successfully.''),
                 (''result'', result)])))))"

definition SolanaBurnAndCloseMultipleTool_except :: "string \<Rightarrow> pyexc \<Rightarrow> pyval" where
  "SolanaBurnAndCloseMultipleTool_except input e =
     PDict [(''status'', PStr ''error''),
            (''message'', PStr (str_of_exc e)),
            (''code'', getattr_code e)]"

subsection \<open>SolanaCreateGibworkTaskTool\<close>

definition SolanaCreateGibworkTaskTool_schema :: schema where
  "SolanaCreateGibworkTaskTool_schema =
     [(''title'', \<lparr>rtype = [T_str], required = True, rmin = None, rmax = None\<rparr>),
      (''content'', \<lparr>rtype = [T_str], required = True, rmin = None, rmax = None\<rparr>),
      (''requirements'', \<lparr>rtype = [T_str], required = True, rmin = None, rmax = None\<rparr>),
      (''tags'', \<lparr>rtype = [T_list], required = True, rmin = None, rmax = None\<rparr>),
      (''token_mint_address'', \<lparr>rtype = [T_str], required = True, rmin = None, rmax = None\<rparr>),
      (''token_amount'', \<lparr>rtype = [T_int], required = True, rmin = Some 1, rmax = None\<rparr>)]"

definition SolanaCreateGibworkTaskTool_try :: "env \<Rightarrow> kit \<Rightarrow> string \<Rightarrow> pyval comp" where
  "SolanaCreateGibworkTaskTool_try E K input =
     bnd (lift (json_loads E input)) (\<lambda>data.
     bnd (lift (validate_stmt E data SolanaCreateGibworkTaskTool_schema)) (\<lambda>data.
     bnd (lift (py_getitem E data ''title'')) (\<lambda>title.
     bnd (lift (py_getitem E data ''content'')) (\<lambda>content.
     bnd (lift (py_getitem E data ''requirements'')) (\<lambda>requirements.
     bnd (lift (py_get E data ''tags'' (PList []))) (\<lambda>tags.
     bnd (lift (py_getitem E data ''token_mint_address'')) (\<lambda>token_mint_address'.
     bnd (lift (Pubkey_from_string E token_mint_address')) (\<lambda>token_mint_address.
     bnd (lift (py_getitem E data ''token_amount'')) (\<lambda>token_amount.
     bnd (await_kit K (Call ''create_gibwork_task'' [title, content, requirements, tags, token_mint_address, token_amount] [])) (\<lambda>result.
     ret (PDict [(''status'', PStr ''success''),
                 (''message'', PStr ''Gibwork task created successfully''),
                 (''result'', result)])))))))))))"

definition SolanaCreateGibworkTaskTool_except :: "string \<Rightarrow> pyexc \<Rightarrow> pyval" where
  "SolanaCreateGibworkTaskTool_except input e =
     PDict [(''status'', PStr ''error''),
            (''message'', PStr (str_of_exc e)),
            (''code'', getattr_code e)]"

subsection \<open>SolanaBuyUsingMoonshotTool\<close>

definition SolanaBuyUsingMoonshotTool_schema :: schema where
  "SolanaBuyUsingMoonshotTool_schema =
     [(''mint_str'', \<lparr>rtype = [T_str], required = True, rmin = None, rmax = None\<rparr>),
      (''collateral_amount'', \<lparr>rtype = [T_float], required = False, rmin = Some 0, rmax = None\<rparr>),
      (''slippage_bps'', \<lparr>rtype = [T_int], required = False, rmin = Some 0, rmax = Some 10000\<rparr>)]"

definition SolanaBuyUsingMoonshotTool_try :: "env \<Rightarrow> kit \<Rightarrow> string \<Rightarrow> pyval comp" where
  "SolanaBuyUsingMoonshotTool_try E K input =
     bnd (lift (json_loads E input)) (\<lambda>data.
     bnd (lift (validate_stmt E data SolanaBuyUsingMoonshotTool_schema)) (\<lambda>data.
     bnd (lift (py_getitem E data ''mint_str'')) (\<lambda>mint_str.
     bnd (lift (py_get E data ''collateral_amount'' (PFloat (5764607523034235 / 576460752303423488)))) (\<lambda>collateral_amount.
     bnd (lift (py_get E data ''slippage_bps'' (PInt 500))) (\<lambda>slippage_bps.
     bnd (await_kit K (Call ''buy_using_moonshot'' [mint_str, collateral_amount, slippage_bps] [])) (\<lambda>result.
     ret (PDict [(''status'', PStr ''success''),
                 (''message'', PStr ''Token purchased successfully using Moonshot.''),
                 (''result'', result)])))))))"

definition SolanaBuyUsingMoonshotTool_except :: "string \<Rightarrow> pyexc \<Rightarrow> pyval" where
  "SolanaBuyUsingMoonshotTool_except input e =
     PDict [(''status'', PStr ''error''),
            (''message'', PStr (str_of_exc e)),
            (''code'', getattr_code e)]"

subsection \<open>SolanaSellUsingMoonshotTool\<close>

definition SolanaSellUsingMoonshotTool_schema :: schema where
  "SolanaSellUsingMoonshotTool_schema =
     [(''mint_str'', \<lparr>rtype = [T_str], required = True, rmin = None, rmax = None\<rparr>),
      (''token_balance'', \<lparr>rtype = [T_float], required = False, rmin = Some 0, rmax = None\<rparr>),
      (''slippage_bps'', \<lparr>rtype = [T_int], required = False, rmin = Some 0, rmax = Some 10000\<rparr>)]"

definition SolanaSellUsingMoonshotTool_try :: "env \<Rightarrow> kit \<Rightarrow> string \<Rightarrow> pyval comp" where
  "SolanaSellUsingMoonshotTool_try E K input =
     bnd (lift (json_loads E input)) (\<lambda>data.
     bnd (lift (validate_stmt E data SolanaSellUsingMoonshotTool_schema)) (\<lambda>data.
     bnd (lift (py_getitem E data ''mint_str'')) (\<lambda>mint_str.
     bnd (lift (py_get E data ''token_balance'' (PFloat (5764607523034235 / 576460752303423488)))) (\<lambda>token_balance.
     bnd (lift (py_get E data ''slippage_bps'' (PInt 500))) (\<lambda>slippage_bps.
     bnd (await_kit K (Call ''sell_using_moonshot'' [mint_str, token_balance, slippage_bps] [])) (\<lambda>result.
     ret (PDict [(''status'', PStr ''success''),
                 (''message'', PStr ''Token sold successfully using Moonshot.''),
                 (''result'', result)])))))))"

definition SolanaSellUsingMoonshotTool_except :: "string \<Rightarrow> pyexc \<Rightarrow> pyval" where
  "SolanaSellUsingMoonshotTool_except input e =
     PDict [(''status'', PStr ''error''),
            (''message'', PStr (str_of_exc e)),
            (''code'', getattr_code e)]"

subsection \<open>SolanaPythGetPriceTool\<close>

definition SolanaPythGetPriceTool_schema :: schema where
  "SolanaPythGetPriceTool_schema =
     [(''mint_address'', \<lparr>rtype = [T_str], required = True, rmin = None, rmax = None\<rparr>)]"

definition SolanaPythGetPriceTool_try :: "env \<Rightarrow> kit \<Rightarrow> string \<Rightarrow> pyval comp" where
  "SolanaPythGetPriceTool_try E K input =
     bnd (lift (json_loads E input)) (\<lambda>data.
     bnd (lift (validate_stmt E data SolanaPythGetPriceTool_schema)) (\<lambda>data.
     bnd (lift (py_getitem E data ''mint_address'')) (\<lambda>mint_address.
     bnd (await_kit K (Call ''pythFetchPrice'' [mint_address] [])) (\<lambda>result.
     ret (PDict [(''status'', PStr ''success''), (''data'', result)])))))"

definition SolanaPythGetPriceTool_except :: "string \<Rightarrow> pyexc \<Rightarrow> pyval" where
  "SolanaPythGetPriceTool_except input e =
     PDict [(''status'', PStr ''error''),
            (''message'', PStr (str_of_exc e))]"

subsection \<open>SolanaHeliusGetBalancesTool\<close>

definition SolanaHeliusGetBalancesTool_schema :: schema where
  "SolanaHeliusGetBalancesTool_schema =
     [(''address'', \<lparr>rtype = [T_str], required = True, rmin = None, rmax = None\<rparr>)]"

definition SolanaHeliusGetBalancesTool_try :: "env \<Rightarrow> kit \<Rightarrow> string \<Rightarrow> pyval comp" where
  "SolanaHeliusGetBalancesTool_try E K input =
     bnd (lift (json_loads E input)) (\<lambda>data.
     bnd (lift (validate_stmt E data SolanaHeliusGetBalancesTool_schema)) (\<lambda>data.
     bnd (lift (py_getitem E data ''address'')) (\<lambda>address.
     bnd (await_kit K (Call ''get_balances'' [address] [])) (\<lambda>result.
     ret (PDict [(''status'', PStr ''success''), (''data'', result)])))))"

definition SolanaHeliusGetBalancesTool_except :: "string \<Rightarrow> pyexc \<Rightarrow> pyval" where
  "SolanaHeliusGetBalancesTool_except input e =
     PDict [(''status'', PStr ''error''),
            (''message'', PStr (str_of_exc e))]"

subsection \<open>SolanaHeliusGetAddressNameTool\<close>

definition SolanaHeliusGetAddressNameTool_schema :: schema where
  "SolanaHeliusGetAddressNameTool_schema =
     [(''address'', \<lparr>rtype = [T_str], required = True, rmin = None, rmax = None\<rparr>)]"

definition SolanaHeliusGetAddressNameTool_try :: "env \<Rightarrow> kit \<Rightarrow> string \<Rightarrow> pyval comp" where
  "SolanaHeliusGetAddressNameTool_try E K input =
     bnd (lift (json_loads E input)) (\<lambda>data.
     bnd (lift (validate_stmt E data SolanaHeliusGetAddressNameTool_schema)) (\<lambda>data.
     bnd (lift (py_getitem E data ''address'')) (\<lambda>address.
     bnd (await_kit K (Call ''get_address_name'' [address] [])) (\<lambda>result.
     ret (PDict [(''status'', PStr ''success''), (''data'', result)])))))"

definition SolanaHeliusGetAddressNameTool_except :: "string \<Rightarrow> pyexc \<Rightarrow> pyval" where
  "SolanaHeliusGetAddressNameTool_except input e =
     PDict [(''status'', PStr ''error''),
            (''message'', PStr (str_of_exc e))]"

subsection \<open>SolanaHeliusGetNftEventsTool\<close>

definition SolanaHeliusGetNftEventsTool_schema :: schema where
  "SolanaHeliusGetNftEventsTool_schema =
     [(''accounts'', \<lparr>rtype = [T_list], required = True, rmin = None, rmax = None\<rparr>),
      (''types'', \<lparr>rtype = [T_list], required = False, rmin = None, rmax = None\<rparr>),
      (''sources'', \<lparr>rtype = [T_list], required = False, rmin = None, rmax = None\<rparr>),
      (''start_slot'', \<lparr>rtype = [T_int], required = False, rmin = None, rmax = None\<rparr>),
      (''end_slot'', \<lparr>rtype = [T_int], required = False, rmin = None, rmax = None\<rparr>),
      (''start_time'', \<lparr>rtype = [T_int], required = False, rmin = None, rmax = None\<rparr>),
      (''end_time'', \<lparr>rtype = [T_int], required = False, rmin = None, rmax = None\<rparr>),
      (''first_verified_creator'', \<lparr>rtype = [T_list], required = False, rmin = None, rmax = None\<rparr>),
      (''verified_collection_address'', \<lparr>rtype = [T_list], required = False, rmin = None, rmax = None\<rparr>),
      (''limit'', \<lparr>rtype = [T_int], required = False, rmin = None, rmax = None\<rparr>),
      (''sort_order'', \<lparr>rtype = [T_str], required = False, rmin = None, rmax = None\<rparr>),
      (''pagination_token'', \<lparr>rtype = [T_str], required = False, rmin = None, rmax = None\<rparr>)]"

definition SolanaHeliusGetNftEventsTool_try :: "env \<Rightarrow> kit \<Rightarrow> string \<Rightarrow> pyval comp" where
  "SolanaHeliusGetNftEventsTool_try E K input =
     bnd (lift (json_loads E input)) (\<lambda>data.
     bnd (lift (validate_stmt E data SolanaHeliusGetNftEventsTool_schema)) (\<lambda>data.
     bnd (lift (py_getitem E data ''accounts'')) (\<lambda>accounts.
     bnd (lift (py_get E data ''types'' PNone)) (\<lambda>types.
     bnd (lift (py_get E data ''sources'' PNone)) (\<lambda>sources.
     bnd (lift (py_get E data ''start_slot'' PNone)) (\<lambda>start_slot.
     bnd (lift (py_get E data ''end_slot'' PNone)) (\<lambda>end_slot.
     bnd (lift (py_get E data ''start_time'' PNone)) (\<lambda>start_time.
     bnd (lift (py_get E data ''end_time'' PNone)) (\<lambda>end_time.
     bnd (lift (py_get E data ''first_verified_creator'' PNone)) (\<lambda>first_verified_creator.
     bnd (lift (py_get E data ''verified_collection_address'' PNone)) (\<lambda>verified_collection_address.
     bnd (lift (py_get E data ''limit'' PNone)) (\<lambda>limit.
     bnd (lift (py_get E data ''sort_order'' PNone)) (\<lambda>sort_order.
     bnd (lift (py_get E data ''pagination_token'' PNone)) (\<lambda>pagination_token.
     bnd (await_kit K (Call ''get_nft_events'' [accounts, types, sources, start_slot, end_slot, start_time, end_time, first_verified_creator, verified_collection_address, limit, sort_order, pagination_token] [])) (\<lambda>result.
     ret (PDict [(''status'', PStr ''success''), (''data'', result)]))))))))))))))))"

definition SolanaHeliusGetNftEventsTool_except :: "string \<Rightarrow> pyexc \<Rightarrow> pyval" where
  "SolanaHeliusGetNftEventsTool_except input e =
     PDict [(''status'', PStr ''error''),
            (''message'', PStr (str_of_exc e))]"

subsection \<open>SolanaHeliusGetMintlistsTool\<close>

definition SolanaHeliusGetMintlistsTool_schema :: schema where
  "SolanaHeliusGetMintlistsTool_schema =
     [(''first_verified_creators'', \<lparr>rtype = [T_list], required = True, rmin = None, rmax = None\<rparr>),
      (''verified_collection_addresses'', \<lparr>rtype = [T_list], required = False, rmin = None, rmax = None\<rparr>),
      (''limit'', \<lparr>rtype = [T_int], required = False, rmin = None, rmax = None\<rparr>),
      (''pagination_token'', \<lparr>rtype = [T_str], required = False, rmin = None, rmax = None\<rparr>)]"

definition SolanaHeliusGetMintlistsTool_try :: "env \<Rightarrow> kit \<Rightarrow> string \<Rightarrow> pyval comp" where
  "SolanaHeliusGetMintlistsTool_try E K input =
     bnd (lift (json_loads E input)) (\<lambda>data.
     bnd (lift (validate_stmt E data SolanaHeliusGetMintlistsTool_schema)) (\<lambda>data.
     bnd (lift (py_getitem E data ''first_verified_creators'')) (\<lambda>first_verified_creators.
     bnd (lift (py_get E data ''verified_collection_addresses'' PNone)) (\<lambda>verified_collection_addresses.
     bnd (lift (py_get E data ''limit'' PNone)) (\<lambda>limit.
     bnd (lift (py_get E data ''pagination_token'' PNone)) (\<lambda>pagination_token.
     bnd (await_kit K (Call ''get_mintlists'' [] [(''first_verified_creators'', first_verified_creators),
                                                  (''verified_collection_addresses'', verified_collection_addresses),
                                                  (''limit'', limit),
                                                  (''pagination_token'', pagination_token)])) (\<lambda>result.
     ret (PDict [(''status'', PStr ''success''), (''data'', result)]))))))))"

definition SolanaHeliusGetMintlistsTool_except :: "string \<Rightarrow> pyexc \<Rightarrow> pyval" where
  "SolanaHeliusGetMintlistsTool_except input e =
     PDict [(''status'', PStr ''error''),
            (''message'', PStr (str_of_exc e))]"

subsection \<open>SolanaHeliusGetNFTFingerprintTool\<close>

definition SolanaHeliusGetNFTFingerprintTool_schema :: schema where
  "SolanaHeliusGetNFTFingerprintTool_schema =
     [(''mints'', \<lparr>rtype = [T_list], required = True, rmin = None, rmax = None\<rparr>)]"

definition SolanaHeliusGetNFTFingerprintTool_try :: "env \<Rightarrow> kit \<Rightarrow> string \<Rightarrow> pyval comp" where
  "SolanaHeliusGetNFTFingerprintTool_try E K input =
     bnd (lift (json_loads E input)) (\<lambda>data.
     bnd (lift (validate_stmt E data SolanaHeliusGetNFTFingerprintTool_schema)) (\<lambda>data.
     bnd (lift (py_getitem E data ''mints'')) (\<lambda>mints.
     bnd (await_kit K (Call ''get_nft_fingerprint'' [mints] [])) (\<lambda>result.
     ret (PDict [(''status'', PStr ''success''), (''data'', result)])))))"

definition SolanaHeliusGetNFTFingerprintTool_except :: "string \<Rightarrow> pyexc \<Rightarrow> pyval" where
  "SolanaHeliusGetNFTFingerprintTool_except input e =
     PDict [(''status'', PStr ''error''),
            (''message'', PStr (str_of_exc e))]"

subsection \<open>SolanaHeliusGetActiveListingsTool\<close>

definition SolanaHeliusGetActiveListingsTool_schema :: schema where
  "SolanaHeliusGetActiveListingsTool_schema =
     [(''first_verified_creators'', \<lparr>rtype = [T_list], required = True, rmin = None, rmax = None\<rparr>),
      (''verified_collection_addresses'', \<lparr>rtype = [T_list], required = False, rmin = None, rmax = None\<rparr>),
      (''marketplaces'', \<lparr>rtype = [T_list], required = False, rmin = None, rmax = None\<rparr>),
      (''limit'', \<lparr>rtype = [T_int], required = False, rmin = None, rmax = None\<rparr>),
      (''pagination_token'', \<lparr>rtype = [T_str], required = False, rmin = None, rmax = None\<rparr>)]"

definition SolanaHeliusGetActiveListingsTool_try :: "env \<Rightarrow> kit \<Rightarrow> string \<Rightarrow> pyval comp" where
  "SolanaHeliusGetActiveListingsTool_try E K input =
     bnd (lift (json_loads E input)) (\<lambda>data.
     bnd (lift (validate_stmt E data SolanaHeliusGetActiveListingsTool_schema)) (\<lambda>data.
     bnd (lift (py_getitem E data ''first_verified_creators'')) (\<lambda>first_verified_creators.
     bnd (lift (py_get E data ''verified_collection_addresses'' PNone)) (\<lambda>verified_collection_addresses.
     bnd (lift (py_get E data ''marketplaces'' PNone)) (\<lambda>marketplaces.
     bnd (lift (py_get E data ''limit'' PNone)) (\<lambda>limit.
     bnd (lift (py_get E data ''pagination_token'' PNone)) (\<lambda>pagination_token.
     bnd (await_kit K (Call ''get_active_listings'' [] [(''first_verified_creators'', first_verified_creators),
                                                        (''verified_collection_addresses'', verified_collection_addresses),
                                                        (''marketplaces'', marketplaces),
                                                        (''limit'', limit),
                                                        (''pagination_token'', pagination_token)])) (\<lambda>result.
     ret (PDict [(''status'', PStr ''success''), (''data'', result)])))))))))"

definition SolanaHeliusGetActiveListingsTool_except :: "string \<Rightarrow> pyexc \<Rightarrow> pyval" where
  "SolanaHeliusGetActiveListingsTool_except input e =
     PDict [(''status'', PStr ''error''),
            (''message'', PStr (str_of_exc e))]"

subsection \<open>SolanaHeliusGetNFTMetadataTool\<close>

definition SolanaHeliusGetNFTMetadataTool_schema :: schema where
  "SolanaHeliusGetNFTMetadataTool_schema =
     [(''mint_addresses'', \<lparr>rtype = [T_list], required = True, rmin = None, rmax = None\<rparr>)]"

definition SolanaHeliusGetNFTMetadataTool_try :: "env \<Rightarrow> kit \<Rightarrow> string \<Rightarrow> pyval comp" where
  "SolanaHeliusGetNFTMetadataTool_try E K input =
     bnd (lift (json_loads E input)) (\<lambda>data.
     bnd (lift (validate_stmt E data SolanaHeliusGetNFTMetadataTool_schema)) (\<lambda>data.
     bnd (lift (py_getitem E data ''mint_addresses'')) (\<lambda>mint_addresses.
     bnd (await_kit K (Call ''get_nft_metadata'' [mint_addresses] [])) (\<lambda>result.
     ret (PDict [(''status'', PStr ''success''), (''data'', result)])))))"

definition SolanaHeliusGetNFTMetadataTool_except :: "string \<Rightarrow> pyexc \<Rightarrow> pyval" where
  "SolanaHeliusGetNFTMetadataTool_except input e =
     PDict [(''status'', PStr ''error''),
            (''message'', PStr (str_of_exc e))]"

subsection \<open>SolanaHeliusGetRawTransactionsTool\<close>

definition SolanaHeliusGetRawTransactionsTool_schema :: schema where
  "SolanaHeliusGetRawTransactionsTool_schema =
     [(''signatures'', \<lparr>rtype = [T_list], required = True, rmin = None, rmax = None\<rparr>),
      (''start_slot'', \<lparr>rtype = [T_int], required = False, rmin = None, rmax = None\<rparr>),
      (''end_slot'', \<lparr>rtype = [T_int], required = False, rmin = None, rmax = None\<rparr>),
      (''start_time'', \<lparr>rtype = [T_int], required = False, rmin = None, rmax = None\<rparr>),
      (''end_time'', \<lparr>rtype = [T_int], required = False, rmin = None, rmax = None\<rparr>),
      (''limit'', \<lparr>rtype = [T_int], required = False, rmin = None, rmax = None\<rparr>),
      (''sort_order'', \<lparr>rtype = [T_str], required = False, rmin = None, rmax = None\<rparr>),
      (''pagination_token'', \<lparr>rtype = [T_str], required = False, rmin = None, rmax = None\<rparr>)]"

definition SolanaHeliusGetRawTransactionsTool_try :: "env \<Rightarrow> kit \<Rightarrow> string \<Rightarrow> pyval comp" where
  "SolanaHeliusGetRawTransactionsTool_try E K input =
     bnd (lift (json_loads E input)) (\<lambda>data.
     bnd (lift (validate_stmt E data SolanaHeliusGetRawTransactionsTool_schema)) (\<lambda>data.
     bnd (lift (py_getitem E data ''signatures'')) (\<lambda>signatures.
     bnd (lift (py_get E data ''start_slot'' PNone)) (\<lambda>start_slot.
     bnd (lift (py_get E data ''end_slot'' PNone)) (\<lambda>end_slot.
     bnd (lift (py_get E data ''start_time'' PNone)) (\<lambda>start_time.
     bnd (lift (py_get E data ''end_time'' PNone)) (\<lambda>end_time.
     bnd (lift (py_get E data ''limit'' PNone)) (\<lambda>limit.
     bnd (lift (py_get E data ''sort_order'' PNone)) (\<lambda>sort_order.
     bnd (lift (py_get E data ''pagination_token'' PNone)) (\<lambda>pagination_token.
     bnd (await_kit K (Call ''get_raw_transactions'' [signatures, start_slot, end_slot, start_time, end_time, limit, sort_order, pagination_token] [])) (\<lambda>result.
     ret (PDict [(''status'', PStr ''success''), (''data'', result)]))))))))))))"

definition SolanaHeliusGetRawTransactionsTool_except :: "string \<Rightarrow> pyexc \<Rightarrow> pyval" where
  "SolanaHeliusGetRawTransactionsTool_except input e =
     PDict [(''status'', PStr ''error''),
            (''message'', PStr (str_of_exc e))]"

subsection \<open>SolanaHeliusGetParsedTransactionsTool\<close>

definition SolanaHeliusGetParsedTransactionsTool_schema :: schema where
  "SolanaHeliusGetParsedTransactionsTool_schema =
     [(''signatures'', \<lparr>rtype = [T_list], required = True, rmin = None, rmax = None\<rparr>),
      (''commitment'', \<lparr>rtype = [T_str], required = False, rmin = None, rmax = None\<rparr>)]"

definition SolanaHeliusGetParsedTransactionsTool_try :: "env \<Rightarrow> kit \<Rightarrow> string \<Rightarrow> pyval comp" where
  "SolanaHeliusGetParsedTransactionsTool_try E K input =
     bnd (lift (json_loads E input)) (\<lambda>data.
     bnd (lift (validate_stmt E data SolanaHeliusGetParsedTransactionsTool_schema)) (\<lambda>data.
     bnd (lift (py_getitem E data ''signatures'')) (\<lambda>signatures.
     bnd (lift (py_get E data ''commitment'' PNone)) (\<lambda>commitment.
     bnd (await_kit K (Call ''get_parsed_transactions'' [signatures, commitment] [])) (\<lambda>result.
     ret (PDict [(''status'', PStr ''success''), (''data'', result)]))))))"

definition SolanaHeliusGetParsedTransactionsTool_except :: "string \<Rightarrow> pyexc \<Rightarrow> pyval" where
  "SolanaHeliusGetParsedTransactionsTool_except input e =
     PDict [(''status'', PStr ''error''),
            (''message'', PStr (str_of_exc e))]"

subsection \<open>SolanaHeliusGetParsedTransactionHistoryTool\<close>

definition SolanaHeliusGetParsedTransactionHistoryTool_schema :: schema where
  "SolanaHeliusGetParsedTransactionHistoryTool_schema =
     [(''address'', \<lparr>rtype = [T_str], required = True, rmin = None, rmax = None\<rparr>),
      (''before'', \<lparr>rtype = [T_str], required = False, rmin = None, rmax = None\<rparr>),
      (''until'', \<lparr>rtype = [T_str], required = False, rmin = None, rmax = None\<rparr>),
      (''commitment'', \<lparr>rtype = [T_str], required = False, rmin = None, rmax = None\<rparr>),
      (''source'', \<lparr>rtype = [T_str], required = False, rmin = None, rmax = None\<rparr>),
      (''type'', \<lparr>rtype = [T_str], required = False, rmin = None, rmax = None\<rparr>)]"

definition SolanaHeliusGetParsedTransactionHistoryTool_try :: "env \<Rightarrow> kit \<Rightarrow> string \<Rightarrow> pyval comp" where
  "SolanaHeliusGetParsedTransactionHistoryTool_try E K input =
     bnd (lift (json_loads E input)) (\<lambda>data.
     bnd (lift (validate_stmt E data SolanaHeliusGetParsedTransactionHistoryTool_schema)) (\<lambda>data.
     bnd (lift (py_getitem E data ''address'')) (\<lambda>address.
     bnd (lift (py_get E data ''before'' (PStr ''''))) (\<lambda>before.
     bnd (lift (py_get E data ''until'' (PStr ''''))) (\<lambda>until.
     bnd (lift (py_get E data ''commitment'' (PStr ''''))) (\<lambda>commitment.
     bnd (lift (py_get E data ''source'' (PStr ''''))) (\<lambda>source.
     bnd (lift (py_get E data ''type'' (PStr ''''))) (\<lambda>type.
     bnd (await_kit K (Call ''get_parsed_transaction_history'' [address, before, until, commitment, source, type] [])) (\<lambda>result.
     ret (PDict [(''status'', PStr ''success''), (''data'', result)]))))))))))"

definition SolanaHeliusGetParsedTransactionHistoryTool_except :: "string \<Rightarrow> pyexc \<Rightarrow> pyval" where
  "SolanaHeliusGetParsedTransactionHistoryTool_except input e =
     PDict [(''status'', PStr ''error''),
            (''message'', PStr (str_of_exc e))]"

subsection \<open>SolanaHeliusCreateWebhookTool\<close>

definition SolanaHeliusCreateWebhookTool_schema :: schema where
  "SolanaHeliusCreateWebhookTool_schema =
     [(''webhook_url'', \<lparr>rtype = [T_str], required = True, rmin = None, rmax = None\<rparr>),
      (''transaction_types'', \<lparr>rtype = [T_list], required = True, rmin = None, rmax = None\<rparr>),
      (''account_addresses'', \<lparr>rtype = [T_list], required = True, rmin = None, rmax = None\<rparr>),
      (''webhook_type'', \<lparr>rtype = [T_str], required = True, rmin = None, rmax = None\<rparr>),
      (''auth_header'', \<lparr>rtype = [T_str], required = False, rmin = None, rmax = None\<rparr>)]"

definition SolanaHeliusCreateWebhookTool_try :: "env \<Rightarrow> kit \<Rightarrow> string \<Rightarrow> pyval comp" where
  "SolanaHeliusCreateWebhookTool_try E K input =
     bnd (lift (json_loads E input)) (\<lambda>data.
     bnd (lift (validate_stmt E data SolanaHeliusCreateWebhookTool_schema)) (\<lambda>data.
     bnd (lift (py_getitem E data ''webhook_url'')) (\<lambda>webhook_url.
     bnd (lift (py_getitem E data ''transaction_types'')) (\<lambda>transaction_types.
     bnd (lift (py_getitem E data ''account_addresses'')) (\<lambda>account_addresses.
     bnd (lift (py_getitem E data ''webhook_type'')) (\<lambda>webhook_type.
     bnd (lift (py_get E data ''txn_status'' (PStr ''all''))) (\<lambda>txn_status.
     bnd (lift (py_get E data ''auth_header'' PNone)) (\<lambda>auth_header.
     bnd (await_kit K (Call ''create_webhook'' [webhook_url, transaction_types, account_addresses, webhook_type, txn_status, auth_header] [])) (\<lambda>result.
     ret (PDict [(''status'', PStr ''success''), (''data'', result)]))))))))))"

definition SolanaHeliusCreateWebhookTool_except :: "string \<Rightarrow> pyexc \<Rightarrow> pyval" where
  "SolanaHeliusCreateWebhookTool_except input e =
     PDict [(''status'', PStr ''error''),
            (''message'', PStr (str_of_exc e))]"

subsection \<open>SolanaHeliusGetAllWebhooksTool\<close>

definition SolanaHeliusGetAllWebhooksTool_try :: "env \<Rightarrow> kit \<Rightarrow> pyval comp" where
  "SolanaHeliusGetAllWebhooksTool_try E K =
     bnd (await_kit K (Call ''get_all_webhooks'' [] [])) (\<lambda>result.
     ret (PDict [(''status'', PStr ''success''), (''data'', result)]))"

definition SolanaHeliusGetAllWebhooksTool_except :: "pyexc \<Rightarrow> pyval" where
  "SolanaHeliusGetAllWebhooksTool_except e =
     PDict [(''status'', PStr ''error''),
            (''message'', PStr (str_of_exc e))]"

subsection \<open>SolanaHeliusGetWebhookTool\<close>

definition SolanaHeliusGetWebhookTool_schema :: schema where
  "SolanaHeliusGetWebhookTool_schema =
     [(''webhook_id'', \<lparr>rtype = [T_str], required = True, rmin = None, rmax = None\<rparr>)]"

definition SolanaHeliusGetWebhookTool_try :: "env \<Rightarrow> kit \<Rightarrow> string \<Rightarrow> pyval comp" where
  "SolanaHeliusGetWebhookTool_try E K input =
     bnd (lift (json_loads E input)) (\<lambda>data.
     bnd (lift (validate_stmt E data SolanaHeliusGetWebhookTool_schema)) (\<lambda>data.
     bnd (lift (py_getitem E data ''webhook_id'')) (\<lambda>webhook_id.
     bnd (await_kit K (Call ''get_webhook'' [webhook_id] [])) (\<lambda>result.
     ret (PDict [(''status'', PStr ''success''), (''data'', result)])))))"

definition SolanaHeliusGetWebhookTool_except :: "string \<Rightarrow> pyexc \<Rightarrow> pyval" where
  "SolanaHeliusGetWebhookTool_except input e =
     PDict [(''status'', PStr ''error''),
            (''message'', PStr (str_of_exc e))]"

subsection \<open>SolanaHeliusEditWebhookTool\<close>

definition SolanaHeliusEditWebhookTool_schema :: schema where
  "SolanaHeliusEditWebhookTool_schema =
     [(''webhook_id'', \<lparr>rtype = [T_str], required = True, rmin = None, rmax = None\<rparr>),
      (''webhook_url'', \<lparr>rtype = [T_str], required = True, rmin = None, rmax = None\<rparr>),
      (''transaction_types'', \<lparr>rtype = [T_list], required = True, rmin = None, rmax = None\<rparr>),
      (''account_addresses'', \<lparr>rtype = [T_list], required = True, rmin = None, rmax = None\<rparr>),
      (''webhook_type'', \<lparr>rtype = [T_str], required = True, rmin = None, rmax = None\<rparr>)]"

definition SolanaHeliusEditWebhookTool_try :: "env \<Rightarrow> kit \<Rightarrow> string \<Rightarrow> pyval comp" where
  "SolanaHeliusEditWebhookTool_try E K input =
     bnd (lift (json_loads E input)) (\<lambda>data.
     bnd (lift (validate_stmt E data SolanaHeliusEditWebhookTool_schema)) (\<lambda>data.
     bnd (lift (py_getitem E data ''webhook_id'')) (\<lambda>webhook_id.
     bnd (lift (py_getitem E data ''webhook_url'')) (\<lambda>webhook_url.
     bnd (lift (py_getitem E data ''transaction_types'')) (\<lambda>transaction_types.
     bnd (lift (py_getitem E data ''account_addresses'')) (\<lambda>account_addresses.
     bnd (lift (py_getitem E data ''webhook_type'')) (\<lambda>webhook_type.
     bnd (lift (py_get E data ''txn_status'' (PStr ''all''))) (\<lambda>txn_status.
     bnd (lift (py_get E data ''auth_header'' PNone)) (\<lambda>auth_header.
     bnd (await_kit K (Call ''edit_webhook'' [webhook_id, webhook_url, transaction_types, account_addresses, webhook_type, txn_status, auth_header] [])) (\<lambda>result.
     ret (PDict [(''status'', PStr ''success''), (''data'', result)])))))))))))"

definition SolanaHeliusEditWebhookTool_except :: "string \<Rightarrow> pyexc \<Rightarrow> pyval" where
  "SolanaHeliusEditWebhookTool_except input e =
     PDict [(''status'', PStr ''error''),
            (''message'', PStr (str_of_exc e))]"

subsection \<open>SolanaHeliusDeleteWebhookTool\<close>

definition SolanaHeliusDeleteWebhookTool_schema :: schema where
  "SolanaHeliusDeleteWebhookTool_schema =
     [(''webhook_id'', \<lparr>rtype = [T_str], required = True, rmin = None, rmax = None\<rparr>)]"

definition SolanaHeliusDeleteWebhookTool_try :: "env \<Rightarrow> kit \<Rightarrow> string \<Rightarrow> pyval comp" where
  "SolanaHeliusDeleteWebhookTool_try E K input =
     bnd (lift (json_loads E input)) (\<lambda>data.
     bnd (lift (validate_stmt E data SolanaHeliusDeleteWebhookTool_schema)) (\<lambda>data.
     bnd (lift (py_getitem E data ''webhook_id'')) (\<lambda>webhook_id.
     bnd (await_kit K (Call ''delete_webhook'' [webhook_id] [])) (\<lambda>result.
     ret (PDict [(''status'', PStr ''success''), (''data'', result)])))))"

definition SolanaHeliusDeleteWebhookTool_except :: "string \<Rightarrow> pyexc \<Rightarrow> pyval" where
  "SolanaHeliusDeleteWebhookTool_except input e =
     PDict [(''status'', PStr ''error''),
            (''message'', PStr (str_of_exc e))]"

subsection \<open>SolanaFetchTokenReportSummaryTool\<close>

definition SolanaFetchTokenReportSummaryTool_schema :: schema where
  "SolanaFetchTokenReportSummaryTool_schema =
     [(''mint'', \<lparr>rtype = [T_str], required = True, rmin = None, rmax = None\<rparr>)]"

definition SolanaFetchTokenReportSummaryTool_try :: "env \<Rightarrow> kit \<Rightarrow> string \<Rightarrow> pyval comp" where
  "SolanaFetchTokenReportSummaryTool_try E K input =
     bnd (lift (json_loads E input)) (\<lambda>data.
     bnd (lift (validate_stmt E data SolanaFetchTokenReportSummaryTool_schema)) (\<lambda>data.
     bnd (lift (py_getitem E data ''mint'')) (\<lambda>mint.
     bnd (call_kit K (Call ''fetch_token_report_summary'' [mint] [])) (\<lambda>result.
     bnd (lift (obj_dict E result)) (\<lambda>d.
     ret (PDict [(''status'', PStr ''success''), (''data'', d)]))))))"

definition SolanaFetchTokenReportSummaryTool_except :: "string \<Rightarrow> pyexc \<Rightarrow> pyval" where
  "SolanaFetchTokenReportSummaryTool_except input e =
     PDict [(''status'', PStr ''error''),
            (''message'', PStr (str_of_exc e))]"

subsection \<open>SolanaFetchTokenDetailedReportTool\<close>

definition SolanaFetchTokenDetailedReportTool_schema :: schema where
  "SolanaFetchTokenDetailedReportTool_schema =
     [(''mint'', \<lparr>rtype = [T_str], required = True, rmin = None, rmax = None\<rparr>)]"

definition SolanaFetchTokenDetailedReportTool_try :: "env \<Rightarrow> kit \<Rightarrow> string \<Rightarrow> pyval comp" where
  "SolanaFetchTokenDetailedReportTool_try E K input =
     bnd (lift (json_loads E input)) (\<lambda>data.
     bnd (lift (validate_stmt E data SolanaFetchTokenDetailedReportTool_schema)) (\<lambda>data.
     bnd (lift (py_getitem E data ''mint'')) (\<lambda>mint.
     bnd (call_kit K (Call ''fetch_token_detailed_report'' [mint] [])) (\<lambda>result.
     bnd (lift (obj_dict E result)) (\<lambda>d.
     ret (PDict [(''status'', PStr ''success''), (''data'', d)]))))))"

definition SolanaFetchTokenDetailedReportTool_except :: "string \<Rightarrow> pyexc \<Rightarrow> pyval" where
  "SolanaFetchTokenDetailedReportTool_except input e =
     PDict [(''status'', PStr ''error''),
            (''message'', PStr (str_of_exc e))]"

subsection \<open>SolanaGetPumpCurveStateTool\<close>

definition SolanaGetPumpCurveStateTool_schema :: schema where
  "SolanaGetPumpCurveStateTool_schema =
     [(''conn'', \<lparr>rtype = [T_str], required = True, rmin = None, rmax = None\<rparr>),
      (''curve_address'', \<lparr>rtype = [T_str], required = True, rmin = None, rmax = None\<rparr>)]"

definition SolanaGetPumpCurveStateTool_try :: "env \<Rightarrow> kit \<Rightarrow> string \<Rightarrow> pyval comp" where
  "SolanaGetPumpCurveStateTool_try E K input =
     bnd (lift (json_loads E input)) (\<lambda>data.
     bnd (lift (validate_stmt E data SolanaGetPumpCurveStateTool_schema)) (\<lambda>data.
     bnd (lift (py_getitem E data ''conn'')) (\<lambda>conn.
     bnd (lift (py_getitem E data ''curve_address'')) (\<lambda>curve_address.
     bnd (lift (Pubkey_new E curve_address)) (\<lambda>curve_address_key.
     bnd (await_kit K (Call ''get_pump_curve_state'' [conn, curve_address_key] [])) (\<lambda>result.
     bnd (lift (obj_dict E result)) (\<lambda>d.
     ret (PDict [(''status'', PStr ''success''), (''data'', d)]))))))))"

definition SolanaGetPumpCurveStateTool_except :: "string \<Rightarrow> pyexc \<Rightarrow> pyval" where
  "SolanaGetPumpCurveStateTool_except input e =
     PDict [(''status'', PStr ''error''),
            (''message'', PStr (str_of_exc e))]"

subsection \<open>SolanaCalculatePumpCurvePriceTool\<close>

definition SolanaCalculatePumpCurvePriceTool_schema :: schema where
  "SolanaCalculatePumpCurvePriceTool_schema =
     [(''curve_state'', \<lparr>rtype = [T_str], required = True, rmin = None, rmax = None\<rparr>)]"

definition SolanaCalculatePumpCurvePriceTool_try :: "env \<Rightarrow> kit \<Rightarrow> string \<Rightarrow> pyval comp" where
  "SolanaCalculatePumpCurvePriceTool_try E K input =
     bnd (lift (json_loads E input)) (\<lambda>data.
     bnd (lift (validate_stmt E data SolanaCalculatePumpCurvePriceTool_schema)) (\<lambda>data.
     bnd (lift (py_getitem E data ''curve_state'')) (\<lambda>curve_state.
     bnd (await_kit K (Call ''calculate_pump_curve_price'' [curve_state] [])) (\<lambda>result.
     ret (PDict [(''status'', PStr ''success''), (''price'', result)])))))"

definition SolanaCalculatePumpCurvePriceTool_except :: "string \<Rightarrow> pyexc \<Rightarrow> pyval" where
  "SolanaCalculatePumpCurvePriceTool_except input e =
     PDict [(''status'', PStr ''error''),
            (''message'', PStr (str_of_exc e))]"

subsection \<open>SolanaBuyTokenTool\<close>

definition SolanaBuyTokenTool_schema :: schema where
  "SolanaBuyTokenTool_schema =
     [(''mint'', \<lparr>rtype = [T_str], required = True, rmin = None, rmax = None\<rparr>),
      (''bonding_curve'', \<lparr>rtype = [T_str], required = True, rmin = None, rmax = None\<rparr>),
      (''associated_bonding_curve'', \<lparr>rtype = [T_str], required = True, rmin = None, rmax = None\<rparr>),
      (''amount'', \<lparr>rtype = [T_int], required = True, rmin = Some 1, rmax = None\<rparr>),
      (''slippage'', \<lparr>rtype = [T_float], required = False, rmin = Some 0, rmax = Some 100\<rparr>),
      (''max_retries'', \<lparr>rtype = [T_int], required = False, rmin = Some 1, rmax = None\<rparr>)]"

definition SolanaBuyTokenTool_try :: "env \<Rightarrow> kit \<Rightarrow> string \<Rightarrow> pyval comp" where
  "SolanaBuyTokenTool_try E K input =
     bnd (lift (json_loads E input)) (\<lambda>data.
     bnd (lift (validate_stmt E data SolanaBuyTokenTool_schema)) (\<lambda>data.
     bnd (lift (py_getitem E data ''mint'')) (\<lambda>mint'.
     bnd (lift (Pubkey_new E mint')) (\<lambda>mint.
     bnd (lift (py_getitem E data ''bonding_curve'')) (\<lambda>bonding_curve'.
     bnd (lift (Pubkey_new E bonding_curve')) (\<lambda>bonding_curve.
     bnd (lift (py_getitem E data ''associated_bonding_curve'')) (\<lambda>associated_bonding_curve'.
     bnd (lift (Pubkey_new E associated_bonding_curve')) (\<lambda>associated_bonding_curve.
     bnd (lift (py_getitem E data ''amount'')) (\<lambda>amount.
     bnd (lift (py_get E data ''slippage'' (PFloat (1 / 2)))) (\<lambda>slippage.
     bnd (lift (py_get E data ''max_retries'' (PInt 3))) (\<lambda>max_retries.
     bnd (await_kit K (Call ''buy_token'' [mint, bonding_curve, associated_bonding_curve, amount, slippage, max_retries] [])) (\<lambda>result.
     bnd (lift (obj_dict E result)) (\<lambda>d.
     ret (PDict [(''status'', PStr ''success''), (''transaction'', d)]))))))))))))))"

definition SolanaBuyTokenTool_except :: "string \<Rightarrow> pyexc \<Rightarrow> pyval" where
  "SolanaBuyTokenTool_except input e =
     PDict [(''status'', PStr ''error''),
            (''message'', PStr (str_of_exc e))]"

subsection \<open>SolanaSellTokenTool\<close>

definition SolanaSellTokenTool_schema :: schema where
  "SolanaSellTokenTool_schema =
     [(''mint'', \<lparr>rtype = [T_str], required = True, rmin = None, rmax = None\<rparr>),
      (''bonding_curve'', \<lparr>rtype = [T_str], required = True, rmin = None, rmax = None\<rparr>),
      (''associated_bonding_curve'', \<lparr>rtype = [T_str], required = True, rmin = None, rmax = None\<rparr>),
      (''amount'', \<lparr>rtype = [T_int], required = True, rmin = Some 1, rmax = None\<rparr>),
      (''slippage'', \<lparr>rtype = [T_float], required = False, rmin = Some 0, rmax = Some 100\<rparr>),
      (''max_retries'', \<lparr>rtype = [T_int], required = False, rmin = Some 1, rmax = None\<rparr>)]"

definition SolanaSellTokenTool_try :: "env \<Rightarrow> kit \<Rightarrow> string \<Rightarrow> pyval comp" where
  "SolanaSellTokenTool_try E K input =
     bnd (lift (json_loads E input)) (\<lambda>data.
     bnd (lift (validate_stmt E data SolanaSellTokenTool_schema)) (\<lambda>data.
     bnd (lift (py_getitem E data ''mint'')) (\<lambda>mint'.
     bnd (lift (Pubkey_new E mint')) (\<lambda>mint.
     bnd (lift (py_getitem E data ''bonding_curve'')) (\<lambda>bonding_curve'.
     bnd (lift (Pubkey_new E bonding_curve')) (\<lambda>bonding_curve.
     bnd (lift (py_getitem E data ''associated_bonding_curve'')) (\<lambda>associated_bonding_curve'.
     bnd (lift (Pubkey_new E associated_bonding_curve')) (\<lambda>associated_bonding_curve.
     bnd (lift (py_getitem E data ''amount'')) (\<lambda>amount.
     bnd (lift (py_get E data ''slippage'' (PFloat (1 / 2)))) (\<lambda>slippage.
     bnd (lift (py_get E data ''max_retries'' (PInt 3))) (\<lambda>max_retries.
     bnd (await_kit K (Call ''sell_token'' [mint, bonding_curve, associated_bonding_curve, amount, slippage, max_retries] [])) (\<lambda>result.
     bnd (lift (obj_dict E result)) (\<lambda>d.
     ret (PDict [(''status'', PStr ''success''), (''transaction'', d)]))))))))))))))"

definition SolanaSellTokenTool_except :: "string \<Rightarrow> pyexc \<Rightarrow> pyval" where
  "SolanaSellTokenTool_except input e =
     PDict [(''status'', PStr ''error''),
            (''message'', PStr (str_of_exc e))]"

subsection \<open>SolanaSNSResolveTool\<close>

definition SolanaSNSResolveTool_schema :: schema where
  "SolanaSNSResolveTool_schema =
     [(''domain'', \<lparr>rtype = [T_str], required = True, rmin = None, rmax = None\<rparr>)]"

definition SolanaSNSResolveTool_try :: "env \<Rightarrow> kit \<Rightarrow> string \<Rightarrow> pyval comp" where
  "SolanaSNSResolveTool_try E K input =
     bnd (lift (json_loads E input)) (\<lambda>data.
     bnd (lift (validate_stmt E data SolanaSNSResolveTool_schema)) (\<lambda>data.
     bnd (lift (py_getitem E data ''domain'')) (\<lambda>domain.
     bnd (if \<not> py_truthy domain
      then raise (Exc ''ValueError'' ''Domain is required.'' None)
      else ret ()) (\<lambda>u.
     bnd (await_kit K (Call ''resolve_name_to_address'' [domain] [])) (\<lambda>address.
     ret (PDict [(''address'', (if py_truthy address then address else (PStr ''Not Found''))),
                 (''message'', (if py_truthy address then (PStr ''Success'') else (PStr ''Domain not found.'')))]))))))"

definition SolanaSNSResolveTool_except :: "string \<Rightarrow> pyexc \<Rightarrow> pyval" where
  "SolanaSNSResolveTool_except input e =
     PDict [(''address'', PNone),
            (''message'', PStr (''Error resolving domain: '' @ str_of_exc e))]"

subsection \<open>SolanaSNSRegisterDomainTool\<close>

definition SolanaSNSRegisterDomainTool_schema :: schema where
  "SolanaSNSRegisterDomainTool_schema =
     [(''domain'', \<lparr>rtype = [T_str], required = True, rmin = None, rmax = None\<rparr>),
      (''buyer'', \<lparr>rtype = [T_str], required = True, rmin = None, rmax = None\<rparr>),
      (''buyer_token_account'', \<lparr>rtype = [T_str], required = True, rmin = None, rmax = None\<rparr>),
      (''space'', \<lparr>rtype = [T_int], required = True, rmin = Some 1, rmax = None\<rparr>),
      (''mint'', \<lparr>rtype = [T_str], required = False, rmin = None, rmax = None\<rparr>),
      (''referrer_key'', \<lparr>rtype = [T_str], required = False, rmin = None, rmax = None\<rparr>)]"

definition SolanaSNSRegisterDomainTool_try :: "env \<Rightarrow> kit \<Rightarrow> string \<Rightarrow> pyval comp" where
  "SolanaSNSRegisterDomainTool_try E K input =
     bnd (lift (json_loads E input)) (\<lambda>data.
     bnd (lift (validate_stmt E data SolanaSNSRegisterDomainTool_schema)) (\<lambda>data.
     bnd (lift (py_getitem E data ''domain'')) (\<lambda>domain.
     bnd (lift (py_getitem E data ''buyer'')) (\<lambda>buyer.
     bnd (lift (py_getitem E data ''buyer_token_account'')) (\<lambda>buyer_token_account.
     bnd (lift (py_getitem E data ''space'')) (\<lambda>space.
     bnd (lift (py_get E data ''mint'' PNone)) (\<lambda>mint.
     bnd (lift (py_get E data ''referrer_key'' PNone)) (\<lambda>referrer_key.
     bnd (await_kit K (Call ''get_registration_transaction'' [domain, buyer, buyer_token_account, space, mint, referrer_key] [])) (\<lambda>transaction.
     ret (PDict [(''transaction'', transaction), (''message'', PStr ''Success'')]))))))))))"

definition SolanaSNSRegisterDomainTool_except :: "string \<Rightarrow> pyexc \<Rightarrow> pyval" where
  "SolanaSNSRegisterDomainTool_except input e =
     PDict [(''transaction'', PNone),
            (''message'', PStr (''Error preparing registration transaction: '' @ str_of_exc e))]"

subsection \<open>SolanaSNSGetFavouriteDomainTool\<close>

definition SolanaSNSGetFavouriteDomainTool_schema :: schema where
  "SolanaSNSGetFavouriteDomainTool_schema =
     [(''owner'', \<lparr>rtype = [T_str], required = True, rmin = None, rmax = None\<rparr>)]"

definition SolanaSNSGetFavouriteDomainTool_try :: "env \<Rightarrow> kit \<Rightarrow> string \<Rightarrow> pyval comp" where
  "SolanaSNSGetFavouriteDomainTool_try E K input =
     bnd (lift (json_loads E input)) (\<lambda>data.
     bnd (lift (validate_stmt E data SolanaSNSGetFavouriteDomainTool_schema)) (\<lambda>data.
     bnd (lift (py_getitem E data ''owner'')) (\<lambda>owner.
     bnd (if \<not> py_truthy owner
      then raise (Exc ''ValueError'' ''Owner address is required.'' None)
      else ret ()) (\<lambda>u.
     bnd (await_kit K (Call ''get_favourite_domain'' [owner] [])) (\<lambda>domain.
     ret (PDict [(''domain'', (if py_truthy domain then domain else (PStr ''Not Found''))),
                 (''message'', (if py_truthy domain then (PStr ''Success'') else (PStr ''No favorite domain found for this owner.'')))]))))))"

definition SolanaSNSGetFavouriteDomainTool_except :: "string \<Rightarrow> pyexc \<Rightarrow> pyval" where
  "SolanaSNSGetFavouriteDomainTool_except input e =
     PDict [(''domain'', PNone),
            (''message'', PStr (''Error fetching favorite domain: '' @ str_of_exc e))]"

subsection \<open>SolanaSNSGetAllDomainsTool\<close>

definition SolanaSNSGetAllDomainsTool_schema :: schema where
  "SolanaSNSGetAllDomainsTool_schema =
     [(''owner'', \<lparr>rtype = [T_str], required = True, rmin = None, rmax = None\<rparr>)]"

definition SolanaSNSGetAllDomainsTool_try :: "env \<Rightarrow> kit \<Rightarrow> string \<Rightarrow> pyval comp" where
  "SolanaSNSGetAllDomainsTool_try E K input =
     bnd (lift (json_loads E input)) (\<lambda>data.
     bnd (lift (validate_stmt E data SolanaSNSGetAllDomainsTool_schema)) (\<lambda>data.
     bnd (lift (py_getitem E data ''owner'')) (\<lambda>owner.
     bnd (await_kit K (Call ''get_all_domains_for_owner'' [owner] [])) (\<lambda>domains.
     ret (PDict [(''domains'', (if py_truthy domains then domains else (PList []))),
                 (''message'', (if py_truthy domains then (PStr ''Success'') else (PStr ''No domains found for this owner.'')))])))))"

definition SolanaSNSGetAllDomainsTool_except :: "string \<Rightarrow> pyexc \<Rightarrow> pyval" where
  "SolanaSNSGetAllDomainsTool_except input e =
     PDict [(''domains'', PList []),
            (''message'', PStr (''Error fetching domains: '' @ str_of_exc e))]"

subsection \<open>SolanaDeployCollectionTool\<close>

definition SolanaDeployCollectionTool_schema :: schema where
  "SolanaDeployCollectionTool_schema =
     [(''name'', \<lparr>rtype = [T_str], required = True, rmin = None, rmax = None\<rparr>),
      (''uri'', \<lparr>rtype = [T_str], required = True, rmin = None, rmax = None\<rparr>),
      (''royalty_basis_points'', \<lparr>rtype = [T_int], required = True, rmin = Some 0, rmax = Some 10000\<rparr>),
      (''creator_address'', \<lparr>rtype = [T_str], required = True, rmin = None, rmax = None\<rparr>)]"

definition SolanaDeployCollectionTool_try :: "env \<Rightarrow> kit \<Rightarrow> string \<Rightarrow> pyval comp" where
  "SolanaDeployCollectionTool_try E K input =
     bnd (lift (json_loads E input)) (\<lambda>data.
     bnd (lift (validate_stmt E data SolanaDeployCollectionTool_schema)) (\<lambda>data.
     bnd (lift (py_getitem E data ''name'')) (\<lambda>name.
     bnd (lift (py_getitem E data ''uri'')) (\<lambda>uri.
     bnd (lift (py_getitem E data ''royalty_basis_points'')) (\<lambda>royalty_basis_points.
     bnd (lift (py_getitem E data ''creator_address'')) (\<lambda>creator_address.
     bnd (await_kit K (Call ''deploy_collection'' [] [(''name'', name),
                                                      (''uri'', uri),
                                                      (''royalty_basis_points'', royalty_basis_points),
                                                      (''creator_address'', creator_address)])) (\<lambda>result.
     ret result)))))))"

definition SolanaDeployCollectionTool_except :: "string \<Rightarrow> pyexc \<Rightarrow> pyval" where
  "SolanaDeployCollectionTool_except input e =
     PDict [(''success'', PBool False),
            (''message'', PStr (''Error deploying collection: '' @ str_of_exc e))]"

subsection \<open>SolanaGetMetaplexAssetTool\<close>

definition SolanaGetMetaplexAssetTool_schema :: schema where
  "SolanaGetMetaplexAssetTool_schema =
     [(''asset_id'', \<lparr>rtype = [T_str], required = True, rmin = None, rmax = None\<rparr>)]"

definition SolanaGetMetaplexAssetTool_try :: "env \<Rightarrow> kit \<Rightarrow> string \<Rightarrow> pyval comp" where
  "SolanaGetMetaplexAssetTool_try E K input =
     bnd (lift (json_loads E input)) (\<lambda>data.
     bnd (lift (validate_stmt E data SolanaGetMetaplexAssetTool_schema)) (\<lambda>data.
     bnd (lift (py_getitem E data ''asset_id'')) (\<lambda>asset_id.
     bnd (await_kit K (Call ''get_metaplex_asset'' [asset_id] [])) (\<lambda>result.
     ret result))))"

definition SolanaGetMetaplexAssetTool_except :: "string \<Rightarrow> pyexc \<Rightarrow> pyval" where
  "SolanaGetMetaplexAssetTool_except input e =
     PDict [(''success'', PBool False),
            (''message'', PStr (''Error fetching Metaplex asset: '' @ str_of_exc e))]"

subsection \<open>SolanaGetMetaplexAssetsByCreatorTool\<close>

definition SolanaGetMetaplexAssetsByCreatorTool_schema :: schema where
  "SolanaGetMetaplexAssetsByCreatorTool_schema =
     [(''creator'', \<lparr>rtype = [T_str], required = True, rmin = None, rmax = None\<rparr>),
      (''only_verified'', \<lparr>rtype = [T_bool], required = False, rmin = None, rmax = None\<rparr>),
      (''sort_by'', \<lparr>rtype = [T_str], required = False, rmin = None, rmax = None\<rparr>),
      (''sort_direction'', \<lparr>rtype = [T_str], required = False, rmin = None, rmax = None\<rparr>),
      (''limit'', \<lparr>rtype = [T_int], required = False, rmin = Some 1, rmax = None\<rparr>),
      (''page'', \<lparr>rtype = [T_int], required = False, rmin = Some 1, rmax = None\<rparr>)]"

definition SolanaGetMetaplexAssetsByCreatorTool_try :: "env \<Rightarrow> kit \<Rightarrow> string \<Rightarrow> pyval comp" where
  "SolanaGetMetaplexAssetsByCreatorTool_try E K input =
     bnd (lift (json_loads E input)) (\<lambda>data.
     bnd (lift (validate_stmt E data SolanaGetMetaplexAssetsByCreatorTool_schema)) (\<lambda>data.
     bnd (lift (py_getitem E data ''creator'')) (\<lambda>creator.
     bnd (lift (py_get E data ''only_verified'' (PBool False))) (\<lambda>only_verified.
     bnd (lift (py_get E data ''sort_by'' PNone)) (\<lambda>sort_by.
     bnd (lift (py_get E data ''sort_direction'' PNone)) (\<lambda>sort_direction.
     bnd (lift (py_get E data ''limit'' PNone)) (\<lambda>limit.
     bnd (lift (py_get E data ''page'' PNone)) (\<lambda>page.
     bnd (await_kit K (Call ''get_metaplex_assets_by_creator'' [] [(''creator'', creator),
                                                                   (''onlyVerified'', only_verified),
                                                                   (''sortBy'', sort_by),
                                                                   (''sortDirection'', sort_direction),
                                                                   (''limit'', limit),
                                                                   (''page'', page)])) (\<lambda>result.
     ret result)))))))))"

definition SolanaGetMetaplexAssetsByCreatorTool_except :: "string \<Rightarrow> pyexc \<Rightarrow> pyval" where
  "SolanaGetMetaplexAssetsByCreatorTool_except input e =
     PDict [(''success'', PBool False),
            (''message'', PStr (''Error fetching assets by creator: '' @ str_of_exc e))]"

subsection \<open>SolanaGetMetaplexAssetsByAuthorityTool\<close>

definition SolanaGetMetaplexAssetsByAuthorityTool_schema :: schema where
  "SolanaGetMetaplexAssetsByAuthorityTool_schema =
     [(''authority'', \<lparr>rtype = [T_str], required = True, rmin = None, rmax = None\<rparr>),
      (''sort_by'', \<lparr>rtype = [T_str], required = False, rmin = None, rmax = None\<rparr>),
      (''sort_direction'', \<lparr>rtype = [T_str], required = False, rmin = None, rmax = None\<rparr>),
      (''limit'', \<lparr>rtype = [T_int], required = False, rmin = Some 1, rmax = None\<rparr>),
      (''page'', \<lparr>rtype = [T_int], required = False, rmin = Some 1, rmax = None\<rparr>)]"

definition SolanaGetMetaplexAssetsByAuthorityTool_try :: "env \<Rightarrow> kit \<Rightarrow> string \<Rightarrow> pyval comp" where
  "SolanaGetMetaplexAssetsByAuthorityTool_try E K input =
     bnd (lift (json_loads E input)) (\<lambda>data.
     bnd (lift (validate_stmt E data SolanaGetMetaplexAssetsByAuthorityTool_schema)) (\<lambda>data.
     bnd (lift (py_getitem E data ''authority'')) (\<lambda>authority.
     bnd (lift (py_get E data ''sort_by'' PNone)) (\<lambda>sort_by.
     bnd (lift (py_get E data ''sort_direction'' PNone)) (\<lambda>sort_direction.
     bnd (lift (py_get E data ''limit'' PNone)) (\<lambda>limit.
     bnd (lift (py_get E data ''page'' PNone)) (\<lambda>page.
     bnd (await_kit K (Call ''get_metaplex_assets_by_authority'' [] [(''authority'', authority),
                                                                     (''sortBy'', sort_by),
                                                                     (''sortDirection'', sort_direction),
                                                                     (''limit'', limit),
                                                                     (''page'', page)])) (\<lambda>result.
     ret result))))))))"

definition SolanaGetMetaplexAssetsByAuthorityTool_except :: "string \<Rightarrow> pyexc \<Rightarrow> pyval" where
  "SolanaGetMetaplexAssetsByAuthorityTool_except input e =
     PDict [(''success'', PBool False),
            (''message'', PStr (''Error fetching assets by authority: '' @ str_of_exc e))]"

subsection \<open>SolanaMintMetaplexCoreNFTTool\<close>

definition SolanaMintMetaplexCoreNFTTool_schema :: schema where
  "SolanaMintMetaplexCoreNFTTool_schema =
     [(''collection_mint'', \<lparr>rtype = [T_str], required = True, rmin = None, rmax = None\<rparr>),
      (''name'', \<lparr>rtype = [T_str], required = True, rmin = None, rmax = None\<rparr>),
      (''uri'', \<lparr>rtype = [T_str], required = True, rmin = None, rmax = None\<rparr>),
      (''seller_fee_basis_points'', \<lparr>rtype = [T_int], required = True, rmin = Some 0, rmax = Some 10000\<rparr>),
      (''address'', \<lparr>rtype = [T_str], required = True, rmin = None, rmax = None\<rparr>),
      (''share'', \<lparr>rtype = [T_str], required = True, rmin = None, rmax = None\<rparr>),
      (''recipient'', \<lparr>rtype = [T_str], required = True, rmin = None, rmax = None\<rparr>)]"

definition SolanaMintMetaplexCoreNFTTool_try :: "env \<Rightarrow> kit \<Rightarrow> string \<Rightarrow> pyval comp" where
  "SolanaMintMetaplexCoreNFTTool_try E K input =
     bnd (lift (json_loads E input)) (\<lambda>data.
     bnd (lift (validate_stmt E data SolanaMintMetaplexCoreNFTTool_schema)) (\<lambda>data.
     bnd (lift (py_getitem E data ''collection_mint'')) (\<lambda>collection_mint.
     bnd (lift (py_getitem E data ''name'')) (\<lambda>name.
     bnd (lift (py_getitem E data ''uri'')) (\<lambda>uri.
     bnd (lift (py_getitem E data ''seller_fee_basis_points'')) (\<lambda>seller_fee_basis_points.
     bnd (lift (py_getitem E data ''address'')) (\<lambda>address.
     bnd (lift (py_getitem E data ''share'')) (\<lambda>share.
     bnd (lift (py_getitem E data ''recipient'')) (\<lambda>recipient.
     bnd (await_kit K (Call ''mint_metaplex_core_nft'' [] [(''collectionMint'', collection_mint),
                                                           (''name'', name),
                                                           (''uri'', uri),
                                                           (''sellerFeeBasisPoints'', seller_fee_basis_points),
                                                           (''address'', address),
                                                           (''share'', share),
                                                           (''recipient'', recipient)])) (\<lambda>result.
     ret result))))))))))"

definition SolanaMintMetaplexCoreNFTTool_except :: "string \<Rightarrow> pyexc \<Rightarrow> pyval" where
  "SolanaMintMetaplexCoreNFTTool_except input e =
     PDict [(''success'', PBool False),
            (''message'', PStr (''Error minting NFT: '' @ str_of_exc e))]"

subsection \<open>SolanaDeBridgeCreateTransactionTool\<close>

definition SolanaDeBridgeCreateTransactionTool_schema :: schema where
  "SolanaDeBridgeCreateTransactionTool_schema =
     [(''src_chain_id'', \<lparr>rtype = [T_str], required = True, rmin = None, rmax = None\<rparr>),
      (''src_chain_token_in'', \<lparr>rtype = [T_str], required = True, rmin = None, rmax = None\<rparr>),
      (''src_chain_token_in_amount'', \<lparr>rtype = [T_str], required = True, rmin = None, rmax = None\<rparr>),
      (''dst_chain_id'', \<lparr>rtype = [T_str], required = True, rmin = None, rmax = None\<rparr>),
      (''dst_chain_token_out'', \<lparr>rtype = [T_str], required = True, rmin = None, rmax = None\<rparr>),
      (''dst_chain_token_out_recipient'', \<lparr>rtype = [T_str], required = True, rmin = None, rmax = None\<rparr>),
      (''src_chain_order_authority_address'', \<lparr>rtype = [T_str], required = True, rmin = None, rmax = None\<rparr>),
      (''dst_chain_order_authority_address'', \<lparr>rtype = [T_str], required = True, rmin = None, rmax = None\<rparr>),
      (''affiliate_fee_percent'', \<lparr>rtype = [T_str], required = False, rmin = None, rmax = None\<rparr>),
      (''affiliate_fee_recipient'', \<lparr>rtype = [T_str], required = False, rmin = None, rmax = None\<rparr>),
      (''prepend_operating_expenses'', \<lparr>rtype = [T_bool], required = False, rmin = None, rmax = None\<rparr>),
      (''dst_chain_token_out_amount'', \<lparr>rtype = [T_str], required = False, rmin = None, rmax = None\<rparr>)]"

definition SolanaDeBridgeCreateTransactionTool_try :: "env \<Rightarrow> kit \<Rightarrow> string \<Rightarrow> pyval comp" where
  "SolanaDeBridgeCreateTransactionTool_try E K input =
     bnd (lift (json_loads E input)) (\<lambda>data.
     bnd (lift (validate_stmt E data SolanaDeBridgeCreateTransactionTool_schema)) (\<lambda>data.
     bnd (lift (py_getitem E data ''src_chain_id'')) (\<lambda>src_chain_id.
     bnd (lift (py_getitem E data ''src_chain_token_in'')) (\<lambda>src_chain_token_in.
     bnd (lift (py_getitem E data ''src_chain_token_in_amount'')) (\<lambda>src_chain_token_in_amount.
     bnd (lift (py_getitem E data ''dst_chain_id'')) (\<lambda>dst_chain_id.
     bnd (lift (py_getitem E data ''dst_chain_token_out'')) (\<lambda>dst_chain_token_out.
     bnd (lift (py_getitem E data ''dst_chain_token_out_recipient'')) (\<lambda>dst_chain_token_out_recipient.
     bnd (lift (py_getitem E data ''src_chain_order_authority_address'')) (\<lambda>src_chain_order_authority_address.
     bnd (lift (py_getitem E data ''dst_chain_order_authority_address'')) (\<lambda>dst_chain_order_authority_address.
     bnd (lift (py_get E data ''affiliate_fee_percent'' (PStr ''0''))) (\<lambda>affiliate_fee_percent.
     bnd (lift (py_get E data ''affiliate_fee_recipient'' (PStr ''''))) (\<lambda>affiliate_fee_recipient.
     bnd (lift (py_get E data ''prepend_operating_expenses'' (PBool True))) (\<lambda>prepend_operating_expenses.
     bnd (lift (py_get E data ''dst_chain_token_out_amount'' (PStr ''auto''))) (\<lambda>dst_chain_token_out_amount.
     bnd (await_kit K (Call ''create_debridge_transaction'' [] [(''src_chain_id'', src_chain_id),
                                                                (''src_chain_token_in'', src_chain_token_in),
                                                                (''src_chain_token_in_amount'', src_chain_token_in_amount),
                                                                (''dst_chain_id'', dst_chain_id),
                                                                (''dst_chain_token_out'', dst_chain_token_out),
                                                                (''dst_chain_token_out_recipient'', dst_chain_token_out_recipient),
                                                                (''src_chain_order_authority_address'', src_chain_order_authority_address),
                                                                (''dst_chain_order_authority_address'', dst_chain_order_authority_address),
                                                                (''affiliate_fee_percent'', affiliate_fee_percent),
                                                                (''affiliate_fee_recipient'', affiliate_fee_recipient),
                                                                (''prepend_operating_expenses'', prepend_operating_expenses),
                                                                (''dst_chain_token_out_amount'', dst_chain_token_out_amount)])) (\<lambda>transaction_data.
     ret (PDict [(''transaction_data'', transaction_data),
                 (''message'', PStr ''Success'')]))))))))))))))))"

definition SolanaDeBridgeCreateTransactionTool_except :: "string \<Rightarrow> pyexc \<Rightarrow> pyval" where
  "SolanaDeBridgeCreateTransactionTool_except input e =
     PDict [(''transaction_data'', PNone),
            (''message'', PStr (''Error creating DeBridge transaction: '' @ str_of_exc e))]"

subsection \<open>SolanaDeBridgeExecuteTransactionTool\<close>

definition SolanaDeBridgeExecuteTransactionTool_schema :: schema where
  "SolanaDeBridgeExecuteTransactionTool_schema =
     [(''transaction_data'', \<lparr>rtype = [T_dict], required = True, rmin = None, rmax = None\<rparr>)]"

definition SolanaDeBridgeExecuteTransactionTool_try :: "env \<Rightarrow> kit \<Rightarrow> string \<Rightarrow> pyval comp" where
  "SolanaDeBridgeExecuteTransactionTool_try E K input =
     bnd (lift (json_loads E input)) (\<lambda>data.
     bnd (lift (validate_stmt E data SolanaDeBridgeExecuteTransactionTool_schema)) (\<lambda>data.
     bnd (lift (py_getitem E data ''transaction_data'')) (\<lambda>transaction_data.
     bnd (await_kit K (Call ''execute_debridge_transaction'' [transaction_data] [])) (\<lambda>result.
     ret (PDict [(''result'', result), (''message'', PStr ''Success'')])))))"

definition SolanaDeBridgeExecuteTransactionTool_except :: "string \<Rightarrow> pyexc \<Rightarrow> pyval" where
  "SolanaDeBridgeExecuteTransactionTool_except input e =
     PDict [(''result'', PNone),
            (''message'', PStr (''Error executing DeBridge transaction: '' @ str_of_exc e))]"

subsection \<open>SolanaDeBridgeCheckTransactionStatusTool\<close>

definition SolanaDeBridgeCheckTransactionStatusTool_schema :: schema where
  "SolanaDeBridgeCheckTransactionStatusTool_schema =
     [(''tx_hash'', \<lparr>rtype = [T_str], required = True, rmin = None, rmax = None\<rparr>)]"

definition SolanaDeBridgeCheckTransactionStatusTool_try :: "env \<Rightarrow> kit \<Rightarrow> string \<Rightarrow> pyval comp" where
  "SolanaDeBridgeCheckTransactionStatusTool_try E K input =
     bnd (lift (json_loads E input)) (\<lambda>data.
     bnd (lift (validate_stmt E data SolanaDeBridgeCheckTransactionStatusTool_schema)) (\<lambda>data.
     bnd (lift (py_getitem E data ''tx_hash'')) (\<lambda>tx_hash.
     bnd (await_kit K (Call ''check_transaction_status'' [tx_hash] [])) (\<lambda>status.
     ret (PDict [(''status'', status), (''message'', PStr ''Success'')])))))"

definition SolanaDeBridgeCheckTransactionStatusTool_except :: "string \<Rightarrow> pyexc \<Rightarrow> pyval" where
  "SolanaDeBridgeCheckTransactionStatusTool_except input e =
     PDict [(''status'', PNone),
            (''message'', PStr (''Error checking transaction status: '' @ str_of_exc e))]"

subsection \<open>SolanaCybersCreateCoinTool\<close>

definition SolanaCybersCreateCoinTool_schema :: schema where
  "SolanaCybersCreateCoinTool_schema =
     [(''name'', \<lparr>rtype = [T_str], required = True, rmin = None, rmax = None\<rparr>),
      (''symbol'', \<lparr>rtype = [T_str], required = True, rmin = None, rmax = None\<rparr>),
      (''image_path'', \<lparr>rtype = [T_str], required = True, rmin = None, rmax = None\<rparr>),
      (''tweet_author_id'', \<lparr>rtype = [T_str], required = True, rmin = None, rmax = None\<rparr>),
      (''tweet_author_username'', \<lparr>rtype = [T_str], required = True, rmin = None, rmax = None\<rparr>)]"

definition SolanaCybersCreateCoinTool_try :: "env \<Rightarrow> kit \<Rightarrow> string \<Rightarrow> pyval comp" where
  "SolanaCybersCreateCoinTool_try E K input =
     bnd (lift (json_loads E input)) (\<lambda>data.
     bnd (lift (validate_stmt E data SolanaCybersCreateCoinTool_schema)) (\<lambda>data.
     bnd (lift (py_getitem E data ''name'')) (\<lambda>name.
     bnd (lift (py_getitem E data ''symbol'')) (\<lambda>symbol.
     bnd (lift (py_getitem E data ''image_path'')) (\<lambda>image_path.
     bnd (lift (py_getitem E data ''tweet_author_id'')) (\<lambda>tweet_author_id.
     bnd (lift (py_getitem E data ''tweet_author_username'')) (\<lambda>tweet_author_username.
     bnd (await_kit K (Call ''cybers_create_coin'' [] [(''name'', name),
                                                       (''symbol'', symbol),
                                                       (''image_path'', image_path),
                                                       (''tweet_author_id'', tweet_author_id),
                                                       (''tweet_author_username'', tweet_author_username)])) (\<lambda>coin_id.
     ret (PDict [(''coin_id'', coin_id), (''message'', PStr ''Success'')])))))))))"

definition SolanaCybersCreateCoinTool_except :: "string \<Rightarrow> pyexc \<Rightarrow> pyval" where
  "SolanaCybersCreateCoinTool_except input e =
     PDict [(''coin_id'', PNone),
            (''message'', PStr (''Error creating coin: '' @ str_of_exc e))]"

subsection \<open>SolanaGetTipAccounts\<close>

definition SolanaGetTipAccounts_try :: "env \<Rightarrow> kit \<Rightarrow> pyval comp" where
  "SolanaGetTipAccounts_try E K =
     bnd (await_kit K (Call ''get_tip_accounts'' [] [])) (\<lambda>result.
     ret (PDict [(''accounts'', result)]))"

definition SolanaGetTipAccounts_except :: "pyexc \<Rightarrow> pyval" where
  "SolanaGetTipAccounts_except e =
     PDict [(''accounts'', PNone)]"

subsection \<open>SolanaGetRandomTipAccount\<close>

definition SolanaGetRandomTipAccount_try :: "env \<Rightarrow> kit \<Rightarrow> pyval comp" where
  "SolanaGetRandomTipAccount_try E K =
     bnd (await_kit K (Call ''get_random_tip_account'' [] [])) (\<lambda>result.
     ret (PDict [(''account'', result)]))"

definition SolanaGetRandomTipAccount_except :: "pyexc \<Rightarrow> pyval" where
  "SolanaGetRandomTipAccount_except e =
     PDict [(''account'', PNone)]"

subsection \<open>SolanaGetBundleStatuses\<close>

definition SolanaGetBundleStatuses_schema :: schema where
  "SolanaGetBundleStatuses_schema =
     [(''bundle_uuids'', \<lparr>rtype = [T_list], required = True, rmin = None, rmax = None\<rparr>)]"

definition SolanaGetBundleStatuses_try :: "env \<Rightarrow> kit \<Rightarrow> string \<Rightarrow> pyval comp" where
  "SolanaGetBundleStatuses_try E K input =
     bnd (lift (json_loads E input)) (\<lambda>data.
     bnd (lift (validate_stmt E data SolanaGetBundleStatuses_schema)) (\<lambda>data.
     bnd (lift (py_getitem E data ''bundle_uuids'')) (\<lambda>bundle_uuids.
     bnd (await_kit K (Call ''get_bundle_statuses'' [bundle_uuids] [])) (\<lambda>result.
     ret (PDict [(''statuses'', result)])))))"

definition SolanaGetBundleStatuses_except :: "string \<Rightarrow> pyexc \<Rightarrow> pyval" where
  "SolanaGetBundleStatuses_except input e =
     PDict [(''statuses'', PNone)]"

subsection \<open>SolanaSendBundle\<close>

definition SolanaSendBundle_schema :: schema where
  "SolanaSendBundle_schema =
     [(''txn_signatures'', \<lparr>rtype = [T_list], required = True, rmin = None, rmax = None\<rparr>)]"

definition SolanaSendBundle_try :: "env \<Rightarrow> kit \<Rightarrow> string \<Rightarrow> pyval comp" where
  "SolanaSendBundle_try E K input =
     bnd (lift (json_loads E input)) (\<lambda>data.
     bnd (lift (validate_stmt E data SolanaSendBundle_schema)) (\<lambda>data.
     bnd (lift (py_getitem E data ''txn_signatures'')) (\<lambda>txn_signatures.
     bnd (await_kit K (Call ''send_bundle'' [txn_signatures] [])) (\<lambda>result.
     ret (PDict [(''bundle_ids'', result)])))))"

definition SolanaSendBundle_except :: "string \<Rightarrow> pyexc \<Rightarrow> pyval" where
  "SolanaSendBundle_except input e =
     PDict [(''bundle_ids'', PNone)]"

subsection \<open>SolanaGetInflightBundleStatuses\<close>

definition SolanaGetInflightBundleStatuses_schema :: schema where
  "SolanaGetInflightBundleStatuses_schema =
     [(''bundle_uuids'', \<lparr>rtype = [T_list], required = True, rmin = None, rmax = None\<rparr>)]"

definition SolanaGetInflightBundleStatuses_try :: "env \<Rightarrow> kit \<Rightarrow> string \<Rightarrow> pyval comp" where
  "SolanaGetInflightBundleStatuses_try E K input =
     bnd (lift (json_loads E input)) (\<lambda>data.
     bnd (lift (validate_stmt E data SolanaGetInflightBundleStatuses_schema)) (\<lambda>data.
     bnd (lift (py_getitem E data ''bundle_uuids'')) (\<lambda>bundle_uuids.
     bnd (await_kit K (Call ''get_inflight_bundle_statuses'' [bundle_uuids] [])) (\<lambda>result.
     ret (PDict [(''statuses'', result)])))))"

definition SolanaGetInflightBundleStatuses_except :: "string \<Rightarrow> pyexc \<Rightarrow> pyval" where
  "SolanaGetInflightBundleStatuses_except input e =
     PDict [(''statuses'', PNone)]"

subsection \<open>SolanaSendTxn\<close>

definition SolanaSendTxn_schema :: schema where
  "SolanaSendTxn_schema =
     [(''txn_signature'', \<lparr>rtype = [T_str], required = True, rmin = None, rmax = None\<rparr>),
      (''bundleOnly'', \<lparr>rtype = [T_bool], required = True, rmin = None, rmax = None\<rparr>)]"

definition SolanaSendTxn_try :: "env \<Rightarrow> kit \<Rightarrow> string \<Rightarrow> pyval comp" where
  "SolanaSendTxn_try E K input =
     bnd (lift (json_loads E input)) (\<lambda>data.
     bnd (lift (validate_stmt E data SolanaSendTxn_schema)) (\<lambda>data.
     bnd (lift (py_getitem E data ''txn_signature'')) (\<lambda>txn_signature.
     bnd (lift (py_getitem E data ''bundleOnly'')) (\<lambda>bundleOnly.
     bnd (await_kit K (Call ''send_txn'' [txn_signature, bundleOnly] [])) (\<lambda>result.
     ret (PDict [(''status'', result)]))))))"

definition SolanaSendTxn_except :: "string \<Rightarrow> pyexc \<Rightarrow> pyval" where
  "SolanaSendTxn_except input e =
     PDict [(''status'', PNone)]"

subsection \<open>StorkGetPriceTool\<close>

definition StorkGetPriceTool_try :: "env \<Rightarrow> kit \<Rightarrow> string \<Rightarrow> pyval comp" where
  "StorkGetPriceTool_try E K input =
     bnd (lift (json_loads E input)) (\<lambda>data.
     bnd (lift (py_getitem E data ''asset_id'')) (\<lambda>asset_id.
     bnd (await_kit K (Call ''stork_fetch_price'' [asset_id] [])) (\<lambda>result.
     ret (PDict [(''status'', PStr ''success''), (''data'', result)]))))"

definition StorkGetPriceTool_except :: "string \<Rightarrow> pyexc \<Rightarrow> pyval" where
  "StorkGetPriceTool_except input e =
     PDict [(''status'', PStr ''error''),
            (''message'', PStr (str_of_exc e))]"

subsection \<open>BackpackGetAccountBalancesTool\<close>

definition BackpackGetAccountBalancesTool_try :: "env \<Rightarrow> kit \<Rightarrow> pyval comp" where
  "BackpackGetAccountBalancesTool_try E K =
     bnd (await_kit K (Call ''get_account_balances'' [] [])) (\<lambda>balances.
     ret (PDict [(''balances'', balances), (''message'', PStr ''Success'')]))"

definition BackpackGetAccountBalancesTool_except :: "pyexc \<Rightarrow> pyval" where
  "BackpackGetAccountBalancesTool_except e =
     PDict [(''balances'', PNone),
            (''message'', PStr (''Error fetching account balances: '' @ str_of_exc e))]"

subsection \<open>BackpackRequestWithdrawalTool\<close>

definition BackpackRequestWithdrawalTool_schema :: schema where
  "BackpackRequestWithdrawalTool_schema =
     [(''address'', \<lparr>rtype = [T_str], required = True, rmin = None, rmax = None\<rparr>),
      (''blockchain'', \<lparr>rtype = [T_str], required = True, rmin = None, rmax = None\<rparr>),
      (''quantity'', \<lparr>rtype = [T_str], required = True, rmin = None, rmax = None\<rparr>),
      (''symbol'', \<lparr>rtype = [T_str], required = True, rmin = None, rmax = None\<rparr>),
      (''additional_params'', \<lparr>rtype = [T_dict], required = False, rmin = None, rmax = None\<rparr>)]"

definition BackpackRequestWithdrawalTool_try :: "env \<Rightarrow> kit \<Rightarrow> string \<Rightarrow> pyval comp" where
  "BackpackRequestWithdrawalTool_try E K input =
     bnd (lift (json_loads E input)) (\<lambda>data.
     bnd (lift (validate_stmt E data BackpackRequestWithdrawalTool_schema)) (\<lambda>data.
     bnd (lift (py_getitem E data ''address'')) (\<lambda>address.
     bnd (lift (py_getitem E data ''blockchain'')) (\<lambda>blockchain.
     bnd (lift (py_getitem E data ''quantity'')) (\<lambda>quantity.
     bnd (lift (py_getitem E data ''symbol'')) (\<lambda>symbol.
     bnd (lift (py_get E data ''additional_params'' (PDict []))) (\<lambda>additional_params.
     bnd (lift (py_splat E [(''address'', address),
                            (''blockchain'', blockchain),
                            (''quantity'', quantity),
                            (''symbol'', symbol)] additional_params)) (\<lambda>kwargs.
     bnd (await_kit K (Call ''request_withdrawal'' [] kwargs)) (\<lambda>result.
     ret (PDict [(''result'', result), (''message'', PStr ''Success'')]))))))))))"

definition BackpackRequestWithdrawalTool_except :: "string \<Rightarrow> pyexc \<Rightarrow> pyval" where
  "BackpackRequestWithdrawalTool_except input e =
     PDict [(''result'', PNone),
            (''message'', PStr (''Error requesting withdrawal: '' @ str_of_exc e))]"

subsection \<open>BackpackGetAccountSettingsTool\<close>

definition BackpackGetAccountSettingsTool_try :: "env \<Rightarrow> kit \<Rightarrow> pyval comp" where
  "BackpackGetAccountSettingsTool_try E K =
     bnd (await_kit K (Call ''get_account_settings'' [] [])) (\<lambda>settings.
     ret (PDict [(''settings'', settings), (''message'', PStr ''Success'')]))"

definition BackpackGetAccountSettingsTool_except :: "pyexc \<Rightarrow> pyval" where
  "BackpackGetAccountSettingsTool_except e =
     PDict [(''settings'', PNone),
            (''message'', PStr (''Error fetching account settings: '' @ str_of_exc e))]"

subsection \<open>BackpackUpdateAccountSettingsTool\<close>

definition BackpackUpdateAccountSettingsTool_try :: "env \<Rightarrow> kit \<Rightarrow> string \<Rightarrow> pyval comp" where
  "BackpackUpdateAccountSettingsTool_try E K input =
     bnd (lift (json_loads E input)) (\<lambda>data.
     bnd (lift (py_splat E [] data)) (\<lambda>kwargs.
     bnd (await_kit K (Call ''update_account_settings'' [] kwargs)) (\<lambda>result.
     ret (PDict [(''result'', result), (''message'', PStr ''Success'')]))))"

definition BackpackUpdateAccountSettingsTool_except :: "string \<Rightarrow> pyexc \<Rightarrow> pyval" where
  "BackpackUpdateAccountSettingsTool_except input e =
     PDict [(''result'', PNone),
            (''message'', PStr (''Error updating account settings: '' @ str_of_exc e))]"

subsection \<open>BackpackGetBorrowLendPositionsTool\<close>

definition BackpackGetBorrowLendPositionsTool_try :: "env \<Rightarrow> kit \<Rightarrow> pyval comp" where
  "BackpackGetBorrowLendPositionsTool_try E K =
     bnd (await_kit K (Call ''get_borrow_lend_positions'' [] [])) (\<lambda>positions.
     ret (PDict [(''positions'', positions), (''message'', PStr ''Success'')]))"

definition BackpackGetBorrowLendPositionsTool_except :: "pyexc \<Rightarrow> pyval" where
  "BackpackGetBorrowLendPositionsTool_except e =
     PDict [(''positions'', PNone),
            (''message'', PStr (''Error fetching borrow/lend positions: '' @ str_of_exc e))]"

subsection \<open>BackpackExecuteBorrowLendTool\<close>

definition BackpackExecuteBorrowLendTool_schema :: schema where
  "BackpackExecuteBorrowLendTool_schema =
     [(''quantity'', \<lparr>rtype = [T_str], required = True, rmin = None, rmax = None\<rparr>),
      (''side'', \<lparr>rtype = [T_str], required = True, rmin = None, rmax = None\<rparr>),
      (''symbol'', \<lparr>rtype = [T_str], required = True, rmin = None, rmax = None\<rparr>)]"

definition BackpackExecuteBorrowLendTool_try :: "env \<Rightarrow> kit \<Rightarrow> string \<Rightarrow> pyval comp" where
  "BackpackExecuteBorrowLendTool_try E K input =
     bnd (lift (json_loads E input)) (\<lambda>data.
     bnd (lift (validate_stmt E data BackpackExecuteBorrowLendTool_schema)) (\<lambda>data.
     bnd (lift (py_getitem E data ''quantity'')) (\<lambda>quantity.
     bnd (lift (py_getitem E data ''side'')) (\<lambda>side.
     bnd (lift (py_getitem E data ''symbol'')) (\<lambda>symbol.
     bnd (await_kit K (Call ''execute_borrow_lend'' [] [(''quantity'', quantity),
                                                        (''side'', side),
                                                        (''symbol'', symbol)])) (\<lambda>result.
     ret (PDict [(''result'', result), (''message'', PStr ''Success'')])))))))"

definition BackpackExecuteBorrowLendTool_except :: "string \<Rightarrow> pyexc \<Rightarrow> pyval" where
  "BackpackExecuteBorrowLendTool_except input e =
     PDict [(''result'', PNone),
            (''message'', PStr (''Error executing borrow/lend operation: '' @ str_of_exc e))]"

subsection \<open>BackpackGetFillHistoryTool\<close>

definition BackpackGetFillHistoryTool_try :: "env \<Rightarrow> kit \<Rightarrow> string \<Rightarrow> pyval comp" where
  "BackpackGetFillHistoryTool_try E K input =
     bnd (lift (json_loads E input)) (\<lambda>data.
     bnd (lift (py_splat E [] data)) (\<lambda>kwargs.
     bnd (await_kit K (Call ''get_fill_history'' [] kwargs)) (\<lambda>history.
     ret (PDict [(''history'', history), (''message'', PStr ''Success'')]))))"

definition BackpackGetFillHistoryTool_except :: "string \<Rightarrow> pyexc \<Rightarrow> pyval" where
  "BackpackGetFillHistoryTool_except input e =
     PDict [(''history'', PNone),
            (''message'', PStr (''Error fetching fill history: '' @ str_of_exc e))]"

subsection \<open>BackpackGetBorrowPositionHistoryTool\<close>

definition BackpackGetBorrowPositionHistoryTool_try :: "env \<Rightarrow> kit \<Rightarrow> string \<Rightarrow> pyval comp" where
  "BackpackGetBorrowPositionHistoryTool_try E K input =
     bnd (lift (json_loads E input)) (\<lambda>data.
     bnd (lift (py_splat E [] data)) (\<lambda>kwargs.
     bnd (await_kit K (Call ''get_borrow_position_history'' [] kwargs)) (\<lambda>history.
     ret (PDict [(''history'', history), (''message'', PStr ''Success'')]))))"

definition BackpackGetBorrowPositionHistoryTool_except :: "string \<Rightarrow> pyexc \<Rightarrow> pyval" where
  "BackpackGetBorrowPositionHistoryTool_except input e =
     PDict [(''history'', PNone),
            (''message'', PStr (''Error fetching borrow position history: '' @ str_of_exc e))]"

subsection \<open>BackpackGetFundingPaymentsTool\<close>

definition BackpackGetFundingPaymentsTool_try :: "env \<Rightarrow> kit \<Rightarrow> string \<Rightarrow> pyval comp" where
  "BackpackGetFundingPaymentsTool_try E K input =
     bnd (lift (json_loads E input)) (\<lambda>data.
     bnd (lift (py_splat E [] data)) (\<lambda>kwargs.
     bnd (await_kit K (Call ''get_funding_payments'' [] kwargs)) (\<lambda>payments.
     ret (PDict [(''payments'', payments), (''message'', PStr ''Success'')]))))"

definition BackpackGetFundingPaymentsTool_except :: "string \<Rightarrow> pyexc \<Rightarrow> pyval" where
  "BackpackGetFundingPaymentsTool_except input e =
     PDict [(''payments'', PNone),
            (''message'', PStr (''Error fetching funding payments: '' @ str_of_exc e))]"

subsection \<open>BackpackGetOrderHistoryTool\<close>

definition BackpackGetOrderHistoryTool_try :: "env \<Rightarrow> kit \<Rightarrow> string \<Rightarrow> pyval comp" where
  "BackpackGetOrderHistoryTool_try E K input =
     bnd (lift (json_loads E input)) (\<lambda>data.
     bnd (lift (py_splat E [] data)) (\<lambda>kwargs.
     bnd (await_kit K (Call ''get_order_history'' [] kwargs)) (\<lambda>history.
     ret (PDict [(''history'', history), (''message'', PStr ''Success'')]))))"

definition BackpackGetOrderHistoryTool_except :: "string \<Rightarrow> pyexc \<Rightarrow> pyval" where
  "BackpackGetOrderHistoryTool_except input e =
     PDict [(''history'', PNone),
            (''message'', PStr (''Error fetching order history: '' @ str_of_exc e))]"

subsection \<open>BackpackGetPnlHistoryTool\<close>

definition BackpackGetPnlHistoryTool_try :: "env \<Rightarrow> kit \<Rightarrow> string \<Rightarrow> pyval comp" where
  "BackpackGetPnlHistoryTool_try E K input =
     bnd (lift (json_loads E input)) (\<lambda>data.
     bnd (lift (py_splat E [] data)) (\<lambda>kwargs.
     bnd (await_kit K (Call ''get_pnl_history'' [] kwargs)) (\<lambda>history.
     ret (PDict [(''history'', history), (''message'', PStr ''Success'')]))))"

definition BackpackGetPnlHistoryTool_except :: "string \<Rightarrow> pyexc \<Rightarrow> pyval" where
  "BackpackGetPnlHistoryTool_except input e =
     PDict [(''history'', PNone),
            (''message'', PStr (''Error fetching PNL history: '' @ str_of_exc e))]"

subsection \<open>BackpackGetSettlementHistoryTool\<close>

definition BackpackGetSettlementHistoryTool_try :: "env \<Rightarrow> kit \<Rightarrow> string \<Rightarrow> pyval comp" where
  "BackpackGetSettlementHistoryTool_try E K input =
     bnd (lift (json_loads E input)) (\<lambda>data.
     bnd (lift (py_splat E [] data)) (\<lambda>kwargs.
     bnd (await_kit K (Call ''get_settlement_history'' [] kwargs)) (\<lambda>history.
     ret (PDict [(''history'', history), (''message'', PStr ''Success'')]))))"

definition BackpackGetSettlementHistoryTool_except :: "string \<Rightarrow> pyexc \<Rightarrow> pyval" where
  "BackpackGetSettlementHistoryTool_except input e =
     PDict [(''history'', PNone),
            (''message'', PStr (''Error fetching settlement history: '' @ str_of_exc e))]"

subsection \<open>BackpackGetUsersOpenOrdersTool\<close>

definition BackpackGetUsersOpenOrdersTool_try :: "env \<Rightarrow> kit \<Rightarrow> string \<Rightarrow> pyval comp" where
  "BackpackGetUsersOpenOrdersTool_try E K input =
     bnd (lift (json_loads E input)) (\<lambda>data.
     bnd (lift (py_splat E [] data)) (\<lambda>kwargs.
     bnd (await_kit K (Call ''get_users_open_orders'' [] kwargs)) (\<lambda>open_orders.
     ret (PDict [(''open_orders'', open_orders), (''message'', PStr ''Success'')]))))"

definition BackpackGetUsersOpenOrdersTool_except :: "string \<Rightarrow> pyexc \<Rightarrow> pyval" where
  "BackpackGetUsersOpenOrdersTool_except input e =
     PDict [(''open_orders'', PNone),
            (''message'', PStr ((''Error fetching user'' @ [CHR 0x27] @ ''s open orders: '') @ str_of_exc e))]"

subsection \<open>BackpackExecuteOrderTool\<close>

definition BackpackExecuteOrderTool_try :: "env \<Rightarrow> kit \<Rightarrow> string \<Rightarrow> pyval comp" where
  "BackpackExecuteOrderTool_try E K input =
     bnd (lift (json_loads E input)) (\<lambda>data.
     bnd (lift (py_splat E [] data)) (\<lambda>kwargs.
     bnd (await_kit K (Call ''execute_order'' [] kwargs)) (\<lambda>result.
     ret (PDict [(''result'', result), (''message'', PStr ''Success'')]))))"

definition BackpackExecuteOrderTool_except :: "string \<Rightarrow> pyexc \<Rightarrow> pyval" where
  "BackpackExecuteOrderTool_except input e =
     PDict [(''result'', PNone),
            (''message'', PStr (''Error executing order: '' @ str_of_exc e))]"

subsection \<open>BackpackCancelOpenOrderTool\<close>

definition BackpackCancelOpenOrderTool_try :: "env \<Rightarrow> kit \<Rightarrow> string \<Rightarrow> pyval comp" where
  "BackpackCancelOpenOrderTool_try E K input =
     bnd (lift (json_loads E input)) (\<lambda>data.
     bnd (lift (py_splat E [] data)) (\<lambda>kwargs.
     bnd (await_kit K (Call ''cancel_open_order'' [] kwargs)) (\<lambda>result.
     ret (PDict [(''result'', result), (''message'', PStr ''Success'')]))))"

definition BackpackCancelOpenOrderTool_except :: "string \<Rightarrow> pyexc \<Rightarrow> pyval" where
  "BackpackCancelOpenOrderTool_except input e =
     PDict [(''result'', PNone),
            (''message'', PStr (''Error canceling open order: '' @ str_of_exc e))]"

subsection \<open>BackpackGetOpenOrdersTool\<close>

definition BackpackGetOpenOrdersTool_try :: "env \<Rightarrow> kit \<Rightarrow> string \<Rightarrow> pyval comp" where
  "BackpackGetOpenOrdersTool_try E K input =
     bnd (lift (json_loads E input)) (\<lambda>data.
     bnd (lift (py_splat E [] data)) (\<lambda>kwargs.
     bnd (await_kit K (Call ''get_open_orders'' [] kwargs)) (\<lambda>open_orders.
     ret (PDict [(''open_orders'', open_orders), (''message'', PStr ''Success'')]))))"

definition BackpackGetOpenOrdersTool_except :: "string \<Rightarrow> pyexc \<Rightarrow> pyval" where
  "BackpackGetOpenOrdersTool_except input e =
     PDict [(''open_orders'', PNone),
            (''message'', PStr (''Error fetching open orders: '' @ str_of_exc e))]"

subsection \<open>BackpackCancelOpenOrdersTool\<close>

definition BackpackCancelOpenOrdersTool_try :: "env \<Rightarrow> kit \<Rightarrow> string \<Rightarrow> pyval comp" where
  "BackpackCancelOpenOrdersTool_try E K input =
     bnd (lift (json_loads E input)) (\<lambda>data.
     bnd (lift (py_splat E [] data)) (\<lambda>kwargs.
     bnd (await_kit K (Call ''cancel_open_orders'' [] kwargs)) (\<lambda>result.
     ret (PDict [(''result'', result), (''message'', PStr ''Success'')]))))"

definition BackpackCancelOpenOrdersTool_except :: "string \<Rightarrow> pyexc \<Rightarrow> pyval" where
  "BackpackCancelOpenOrdersTool_except input e =
     PDict [(''result'', PNone),
            (''message'', PStr (''Error canceling open orders: '' @ str_of_exc e))]"

subsection \<open>BackpackGetSupportedAssetsTool\<close>

definition BackpackGetSupportedAssetsTool_try :: "env \<Rightarrow> kit \<Rightarrow> pyval comp" where
  "BackpackGetSupportedAssetsTool_try E K =
     bnd (await_kit K (Call ''get_supported_assets'' [] [])) (\<lambda>assets.
     ret (PDict [(''assets'', assets), (''message'', PStr ''Success'')]))"

definition BackpackGetSupportedAssetsTool_except :: "pyexc \<Rightarrow> pyval" where
  "BackpackGetSupportedAssetsTool_except e =
     PDict [(''assets'', PNone),
            (''message'', PStr (''Error fetching supported assets: '' @ str_of_exc e))]"

subsection \<open>BackpackGetTickerInformationTool\<close>

definition BackpackGetTickerInformationTool_try :: "env \<Rightarrow> kit \<Rightarrow> string \<Rightarrow> pyval comp" where
  "BackpackGetTickerInformationTool_try E K input =
     bnd (lift (json_loads E input)) (\<lambda>data.
     bnd (lift (py_splat E [] data)) (\<lambda>kwargs.
     bnd (await_kit K (Call ''get_ticker_information'' [] kwargs)) (\<lambda>ticker_info.
     ret (PDict [(''ticker_information'', ticker_info), (''message'', PStr ''Success'')]))))"

definition BackpackGetTickerInformationTool_except :: "string \<Rightarrow> pyexc \<Rightarrow> pyval" where
  "BackpackGetTickerInformationTool_except input e =
     PDict [(''ticker_information'', PNone),
            (''message'', PStr (''Error fetching ticker information: '' @ str_of_exc e))]"

subsection \<open>BackpackGetMarketsTool\<close>

definition BackpackGetMarketsTool_try :: "env \<Rightarrow> kit \<Rightarrow> pyval comp" where
  "BackpackGetMarketsTool_try E K =
     bnd (await_kit K (Call ''get_markets'' [] [])) (\<lambda>markets.
     ret (PDict [(''markets'', markets), (''message'', PStr ''Success'')]))"

definition BackpackGetMarketsTool_except :: "pyexc \<Rightarrow> pyval" where
  "BackpackGetMarketsTool_except e =
     PDict [(''markets'', PNone),
            (''message'', PStr (''Error fetching markets: '' @ str_of_exc e))]"

subsection \<open>BackpackGetMarketTool\<close>

definition BackpackGetMarketTool_try :: "env \<Rightarrow> kit \<Rightarrow> string \<Rightarrow> pyval comp" where
  "BackpackGetMarketTool_try E K input =
     bnd (lift (json_loads E input)) (\<lambda>data.
     bnd (lift (py_splat E [] data)) (\<lambda>kwargs.
     bnd (await_kit K (Call ''get_market'' [] kwargs)) (\<lambda>market.
     ret (PDict [(''market'', market), (''message'', PStr ''Success'')]))))"

definition BackpackGetMarketTool_except :: "string \<Rightarrow> pyexc \<Rightarrow> pyval" where
  "BackpackGetMarketTool_except input e =
     PDict [(''market'', PNone),
            (''message'', PStr (''Error fetching market: '' @ str_of_exc e))]"

subsection \<open>BackpackGetTickersTool\<close>

definition BackpackGetTickersTool_try :: "env \<Rightarrow> kit \<Rightarrow> pyval comp" where
  "BackpackGetTickersTool_try E K =
     bnd (await_kit K (Call ''get_tickers'' [] [])) (\<lambda>tickers.
     ret (PDict [(''tickers'', tickers), (''message'', PStr ''Success'')]))"

definition BackpackGetTickersTool_except :: "pyexc \<Rightarrow> pyval" where
  "BackpackGetTickersTool_except e =
     PDict [(''tickers'', PNone),
            (''message'', PStr (''Error fetching tickers: '' @ str_of_exc e))]"

subsection \<open>BackpackGetDepthTool\<close>

definition BackpackGetDepthTool_schema :: schema where
  "BackpackGetDepthTool_schema =
     [(''symbol'', \<lparr>rtype = [T_str], required = True, rmin = None, rmax = None\<rparr>)]"

definition BackpackGetDepthTool_try :: "env \<Rightarrow> kit \<Rightarrow> string \<Rightarrow> pyval comp" where
  "BackpackGetDepthTool_try E K input =
     bnd (lift (json_loads E input)) (\<lambda>data.
     bnd (lift (validate_stmt E data BackpackGetDepthTool_schema)) (\<lambda>data.
     bnd (lift (py_getitem E data ''symbol'')) (\<lambda>symbol.
     bnd (await_kit K (Call ''get_depth'' [symbol] [])) (\<lambda>depth.
     ret (PDict [(''depth'', depth), (''message'', PStr ''Success'')])))))"

definition BackpackGetDepthTool_except :: "string \<Rightarrow> pyexc \<Rightarrow> pyval" where
  "BackpackGetDepthTool_except input e =
     PDict [(''depth'', PNone),
            (''message'', PStr (''Error fetching depth: '' @ str_of_exc e))]"

subsection \<open>BackpackGetKlinesTool\<close>

definition BackpackGetKlinesTool_schema :: schema where
  "BackpackGetKlinesTool_schema =
     [(''symbol'', \<lparr>rtype = [T_str], required = True, rmin = None, rmax = None\<rparr>),
      (''interval'', \<lparr>rtype = [T_str], required = True, rmin = None, rmax = None\<rparr>),
      (''start_time'', \<lparr>rtype = [T_int], required = True, rmin = None, rmax = None\<rparr>)]"

definition BackpackGetKlinesTool_try :: "env \<Rightarrow> kit \<Rightarrow> string \<Rightarrow> pyval comp" where
  "BackpackGetKlinesTool_try E K input =
     bnd (lift (json_loads E input)) (\<lambda>data.
     bnd (lift (validate_stmt E data BackpackGetKlinesTool_schema)) (\<lambda>data.
     bnd (lift (py_getitem E data ''symbol'')) (\<lambda>symbol.
     bnd (lift (py_getitem E data ''interval'')) (\<lambda>interval.
     bnd (lift (py_getitem E data ''start_time'')) (\<lambda>start_time.
     bnd (lift (py_get E data ''end_time'' PNone)) (\<lambda>end_time.
     bnd (await_kit K (Call ''get_klines'' [] [(''symbol'', symbol),
                                               (''interval'', interval),
                                               (''start_time'', start_time),
                                               (''end_time'', end_time)])) (\<lambda>klines.
     ret (PDict [(''klines'', klines), (''message'', PStr ''Success'')]))))))))"

definition BackpackGetKlinesTool_except :: "string \<Rightarrow> pyexc \<Rightarrow> pyval" where
  "BackpackGetKlinesTool_except input e =
     PDict [(''klines'', PNone),
            (''message'', PStr (''Error fetching K-Lines: '' @ str_of_exc e))]"

subsection \<open>BackpackGetMarkPriceTool\<close>

definition BackpackGetMarkPriceTool_schema :: schema where
  "BackpackGetMarkPriceTool_schema =
     [(''symbol'', \<lparr>rtype = [T_str], required = True, rmin = None, rmax = None\<rparr>)]"

definition BackpackGetMarkPriceTool_try :: "env \<Rightarrow> kit \<Rightarrow> string \<Rightarrow> pyval comp" where
  "BackpackGetMarkPriceTool_try E K input =
     bnd (lift (json_loads E input)) (\<lambda>data.
     bnd (lift (validate_stmt E data BackpackGetMarkPriceTool_schema)) (\<lambda>data.
     bnd (lift (py_getitem E data ''symbol'')) (\<lambda>symbol.
     bnd (await_kit K (Call ''get_mark_price'' [symbol] [])) (\<lambda>mark_price_data.
     ret (PDict [(''mark_price_data'', mark_price_data), (''message'', PStr ''Success'')])))))"

definition BackpackGetMarkPriceTool_except :: "string \<Rightarrow> pyexc \<Rightarrow> pyval" where
  "BackpackGetMarkPriceTool_except input e =
     PDict [(''mark_price_data'', PNone),
            (''message'', PStr (''Error fetching mark price: '' @ str_of_exc e))]"

subsection \<open>BackpackGetOpenInterestTool\<close>

definition BackpackGetOpenInterestTool_schema :: schema where
  "BackpackGetOpenInterestTool_schema =
     [(''symbol'', \<lparr>rtype = [T_str], required = True, rmin = None, rmax = None\<rparr>)]"

definition BackpackGetOpenInterestTool_try :: "env \<Rightarrow> kit \<Rightarrow> string \<Rightarrow> pyval comp" where
  "BackpackGetOpenInterestTool_try E K input =
     bnd (lift (json_loads E input)) (\<lambda>data.
     bnd (lift (validate_stmt E data BackpackGetOpenInterestTool_schema)) (\<lambda>data.
     bnd (lift (py_getitem E data ''symbol'')) (\<lambda>symbol.
     bnd (await_kit K (Call ''get_open_interest'' [symbol] [])) (\<lambda>open_interest.
     ret (PDict [(''open_interest'', open_interest), (''message'', PStr ''Success'')])))))"

definition BackpackGetOpenInterestTool_except :: "string \<Rightarrow> pyexc \<Rightarrow> pyval" where
  "BackpackGetOpenInterestTool_except input e =
     PDict [(''open_interest'', PNone),
            (''message'', PStr (''Error fetching open interest: '' @ str_of_exc e))]"

subsection \<open>BackpackGetFundingIntervalRatesTool\<close>

definition BackpackGetFundingIntervalRatesTool_schema :: schema where
  "BackpackGetFundingIntervalRatesTool_schema =
     [(''symbol'', \<lparr>rtype = [T_str], required = True, rmin = None, rmax = None\<rparr>),
      (''limit'', \<lparr>rtype = [T_int], required = False, rmin = None, rmax = None\<rparr>),
      (''offset'', \<lparr>rtype = [T_int], required = False, rmin = None, rmax = None\<rparr>)]"

definition BackpackGetFundingIntervalRatesTool_try :: "env \<Rightarrow> kit \<Rightarrow> string \<Rightarrow> pyval comp" where
  "BackpackGetFundingIntervalRatesTool_try E K input =
     bnd (lift (json_loads E input)) (\<lambda>data.
     bnd (lift (validate_stmt E data BackpackGetFundingIntervalRatesTool_schema)) (\<lambda>data.
     bnd (lift (py_getitem E data ''symbol'')) (\<lambda>symbol.
     bnd (lift (py_get E data ''limit'' (PInt 100))) (\<lambda>limit.
     bnd (lift (py_get E data ''offset'' (PInt 0))) (\<lambda>offset.
     bnd (await_kit K (Call ''get_funding_interval_rates'' [] [(''symbol'', symbol),
                                                               (''limit'', limit),
                                                               (''offset'', offset)])) (\<lambda>funding_rates.
     ret (PDict [(''funding_rates'', funding_rates), (''message'', PStr ''Success'')])))))))"

definition BackpackGetFundingIntervalRatesTool_except :: "string \<Rightarrow> pyexc \<Rightarrow> pyval" where
  "BackpackGetFundingIntervalRatesTool_except input e =
     PDict [(''funding_rates'', PNone),
            (''message'', PStr (''Error fetching funding interval rates: '' @ str_of_exc e))]"

subsection \<open>BackpackGetStatusTool\<close>

definition BackpackGetStatusTool_try :: "env \<Rightarrow> kit \<Rightarrow> pyval comp" where
  "BackpackGetStatusTool_try E K =
     bnd (await_kit K (Call ''get_status'' [] [])) (\<lambda>status.
     ret (PDict [(''status'', status), (''message'', PStr ''Success'')]))"

definition BackpackGetStatusTool_except :: "pyexc \<Rightarrow> pyval" where
  "BackpackGetStatusTool_except e =
     PDict [(''status'', PNone),
            (''message'', PStr (''Error fetching system status: '' @ str_of_exc e))]"

subsection \<open>BackpackSendPingTool\<close>

definition BackpackSendPingTool_try :: "env \<Rightarrow> kit \<Rightarrow> pyval comp" where
  "BackpackSendPingTool_try E K =
     bnd (await_kit K (Call ''send_ping'' [] [])) (\<lambda>response.
     ret (PDict [(''response'', response), (''message'', PStr ''Success'')]))"

definition BackpackSendPingTool_except :: "pyexc \<Rightarrow> pyval" where
  "BackpackSendPingTool_except e =
     PDict [(''response'', PNone),
            (''message'', PStr (''Error sending ping: '' @ str_of_exc e))]"

subsection \<open>BackpackGetSystemTimeTool\<close>

definition BackpackGetSystemTimeTool_try :: "env \<Rightarrow> kit \<Rightarrow> pyval comp" where
  "BackpackGetSystemTimeTool_try E K =
     bnd (await_kit K (Call ''get_system_time'' [] [])) (\<lambda>system_time.
     ret (PDict [(''system_time'', system_time), (''message'', PStr ''Success'')]))"

definition BackpackGetSystemTimeTool_except :: "pyexc \<Rightarrow> pyval" where
  "BackpackGetSystemTimeTool_except e =
     PDict [(''system_time'', PNone),
            (''message'', PStr (''Error fetching system time: '' @ str_of_exc e))]"

subsection \<open>BackpackGetRecentTradesTool\<close>

definition BackpackGetRecentTradesTool_schema :: schema where
  "BackpackGetRecentTradesTool_schema =
     [(''symbol'', \<lparr>rtype = [T_str], required = True, rmin = None, rmax = None\<rparr>),
      (''limit'', \<lparr>rtype = [T_int], required = False, rmin = None, rmax = None\<rparr>)]"

definition BackpackGetRecentTradesTool_try :: "env \<Rightarrow> kit \<Rightarrow> string \<Rightarrow> pyval comp" where
  "BackpackGetRecentTradesTool_try E K input =
     bnd (lift (json_loads E input)) (\<lambda>data.
     bnd (lift (validate_stmt E data BackpackGetRecentTradesTool_schema)) (\<lambda>data.
     bnd (lift (py_getitem E data ''symbol'')) (\<lambda>symbol.
     bnd (lift (py_get E data ''limit'' (PInt 100))) (\<lambda>limit.
     bnd (await_kit K (Call ''get_recent_trades'' [] [(''symbol'', symbol),
                                                      (''limit'', limit)])) (\<lambda>recent_trades.
     ret (PDict [(''recent_trades'', recent_trades), (''message'', PStr ''Success'')]))))))"

definition BackpackGetRecentTradesTool_except :: "string \<Rightarrow> pyexc \<Rightarrow> pyval" where
  "BackpackGetRecentTradesTool_except input e =
     PDict [(''recent_trades'', PNone),
            (''message'', PStr (''Error fetching recent trades: '' @ str_of_exc e))]"

subsection \<open>BackpackGetHistoricalTradesTool\<close>

definition BackpackGetHistoricalTradesTool_schema :: schema where
  "BackpackGetHistoricalTradesTool_schema =
     [(''symbol'', \<lparr>rtype = [T_str], required = True, rmin = None, rmax = None\<rparr>),
      (''limit'', \<lparr>rtype = [T_int], required = False, rmin = None, rmax = None\<rparr>),
      (''offset'', \<lparr>rtype = [T_int], required = False, rmin = None, rmax = None\<rparr>)]"

definition BackpackGetHistoricalTradesTool_try :: "env \<Rightarrow> kit \<Rightarrow> string \<Rightarrow> pyval comp" where
  "BackpackGetHistoricalTradesTool_try E K input =
     bnd (lift (json_loads E input)) (\<lambda>data.
     bnd (lift (validate_stmt E data BackpackGetHistoricalTradesTool_schema)) (\<lambda>data.
     bnd (lift (py_getitem E data ''symbol'')) (\<lambda>symbol.
     bnd (lift (py_get E data ''limit'' (PInt 100))) (\<lambda>limit.
     bnd (lift (py_get E data ''offset'' (PInt 0))) (\<lambda>offset.
     bnd (await_kit K (Call ''get_historical_trades'' [] [(''symbol'', symbol),
                                                          (''limit'', limit),
                                                          (''offset'', offset)])) (\<lambda>historical_trades.
     ret (PDict [(''historical_trades'', historical_trades),
                 (''message'', PStr ''Success'')])))))))"

definition BackpackGetHistoricalTradesTool_except :: "string \<Rightarrow> pyexc \<Rightarrow> pyval" where
  "BackpackGetHistoricalTradesTool_except input e =
     PDict [(''historical_trades'', PNone),
            (''message'', PStr (''Error fetching historical trades: '' @ str_of_exc e))]"

subsection \<open>BackpackGetCollateralInfoTool\<close>

definition BackpackGetCollateralInfoTool_schema :: schema where
  "BackpackGetCollateralInfoTool_schema =
     [(''sub_account_id'', \<lparr>rtype = [T_int], required = False, rmin = None, rmax = None\<rparr>)]"

definition BackpackGetCollateralInfoTool_try :: "env \<Rightarrow> kit \<Rightarrow> string \<Rightarrow> pyval comp" where
  "BackpackGetCollateralInfoTool_try E K input =
     bnd (lift (json_loads E input)) (\<lambda>data.
     bnd (lift (validate_stmt E data BackpackGetCollateralInfoTool_schema)) (\<lambda>data.
     bnd (lift (py_get E data ''sub_account_id'' PNone)) (\<lambda>sub_account_id.
     bnd (await_kit K (Call ''get_collateral_info'' [] [(''sub_account_id'', sub_account_id)])) (\<lambda>collateral_info.
     ret (PDict [(''collateral_info'', collateral_info), (''message'', PStr ''Success'')])))))"

definition BackpackGetCollateralInfoTool_except :: "string \<Rightarrow> pyexc \<Rightarrow> pyval" where
  "BackpackGetCollateralInfoTool_except input e =
     PDict [(''collateral_info'', PNone),
            (''message'', PStr (''Error fetching collateral information: '' @ str_of_exc e))]"

subsection \<open>BackpackGetAccountDepositsTool\<close>

definition BackpackGetAccountDepositsTool_schema :: schema where
  "BackpackGetAccountDepositsTool_schema =
     [(''sub_account_id'', \<lparr>rtype = [T_int], required = False, rmin = None, rmax = None\<rparr>)]"

definition BackpackGetAccountDepositsTool_try :: "env \<Rightarrow> kit \<Rightarrow> string \<Rightarrow> pyval comp" where
  "BackpackGetAccountDepositsTool_try E K input =
     bnd (lift (json_loads E input)) (\<lambda>data.
     bnd (lift (validate_stmt E data BackpackGetAccountDepositsTool_schema)) (\<lambda>data.
     bnd (lift (py_get E data ''sub_account_id'' PNone)) (\<lambda>sub_account_id.
     bnd (await_kit K (Call ''get_account_deposits'' [] [(''sub_account_id'', sub_account_id)])) (\<lambda>deposits.
     ret (PDict [(''deposits'', deposits), (''message'', PStr ''Success'')])))))"

definition BackpackGetAccountDepositsTool_except :: "string \<Rightarrow> pyexc \<Rightarrow> pyval" where
  "BackpackGetAccountDepositsTool_except input e =
     PDict [(''deposits'', PNone),
            (''message'', PStr (''Error fetching account deposits: '' @ str_of_exc e))]"

subsection \<open>BackpackGetOpenPositionsTool\<close>

definition BackpackGetOpenPositionsTool_try :: "env \<Rightarrow> kit \<Rightarrow> pyval comp" where
  "BackpackGetOpenPositionsTool_try E K =
     bnd (await_kit K (Call ''get_open_positions'' [] [])) (\<lambda>open_positions.
     ret (PDict [(''open_positions'', open_positions), (''message'', PStr ''Success'')]))"

definition BackpackGetOpenPositionsTool_except :: "pyexc \<Rightarrow> pyval" where
  "BackpackGetOpenPositionsTool_except e =
     PDict [(''open_positions'', PNone),
            (''message'', PStr (''Error fetching open positions: '' @ str_of_exc e))]"

subsection \<open>BackpackGetBorrowHistoryTool\<close>

definition BackpackGetBorrowHistoryTool_try :: "env \<Rightarrow> kit \<Rightarrow> string \<Rightarrow> pyval comp" where
  "BackpackGetBorrowHistoryTool_try E K input =
     bnd (lift (json_loads E input)) (\<lambda>data.
     bnd (lift (py_splat E [] data)) (\<lambda>kwargs.
     bnd (await_kit K (Call ''get_borrow_history'' [] kwargs)) (\<lambda>borrow_history.
     ret (PDict [(''borrow_history'', borrow_history), (''message'', PStr ''Success'')]))))"

definition BackpackGetBorrowHistoryTool_except :: "string \<Rightarrow> pyexc \<Rightarrow> pyval" where
  "BackpackGetBorrowHistoryTool_except input e =
     PDict [(''borrow_history'', PNone),
            (''message'', PStr (''Error fetching borrow history: '' @ str_of_exc e))]"

subsection \<open>BackpackGetInterestHistoryTool\<close>

definition BackpackGetInterestHistoryTool_try :: "env \<Rightarrow> kit \<Rightarrow> string \<Rightarrow> pyval comp" where
  "BackpackGetInterestHistoryTool_try E K input =
     bnd (lift (json_loads E input)) (\<lambda>data.
     bnd (lift (py_splat E [] data)) (\<lambda>kwargs.
     bnd (await_kit K (Call ''get_interest_history'' [] kwargs)) (\<lambda>interest_history.
     ret (PDict [(''interest_history'', interest_history), (''message'', PStr ''Success'')]))))"

definition BackpackGetInterestHistoryTool_except :: "string \<Rightarrow> pyexc \<Rightarrow> pyval" where
  "BackpackGetInterestHistoryTool_except input e =
     PDict [(''interest_history'', PNone),
            (''message'', PStr (''Error fetching interest history: '' @ str_of_exc e))]"

subsection \<open>ClosePerpTradeShortTool\<close>

definition ClosePerpTradeShortTool_schema :: schema where
  "ClosePerpTradeShortTool_schema =
     [(''price'', \<lparr>rtype = [T_float], required = True, rmin = None, rmax = None\<rparr>),
      (''trade_mint'', \<lparr>rtype = [T_str], required = True, rmin = None, rmax = None\<rparr>)]"

definition ClosePerpTradeShortTool_try :: "env \<Rightarrow> kit \<Rightarrow> string \<Rightarrow> pyval comp" where
  "ClosePerpTradeShortTool_try E K input =
     bnd (lift (json_loads E input)) (\<lambda>data.
     bnd (lift (validate_stmt E data ClosePerpTradeShortTool_schema)) (\<lambda>data.
     bnd (lift (py_getitem E data ''price'')) (\<lambda>price.
     bnd (lift (py_getitem E data ''trade_mint'')) (\<lambda>trade_mint.
     bnd (await_kit K (Call ''close_perp_trade_short'' [] [(''price'', price),
                                                           (''trade_mint'', trade_mint)])) (\<lambda>transaction.
     ret (PDict [(''transaction'', transaction), (''message'', PStr ''Success'')]))))))"

definition ClosePerpTradeShortTool_except :: "string \<Rightarrow> pyexc \<Rightarrow> pyval" where
  "ClosePerpTradeShortTool_except input e =
     PDict [(''transaction'', PNone),
            (''message'', PStr (''Error closing perp short trade: '' @ str_of_exc e))]"

subsection \<open>ClosePerpTradeLongTool\<close>

definition ClosePerpTradeLongTool_schema :: schema where
  "ClosePerpTradeLongTool_schema =
     [(''price'', \<lparr>rtype = [T_float], required = True, rmin = None, rmax = None\<rparr>),
      (''trade_mint'', \<lparr>rtype = [T_str], required = True, rmin = None, rmax = None\<rparr>)]"

definition ClosePerpTradeLongTool_try :: "env \<Rightarrow> kit \<Rightarrow> string \<Rightarrow> pyval comp" where
  "ClosePerpTradeLongTool_try E K input =
     bnd (lift (json_loads E input)) (\<lambda>data.
     bnd (lift (validate_stmt E data ClosePerpTradeLongTool_schema)) (\<lambda>data.
     bnd (lift (py_getitem E data ''price'')) (\<lambda>price.
     bnd (lift (py_getitem E data ''trade_mint'')) (\<lambda>trade_mint.
     bnd (await_kit K (Call ''close_perp_trade_long'' [] [(''price'', price),
                                                          (''trade_mint'', trade_mint)])) (\<lambda>transaction.
     ret (PDict [(''transaction'', transaction), (''message'', PStr ''Success'')]))))))"

definition ClosePerpTradeLongTool_except :: "string \<Rightarrow> pyexc \<Rightarrow> pyval" where
  "ClosePerpTradeLongTool_except input e =
     PDict [(''transaction'', PNone),
            (''message'', PStr (''Error closing perp long trade: '' @ str_of_exc e))]"

subsection \<open>OpenPerpTradeLongTool\<close>

definition OpenPerpTradeLongTool_schema :: schema where
  "OpenPerpTradeLongTool_schema =
     [(''price'', \<lparr>rtype = [T_float], required = True, rmin = None, rmax = None\<rparr>),
      (''collateral_amount'', \<lparr>rtype = [T_float], required = True, rmin = None, rmax = None\<rparr>),
      (''collateral_mint'', \<lparr>rtype = [T_str], required = False, rmin = None, rmax = None\<rparr>),
      (''leverage'', \<lparr>rtype = [T_float], required = False, rmin = None, rmax = None\<rparr>),
      (''trade_mint'', \<lparr>rtype = [T_str], required = False, rmin = None, rmax = None\<rparr>),
      (''slippage'', \<lparr>rtype = [T_float], required = False, rmin = None, rmax = None\<rparr>)]"

definition OpenPerpTradeLongTool_try :: "env \<Rightarrow> kit \<Rightarrow> string \<Rightarrow> pyval comp" where
  "OpenPerpTradeLongTool_try E K input =
     bnd (lift (json_loads E input)) (\<lambda>data.
     bnd (lift (validate_stmt E data OpenPerpTradeLongTool_schema)) (\<lambda>data.
     bnd (lift (py_getitem E data ''price'')) (\<lambda>price.
     bnd (lift (py_getitem E data ''collateral_amount'')) (\<lambda>collateral_amount.
     bnd (lift (py_get E data ''collateral_mint'' PNone)) (\<lambda>collateral_mint.
     bnd (lift (py_get E data ''leverage'' PNone)) (\<lambda>leverage.
     bnd (lift (py_get E data ''trade_mint'' PNone)) (\<lambda>trade_mint.
     bnd (lift (py_get E data ''slippage'' PNone)) (\<lambda>slippage.
     bnd (await_kit K (Call ''open_perp_trade_long'' [] [(''price'', price),
                                                         (''collateral_amount'', collateral_amount),
                                                         (''collateral_mint'', collateral_mint),
                                                         (''leverage'', leverage),
                                                         (''trade_mint'', trade_mint),
                                                         (''slippage'', slippage)])) (\<lambda>transaction.
     ret (PDict [(''transaction'', transaction), (''message'', PStr ''Success'')]))))))))))"

definition OpenPerpTradeLongTool_except :: "string \<Rightarrow> pyexc \<Rightarrow> pyval" where
  "OpenPerpTradeLongTool_except input e =
     PDict [(''transaction'', PNone),
            (''message'', PStr (''Error opening perp long trade: '' @ str_of_exc e))]"

subsection \<open>OpenPerpTradeShortTool\<close>

definition OpenPerpTradeShortTool_schema :: schema where
  "OpenPerpTradeShortTool_schema =
     [(''price'', \<lparr>rtype = [T_float], required = True, rmin = None, rmax = None\<rparr>),
      (''collateral_amount'', \<lparr>rtype = [T_float], required = True, rmin = None, rmax = None\<rparr>),
      (''collateral_mint'', \<lparr>rtype = [T_str], required = False, rmin = None, rmax = None\<rparr>),
      (''leverage'', \<lparr>rtype = [T_float], required = False, rmin = None, rmax = None\<rparr>),
      (''trade_mint'', \<lparr>rtype = [T_str], required = False, rmin = None, rmax = None\<rparr>),
      (''slippage'', \<lparr>rtype = [T_float], required = False, rmin = None, rmax = None\<rparr>)]"

definition OpenPerpTradeShortTool_try :: "env \<Rightarrow> kit \<Rightarrow> string \<Rightarrow> pyval comp" where
  "OpenPerpTradeShortTool_try E K input =
     bnd (lift (json_loads E input)) (\<lambda>data.
     bnd (lift (validate_stmt E data OpenPerpTradeShortTool_schema)) (\<lambda>data.
     bnd (lift (py_getitem E data ''price'')) (\<lambda>price.
     bnd (lift (py_getitem E data ''collateral_amount'')) (\<lambda>collateral_amount.
     bnd (lift (py_get E data ''collateral_mint'' PNone)) (\<lambda>collateral_mint.
     bnd (lift (py_get E data ''leverage'' PNone)) (\<lambda>leverage.
     bnd (lift (py_get E data ''trade_mint'' PNone)) (\<lambda>trade_mint.
     bnd (lift (py_get E data ''slippage'' PNone)) (\<lambda>slippage.
     bnd (await_kit K (Call ''open_perp_trade_short'' [] [(''price'', price),
                                                          (''collateral_amount'', collateral_amount),
                                                          (''collateral_mint'', collateral_mint),
                                                          (''leverage'', leverage),
                                                          (''trade_mint'', trade_mint),
                                                          (''slippage'', slippage)])) (\<lambda>transaction.
     ret (PDict [(''transaction'', transaction), (''message'', PStr ''Success'')]))))))))))"

definition OpenPerpTradeShortTool_except :: "string \<Rightarrow> pyexc \<Rightarrow> pyval" where
  "OpenPerpTradeShortTool_except input e =
     PDict [(''transaction'', PNone),
            (''message'', PStr (''Error opening perp short trade: '' @ str_of_exc e))]"

subsection \<open>Create3LandCollectionTool\<close>

definition Create3LandCollectionTool_schema :: schema where
  "Create3LandCollectionTool_schema =
     [(''collection_symbol'', \<lparr>rtype = [T_str], required = True, rmin = None, rmax = None\<rparr>),
      (''collection_name'', \<lparr>rtype = [T_str], required = True, rmin = None, rmax = None\<rparr>),
      (''collection_description'', \<lparr>rtype = [T_str], required = True, rmin = None, rmax = None\<rparr>),
      (''main_image_url'', \<lparr>rtype = [T_str], required = False, rmin = None, rmax = None\<rparr>),
      (''cover_image_url'', \<lparr>rtype = [T_str], required = False, rmin = None, rmax = None\<rparr>),
      (''is_devnet'', \<lparr>rtype = [T_bool], required = False, rmin = None, rmax = None\<rparr>)]"

definition Create3LandCollectionTool_try :: "env \<Rightarrow> kit \<Rightarrow> string \<Rightarrow> pyval comp" where
  "Create3LandCollectionTool_try E K input =
     bnd (lift (json_loads E input)) (\<lambda>data.
     bnd (lift (validate_stmt E data Create3LandCollectionTool_schema)) (\<lambda>data.
     bnd (lift (py_getitem E data ''collection_symbol'')) (\<lambda>collection_symbol.
     bnd (lift (py_getitem E data ''collection_name'')) (\<lambda>collection_name.
     bnd (lift (py_getitem E data ''collection_description'')) (\<lambda>collection_description.
     bnd (lift (py_get E data ''main_image_url'' PNone)) (\<lambda>main_image_url.
     bnd (lift (py_get E data ''cover_image_url'' PNone)) (\<lambda>cover_image_url.
     bnd (lift (py_get E data ''is_devnet'' (PBool False))) (\<lambda>is_devnet.
     bnd (await_kit K (Call ''create_3land_collection'' [] [(''collection_symbol'', collection_symbol),
                                                            (''collection_name'', collection_name),
                                                            (''collection_description'', collection_description),
                                                            (''main_image_url'', main_image_url),
                                                            (''cover_image_url'', cover_image_url),
                                                            (''is_devnet'', is_devnet)])) (\<lambda>transaction.
     ret (PDict [(''transaction'', transaction), (''message'', PStr ''Success'')]))))))))))"

definition Create3LandCollectionTool_except :: "string \<Rightarrow> pyexc \<Rightarrow> pyval" where
  "Create3LandCollectionTool_except input e =
     PDict [(''transaction'', PNone),
            (''message'', PStr (''Error creating 3land collection: '' @ str_of_exc e))]"

subsection \<open>Create3LandNFTTool\<close>

definition Create3LandNFTTool_schema :: schema where
  "Create3LandNFTTool_schema =
     [(''item_name'', \<lparr>rtype = [T_str], required = True, rmin = None, rmax = None\<rparr>),
      (''seller_fee'', \<lparr>rtype = [T_float], required = True, rmin = None, rmax = None\<rparr>),
      (''item_amount'', \<lparr>rtype = [T_int], required = True, rmin = None, rmax = None\<rparr>),
      (''item_symbol'', \<lparr>rtype = [T_str], required = True, rmin = None, rmax = None\<rparr>),
      (''item_description'', \<lparr>rtype = [T_str], required = True, rmin = None, rmax = None\<rparr>),
      (''traits'', \<lparr>rtype = [T_str], required = True, rmin = None, rmax = None\<rparr>),
      (''price'', \<lparr>rtype = [T_float], required = False, rmin = None, rmax = None\<rparr>),
      (''main_image_url'', \<lparr>rtype = [T_str], required = False, rmin = None, rmax = None\<rparr>),
      (''cover_image_url'', \<lparr>rtype = [T_str], required = False, rmin = None, rmax = None\<rparr>),
      (''spl_hash'', \<lparr>rtype = [T_str], required = False, rmin = None, rmax = None\<rparr>),
      (''pool_name'', \<lparr>rtype = [T_str], required = False, rmin = None, rmax = None\<rparr>),
      (''is_devnet'', \<lparr>rtype = [T_bool], required = False, rmin = None, rmax = None\<rparr>),
      (''with_pool'', \<lparr>rtype = [T_bool], required = False, rmin = None, rmax = None\<rparr>)]"

definition Create3LandNFTTool_try :: "env \<Rightarrow> kit \<Rightarrow> string \<Rightarrow> pyval comp" where
  "Create3LandNFTTool_try E K input =
     bnd (lift (json_loads E input)) (\<lambda>data.
     bnd (lift (validate_stmt E data Create3LandNFTTool_schema)) (\<lambda>data.
     bnd (lift (py_getitem E data ''item_name'')) (\<lambda>item_name.
     bnd (lift (py_getitem E data ''seller_fee'')) (\<lambda>seller_fee.
     bnd (lift (py_getitem E data ''item_amount'')) (\<lambda>item_amount.
     bnd (lift (py_getitem E data ''item_symbol'')) (\<lambda>item_symbol.
     bnd (lift (py_getitem E data ''item_description'')) (\<lambda>item_description.
     bnd (lift (py_getitem E data ''traits'')) (\<lambda>traits.
     bnd (lift (py_get E data ''price'' PNone)) (\<lambda>price.
     bnd (lift (py_get E data ''main_image_url'' PNone)) (\<lambda>main_image_url.
     bnd (lift (py_get E data ''cover_image_url'' PNone)) (\<lambda>cover_image_url.
     bnd (lift (py_get E data ''spl_hash'' PNone)) (\<lambda>spl_hash.
     bnd (lift (py_get E data ''pool_name'' PNone)) (\<lambda>pool_name.
     bnd (lift (py_get E data ''is_devnet'' (PBool False))) (\<lambda>is_devnet.
     bnd (lift (py_get E data ''with_pool'' (PBool False))) (\<lambda>with_pool.
     bnd (await_kit K (Call ''create_3land_nft'' [] [(''item_name'', item_name),
                                                     (''seller_fee'', seller_fee),
                                                     (''item_amount'', item_amount),
                                                     (''item_symbol'', item_symbol),
                                                     (''item_description'', item_description),
                                                     (''traits'', traits),
                                                     (''price'', price),
                                                     (''main_image_url'', main_image_url),
                                                     (''cover_image_url'', cover_image_url),
                                                     (''spl_hash'', spl_hash),
                                                     (''pool_name'', pool_name),
                                                     (''is_devnet'', is_devnet),
                                                     (''with_pool'', with_pool)])) (\<lambda>transaction.
     ret (PDict [(''transaction'', transaction),
                 (''message'', PStr ''Success'')])))))))))))))))))"

definition Create3LandNFTTool_except :: "string \<Rightarrow> pyexc \<Rightarrow> pyval" where
  "Create3LandNFTTool_except input e =
     PDict [(''transaction'', PNone),
            (''message'', PStr (''Error creating 3land NFT: '' @ str_of_exc e))]"

subsection \<open>CreateDriftUserAccountTool\<close>

definition CreateDriftUserAccountTool_schema :: schema where
  "CreateDriftUserAccountTool_schema =
     [(''deposit_amount'', \<lparr>rtype = [T_float], required = True, rmin = None, rmax = None\<rparr>),
      (''deposit_symbol'', \<lparr>rtype = [T_str], required = True, rmin = None, rmax = None\<rparr>)]"

definition CreateDriftUserAccountTool_try :: "env \<Rightarrow> kit \<Rightarrow> string \<Rightarrow> pyval comp" where
  "CreateDriftUserAccountTool_try E K input =
     bnd (lift (json_loads E input)) (\<lambda>data.
     bnd (lift (validate_stmt E data CreateDriftUserAccountTool_schema)) (\<lambda>data.
     bnd (lift (py_getitem E data ''deposit_amount'')) (\<lambda>deposit_amount.
     bnd (lift (py_getitem E data ''deposit_symbol'')) (\<lambda>deposit_symbol.
     bnd (await_kit K (Call ''create_drift_user_account'' [] [(''deposit_amount'', deposit_amount),
                                                              (''deposit_symbol'', deposit_symbol)])) (\<lambda>transaction.
     ret (PDict [(''transaction'', transaction), (''message'', PStr ''Success'')]))))))"

definition CreateDriftUserAccountTool_except :: "string \<Rightarrow> pyexc \<Rightarrow> pyval" where
  "CreateDriftUserAccountTool_except input e =
     PDict [(''transaction'', PNone),
            (''message'', PStr (''Error creating Drift user account: '' @ str_of_exc e))]"

subsection \<open>DepositToDriftUserAccountTool\<close>

definition DepositToDriftUserAccountTool_schema :: schema where
  "DepositToDriftUserAccountTool_schema =
     [(''amount'', \<lparr>rtype = [T_float], required = True, rmin = None, rmax = None\<rparr>),
      (''symbol'', \<lparr>rtype = [T_str], required = True, rmin = None, rmax = None\<rparr>),
      (''is_repayment'', \<lparr>rtype = [T_bool], required = False, rmin = None, rmax = None\<rparr>)]"

definition DepositToDriftUserAccountTool_try :: "env \<Rightarrow> kit \<Rightarrow> string \<Rightarrow> pyval comp" where
  "DepositToDriftUserAccountTool_try E K input =
     bnd (lift (json_loads E input)) (\<lambda>data.
     bnd (lift (validate_stmt E data DepositToDriftUserAccountTool_schema)) (\<lambda>data.
     bnd (lift (py_getitem E data ''amount'')) (\<lambda>amount.
     bnd (lift (py_getitem E data ''symbol'')) (\<lambda>symbol.
     bnd (lift (py_get E data ''is_repayment'' PNone)) (\<lambda>is_repayment.
     bnd (await_kit K (Call ''deposit_to_drift_user_account'' [] [(''amount'', amount),
                                                                  (''symbol'', symbol),
                                                                  (''is_repayment'', is_repayment)])) (\<lambda>transaction.
     ret (PDict [(''transaction'', transaction), (''message'', PStr ''Success'')])))))))"

definition DepositToDriftUserAccountTool_except :: "string \<Rightarrow> pyexc \<Rightarrow> pyval" where
  "DepositToDriftUserAccountTool_except input e =
     PDict [(''transaction'', PNone),
            (''message'', PStr (''Error depositing to Drift user account: '' @ str_of_exc e))]"

subsection \<open>WithdrawFromDriftUserAccountTool\<close>

definition WithdrawFromDriftUserAccountTool_schema :: schema where
  "WithdrawFromDriftUserAccountTool_schema =
     [(''amount'', \<lparr>rtype = [T_float], required = True, rmin = None, rmax = None\<rparr>),
      (''symbol'', \<lparr>rtype = [T_str], required = True, rmin = None, rmax = None\<rparr>),
      (''is_borrow'', \<lparr>rtype = [T_bool], required = False, rmin = None, rmax = None\<rparr>)]"

definition WithdrawFromDriftUserAccountTool_try :: "env \<Rightarrow> kit \<Rightarrow> string \<Rightarrow> pyval comp" where
  "WithdrawFromDriftUserAccountTool_try E K input =
     bnd (lift (json_loads E input)) (\<lambda>data.
     bnd (lift (validate_stmt E data WithdrawFromDriftUserAccountTool_schema)) (\<lambda>data.
     bnd (lift (py_getitem E data ''amount'')) (\<lambda>amount.
     bnd (lift (py_getitem E data ''symbol'')) (\<lambda>symbol.
     bnd (lift (py_get E data ''is_borrow'' PNone)) (\<lambda>is_borrow.
     bnd (await_kit K (Call ''withdraw_from_drift_user_account'' [] [(''amount'', amount),
                                                                     (''symbol'', symbol),
                                                                     (''is_borrow'', is_borrow)])) (\<lambda>transaction.
     ret (PDict [(''transaction'', transaction), (''message'', PStr ''Success'')])))))))"

definition WithdrawFromDriftUserAccountTool_except :: "string \<Rightarrow> pyexc \<Rightarrow> pyval" where
  "WithdrawFromDriftUserAccountTool_except input e =
     PDict [(''transaction'', PNone),
            (''message'', PStr (''Error withdrawing from Drift user account: '' @ str_of_exc e))]"

subsection \<open>TradeUsingDriftPerpAccountTool\<close>

definition TradeUsingDriftPerpAccountTool_schema :: schema where
  "TradeUsingDriftPerpAccountTool_schema =
     [(''amount'', \<lparr>rtype = [T_float], required = True, rmin = None, rmax = None\<rparr>),
      (''symbol'', \<lparr>rtype = [T_str], required = True, rmin = None, rmax = None\<rparr>),
      (''action'', \<lparr>rtype = [T_str], required = True, rmin = None, rmax = None\<rparr>),
      (''trade_type'', \<lparr>rtype = [T_str], required = True, rmin = None, rmax = None\<rparr>),
      (''price'', \<lparr>rtype = [T_float], required = False, rmin = None, rmax = None\<rparr>)]"

definition TradeUsingDriftPerpAccountTool_try :: "env \<Rightarrow> kit \<Rightarrow> string \<Rightarrow> pyval comp" where
  "TradeUsingDriftPerpAccountTool_try E K input =
     bnd (lift (json_loads E input)) (\<lambda>data.
     bnd (lift (validate_stmt E data TradeUsingDriftPerpAccountTool_schema)) (\<lambda>data.
     bnd (lift (py_getitem E data ''amount'')) (\<lambda>amount.
     bnd (lift (py_getitem E data ''symbol'')) (\<lambda>symbol.
     bnd (lift (py_getitem E data ''action'')) (\<lambda>action.
     bnd (lift (py_getitem E data ''trade_type'')) (\<lambda>trade_type.
     bnd (lift (py_get E data ''price'' PNone)) (\<lambda>price.
     bnd (await_kit K (Call ''trade_using_drift_perp_account'' [] [(''amount'', amount),
                                                                   (''symbol'', symbol),
                                                                   (''action'', action),
                                                                   (''trade_type'', trade_type),
                                                                   (''price'', price)])) (\<lambda>transaction.
     ret (PDict [(''transaction'', transaction), (''message'', PStr ''Success'')])))))))))"

definition TradeUsingDriftPerpAccountTool_except :: "string \<Rightarrow> pyexc \<Rightarrow> pyval" where
  "TradeUsingDriftPerpAccountTool_except input e =
     PDict [(''transaction'', PNone),
            (''message'', PStr (''Error trading using Drift perp account: '' @ str_of_exc e))]"

subsection \<open>CheckIfDriftAccountExistsTool\<close>

definition CheckIfDriftAccountExistsTool_try :: "env \<Rightarrow> kit \<Rightarrow> pyval comp" where
  "CheckIfDriftAccountExistsTool_try E K =
     bnd (await_kit K (Call ''check_if_drift_account_exists'' [] [])) (\<lambda>exists.
     ret (PDict [(''exists'', exists), (''message'', PStr ''Success'')]))"

definition CheckIfDriftAccountExistsTool_except :: "pyexc \<Rightarrow> pyval" where
  "CheckIfDriftAccountExistsTool_except e =
     PDict [(''exists'', PNone),
            (''message'', PStr (''Error checking Drift account existence: '' @ str_of_exc e))]"

subsection \<open>DriftUserAccountInfoTool\<close>

definition DriftUserAccountInfoTool_try :: "env \<Rightarrow> kit \<Rightarrow> pyval comp" where
  "DriftUserAccountInfoTool_try E K =
     bnd (await_kit K (Call ''drift_user_account_info'' [] [])) (\<lambda>account_info.
     ret (PDict [(''account_info'', account_info), (''message'', PStr ''Success'')]))"

definition DriftUserAccountInfoTool_except :: "pyexc \<Rightarrow> pyval" where
  "DriftUserAccountInfoTool_except e =
     PDict [(''account_info'', PNone),
            (''message'', PStr (''Error fetching Drift user account info: '' @ str_of_exc e))]"

subsection \<open>GetAvailableDriftMarketsTool\<close>

definition GetAvailableDriftMarketsTool_try :: "env \<Rightarrow> kit \<Rightarrow> pyval comp" where
  "GetAvailableDriftMarketsTool_try E K =
     bnd (await_kit K (Call ''get_available_drift_markets'' [] [])) (\<lambda>markets.
     ret (PDict [(''markets'', markets), (''message'', PStr ''Success'')]))"

definition GetAvailableDriftMarketsTool_except :: "pyexc \<Rightarrow> pyval" where
  "GetAvailableDriftMarketsTool_except e =
     PDict [(''markets'', PNone),
            (''message'', PStr (''Error fetching available Drift markets: '' @ str_of_exc e))]"

subsection \<open>StakeToDriftInsuranceFundTool\<close>

definition StakeToDriftInsuranceFundTool_schema :: schema where
  "StakeToDriftInsuranceFundTool_schema =
     [(''amount'', \<lparr>rtype = [T_float], required = True, rmin = None, rmax = None\<rparr>),
      (''symbol'', \<lparr>rtype = [T_str], required = True, rmin = None, rmax = None\<rparr>)]"

definition StakeToDriftInsuranceFundTool_try :: "env \<Rightarrow> kit \<Rightarrow> string \<Rightarrow> pyval comp" where
  "StakeToDriftInsuranceFundTool_try E K input =
     bnd (lift (json_loads E input)) (\<lambda>data.
     bnd (lift (validate_stmt E data StakeToDriftInsuranceFundTool_schema)) (\<lambda>data.
     bnd (lift (py_getitem E data ''amount'')) (\<lambda>amount.
     bnd (lift (py_getitem E data ''symbol'')) (\<lambda>symbol.
     bnd (await_kit K (Call ''stake_to_drift_insurance_fund'' [] [(''amount'', amount),
                                                                  (''symbol'', symbol)])) (\<lambda>transaction.
     ret (PDict [(''transaction'', transaction), (''message'', PStr ''Success'')]))))))"

definition StakeToDriftInsuranceFundTool_except :: "string \<Rightarrow> pyexc \<Rightarrow> pyval" where
  "StakeToDriftInsuranceFundTool_except input e =
     PDict [(''transaction'', PNone),
            (''message'', PStr (''Error staking to Drift insurance fund: '' @ str_of_exc e))]"

subsection \<open>RequestUnstakeFromDriftInsuranceFundTool\<close>

definition RequestUnstakeFromDriftInsuranceFundTool_schema :: schema where
  "RequestUnstakeFromDriftInsuranceFundTool_schema =
     [(''amount'', \<lparr>rtype = [T_float], required = True, rmin = None, rmax = None\<rparr>),
      (''symbol'', \<lparr>rtype = [T_str], required = True, rmin = None, rmax = None\<rparr>)]"

definition RequestUnstakeFromDriftInsuranceFundTool_try :: "env \<Rightarrow> kit \<Rightarrow> string \<Rightarrow> pyval comp" where
  "RequestUnstakeFromDriftInsuranceFundTool_try E K input =
     bnd (lift (json_loads E input)) (\<lambda>data.
     bnd (lift (validate_stmt E data RequestUnstakeFromDriftInsuranceFundTool_schema)) (\<lambda>data.
     bnd (lift (py_getitem E data ''amount'')) (\<lambda>amount.
     bnd (lift (py_getitem E data ''symbol'')) (\<lambda>symbol.
     bnd (await_kit K (Call ''request_unstake_from_drift_insurance_fund'' [] [(''amount'', amount),
                                                                              (''symbol'', symbol)])) (\<lambda>transaction.
     ret (PDict [(''transaction'', transaction), (''message'', PStr ''Success'')]))))))"

definition RequestUnstakeFromDriftInsuranceFundTool_except :: "string \<Rightarrow> pyexc \<Rightarrow> pyval" where
  "RequestUnstakeFromDriftInsuranceFundTool_except input e =
     PDict [(''transaction'', PNone),
            (''message'', PStr (''Error requesting unstake from Drift insurance fund: '' @ str_of_exc e))]"

subsection \<open>UnstakeFromDriftInsuranceFundTool\<close>

definition UnstakeFromDriftInsuranceFundTool_schema :: schema where
  "UnstakeFromDriftInsuranceFundTool_schema =
     [(''symbol'', \<lparr>rtype = [T_str], required = True, rmin = None, rmax = None\<rparr>)]"

definition UnstakeFromDriftInsuranceFundTool_try :: "env \<Rightarrow> kit \<Rightarrow> string \<Rightarrow> pyval comp" where
  "UnstakeFromDriftInsuranceFundTool_try E K input =
     bnd (lift (json_loads E input)) (\<lambda>data.
     bnd (lift (validate_stmt E data UnstakeFromDriftInsuranceFundTool_schema)) (\<lambda>data.
     bnd (lift (py_getitem E data ''symbol'')) (\<lambda>symbol.
     bnd (await_kit K (Call ''unstake_from_drift_insurance_fund'' [] [(''symbol'', symbol)])) (\<lambda>transaction.
     ret (PDict [(''transaction'', transaction), (''message'', PStr ''Success'')])))))"

definition UnstakeFromDriftInsuranceFundTool_except :: "string \<Rightarrow> pyexc \<Rightarrow> pyval" where
  "UnstakeFromDriftInsuranceFundTool_except input e =
     PDict [(''transaction'', PNone),
            (''message'', PStr (''Error unstaking from Drift insurance fund: '' @ str_of_exc e))]"

subsection \<open>DriftSwapSpotTokenTool\<close>

definition DriftSwapSpotTokenTool_schema :: schema where
  "DriftSwapSpotTokenTool_schema =
     [(''from_symbol'', \<lparr>rtype = [T_str], required = True, rmin = None, rmax = None\<rparr>),
      (''to_symbol'', \<lparr>rtype = [T_str], required = True, rmin = None, rmax = None\<rparr>),
      (''slippage'', \<lparr>rtype = [T_float], required = False, rmin = None, rmax = None\<rparr>),
      (''to_amount'', \<lparr>rtype = [T_float], required = False, rmin = None, rmax = None\<rparr>),
      (''from_amount'', \<lparr>rtype = [T_float], required = False, rmin = None, rmax = None\<rparr>)]"

definition DriftSwapSpotTokenTool_try :: "env \<Rightarrow> kit \<Rightarrow> string \<Rightarrow> pyval comp" where
  "DriftSwapSpotTokenTool_try E K input =
     bnd (lift (json_loads E input)) (\<lambda>data.
     bnd (lift (validate_stmt E data DriftSwapSpotTokenTool_schema)) (\<lambda>data.
     bnd (lift (py_getitem E data ''from_symbol'')) (\<lambda>from_symbol.
     bnd (lift (py_getitem E data ''to_symbol'')) (\<lambda>to_symbol.
     bnd (lift (py_get E data ''slippage'' PNone)) (\<lambda>slippage.
     bnd (lift (py_get E data ''to_amount'' PNone)) (\<lambda>to_amount.
     bnd (lift (py_get E data ''from_amount'' PNone)) (\<lambda>from_amount.
     bnd (await_kit K (Call ''drift_swap_spot_token'' [] [(''from_symbol'', from_symbol),
                                                          (''to_symbol'', to_symbol),
                                                          (''slippage'', slippage),
                                                          (''to_amount'', to_amount),
                                                          (''from_amount'', from_amount)])) (\<lambda>transaction.
     ret (PDict [(''transaction'', transaction), (''message'', PStr ''Success'')])))))))))"

definition DriftSwapSpotTokenTool_except :: "string \<Rightarrow> pyexc \<Rightarrow> pyval" where
  "DriftSwapSpotTokenTool_except input e =
     PDict [(''transaction'', PNone),
            (''message'', PStr (''Error swapping spot token on Drift: '' @ str_of_exc e))]"

subsection \<open>GetDriftPerpMarketFundingRateTool\<close>

definition GetDriftPerpMarketFundingRateTool_schema :: schema where
  "GetDriftPerpMarketFundingRateTool_schema =
     [(''symbol'', \<lparr>rtype = [T_str], required = True, rmin = None, rmax = None\<rparr>),
      (''period'', \<lparr>rtype = [T_str], required = False, rmin = None, rmax = None\<rparr>)]"

definition GetDriftPerpMarketFundingRateTool_try :: "env \<Rightarrow> kit \<Rightarrow> string \<Rightarrow> pyval comp" where
  "GetDriftPerpMarketFundingRateTool_try E K input =
     bnd (lift (json_loads E input)) (\<lambda>data.
     bnd (lift (validate_stmt E data GetDriftPerpMarketFundingRateTool_schema)) (\<lambda>data.
     bnd (lift (py_getitem E data ''symbol'')) (\<lambda>symbol.
     bnd (lift (py_get E data ''period'' (PStr ''year''))) (\<lambda>period.
     bnd (await_kit K (Call ''get_drift_perp_market_funding_rate'' [] [(''symbol'', symbol),
                                                                       (''period'', period)])) (\<lambda>funding_rate.
     ret (PDict [(''funding_rate'', funding_rate), (''message'', PStr ''Success'')]))))))"

definition GetDriftPerpMarketFundingRateTool_except :: "string \<Rightarrow> pyexc \<Rightarrow> pyval" where
  "GetDriftPerpMarketFundingRateTool_except input e =
     PDict [(''funding_rate'', PNone),
            (''message'', PStr (''Error getting Drift perp market funding rate: '' @ str_of_exc e))]"

subsection \<open>GetDriftEntryQuoteOfPerpTradeTool\<close>

definition GetDriftEntryQuoteOfPerpTradeTool_schema :: schema where
  "GetDriftEntryQuoteOfPerpTradeTool_schema =
     [(''amount'', \<lparr>rtype = [T_float], required = True, rmin = None, rmax = None\<rparr>),
      (''symbol'', \<lparr>rtype = [T_str], required = True, rmin = None, rmax = None\<rparr>),
      (''action'', \<lparr>rtype = [T_str], required = True, rmin = None, rmax = None\<rparr>)]"

definition GetDriftEntryQuoteOfPerpTradeTool_try :: "env \<Rightarrow> kit \<Rightarrow> string \<Rightarrow> pyval comp" where
  "GetDriftEntryQuoteOfPerpTradeTool_try E K input =
     bnd (lift (json_loads E input)) (\<lambda>data.
     bnd (lift (validate_stmt E data GetDriftEntryQuoteOfPerpTradeTool_schema)) (\<lambda>data.
     bnd (lift (py_getitem E data ''amount'')) (\<lambda>amount.
     bnd (lift (py_getitem E data ''symbol'')) (\<lambda>symbol.
     bnd (lift (py_getitem E data ''action'')) (\<lambda>action.
     bnd (await_kit K (Call ''get_drift_entry_quote_of_perp_trade'' [] [(''amount'', amount),
                                                                        (''symbol'', symbol),
                                                                        (''action'', action)])) (\<lambda>entry_quote.
     ret (PDict [(''entry_quote'', entry_quote), (''message'', PStr ''Success'')])))))))"

definition GetDriftEntryQuoteOfPerpTradeTool_except :: "string \<Rightarrow> pyexc \<Rightarrow> pyval" where
  "GetDriftEntryQuoteOfPerpTradeTool_except input e =
     PDict [(''entry_quote'', PNone),
            (''message'', PStr (''Error getting Drift entry quote of perp trade: '' @ str_of_exc e))]"

subsection \<open>GetDriftLendBorrowApyTool\<close>

definition GetDriftLendBorrowApyTool_schema :: schema where
  "GetDriftLendBorrowApyTool_schema =
     [(''symbol'', \<lparr>rtype = [T_str], required = True, rmin = None, rmax = None\<rparr>)]"

definition GetDriftLendBorrowApyTool_try :: "env \<Rightarrow> kit \<Rightarrow> string \<Rightarrow> pyval comp" where
  "GetDriftLendBorrowApyTool_try E K input =
     bnd (lift (json_loads E input)) (\<lambda>data.
     bnd (lift (validate_stmt E data GetDriftLendBorrowApyTool_schema)) (\<lambda>data.
     bnd (lift (py_getitem E data ''symbol'')) (\<lambda>symbol.
     bnd (await_kit K (Call ''get_drift_lend_borrow_apy'' [] [(''symbol'', symbol)])) (\<lambda>apy_data.
     ret (PDict [(''apy_data'', apy_data), (''message'', PStr ''Success'')])))))"

definition GetDriftLendBorrowApyTool_except :: "string \<Rightarrow> pyexc \<Rightarrow> pyval" where
  "GetDriftLendBorrowApyTool_except input e =
     PDict [(''apy_data'', PNone),
            (''message'', PStr (''Error getting Drift lend/borrow APY: '' @ str_of_exc e))]"

subsection \<open>CreateDriftVaultTool\<close>

definition CreateDriftVaultTool_schema :: schema where
  "CreateDriftVaultTool_schema =
     [(''name'', \<lparr>rtype = [T_str], required = True, rmin = None, rmax = None\<rparr>),
      (''market_name'', \<lparr>rtype = [T_str], required = True, rmin = None, rmax = None\<rparr>),
      (''redeem_period'', \<lparr>rtype = [T_int], required = True, rmin = None, rmax = None\<rparr>),
      (''max_tokens'', \<lparr>rtype = [T_int], required = True, rmin = None, rmax = None\<rparr>),
      (''min_deposit_amount'', \<lparr>rtype = [T_float], required = True, rmin = None, rmax = None\<rparr>),
      (''management_fee'', \<lparr>rtype = [T_float], required = True, rmin = None, rmax = None\<rparr>),
      (''profit_share'', \<lparr>rtype = [T_float], required = True, rmin = None, rmax = None\<rparr>),
      (''hurdle_rate'', \<lparr>rtype = [T_float], required = False, rmin = None, rmax = None\<rparr>),
      (''permissioned'', \<lparr>rtype = [T_bool], required = False, rmin = None, rmax = None\<rparr>)]"

definition CreateDriftVaultTool_try :: "env \<Rightarrow> kit \<Rightarrow> string \<Rightarrow> pyval comp" where
  "CreateDriftVaultTool_try E K input =
     bnd (lift (json_loads E input)) (\<lambda>data.
     bnd (lift (validate_stmt E data CreateDriftVaultTool_schema)) (\<lambda>data.
     bnd (lift (py_getitem E data ''name'')) (\<lambda>name.
     bnd (lift (py_getitem E data ''market_name'')) (\<lambda>market_name.
     bnd (lift (py_getitem E data ''redeem_period'')) (\<lambda>redeem_period.
     bnd (lift (py_getitem E data ''max_tokens'')) (\<lambda>max_tokens.
     bnd (lift (py_getitem E data ''min_deposit_amount'')) (\<lambda>min_deposit_amount.
     bnd (lift (py_getitem E data ''management_fee'')) (\<lambda>management_fee.
     bnd (lift (py_getitem E data ''profit_share'')) (\<lambda>profit_share.
     bnd (lift (py_get E data ''hurdle_rate'' PNone)) (\<lambda>hurdle_rate.
     bnd (lift (py_get E data ''permissioned'' PNone)) (\<lambda>permissioned.
     bnd (await_kit K (Call ''create_drift_vault'' [] [(''name'', name),
                                                       (''market_name'', market_name),
                                                       (''redeem_period'', redeem_period),
                                                       (''max_tokens'', max_tokens),
                                                       (''min_deposit_amount'', min_deposit_amount),
                                                       (''management_fee'', management_fee),
                                                       (''profit_share'', profit_share),
                                                       (''hurdle_rate'', hurdle_rate),
                                                       (''permissioned'', permissioned)])) (\<lambda>vault_details.
     ret (PDict [(''vault_details'', vault_details),
                 (''message'', PStr ''Success'')])))))))))))))"

definition CreateDriftVaultTool_except :: "string \<Rightarrow> pyexc \<Rightarrow> pyval" where
  "CreateDriftVaultTool_except input e =
     PDict [(''vault_details'', PNone),
            (''message'', PStr (''Error creating Drift vault: '' @ str_of_exc e))]"

subsection \<open>UpdateDriftVaultDelegateTool\<close>

definition UpdateDriftVaultDelegateTool_schema :: schema where
  "UpdateDriftVaultDelegateTool_schema =
     [(''vault'', \<lparr>rtype = [T_str], required = True, rmin = None, rmax = None\<rparr>),
      (''delegate_address'', \<lparr>rtype = [T_str], required = True, rmin = None, rmax = None\<rparr>)]"

definition UpdateDriftVaultDelegateTool_try :: "env \<Rightarrow> kit \<Rightarrow> string \<Rightarrow> pyval comp" where
  "UpdateDriftVaultDelegateTool_try E K input =
     bnd (lift (json_loads E input)) (\<lambda>data.
     bnd (lift (validate_stmt E data UpdateDriftVaultDelegateTool_schema)) (\<lambda>data.
     bnd (lift (py_getitem E data ''vault'')) (\<lambda>vault.
     bnd (lift (py_getitem E data ''delegate_address'')) (\<lambda>delegate_address.
     bnd (await_kit K (Call ''update_drift_vault_delegate'' [] [(''vault'', vault),
                                                                (''delegate_address'', delegate_address)])) (\<lambda>transaction.
     ret (PDict [(''transaction'', transaction), (''message'', PStr ''Success'')]))))))"

definition UpdateDriftVaultDelegateTool_except :: "string \<Rightarrow> pyexc \<Rightarrow> pyval" where
  "UpdateDriftVaultDelegateTool_except input e =
     PDict [(''transaction'', PNone),
            (''message'', PStr (''Error updating Drift vault delegate: '' @ str_of_exc e))]"

subsection \<open>UpdateDriftVaultTool\<close>

definition UpdateDriftVaultTool_schema :: schema where
  "UpdateDriftVaultTool_schema =
     [(''vault_address'', \<lparr>rtype = [T_str], required = True, rmin = None, rmax = None\<rparr>),
      (''name'', \<lparr>rtype = [T_str], required = True, rmin = None, rmax = None\<rparr>),
      (''market_name'', \<lparr>rtype = [T_str], required = True, rmin = None, rmax = None\<rparr>),
      (''redeem_period'', \<lparr>rtype = [T_int], required = True, rmin = None, rmax = None\<rparr>),
      (''max_tokens'', \<lparr>rtype = [T_int], required = True, rmin = None, rmax = None\<rparr>),
      (''min_deposit_amount'', \<lparr>rtype = [T_float], required = True, rmin = None, rmax = None\<rparr>),
      (''management_fee'', \<lparr>rtype = [T_float], required = True, rmin = None, rmax = None\<rparr>),
      (''profit_share'', \<lparr>rtype = [T_float], required = True, rmin = None, rmax = None\<rparr>),
      (''hurdle_rate'', \<lparr>rtype = [T_float], required = False, rmin = None, rmax = None\<rparr>),
      (''permissioned'', \<lparr>rtype = [T_bool], required = False, rmin = None, rmax = None\<rparr>)]"

definition UpdateDriftVaultTool_try :: "env \<Rightarrow> kit \<Rightarrow> string \<Rightarrow> pyval comp" where
  "UpdateDriftVaultTool_try E K input =
     bnd (lift (json_loads E input)) (\<lambda>data.
     bnd (lift (validate_stmt E data UpdateDriftVaultTool_schema)) (\<lambda>data.
     bnd (lift (py_getitem E data ''vault_address'')) (\<lambda>vault_address.
     bnd (lift (py_getitem E data ''name'')) (\<lambda>name.
     bnd (lift (py_getitem E data ''market_name'')) (\<lambda>market_name.
     bnd (lift (py_getitem E data ''redeem_period'')) (\<lambda>redeem_period.
     bnd (lift (py_getitem E data ''max_tokens'')) (\<lambda>max_tokens.
     bnd (lift (py_getitem E data ''min_deposit_amount'')) (\<lambda>min_deposit_amount.
     bnd (lift (py_getitem E data ''management_fee'')) (\<lambda>management_fee.
     bnd (lift (py_getitem E data ''profit_share'')) (\<lambda>profit_share.
     bnd (lift (py_get E data ''hurdle_rate'' PNone)) (\<lambda>hurdle_rate.
     bnd (lift (py_get E data ''permissioned'' PNone)) (\<lambda>permissioned.
     bnd (await_kit K (Call ''update_drift_vault'' [] [(''vault_address'', vault_address),
                                                       (''name'', name),
                                                       (''market_name'', market_name),
                                                       (''redeem_period'', redeem_period),
                                                       (''max_tokens'', max_tokens),
                                                       (''min_deposit_amount'', min_deposit_amount),
                                                       (''management_fee'', management_fee),
                                                       (''profit_share'', profit_share),
                                                       (''hurdle_rate'', hurdle_rate),
                                                       (''permissioned'', permissioned)])) (\<lambda>vault_update.
     ret (PDict [(''vault_update'', vault_update),
                 (''message'', PStr ''Success'')]))))))))))))))"

definition UpdateDriftVaultTool_except :: "string \<Rightarrow> pyexc \<Rightarrow> pyval" where
  "UpdateDriftVaultTool_except input e =
     PDict [(''vault_update'', PNone),
            (''message'', PStr (''Error updating Drift vault: '' @ str_of_exc e))]"

subsection \<open>GetDriftVaultInfoTool\<close>

definition GetDriftVaultInfoTool_schema :: schema where
  "GetDriftVaultInfoTool_schema =
     [(''vault_name'', \<lparr>rtype = [T_str], required = True, rmin = None, rmax = None\<rparr>)]"

definition GetDriftVaultInfoTool_try :: "env \<Rightarrow> kit \<Rightarrow> string \<Rightarrow> pyval comp" where
  "GetDriftVaultInfoTool_try E K input =
     bnd (lift (json_loads E input)) (\<lambda>data.
     bnd (lift (validate_stmt E data GetDriftVaultInfoTool_schema)) (\<lambda>data.
     bnd (lift (py_getitem E data ''vault_name'')) (\<lambda>vault_name.
     bnd (await_kit K (Call ''get_drift_vault_info'' [] [(''vault_name'', vault_name)])) (\<lambda>vault_info.
     ret (PDict [(''vault_info'', vault_info), (''message'', PStr ''Success'')])))))"

definition GetDriftVaultInfoTool_except :: "string \<Rightarrow> pyexc \<Rightarrow> pyval" where
  "GetDriftVaultInfoTool_except input e =
     PDict [(''vault_info'', PNone),
            (''message'', PStr (''Error retrieving Drift vault info: '' @ str_of_exc e))]"

subsection \<open>DepositIntoDriftVaultTool\<close>

definition DepositIntoDriftVaultTool_schema :: schema where
  "DepositIntoDriftVaultTool_schema =
     [(''amount'', \<lparr>rtype = [T_float], required = True, rmin = None, rmax = None\<rparr>),
      (''vault'', \<lparr>rtype = [T_str], required = True, rmin = None, rmax = None\<rparr>)]"

definition DepositIntoDriftVaultTool_try :: "env \<Rightarrow> kit \<Rightarrow> string \<Rightarrow> pyval comp" where
  "DepositIntoDriftVaultTool_try E K input =
     bnd (lift (json_loads E input)) (\<lambda>data.
     bnd (lift (validate_stmt E data DepositIntoDriftVaultTool_schema)) (\<lambda>data.
     bnd (lift (py_getitem E data ''amount'')) (\<lambda>amount.
     bnd (lift (py_getitem E data ''vault'')) (\<lambda>vault.
     bnd (await_kit K (Call ''deposit_into_drift_vault'' [] [(''amount'', amount),
                                                             (''vault'', vault)])) (\<lambda>transaction.
     ret (PDict [(''transaction'', transaction), (''message'', PStr ''Success'')]))))))"

definition DepositIntoDriftVaultTool_except :: "string \<Rightarrow> pyexc \<Rightarrow> pyval" where
  "DepositIntoDriftVaultTool_except input e =
     PDict [(''transaction'', PNone),
            (''message'', PStr (''Error depositing into Drift vault: '' @ str_of_exc e))]"

subsection \<open>RequestWithdrawalFromDriftVaultTool\<close>

definition RequestWithdrawalFromDriftVaultTool_schema :: schema where
  "RequestWithdrawalFromDriftVaultTool_schema =
     [(''amount'', \<lparr>rtype = [T_float], required = True, rmin = None, rmax = None\<rparr>),
      (''vault'', \<lparr>rtype = [T_str], required = True, rmin = None, rmax = None\<rparr>)]"

definition RequestWithdrawalFromDriftVaultTool_try :: "env \<Rightarrow> kit \<Rightarrow> string \<Rightarrow> pyval comp" where
  "RequestWithdrawalFromDriftVaultTool_try E K input =
     bnd (lift (json_loads E input)) (\<lambda>data.
     bnd (lift (validate_stmt E data RequestWithdrawalFromDriftVaultTool_schema)) (\<lambda>data.
     bnd (lift (py_getitem E data ''amount'')) (\<lambda>amount.
     bnd (lift (py_getitem E data ''vault'')) (\<lambda>vault.
     bnd (await_kit K (Call ''request_withdrawal_from_drift_vault'' [] [(''amount'', amount),
                                                                        (''vault'', vault)])) (\<lambda>transaction.
     ret (PDict [(''transaction'', transaction), (''message'', PStr ''Success'')]))))))"

definition RequestWithdrawalFromDriftVaultTool_except :: "string \<Rightarrow> pyexc \<Rightarrow> pyval" where
  "RequestWithdrawalFromDriftVaultTool_except input e =
     PDict [(''transaction'', PNone),
            (''message'', PStr (''Error requesting withdrawal from Drift vault: '' @ str_of_exc e))]"

subsection \<open>WithdrawFromDriftVaultTool\<close>

definition WithdrawFromDriftVaultTool_schema :: schema where
  "WithdrawFromDriftVaultTool_schema =
     [(''vault'', \<lparr>rtype = [T_str], required = True, rmin = None, rmax = None\<rparr>)]"

definition WithdrawFromDriftVaultTool_try :: "env \<Rightarrow> kit \<Rightarrow> string \<Rightarrow> pyval comp" where
  "WithdrawFromDriftVaultTool_try E K input =
     bnd (lift (json_loads E input)) (\<lambda>data.
     bnd (lift (validate_stmt E data WithdrawFromDriftVaultTool_schema)) (\<lambda>data.
     bnd (lift (py_getitem E data ''vault'')) (\<lambda>vault.
     bnd (await_kit K (Call ''withdraw_from_drift_vault'' [] [(''vault'', vault)])) (\<lambda>transaction.
     ret (PDict [(''transaction'', transaction), (''message'', PStr ''Success'')])))))"

definition WithdrawFromDriftVaultTool_except :: "string \<Rightarrow> pyexc \<Rightarrow> pyval" where
  "WithdrawFromDriftVaultTool_except input e =
     PDict [(''transaction'', PNone),
            (''message'', PStr (''Error withdrawing from Drift vault: '' @ str_of_exc e))]"

subsection \<open>DeriveDriftVaultAddressTool\<close>

definition DeriveDriftVaultAddressTool_schema :: schema where
  "DeriveDriftVaultAddressTool_schema =
     [(''name'', \<lparr>rtype = [T_str], required = True, rmin = None, rmax = None\<rparr>)]"

definition DeriveDriftVaultAddressTool_try :: "env \<Rightarrow> kit \<Rightarrow> string \<Rightarrow> pyval comp" where
  "DeriveDriftVaultAddressTool_try E K input =
     bnd (lift (json_loads E input)) (\<lambda>data.
     bnd (lift (validate_stmt E data DeriveDriftVaultAddressTool_schema)) (\<lambda>data.
     bnd (lift (py_getitem E data ''name'')) (\<lambda>name.
     bnd (await_kit K (Call ''derive_drift_vault_address'' [] [(''name'', name)])) (\<lambda>vault_address.
     ret (PDict [(''vault_address'', vault_address), (''message'', PStr ''Success'')])))))"

definition DeriveDriftVaultAddressTool_except :: "string \<Rightarrow> pyexc \<Rightarrow> pyval" where
  "DeriveDriftVaultAddressTool_except input e =
     PDict [(''vault_address'', PNone),
            (''message'', PStr (''Error deriving Drift vault address: '' @ str_of_exc e))]"

subsection \<open>TradeUsingDelegatedDriftVaultTool\<close>

definition TradeUsingDelegatedDriftVaultTool_schema :: schema where
  "TradeUsingDelegatedDriftVaultTool_schema =
     [(''vault'', \<lparr>rtype = [T_str], required = True, rmin = None, rmax = None\<rparr>),
      (''amount'', \<lparr>rtype = [T_float], required = True, rmin = None, rmax = None\<rparr>),
      (''symbol'', \<lparr>rtype = [T_str], required = True, rmin = None, rmax = None\<rparr>),
      (''action'', \<lparr>rtype = [T_str], required = True, rmin = None, rmax = None\<rparr>),
      (''trade_type'', \<lparr>rtype = [T_str], required = True, rmin = None, rmax = None\<rparr>),
      (''price'', \<lparr>rtype = [T_float], required = False, rmin = None, rmax = None\<rparr>)]"

definition TradeUsingDelegatedDriftVaultTool_try :: "env \<Rightarrow> kit \<Rightarrow> string \<Rightarrow> pyval comp" where
  "TradeUsingDelegatedDriftVaultTool_try E K input =
     bnd (lift (json_loads E input)) (\<lambda>data.
     bnd (lift (validate_stmt E data TradeUsingDelegatedDriftVaultTool_schema)) (\<lambda>data.
     bnd (lift (py_getitem E data ''vault'')) (\<lambda>vault.
     bnd (lift (py_getitem E data ''amount'')) (\<lambda>amount.
     bnd (lift (py_getitem E data ''symbol'')) (\<lambda>symbol.
     bnd (lift (py_getitem E data ''action'')) (\<lambda>action.
     bnd (lift (py_getitem E data ''trade_type'')) (\<lambda>trade_type.
     bnd (lift (py_get E data ''price'' PNone)) (\<lambda>price.
     bnd (await_kit K (Call ''trade_using_delegated_drift_vault'' [] [(''vault'', vault),
                                                                      (''amount'', amount),
                                                                      (''symbol'', symbol),
                                                                      (''action'', action),
                                                                      (''trade_type'', trade_type),
                                                                      (''price'', price)])) (\<lambda>transaction.
     ret (PDict [(''transaction'', transaction), (''message'', PStr ''Success'')]))))))))))"

definition TradeUsingDelegatedDriftVaultTool_except :: "string \<Rightarrow> pyexc \<Rightarrow> pyval" where
  "TradeUsingDelegatedDriftVaultTool_except input e =
     PDict [(''transaction'', PNone),
            (''message'', PStr (''Error trading using delegated Drift vault: '' @ str_of_exc e))]"

subsection \<open>FlashOpenTradeTool\<close>

definition FlashOpenTradeTool_schema :: schema where
  "FlashOpenTradeTool_schema =
     [(''token'', \<lparr>rtype = [T_str], required = True, rmin = None, rmax = None\<rparr>),
      (''side'', \<lparr>rtype = [T_str], required = True, rmin = None, rmax = None\<rparr>),
      (''collateralUsd'', \<lparr>rtype = [T_float], required = True, rmin = None, rmax = None\<rparr>),
      (''leverage'', \<lparr>rtype = [T_float], required = True, rmin = None, rmax = None\<rparr>)]"

definition FlashOpenTradeTool_try :: "env \<Rightarrow> kit \<Rightarrow> string \<Rightarrow> pyval comp" where
  "FlashOpenTradeTool_try E K input =
     bnd (lift (json_loads E input)) (\<lambda>data.
     bnd (lift (validate_stmt E data FlashOpenTradeTool_schema)) (\<lambda>data.
     bnd (lift (py_getitem E data ''token'')) (\<lambda>token.
     bnd (lift (py_getitem E data ''side'')) (\<lambda>side.
     bnd (lift (py_getitem E data ''collateralUsd'')) (\<lambda>collateralUsd.
     bnd (lift (py_getitem E data ''leverage'')) (\<lambda>leverage.
     bnd (await_kit K (Call ''flash_open_trade'' [] [(''token'', token),
                                                     (''side'', side),
                                                     (''collateral_usd'', collateralUsd),
                                                     (''leverage'', leverage)])) (\<lambda>transaction.
     ret (PDict [(''transaction'', transaction), (''message'', PStr ''Success'')]))))))))"

definition FlashOpenTradeTool_except :: "string \<Rightarrow> pyexc \<Rightarrow> pyval" where
  "FlashOpenTradeTool_except input e =
     PDict [(''transaction'', PNone),
            (''message'', PStr (''Error opening flash trade: '' @ str_of_exc e))]"

subsection \<open>FlashCloseTradeTool\<close>

definition FlashCloseTradeTool_schema :: schema where
  "FlashCloseTradeTool_schema =
     [(''token'', \<lparr>rtype = [T_str], required = True, rmin = None, rmax = None\<rparr>),
      (''side'', \<lparr>rtype = [T_str], required = True, rmin = None, rmax = None\<rparr>)]"

definition FlashCloseTradeTool_try :: "env \<Rightarrow> kit \<Rightarrow> string \<Rightarrow> pyval comp" where
  "FlashCloseTradeTool_try E K input =
     bnd (lift (json_loads E input)) (\<lambda>data.
     bnd (lift (validate_stmt E data FlashCloseTradeTool_schema)) (\<lambda>data.
     bnd (lift (py_getitem E data ''token'')) (\<lambda>token.
     bnd (lift (py_getitem E data ''side'')) (\<lambda>side.
     bnd (await_kit K (Call ''flash_close_trade'' [] [(''token'', token),
                                                      (''side'', side)])) (\<lambda>transaction.
     ret (PDict [(''transaction'', transaction), (''message'', PStr ''Success'')]))))))"

definition FlashCloseTradeTool_except :: "string \<Rightarrow> pyexc \<Rightarrow> pyval" where
  "FlashCloseTradeTool_except input e =
     PDict [(''transaction'', PNone),
            (''message'', PStr (''Error closing flash trade: '' @ str_of_exc e))]"

subsection \<open>ResolveAllDomainsTool\<close>

definition ResolveAllDomainsTool_schema :: schema where
  "ResolveAllDomainsTool_schema =
     [(''domain'', \<lparr>rtype = [T_str], required = True, rmin = None, rmax = None\<rparr>)]"

definition ResolveAllDomainsTool_try :: "env \<Rightarrow> kit \<Rightarrow> string \<Rightarrow> pyval comp" where
  "ResolveAllDomainsTool_try E K input =
     bnd (lift (json_loads E input)) (\<lambda>data.
     bnd (lift (validate_stmt E data ResolveAllDomainsTool_schema)) (\<lambda>data.
     bnd (lift (py_getitem E data ''domain'')) (\<lambda>domain.
     bnd (await_kit K (Call ''resolve_all_domains'' [domain] [])) (\<lambda>domain_tld.
     ret (if py_truthy domain_tld then (PDict [(''tld'', domain_tld),
                                               (''message'', PStr ''Success'')]) else (PDict [(''message'', PStr ''Domain resolution failed'')]))))))"

definition ResolveAllDomainsTool_except :: "string \<Rightarrow> pyexc \<Rightarrow> pyval" where
  "ResolveAllDomainsTool_except input e =
     PDict [(''message'', PStr (''Error resolving domain: '' @ str_of_exc e))]"

subsection \<open>GetOwnedDomainsForTLDTool\<close>

definition GetOwnedDomainsForTLDTool_schema :: schema where
  "GetOwnedDomainsForTLDTool_schema =
     [(''tld'', \<lparr>rtype = [T_str], required = True, rmin = None, rmax = None\<rparr>)]"

definition GetOwnedDomainsForTLDTool_try :: "env \<Rightarrow> kit \<Rightarrow> string \<Rightarrow> pyval comp" where
  "GetOwnedDomainsForTLDTool_try E K input =
     bnd (lift (json_loads E input)) (\<lambda>data.
     bnd (lift (validate_stmt E data GetOwnedDomainsForTLDTool_schema)) (\<lambda>data.
     bnd (lift (py_getitem E data ''tld'')) (\<lambda>tld.
     bnd (await_kit K (Call ''get_owned_domains_for_tld'' [tld] [])) (\<lambda>owned_domains.
     ret (if py_truthy owned_domains then (PDict [(''domains'', owned_domains),
                                                  (''message'', PStr ''Success'')]) else (PDict [(''message'', PStr ''No owned domains found'')]))))))"

definition GetOwnedDomainsForTLDTool_except :: "string \<Rightarrow> pyexc \<Rightarrow> pyval" where
  "GetOwnedDomainsForTLDTool_except input e =
     PDict [(''message'', PStr (''Error fetching owned domains: '' @ str_of_exc e))]"

subsection \<open>GetAllDomainsTLDsTool\<close>

definition GetAllDomainsTLDsTool_try :: "env \<Rightarrow> kit \<Rightarrow> pyval comp" where
  "GetAllDomainsTLDsTool_try E K =
     bnd (await_kit K (Call ''get_all_domains_tlds'' [] [])) (\<lambda>tlds.
     ret (if py_truthy tlds then (PDict [(''tlds'', tlds),
                                         (''message'', PStr ''Success'')]) else (PDict [(''message'', PStr ''No TLDs found'')])))"

definition GetAllDomainsTLDsTool_except :: "pyexc \<Rightarrow> pyval" where
  "GetAllDomainsTLDsTool_except e =
     PDict [(''message'', PStr (''Error fetching TLDs: '' @ str_of_exc e))]"

subsection \<open>GetOwnedAllDomainsTool\<close>

definition GetOwnedAllDomainsTool_schema :: schema where
  "GetOwnedAllDomainsTool_schema =
     [(''owner'', \<lparr>rtype = [T_str], required = True, rmin = None, rmax = None\<rparr>)]"

definition GetOwnedAllDomainsTool_try :: "env \<Rightarrow> kit \<Rightarrow> string \<Rightarrow> pyval comp" where
  "GetOwnedAllDomainsTool_try E K input =
     bnd (lift (json_loads E input)) (\<lambda>data.
     bnd (lift (validate_stmt E data GetOwnedAllDomainsTool_schema)) (\<lambda>data.
     bnd (lift (py_getitem E data ''owner'')) (\<lambda>owner.
     bnd (await_kit K (Call ''get_owned_all_domains'' [owner] [])) (\<lambda>owned_domains.
     ret (if py_truthy owned_domains then (PDict [(''domains'', owned_domains),
                                                  (''message'', PStr ''Success'')]) else (PDict [(''message'', PStr ''No owned domains found'')]))))))"

definition GetOwnedAllDomainsTool_except :: "string \<Rightarrow> pyexc \<Rightarrow> pyval" where
  "GetOwnedAllDomainsTool_except input e =
     PDict [(''message'', PStr (''Error fetching owned domains: '' @ str_of_exc e))]"

subsection \<open>LightProtocolSendCompressedAirdropTool\<close>

definition LightProtocolSendCompressedAirdropTool_schema :: schema where
  "LightProtocolSendCompressedAirdropTool_schema =
     [(''mint_address'', \<lparr>rtype = [T_str], required = True, rmin = None, rmax = None\<rparr>),
      (''amount'', \<lparr>rtype = [T_float], required = True, rmin = None, rmax = None\<rparr>),
      (''decimals'', \<lparr>rtype = [T_int], required = True, rmin = None, rmax = None\<rparr>),
      (''recipients'', \<lparr>rtype = [T_list], required = True, rmin = None, rmax = None\<rparr>),
      (''priority_fee_in_lamports'', \<lparr>rtype = [T_int], required = True, rmin = None, rmax = None\<rparr>),
      (''should_log'', \<lparr>rtype = [T_bool], required = False, rmin = None, rmax = None\<rparr>)]"

definition LightProtocolSendCompressedAirdropTool_try :: "env \<Rightarrow> kit \<Rightarrow> string \<Rightarrow> pyval comp" where
  "LightProtocolSendCompressedAirdropTool_try E K input =
     bnd (lift (json_loads E input)) (\<lambda>data.
     bnd (lift (validate_stmt E data LightProtocolSendCompressedAirdropTool_schema)) (\<lambda>data.
     bnd (lift (py_getitem E data ''mint_address'')) (\<lambda>mint_address.
     bnd (lift (py_getitem E data ''amount'')) (\<lambda>amount.
     bnd (lift (py_getitem E data ''decimals'')) (\<lambda>decimals.
     bnd (lift (py_getitem E data ''recipients'')) (\<lambda>recipients.
     bnd (lift (py_getitem E data ''priority_fee_in_lamports'')) (\<lambda>priority_fee_in_lamports.
     bnd (lift (py_get E data ''should_log'' (PBool False))) (\<lambda>should_log.
     bnd (await_kit K (Call ''send_compressed_airdrop'' [] [(''mint_address'', mint_address),
                                                            (''amount'', amount),
                                                            (''decimals'', decimals),
                                                            (''recipients'', recipients),
                                                            (''priority_fee_in_lamports'', priority_fee_in_lamports),
                                                            (''should_log'', should_log)])) (\<lambda>transaction_ids.
     ret (PDict [(''transaction_ids'', transaction_ids),
                 (''message'', PStr ''Success'')]))))))))))"

definition LightProtocolSendCompressedAirdropTool_except :: "string \<Rightarrow> pyexc \<Rightarrow> pyval" where
  "LightProtocolSendCompressedAirdropTool_except input e =
     PDict [(''transaction_ids'', PNone),
            (''message'', PStr (''Error sending compressed airdrop: '' @ str_of_exc e))]"

subsection \<open>ManifestCreateMarketTool\<close>

definition ManifestCreateMarketTool_schema :: schema where
  "ManifestCreateMarketTool_schema =
     [(''base_mint'', \<lparr>rtype = [T_str], required = True, rmin = None, rmax = None\<rparr>),
      (''quote_mint'', \<lparr>rtype = [T_str], required = True, rmin = None, rmax = None\<rparr>)]"

definition ManifestCreateMarketTool_try :: "env \<Rightarrow> kit \<Rightarrow> string \<Rightarrow> pyval comp" where
  "ManifestCreateMarketTool_try E K input =
     bnd (lift (json_loads E input)) (\<lambda>data.
     bnd (lift (validate_stmt E data ManifestCreateMarketTool_schema)) (\<lambda>data.
     bnd (lift (py_getitem E data ''base_mint'')) (\<lambda>base_mint.
     bnd (lift (py_getitem E data ''quote_mint'')) (\<lambda>quote_mint.
     bnd (await_kit K (Call ''create_manifest_market'' [] [(''base_mint'', base_mint),
                                                           (''quote_mint'', quote_mint)])) (\<lambda>market_data.
     ret (PDict [(''market_data'', market_data), (''message'', PStr ''Success'')]))))))"

definition ManifestCreateMarketTool_except :: "string \<Rightarrow> pyexc \<Rightarrow> pyval" where
  "ManifestCreateMarketTool_except input e =
     PDict [(''market_data'', PNone),
            (''message'', PStr (''Error creating market: '' @ str_of_exc e))]"

subsection \<open>ManifestPlaceLimitOrderTool\<close>

definition ManifestPlaceLimitOrderTool_schema :: schema where
  "ManifestPlaceLimitOrderTool_schema =
     [(''market_id'', \<lparr>rtype = [T_str], required = True, rmin = None, rmax = None\<rparr>),
      (''quantity'', \<lparr>rtype = [T_float], required = True, rmin = None, rmax = None\<rparr>),
      (''side'', \<lparr>rtype = [T_str], required = True, rmin = None, rmax = None\<rparr>),
      (''price'', \<lparr>rtype = [T_float], required = True, rmin = None, rmax = None\<rparr>)]"

definition ManifestPlaceLimitOrderTool_try :: "env \<Rightarrow> kit \<Rightarrow> string \<Rightarrow> pyval comp" where
  "ManifestPlaceLimitOrderTool_try E K input =
     bnd (lift (json_loads E input)) (\<lambda>data.
     bnd (lift (validate_stmt E data ManifestPlaceLimitOrderTool_schema)) (\<lambda>data.
     bnd (lift (py_getitem E data ''market_id'')) (\<lambda>market_id.
     bnd (lift (py_getitem E data ''quantity'')) (\<lambda>quantity.
     bnd (lift (py_getitem E data ''side'')) (\<lambda>side.
     bnd (lift (py_getitem E data ''price'')) (\<lambda>price.
     bnd (await_kit K (Call ''place_limit_order'' [] [(''market_id'', market_id),
                                                      (''quantity'', quantity),
                                                      (''side'', side),
                                                      (''price'', price)])) (\<lambda>order_details.
     ret (PDict [(''order_details'', order_details), (''message'', PStr ''Success'')]))))))))"

definition ManifestPlaceLimitOrderTool_except :: "string \<Rightarrow> pyexc \<Rightarrow> pyval" where
  "ManifestPlaceLimitOrderTool_except input e =
     PDict [(''order_details'', PNone),
            (''message'', PStr (''Error placing limit order: '' @ str_of_exc e))]"

subsection \<open>ManifestPlaceBatchOrdersTool\<close>

definition ManifestPlaceBatchOrdersTool_schema :: schema where
  "ManifestPlaceBatchOrdersTool_schema =
     [(''market_id'', \<lparr>rtype = [T_str], required = True, rmin = None, rmax = None\<rparr>),
      (''orders'', \<lparr>rtype = [T_list], required = True, rmin = None, rmax = None\<rparr>)]"

definition ManifestPlaceBatchOrdersTool_try :: "env \<Rightarrow> kit \<Rightarrow> string \<Rightarrow> pyval comp" where
  "ManifestPlaceBatchOrdersTool_try E K input =
     bnd (lift (json_loads E input)) (\<lambda>data.
     bnd (lift (validate_stmt E data ManifestPlaceBatchOrdersTool_schema)) (\<lambda>data.
     bnd (lift (py_getitem E data ''market_id'')) (\<lambda>market_id.
     bnd (lift (py_getitem E data ''orders'')) (\<lambda>orders.
     bnd (await_kit K (Call ''place_batch_orders'' [] [(''market_id'', market_id),
                                                       (''orders'', orders)])) (\<lambda>batch_order_details.
     ret (PDict [(''batch_order_details'', batch_order_details),
                 (''message'', PStr ''Success'')]))))))"

definition ManifestPlaceBatchOrdersTool_except :: "string \<Rightarrow> pyexc \<Rightarrow> pyval" where
  "ManifestPlaceBatchOrdersTool_except input e =
     PDict [(''batch_order_details'', PNone),
            (''message'', PStr (''Error placing batch orders: '' @ str_of_exc e))]"

subsection \<open>ManifestCancelAllOrdersTool\<close>

definition ManifestCancelAllOrdersTool_schema :: schema where
  "ManifestCancelAllOrdersTool_schema =
     [(''market_id'', \<lparr>rtype = [T_str], required = True, rmin = None, rmax = None\<rparr>)]"

definition ManifestCancelAllOrdersTool_try :: "env \<Rightarrow> kit \<Rightarrow> string \<Rightarrow> pyval comp" where
  "ManifestCancelAllOrdersTool_try E K input =
     bnd (lift (json_loads E input)) (\<lambda>data.
     bnd (lift (validate_stmt E data ManifestCancelAllOrdersTool_schema)) (\<lambda>data.
     bnd (lift (py_getitem E data ''market_id'')) (\<lambda>market_id.
     bnd (await_kit K (Call ''cancel_all_orders'' [] [(''market_id'', market_id)])) (\<lambda>cancellation_result.
     ret (PDict [(''cancellation_result'', cancellation_result),
                 (''message'', PStr ''Success'')])))))"

definition ManifestCancelAllOrdersTool_except :: "string \<Rightarrow> pyexc \<Rightarrow> pyval" where
  "ManifestCancelAllOrdersTool_except input e =
     PDict [(''cancellation_result'', PNone),
            (''message'', PStr (''Error canceling all orders: '' @ str_of_exc e))]"

subsection \<open>ManifestWithdrawAllTool\<close>

definition ManifestWithdrawAllTool_schema :: schema where
  "ManifestWithdrawAllTool_schema =
     [(''market_id'', \<lparr>rtype = [T_str], required = True, rmin = None, rmax = None\<rparr>)]"

definition ManifestWithdrawAllTool_try :: "env \<Rightarrow> kit \<Rightarrow> string \<Rightarrow> pyval comp" where
  "ManifestWithdrawAllTool_try E K input =
     bnd (lift (json_loads E input)) (\<lambda>data.
     bnd (lift (validate_stmt E data ManifestWithdrawAllTool_schema)) (\<lambda>data.
     bnd (lift (py_getitem E data ''market_id'')) (\<lambda>market_id.
     bnd (await_kit K (Call ''withdraw_all'' [] [(''market_id'', market_id)])) (\<lambda>withdrawal_result.
     ret (PDict [(''withdrawal_result'', withdrawal_result),
                 (''message'', PStr ''Success'')])))))"

definition ManifestWithdrawAllTool_except :: "string \<Rightarrow> pyexc \<Rightarrow> pyval" where
  "ManifestWithdrawAllTool_except input e =
     PDict [(''withdrawal_result'', PNone),
            (''message'', PStr (''Error withdrawing all assets: '' @ str_of_exc e))]"

subsection \<open>OpenBookCreateMarketTool\<close>

definition OpenBookCreateMarketTool_schema :: schema where
  "OpenBookCreateMarketTool_schema =
     [(''base_mint'', \<lparr>rtype = [T_str], required = True, rmin = None, rmax = None\<rparr>),
      (''quote_mint'', \<lparr>rtype = [T_str], required = True, rmin = None, rmax = None\<rparr>),
      (''lot_size'', \<lparr>rtype = [T_float], required = False, rmin = None, rmax = None\<rparr>),
      (''tick_size'', \<lparr>rtype = [T_float], required = False, rmin = None, rmax = None\<rparr>)]"

definition OpenBookCreateMarketTool_try :: "env \<Rightarrow> kit \<Rightarrow> string \<Rightarrow> pyval comp" where
  "OpenBookCreateMarketTool_try E K input =
     bnd (lift (json_loads E input)) (\<lambda>data.
     bnd (lift (py_getitem E data ''base_mint'')) (\<lambda>base_mint.
     bnd (lift (py_getitem E data ''quote_mint'')) (\<lambda>quote_mint.
     bnd (lift (py_get E data ''lot_size'' (PInt 1))) (\<lambda>lot_size.
     bnd (lift (py_get E data ''tick_size'' (PFloat (5764607523034235 / 576460752303423488)))) (\<lambda>tick_size.
     bnd (await_kit K (Call ''create_openbook_market'' [] [(''base_mint'', base_mint),
                                                           (''quote_mint'', quote_mint),
                                                           (''lot_size'', lot_size),
                                                           (''tick_size'', tick_size)])) (\<lambda>market_data.
     ret (PDict [(''market_data'', market_data), (''message'', PStr ''Success'')])))))))"

definition OpenBookCreateMarketTool_except :: "string \<Rightarrow> pyexc \<Rightarrow> pyval" where
  "OpenBookCreateMarketTool_except input e =
     PDict [(''market_data'', PNone),
            (''message'', PStr (''Error creating OpenBook market: '' @ str_of_exc e))]"

subsection \<open>OrcaClosePositionTool\<close>

definition OrcaClosePositionTool_schema :: schema where
  "OrcaClosePositionTool_schema =
     [(''position_mint_address'', \<lparr>rtype = [T_str], required = True, rmin = None, rmax = None\<rparr>)]"

definition OrcaClosePositionTool_try :: "env \<Rightarrow> kit \<Rightarrow> string \<Rightarrow> pyval comp" where
  "OrcaClosePositionTool_try E K input =
     bnd (lift (json_loads E input)) (\<lambda>data.
     bnd (lift (validate_stmt E data OrcaClosePositionTool_schema)) (\<lambda>data.
     bnd (lift (py_getitem E data ''position_mint_address'')) (\<lambda>position_mint_address.
     bnd (await_kit K (Call ''close_position'' [] [(''position_mint_address'', position_mint_address)])) (\<lambda>closure_result.
     ret (PDict [(''closure_result'', closure_result), (''message'', PStr ''Success'')])))))"

definition OrcaClosePositionTool_except :: "string \<Rightarrow> pyexc \<Rightarrow> pyval" where
  "OrcaClosePositionTool_except input e =
     PDict [(''closure_result'', PNone),
            (''message'', PStr (''Error closing position: '' @ str_of_exc e))]"

subsection \<open>OrcaCreateClmmTool\<close>

definition OrcaCreateClmmTool_schema :: schema where
  "OrcaCreateClmmTool_schema =
     [(''mint_deploy'', \<lparr>rtype = [T_str], required = True, rmin = None, rmax = None\<rparr>),
      (''mint_pair'', \<lparr>rtype = [T_str], required = True, rmin = None, rmax = None\<rparr>),
      (''initial_price'', \<lparr>rtype = [T_float], required = True, rmin = None, rmax = None\<rparr>),
      (''fee_tier'', \<lparr>rtype = [T_str], required = True, rmin = None, rmax = None\<rparr>)]"

definition OrcaCreateClmmTool_try :: "env \<Rightarrow> kit \<Rightarrow> string \<Rightarrow> pyval comp" where
  "OrcaCreateClmmTool_try E K input =
     bnd (lift (json_loads E input)) (\<lambda>data.
     bnd (lift (validate_stmt E data OrcaCreateClmmTool_schema)) (\<lambda>data.
     bnd (lift (py_getitem E data ''mint_deploy'')) (\<lambda>mint_deploy.
     bnd (lift (py_getitem E data ''mint_pair'')) (\<lambda>mint_pair.
     bnd (lift (py_getitem E data ''initial_price'')) (\<lambda>initial_price.
     bnd (lift (py_getitem E data ''fee_tier'')) (\<lambda>fee_tier.
     bnd (await_kit K (Call ''create_clmm'' [] [(''mint_deploy'', mint_deploy),
                                                (''mint_pair'', mint_pair),
                                                (''initial_price'', initial_price),
                                                (''fee_tier'', fee_tier)])) (\<lambda>clmm_data.
     ret (PDict [(''clmm_data'', clmm_data), (''message'', PStr ''Success'')]))))))))"

definition OrcaCreateClmmTool_except :: "string \<Rightarrow> pyexc \<Rightarrow> pyval" where
  "OrcaCreateClmmTool_except input e =
     PDict [(''clmm_data'', PNone),
            (''message'', PStr (''Error creating CLMM: '' @ str_of_exc e))]"

subsection \<open>OrcaCreateLiquidityPoolTool\<close>

definition OrcaCreateLiquidityPoolTool_schema :: schema where
  "OrcaCreateLiquidityPoolTool_schema =
     [(''deposit_token_amount'', \<lparr>rtype = [T_float], required = True, rmin = None, rmax = None\<rparr>),
      (''deposit_token_mint'', \<lparr>rtype = [T_str], required = True, rmin = None, rmax = None\<rparr>),
      (''other_token_mint'', \<lparr>rtype = [T_str], required = True, rmin = None, rmax = None\<rparr>),
      (''initial_price'', \<lparr>rtype = [T_float], required = True, rmin = None, rmax = None\<rparr>),
      (''max_price'', \<lparr>rtype = [T_float], required = True, rmin = None, rmax = None\<rparr>),
      (''fee_tier'', \<lparr>rtype = [T_str], required = True, rmin = None, rmax = None\<rparr>)]"

definition OrcaCreateLiquidityPoolTool_try :: "env \<Rightarrow> kit \<Rightarrow> string \<Rightarrow> pyval comp" where
  "OrcaCreateLiquidityPoolTool_try E K input =
     bnd (lift (json_loads E input)) (\<lambda>data.
     bnd (lift (validate_stmt E data OrcaCreateLiquidityPoolTool_schema)) (\<lambda>data.
     bnd (lift (py_getitem E data ''deposit_token_amount'')) (\<lambda>deposit_token_amount.
     bnd (lift (py_getitem E data ''deposit_token_mint'')) (\<lambda>deposit_token_mint.
     bnd (lift (py_getitem E data ''other_token_mint'')) (\<lambda>other_token_mint.
     bnd (lift (py_getitem E data ''initial_price'')) (\<lambda>initial_price.
     bnd (lift (py_getitem E data ''max_price'')) (\<lambda>max_price.
     bnd (lift (py_getitem E data ''fee_tier'')) (\<lambda>fee_tier.
     bnd (await_kit K (Call ''create_liquidity_pool'' [] [(''deposit_token_amount'', deposit_token_amount),
                                                          (''deposit_token_mint'', deposit_token_mint),
                                                          (''other_token_mint'', other_token_mint),
                                                          (''initial_price'', initial_price),
                                                          (''max_price'', max_price),
                                                          (''fee_tier'', fee_tier)])) (\<lambda>pool_data.
     ret (PDict [(''pool_data'', pool_data), (''message'', PStr ''Success'')]))))))))))"

definition OrcaCreateLiquidityPoolTool_except :: "string \<Rightarrow> pyexc \<Rightarrow> pyval" where
  "OrcaCreateLiquidityPoolTool_except input e =
     PDict [(''pool_data'', PNone),
            (''message'', PStr (''Error creating liquidity pool: '' @ str_of_exc e))]"

subsection \<open>OrcaFetchPositionsTool\<close>

definition OrcaFetchPositionsTool_try :: "env \<Rightarrow> kit \<Rightarrow> string \<Rightarrow> pyval comp" where
  "OrcaFetchPositionsTool_try E K input =
     bnd (await_kit K (Call ''fetch_positions'' [] [])) (\<lambda>positions.
     ret (PDict [(''positions'', positions), (''message'', PStr ''Success'')]))"

definition OrcaFetchPositionsTool_except :: "string \<Rightarrow> pyexc \<Rightarrow> pyval" where
  "OrcaFetchPositionsTool_except input e =
     PDict [(''positions'', PNone),
            (''message'', PStr (''Error fetching positions: '' @ str_of_exc e))]"

subsection \<open>OrcaOpenCenteredPositionTool\<close>

definition OrcaOpenCenteredPositionTool_schema :: schema where
  "OrcaOpenCenteredPositionTool_schema =
     [(''whirlpool_address'', \<lparr>rtype = [T_str], required = True, rmin = None, rmax = None\<rparr>),
      (''price_offset_bps'', \<lparr>rtype = [T_int], required = True, rmin = None, rmax = None\<rparr>),
      (''input_token_mint'', \<lparr>rtype = [T_str], required = True, rmin = None, rmax = None\<rparr>),
      (''input_amount'', \<lparr>rtype = [T_float], required = True, rmin = None, rmax = None\<rparr>)]"

definition OrcaOpenCenteredPositionTool_try :: "env \<Rightarrow> kit \<Rightarrow> string \<Rightarrow> pyval comp" where
  "OrcaOpenCenteredPositionTool_try E K input =
     bnd (lift (json_loads E input)) (\<lambda>data.
     bnd (lift (validate_stmt E data OrcaOpenCenteredPositionTool_schema)) (\<lambda>data.
     bnd (lift (py_getitem E data ''whirlpool_address'')) (\<lambda>whirlpool_address.
     bnd (lift (py_getitem E data ''price_offset_bps'')) (\<lambda>price_offset_bps.
     bnd (lift (py_getitem E data ''input_token_mint'')) (\<lambda>input_token_mint.
     bnd (lift (py_getitem E data ''input_amount'')) (\<lambda>input_amount.
     bnd (await_kit K (Call ''open_centered_position'' [] [(''whirlpool_address'', whirlpool_address),
                                                           (''price_offset_bps'', price_offset_bps),
                                                           (''input_token_mint'', input_token_mint),
                                                           (''input_amount'', input_amount)])) (\<lambda>position_data.
     ret (PDict [(''position_data'', position_data), (''message'', PStr ''Success'')]))))))))"

definition OrcaOpenCenteredPositionTool_except :: "string \<Rightarrow> pyexc \<Rightarrow> pyval" where
  "OrcaOpenCenteredPositionTool_except input e =
     PDict [(''position_data'', PNone),
            (''message'', PStr (''Error opening centered position: '' @ str_of_exc e))]"

subsection \<open>OrcaOpenSingleSidedPositionTool\<close>

definition OrcaOpenSingleSidedPositionTool_schema :: schema where
  "OrcaOpenSingleSidedPositionTool_schema =
     [(''whirlpool_address'', \<lparr>rtype = [T_str], required = True, rmin = None, rmax = None\<rparr>),
      (''distance_from_current_price_bps'', \<lparr>rtype = [T_int], required = True, rmin = None, rmax = None\<rparr>),
      (''width_bps'', \<lparr>rtype = [T_int], required = True, rmin = None, rmax = None\<rparr>),
      (''input_token_mint'', \<lparr>rtype = [T_str], required = True, rmin = None, rmax = None\<rparr>),
      (''input_amount'', \<lparr>rtype = [T_float], required = True, rmin = None, rmax = None\<rparr>)]"

definition OrcaOpenSingleSidedPositionTool_try :: "env \<Rightarrow> kit \<Rightarrow> string \<Rightarrow> pyval comp" where
  "OrcaOpenSingleSidedPositionTool_try E K input =
     bnd (lift (json_loads E input)) (\<lambda>data.
     bnd (lift (validate_stmt E data OrcaOpenSingleSidedPositionTool_schema)) (\<lambda>data.
     bnd (lift (py_getitem E data ''whirlpool_address'')) (\<lambda>whirlpool_address.
     bnd (lift (py_getitem E data ''distance_from_current_price_bps'')) (\<lambda>distance_from_current_price_bps.
     bnd (lift (py_getitem E data ''width_bps'')) (\<lambda>width_bps.
     bnd (lift (py_getitem E data ''input_token_mint'')) (\<lambda>input_token_mint.
     bnd (lift (py_getitem E data ''input_amount'')) (\<lambda>input_amount.
     bnd (await_kit K (Call ''open_single_sided_position'' [] [(''whirlpool_address'', whirlpool_address),
                                                               (''distance_from_current_price_bps'', distance_from_current_price_bps),
                                                               (''width_bps'', width_bps),
                                                               (''input_token_mint'', input_token_mint),
                                                               (''input_amount'', input_amount)])) (\<lambda>position_data.
     ret (PDict [(''position_data'', position_data), (''message'', PStr ''Success'')])))))))))"

definition OrcaOpenSingleSidedPositionTool_except :: "string \<Rightarrow> pyexc \<Rightarrow> pyval" where
  "OrcaOpenSingleSidedPositionTool_except input e =
     PDict [(''position_data'', PNone),
            (''message'', PStr (''Error opening single-sided position: '' @ str_of_exc e))]"

subsection \<open>CoingeckoGetTrendingTokensTool\<close>

definition coingecko_trending_error_result :: "pyexc \<Rightarrow> pyval" where
  "coingecko_trending_error_result e =
     PDict [(''trending_tokens'', PNone),
            (''message'', PStr (''Error fetching trending tokens: '' @ str_of_exc e))]"

definition CoingeckoGetTrendingTokensTool_try :: "env \<Rightarrow> kit \<Rightarrow> string \<Rightarrow> pyval comp" where
  "CoingeckoGetTrendingTokensTool_try E K input =
     bnd (await_kit K (Call ''get_trending_tokens'' [] [])) (\<lambda>trending_tokens.
     ret (PDict [(''trending_tokens'', trending_tokens),
                 (''message'', PStr ''Success'')]))"


subsection \<open>CoingeckoGetTrendingPoolsTool\<close>

definition CoingeckoGetTrendingPoolsTool_schema :: schema where
  "CoingeckoGetTrendingPoolsTool_schema =
     [(''duration'', \<lparr>rtype = [T_str], required = False, rmin = None, rmax = None\<rparr>)]"

definition CoingeckoGetTrendingPoolsTool_try :: "env \<Rightarrow> kit \<Rightarrow> string \<Rightarrow> pyval comp" where
  "CoingeckoGetTrendingPoolsTool_try E K input =
     bnd (lift (json_loads E input)) (\<lambda>data.
     bnd (lift (validate_stmt E data CoingeckoGetTrendingPoolsTool_schema)) (\<lambda>data.
     bnd (lift (py_get E data ''duration'' (PStr ''24h''))) (\<lambda>duration.
     bnd (await_kit K (Call ''get_trending_pools'' [] [(''duration'', duration)])) (\<lambda>trending_pools.
     ret (PDict [(''trending_pools'', trending_pools), (''message'', PStr ''Success'')])))))"

definition CoingeckoGetTrendingPoolsTool_except :: "string \<Rightarrow> pyexc \<Rightarrow> pyval" where
  "CoingeckoGetTrendingPoolsTool_except input e =
     PDict [(''trending_pools'', PNone),
            (''message'', PStr (''Error fetching trending pools: '' @ str_of_exc e))]"

subsection \<open>CoingeckoGetTopGainersTool\<close>

definition CoingeckoGetTopGainersTool_schema :: schema where
  "CoingeckoGetTopGainersTool_schema =
     [(''duration'', \<lparr>rtype = [T_str], required = False, rmin = None, rmax = None\<rparr>),
      (''top_coins'', \<lparr>rtype = [T_int, T_str], required = False, rmin = None, rmax = None\<rparr>)]"

definition CoingeckoGetTopGainersTool_try :: "env \<Rightarrow> kit \<Rightarrow> string \<Rightarrow> pyval comp" where
  "CoingeckoGetTopGainersTool_try E K input =
     bnd (lift (json_loads E input)) (\<lambda>data.
     bnd (lift (validate_stmt E data CoingeckoGetTopGainersTool_schema)) (\<lambda>data.
     bnd (lift (py_get E data ''duration'' (PStr ''24h''))) (\<lambda>duration.
     bnd (lift (py_get E data ''top_coins'' (PStr ''all''))) (\<lambda>top_coins.
     bnd (await_kit K (Call ''get_top_gainers'' [] [(''duration'', duration),
                                                    (''top_coins'', top_coins)])) (\<lambda>top_gainers.
     ret (PDict [(''top_gainers'', top_gainers), (''message'', PStr ''Success'')]))))))"

definition CoingeckoGetTopGainersTool_except :: "string \<Rightarrow> pyexc \<Rightarrow> pyval" where
  "CoingeckoGetTopGainersTool_except input e =
     PDict [(''top_gainers'', PNone),
            (''message'', PStr (''Error fetching top gainers: '' @ str_of_exc e))]"

subsection \<open>CoingeckoGetTokenPriceDataTool\<close>

definition CoingeckoGetTokenPriceDataTool_schema :: schema where
  "CoingeckoGetTokenPriceDataTool_schema =
     [(''token_addresses'', \<lparr>rtype = [T_list], required = True, rmin = None, rmax = None\<rparr>)]"

definition CoingeckoGetTokenPriceDataTool_try :: "env \<Rightarrow> kit \<Rightarrow> string \<Rightarrow> pyval comp" where
  "CoingeckoGetTokenPriceDataTool_try E K input =
     bnd (lift (json_loads E input)) (\<lambda>data.
     bnd (lift (validate_stmt E data CoingeckoGetTokenPriceDataTool_schema)) (\<lambda>data.
     bnd (lift (py_getitem E data ''token_addresses'')) (\<lambda>token_addresses.
     bnd (await_kit K (Call ''get_token_price_data'' [] [(''token_addresses'', token_addresses)])) (\<lambda>price_data.
     ret (PDict [(''price_data'', price_data), (''message'', PStr ''Success'')])))))"

definition CoingeckoGetTokenPriceDataTool_except :: "string \<Rightarrow> pyexc \<Rightarrow> pyval" where
  "CoingeckoGetTokenPriceDataTool_except input e =
     PDict [(''price_data'', PNone),
            (''message'', PStr (''Error fetching token price data: '' @ str_of_exc e))]"

subsection \<open>CoingeckoGetTokenInfoTool\<close>

definition CoingeckoGetTokenInfoTool_schema :: schema where
  "CoingeckoGetTokenInfoTool_schema =
     [(''token_address'', \<lparr>rtype = [T_str], required = True, rmin = None, rmax = None\<rparr>)]"

definition CoingeckoGetTokenInfoTool_try :: "env \<Rightarrow> kit \<Rightarrow> string \<Rightarrow> pyval comp" where
  "CoingeckoGetTokenInfoTool_try E K input =
     bnd (lift (json_loads E input)) (\<lambda>data.
     bnd (lift (validate_stmt E data CoingeckoGetTokenInfoTool_schema)) (\<lambda>data.
     bnd (lift (py_getitem E data ''token_address'')) (\<lambda>token_address.
     bnd (await_kit K (Call ''get_token_info'' [] [(''token_address'', token_address)])) (\<lambda>token_info.
     ret (PDict [(''token_info'', token_info), (''message'', PStr ''Success'')])))))"

definition CoingeckoGetTokenInfoTool_except :: "string \<Rightarrow> pyexc \<Rightarrow> pyval" where
  "CoingeckoGetTokenInfoTool_except input e =
     PDict [(''token_info'', PNone),
            (''message'', PStr (''Error fetching token info: '' @ str_of_exc e))]"

subsection \<open>CoingeckoGetLatestPoolsTool\<close>

definition CoingeckoGetLatestPoolsTool_try :: "env \<Rightarrow> kit \<Rightarrow> string \<Rightarrow> pyval comp" where
  "CoingeckoGetLatestPoolsTool_try E K input =
     bnd (await_kit K (Call ''get_latest_pools'' [] [])) (\<lambda>latest_pools.
     ret (PDict [(''latest_pools'', latest_pools), (''message'', PStr ''Success'')]))"

definition CoingeckoGetLatestPoolsTool_except :: "string \<Rightarrow> pyexc \<Rightarrow> pyval" where
  "CoingeckoGetLatestPoolsTool_except input e =
     PDict [(''latest_pools'', PNone),
            (''message'', PStr (''Error fetching latest pools: '' @ str_of_exc e))]"

subsection \<open>ElfaAiPingApiTool\<close>

definition ElfaAiPingApiTool_try :: "env \<Rightarrow> kit \<Rightarrow> string \<Rightarrow> pyval comp" where
  "ElfaAiPingApiTool_try E K input =
     bnd (await_kit K (Call ''ping_elfa_ai_api'' [] [])) (\<lambda>api_response.
     ret (PDict [(''api_response'', api_response), (''message'', PStr ''Success'')]))"

definition ElfaAiPingApiTool_except :: "string \<Rightarrow> pyexc \<Rightarrow> pyval" where
  "ElfaAiPingApiTool_except input e =
     PDict [(''api_response'', PNone),
            (''message'', PStr (''Error pinging Elfa AI API: '' @ str_of_exc e))]"

subsection \<open>ElfaAiGetApiKeyStatusTool\<close>

definition ElfaAiGetApiKeyStatusTool_try :: "env \<Rightarrow> kit \<Rightarrow> string \<Rightarrow> pyval comp" where
  "ElfaAiGetApiKeyStatusTool_try E K input =
     bnd (await_kit K (Call ''get_elfa_ai_api_key_status'' [] [])) (\<lambda>api_key_status.
     ret (PDict [(''api_key_status'', api_key_status), (''message'', PStr ''Success'')]))"

definition ElfaAiGetApiKeyStatusTool_except :: "string \<Rightarrow> pyexc \<Rightarrow> pyval" where
  "ElfaAiGetApiKeyStatusTool_except input e =
     PDict [(''api_key_status'', PNone),
            (''message'', PStr (''Error fetching Elfa AI API key status: '' @ str_of_exc e))]"

subsection \<open>ElfaAiGetSmartMentionsTool\<close>

definition ElfaAiGetSmartMentionsTool_try :: "env \<Rightarrow> kit \<Rightarrow> string \<Rightarrow> pyval comp" where
  "ElfaAiGetSmartMentionsTool_try E K input =
     bnd (lift (json_loads E input)) (\<lambda>data.
     bnd (lift (py_get E data ''limit'' (PInt 100))) (\<lambda>limit.
     bnd (lift (py_get E data ''offset'' (PInt 0))) (\<lambda>offset.
     bnd (await_kit K (Call ''get_smart_mentions'' [] [(''limit'', limit),
                                                       (''offset'', offset)])) (\<lambda>mentions_data.
     ret (PDict [(''mentions_data'', mentions_data), (''message'', PStr ''Success'')])))))"

definition ElfaAiGetSmartMentionsTool_except :: "string \<Rightarrow> pyexc \<Rightarrow> pyval" where
  "ElfaAiGetSmartMentionsTool_except input e =
     PDict [(''mentions_data'', PNone),
            (''message'', PStr (''Error fetching smart mentions: '' @ str_of_exc e))]"

subsection \<open>ElfaAiGetTopMentionsByTickerTool\<close>

definition ElfaAiGetTopMentionsByTickerTool_try :: "env \<Rightarrow> kit \<Rightarrow> string \<Rightarrow> pyval comp" where
  "ElfaAiGetTopMentionsByTickerTool_try E K input =
     bnd (lift (json_loads E input)) (\<lambda>data.
     bnd (lift (py_getitem E data ''ticker'')) (\<lambda>ticker.
     bnd (lift (py_get E data ''time_window'' (PStr ''1h''))) (\<lambda>time_window.
     bnd (lift (py_get E data ''page'' (PInt 1))) (\<lambda>page.
     bnd (lift (py_get E data ''page_size'' (PInt 10))) (\<lambda>page_size.
     bnd (lift (py_get E data ''include_account_details'' (PBool False))) (\<lambda>include_account_details.
     bnd (await_kit K (Call ''get_top_mentions_by_ticker'' [] [(''ticker'', ticker),
                                                               (''time_window'', time_window),
                                                               (''page'', page),
                                                               (''page_size'', page_size),
                                                               (''include_account_details'', include_account_details)])) (\<lambda>mentions_data.
     ret (PDict [(''mentions_data'', mentions_data), (''message'', PStr ''Success'')]))))))))"

definition ElfaAiGetTopMentionsByTickerTool_except :: "string \<Rightarrow> pyexc \<Rightarrow> pyval" where
  "ElfaAiGetTopMentionsByTickerTool_except input e =
     PDict [(''mentions_data'', PNone),
            (''message'', PStr (''Error fetching top mentions by ticker: '' @ str_of_exc e))]"

subsection \<open>ElfaAiSearchMentionsByKeywordsTool\<close>

definition ElfaAiSearchMentionsByKeywordsTool_try :: "env \<Rightarrow> kit \<Rightarrow> string \<Rightarrow> pyval comp" where
  "ElfaAiSearchMentionsByKeywordsTool_try E K input =
     bnd (lift (json_loads E input)) (\<lambda>data.
     bnd (lift (py_getitem E data ''keywords'')) (\<lambda>keywords.
     bnd (lift (py_getitem E data ''from_timestamp'')) (\<lambda>from_timestamp.
     bnd (lift (py_getitem E data ''to_timestamp'')) (\<lambda>to_timestamp.
     bnd (lift (py_get E data ''limit'' (PInt 20))) (\<lambda>limit.
     bnd (lift (py_get E data ''cursor'' PNone)) (\<lambda>cursor.
     bnd (await_kit K (Call ''search_mentions_by_keywords'' [] [(''keywords'', keywords),
                                                                (''from_timestamp'', from_timestamp),
                                                                (''to_timestamp'', to_timestamp),
                                                                (''limit'', limit),
                                                                (''cursor'', cursor)])) (\<lambda>search_results.
     ret (PDict [(''search_results'', search_results), (''message'', PStr ''Success'')]))))))))"

definition ElfaAiSearchMentionsByKeywordsTool_except :: "string \<Rightarrow> pyexc \<Rightarrow> pyval" where
  "ElfaAiSearchMentionsByKeywordsTool_except input e =
     PDict [(''search_results'', PNone),
            (''message'', PStr (''Error searching mentions by keywords: '' @ str_of_exc e))]"

subsection \<open>ElfaAiGetTrendingTokensTool\<close>

definition ElfaAiGetTrendingTokensTool_try :: "env \<Rightarrow> kit \<Rightarrow> string \<Rightarrow> pyval comp" where
  "ElfaAiGetTrendingTokensTool_try E K input =
     bnd (lift (json_loads E input)) (\<lambda>data.
     bnd (lift (py_get E data ''time_window'' (PStr ''24h''))) (\<lambda>time_window.
     bnd (lift (py_get E data ''page'' (PInt 1))) (\<lambda>page.
     bnd (lift (py_get E data ''page_size'' (PInt 50))) (\<lambda>page_size.
     bnd (lift (py_get E data ''min_mentions'' (PInt 5))) (\<lambda>min_mentions.
     bnd (await_kit K (Call ''get_trending_tokens_using_elfa_ai'' [] [(''time_window'', time_window),
                                                                      (''page'', page),
                                                                      (''page_size'', page_size),
                                                                      (''min_mentions'', min_mentions)])) (\<lambda>trending_tokens.
     ret (PDict [(''trending_tokens'', trending_tokens), (''message'', PStr ''Success'')])))))))"

definition ElfaAiGetTrendingTokensTool_except :: "string \<Rightarrow> pyexc \<Rightarrow> pyval" where
  "ElfaAiGetTrendingTokensTool_except input e =
     PDict [(''trending_tokens'', PNone),
            (''message'', PStr (''Error fetching trending tokens using Elfa AI: '' @ str_of_exc e))]"

subsection \<open>ElfaAiGetSmartTwitterAccountStatsTool\<close>

definition ElfaAiGetSmartTwitterAccountStatsTool_try :: "env \<Rightarrow> kit \<Rightarrow> string \<Rightarrow> pyval comp" where
  "ElfaAiGetSmartTwitterAccountStatsTool_try E K input =
     bnd (lift (json_loads E input)) (\<lambda>data.
     bnd (lift (py_getitem E data ''username'')) (\<lambda>username.
     bnd (await_kit K (Call ''get_smart_twitter_account_stats'' [] [(''username'', username)])) (\<lambda>account_stats.
     ret (PDict [(''account_stats'', account_stats), (''message'', PStr ''Success'')]))))"

definition ElfaAiGetSmartTwitterAccountStatsTool_except :: "string \<Rightarrow> pyexc \<Rightarrow> pyval" where
  "ElfaAiGetSmartTwitterAccountStatsTool_except input e =
     PDict [(''account_stats'', PNone),
            (''message'', PStr (''Error fetching smart Twitter account stats: '' @ str_of_exc e))]"

subsection \<open>FluxBeamCreatePoolTool\<close>

definition FluxBeamCreatePoolTool_try :: "env \<Rightarrow> kit \<Rightarrow> string \<Rightarrow> pyval comp" where
  "FluxBeamCreatePoolTool_try E K input =
     bnd (lift (json_loads E input)) (\<lambda>data.
     bnd (lift (py_getitem E data ''token_a'')) (\<lambda>token_a.
     bnd (lift (Pubkey_from_string E token_a)) (\<lambda>pubkey.
     bnd (lift (py_getitem E data ''token_a_amount'')) (\<lambda>token_a_amount.
     bnd (lift (py_getitem E data ''token_b'')) (\<lambda>token_b.
     bnd (lift (Pubkey_from_string E token_b)) (\<lambda>pubkey'.
     bnd (lift (py_getitem E data ''token_b_amount'')) (\<lambda>token_b_amount.
     bnd (await_kit K (Call ''fluxbeam_create_pool'' [] [(''token_a'', pubkey),
                                                         (''token_a_amount'', token_a_amount),
                                                         (''token_b'', pubkey'),
                                                         (''token_b_amount'', token_b_amount)])) (\<lambda>transaction_signature.
     ret (PDict [(''transaction_signature'', transaction_signature),
                 (''message'', PStr ''Success'')])))))))))"

definition FluxBeamCreatePoolTool_except :: "string \<Rightarrow> pyexc \<Rightarrow> pyval" where
  "FluxBeamCreatePoolTool_except input e =
     PDict [(''transaction_signature'', PNone),
            (''message'', PStr (''Error creating pool using FluxBeam: '' @ str_of_exc e))]"

subsection \<open>LuloLendTool\<close>

definition LuloLendTool_try :: "env \<Rightarrow> kit \<Rightarrow> string \<Rightarrow> pyval comp" where
  "LuloLendTool_try E K input =
     bnd (lift (json_loads E input)) (\<lambda>data.
     bnd (lift (py_getitem E data ''mint_address'')) (\<lambda>mint_address.
     bnd (lift (Pubkey_from_string E mint_address)) (\<lambda>pubkey.
     bnd (lift (py_getitem E data ''amount'')) (\<lambda>amount.
     bnd (await_kit K (Call ''lulo_lend'' [] [(''mint_address'', pubkey),
                                              (''amount'', amount)])) (\<lambda>transaction_signature.
     ret (PDict [(''transaction_signature'', transaction_signature),
                 (''message'', PStr ''Success'')]))))))"

definition LuloLendTool_except :: "string \<Rightarrow> pyexc \<Rightarrow> pyval" where
  "LuloLendTool_except input e =
     PDict [(''transaction_signature'', PNone),
            (''message'', PStr (''Error lending asset using Lulo: '' @ str_of_exc e))]"

subsection \<open>LuloWithdrawTool\<close>

definition LuloWithdrawTool_try :: "env \<Rightarrow> kit \<Rightarrow> string \<Rightarrow> pyval comp" where
  "LuloWithdrawTool_try E K input =
     bnd (lift (json_loads E input)) (\<lambda>data.
     bnd (lift (py_getitem E data ''mint_address'')) (\<lambda>mint_address.
     bnd (lift (Pubkey_from_string E mint_address)) (\<lambda>pubkey.
     bnd (lift (py_getitem E data ''amount'')) (\<lambda>amount.
     bnd (await_kit K (Call ''lulo_withdraw'' [] [(''mint_address'', pubkey),
                                                  (''amount'', amount)])) (\<lambda>transaction_signature.
     ret (PDict [(''transaction_signature'', transaction_signature),
                 (''message'', PStr ''Success'')]))))))"

definition LuloWithdrawTool_except :: "string \<Rightarrow> pyexc \<Rightarrow> pyval" where
  "LuloWithdrawTool_except input e =
     PDict [(''transaction_signature'', PNone),
            (''message'', PStr (''Error withdrawing asset using Lulo: '' @ str_of_exc e))]"

section \<open>The adapter classes and the factory\<close>

text \<open>
  The three messages with which the \<open>_run\<close> methods of the module raise
  \<open>NotImplementedError\<close>.
\<close>

definition run_msg_async_interface :: string where
  "run_msg_async_interface =
     ''This tool only supports async execution via _arun. Please use the async interface.''"

definition run_msg_via_arun :: string where
  "run_msg_via_arun =
     ''This tool only supports async execution via _arun.''"

definition run_msg_async_only :: string where
  "run_msg_async_only =
     ''This tool only supports async execution.''"

text \<open>
  The parameters of a method after \<open>self\<close>: none, or the one parameter
  \<open>input: str\<close>. No method of the module has defaults, \<open>*args\<close> or \<open>**kwargs\<close>.
\<close>

datatype params = Self | Self_input

text \<open>
  A class statement of the module, in what the properties below depend on: the class
  name, the name of the field that holds the agent kit, the parameters of its
  \<open>_run\<close> and the message of its \<open>_run\<close>.
\<close>

record tool_decl =
  decl_class :: string
  decl_kit_field :: string
  decl_run_params :: params
  decl_run_msg :: string

definition decl :: "string \<Rightarrow> string \<Rightarrow> params \<Rightarrow> string \<Rightarrow> tool_decl" where
  "decl c f p m =
     \<lparr>decl_class = c, decl_kit_field = f, decl_run_params = p, decl_run_msg = m\<rparr>"

text \<open>The class statements, in the order in which the module has them.\<close>

definition SolanaBalanceTool :: tool_decl where
  "SolanaBalanceTool = decl ''SolanaBalanceTool'' ''solana_kit'' Self_input run_msg_async_interface"

definition SolanaTransferTool :: tool_decl where
  "SolanaTransferTool = decl ''SolanaTransferTool'' ''solana_kit'' Self run_msg_async_interface"

definition SolanaDeployTokenTool :: tool_decl where
  "SolanaDeployTokenTool = decl ''SolanaDeployTokenTool'' ''solana_kit'' Self run_msg_async_interface"

definition SolanaTradeTool :: tool_decl where
  "SolanaTradeTool = decl ''SolanaTradeTool'' ''solana_kit'' Self run_msg_async_interface"

definition SolanaFaucetTool :: tool_decl where
  "SolanaFaucetTool = decl ''SolanaFaucetTool'' ''solana_kit'' Self run_msg_async_interface"

definition SolanaStakeTool :: tool_decl where
  "SolanaStakeTool = decl ''SolanaStakeTool'' ''solana_kit'' Self run_msg_async_interface"

definition SolanaGetWalletAddressTool :: tool_decl where
  "SolanaGetWalletAddressTool = decl ''SolanaGetWalletAddressTool'' ''solana_kit'' Self run_msg_async_interface"

definition SolanaCreateImageTool :: tool_decl where
  "SolanaCreateImageTool = decl ''SolanaCreateImageTool'' ''solana_kit'' Self run_msg_async_interface"

definition SolanaTPSCalculatorTool :: tool_decl where
  "SolanaTPSCalculatorTool = decl ''SolanaTPSCalculatorTool'' ''solana_kit'' Self run_msg_async_interface"

definition SolanaPumpFunTokenTool :: tool_decl where
  "SolanaPumpFunTokenTool = decl ''SolanaPumpFunTokenTool'' ''solana_kit'' Self run_msg_async_interface"

definition SolanaFetchPriceTool :: tool_decl where
  "SolanaFetchPriceTool = decl ''SolanaFetchPriceTool'' ''solana_kit'' Self run_msg_async_interface"

definition SolanaTokenDataTool :: tool_decl where
  "SolanaTokenDataTool = decl ''SolanaTokenDataTool'' ''solana_kit'' Self run_msg_async_interface"

definition SolanaTokenDataByTickerTool :: tool_decl where
  "SolanaTokenDataByTickerTool = decl ''SolanaTokenDataByTickerTool'' ''solana_kit'' Self run_msg_async_interface"

definition SolanaMeteoraDLMMTool :: tool_decl where
  "SolanaMeteoraDLMMTool = decl ''SolanaMeteoraDLMMTool'' ''solana_kit'' Self run_msg_async_interface"

definition SolanaRaydiumBuyTool :: tool_decl where
  "SolanaRaydiumBuyTool = decl ''SolanaRaydiumBuyTool'' ''solana_kit'' Self_input run_msg_async_interface"

definition SolanaRaydiumSellTool :: tool_decl where
  "SolanaRaydiumSellTool = decl ''SolanaRaydiumSellTool'' ''solana_kit'' Self_input run_msg_async_interface"

definition SolanaBurnAndCloseTool :: tool_decl where
  "SolanaBurnAndCloseTool = decl ''SolanaBurnAndCloseTool'' ''solana_kit'' Self_input run_msg_async_interface"

definition SolanaBurnAndCloseMultipleTool :: tool_decl where
  "SolanaBurnAndCloseMultipleTool = decl ''SolanaBurnAndCloseMultipleTool'' ''solana_kit'' Self_input run_msg_async_interface"

definition SolanaCreateGibworkTaskTool :: tool_decl where
  "SolanaCreateGibworkTaskTool = decl ''SolanaCreateGibworkTaskTool'' ''solana_kit'' Self_input run_msg_async_interface"

definition SolanaBuyUsingMoonshotTool :: tool_decl where
  "SolanaBuyUsingMoonshotTool = decl ''SolanaBuyUsingMoonshotTool'' ''solana_kit'' Self_input run_msg_async_interface"

definition SolanaSellUsingMoonshotTool :: tool_decl where
  "SolanaSellUsingMoonshotTool = decl ''SolanaSellUsingMoonshotTool'' ''solana_kit'' Self_input run_msg_async_interface"

definition SolanaPythGetPriceTool :: tool_decl where
  "SolanaPythGetPriceTool = decl ''SolanaPythGetPriceTool'' ''solana_kit'' Self_input run_msg_async_interface"

definition SolanaHeliusGetBalancesTool :: tool_decl where
  "SolanaHeliusGetBalancesTool = decl ''SolanaHeliusGetBalancesTool'' ''solana_kit'' Self_input run_msg_async_interface"

definition SolanaHeliusGetAddressNameTool :: tool_decl where
  "SolanaHeliusGetAddressNameTool = decl ''SolanaHeliusGetAddressNameTool'' ''solana_kit'' Self_input run_msg_async_interface"

definition SolanaHeliusGetNftEventsTool :: tool_decl where
  "SolanaHeliusGetNftEventsTool = decl ''SolanaHeliusGetNftEventsTool'' ''solana_kit'' Self_input run_msg_async_interface"

definition SolanaHeliusGetMintlistsTool :: tool_decl where
  "SolanaHeliusGetMintlistsTool = decl ''SolanaHeliusGetMintlistsTool'' ''solana_kit'' Self_input run_msg_async_interface"

definition SolanaHeliusGetNFTFingerprintTool :: tool_decl where
  "SolanaHeliusGetNFTFingerprintTool = decl ''SolanaHeliusGetNFTFingerprintTool'' ''solana_kit'' Self_input run_msg_async_interface"

definition SolanaHeliusGetActiveListingsTool :: tool_decl where
  "SolanaHeliusGetActiveListingsTool = decl ''SolanaHeliusGetActiveListingsTool'' ''solana_kit'' Self_input run_msg_async_interface"

definition SolanaHeliusGetNFTMetadataTool :: tool_decl where
  "SolanaHeliusGetNFTMetadataTool = decl ''SolanaHeliusGetNFTMetadataTool'' ''solana_kit'' Self_input run_msg_async_interface"

definition SolanaHeliusGetRawTransactionsTool :: tool_decl where
  "SolanaHeliusGetRawTransactionsTool = decl ''SolanaHeliusGetRawTransactionsTool'' ''solana_kit'' Self_input run_msg_async_interface"

definition SolanaHeliusGetParsedTransactionsTool :: tool_decl where
  "SolanaHeliusGetParsedTransactionsTool = decl ''SolanaHeliusGetParsedTransactionsTool'' ''solana_kit'' Self_input run_msg_async_interface"

definition SolanaHeliusGetParsedTransactionHistoryTool :: tool_decl where
  "SolanaHeliusGetParsedTransactionHistoryTool = decl ''SolanaHeliusGetParsedTransactionHistoryTool'' ''solana_kit'' Self_input run_msg_async_interface"

definition SolanaHeliusCreateWebhookTool :: tool_decl where
  "SolanaHeliusCreateWebhookTool = decl ''SolanaHeliusCreateWebhookTool'' ''solana_kit'' Self_input run_msg_async_interface"

definition SolanaHeliusGetAllWebhooksTool :: tool_decl where
  "SolanaHeliusGetAllWebhooksTool = decl ''SolanaHeliusGetAllWebhooksTool'' ''solana_kit'' Self_input run_msg_async_interface"

definition SolanaHeliusGetWebhookTool :: tool_decl where
  "SolanaHeliusGetWebhookTool = decl ''SolanaHeliusGetWebhookTool'' ''solana_kit'' Self run_msg_async_interface"

definition SolanaHeliusEditWebhookTool :: tool_decl where
  "SolanaHeliusEditWebhookTool = decl ''SolanaHeliusEditWebhookTool'' ''solana_kit'' Self run_msg_async_interface"

definition SolanaHeliusDeleteWebhookTool :: tool_decl where
  "SolanaHeliusDeleteWebhookTool = decl ''SolanaHeliusDeleteWebhookTool'' ''solana_kit'' Self run_msg_async_interface"

definition SolanaFetchTokenReportSummaryTool :: tool_decl where
  "SolanaFetchTokenReportSummaryTool = decl ''SolanaFetchTokenReportSummaryTool'' ''solana_kit'' Self run_msg_async_interface"

definition SolanaFetchTokenDetailedReportTool :: tool_decl where
  "SolanaFetchTokenDetailedReportTool = decl ''SolanaFetchTokenDetailedReportTool'' ''solana_kit'' Self run_msg_async_interface"

definition SolanaGetPumpCurveStateTool :: tool_decl where
  "SolanaGetPumpCurveStateTool = decl ''SolanaGetPumpCurveStateTool'' ''solana_kit'' Self run_msg_async_only"

definition SolanaCalculatePumpCurvePriceTool :: tool_decl where
  "SolanaCalculatePumpCurvePriceTool = decl ''SolanaCalculatePumpCurvePriceTool'' ''solana_kit'' Self run_msg_async_only"

definition SolanaBuyTokenTool :: tool_decl where
  "SolanaBuyTokenTool = decl ''SolanaBuyTokenTool'' ''solana_kit'' Self run_msg_async_only"

definition SolanaSellTokenTool :: tool_decl where
  "SolanaSellTokenTool = decl ''SolanaSellTokenTool'' ''solana_kit'' Self run_msg_async_only"

definition SolanaSNSResolveTool :: tool_decl where
  "SolanaSNSResolveTool = decl ''SolanaSNSResolveTool'' ''solana_kit'' Self run_msg_async_interface"

definition SolanaSNSRegisterDomainTool :: tool_decl where
  "SolanaSNSRegisterDomainTool = decl ''SolanaSNSRegisterDomainTool'' ''solana_kit'' Self run_msg_async_interface"

definition SolanaSNSGetFavouriteDomainTool :: tool_decl where
  "SolanaSNSGetFavouriteDomainTool = decl ''SolanaSNSGetFavouriteDomainTool'' ''solana_kit'' Self run_msg_async_interface"

definition SolanaSNSGetAllDomainsTool :: tool_decl where
  "SolanaSNSGetAllDomainsTool = decl ''SolanaSNSGetAllDomainsTool'' ''solana_kit'' Self run_msg_async_interface"

definition SolanaDeployCollectionTool :: tool_decl where
  "SolanaDeployCollectionTool = decl ''SolanaDeployCollectionTool'' ''solana_kit'' Self_input run_msg_async_interface"

definition SolanaGetMetaplexAssetTool :: tool_decl where
  "SolanaGetMetaplexAssetTool = decl ''SolanaGetMetaplexAssetTool'' ''solana_kit'' Self_input run_msg_async_interface"

definition SolanaGetMetaplexAssetsByCreatorTool :: tool_decl where
  "SolanaGetMetaplexAssetsByCreatorTool = decl ''SolanaGetMetaplexAssetsByCreatorTool'' ''solana_kit'' Self_input run_msg_async_interface"

definition SolanaGetMetaplexAssetsByAuthorityTool :: tool_decl where
  "SolanaGetMetaplexAssetsByAuthorityTool = decl ''SolanaGetMetaplexAssetsByAuthorityTool'' ''solana_kit'' Self_input run_msg_async_interface"

definition SolanaMintMetaplexCoreNFTTool :: tool_decl where
  "SolanaMintMetaplexCoreNFTTool = decl ''SolanaMintMetaplexCoreNFTTool'' ''solana_kit'' Self_input run_msg_async_interface"

definition SolanaDeBridgeCreateTransactionTool :: tool_decl where
  "SolanaDeBridgeCreateTransactionTool = decl ''SolanaDeBridgeCreateTransactionTool'' ''solana_kit'' Self_input run_msg_async_interface"

definition SolanaDeBridgeExecuteTransactionTool :: tool_decl where
  "SolanaDeBridgeExecuteTransactionTool = decl ''SolanaDeBridgeExecuteTransactionTool'' ''solana_kit'' Self_input run_msg_async_interface"

definition SolanaDeBridgeCheckTransactionStatusTool :: tool_decl where
  "SolanaDeBridgeCheckTransactionStatusTool = decl ''SolanaDeBridgeCheckTransactionStatusTool'' ''solana_kit'' Self_input run_msg_async_interface"

definition SolanaCybersCreateCoinTool :: tool_decl where
  "SolanaCybersCreateCoinTool = decl ''SolanaCybersCreateCoinTool'' ''solana_kit'' Self_input run_msg_async_interface"

definition SolanaGetTipAccounts :: tool_decl where
  "SolanaGetTipAccounts = decl ''SolanaGetTipAccounts'' ''solana_kit'' Self_input run_msg_async_interface"

definition SolanaGetRandomTipAccount :: tool_decl where
  "SolanaGetRandomTipAccount = decl ''SolanaGetRandomTipAccount'' ''solana_kit'' Self run_msg_async_interface"

definition SolanaGetBundleStatuses :: tool_decl where
  "SolanaGetBundleStatuses = decl ''SolanaGetBundleStatuses'' ''solana_kit'' Self run_msg_async_interface"

definition SolanaSendBundle :: tool_decl where
  "SolanaSendBundle = decl ''SolanaSendBundle'' ''solana_kit'' Self run_msg_async_interface"

definition SolanaGetInflightBundleStatuses :: tool_decl where
  "SolanaGetInflightBundleStatuses = decl ''SolanaGetInflightBundleStatuses'' ''solana_kit'' Self run_msg_async_interface"

definition SolanaSendTxn :: tool_decl where
  "SolanaSendTxn = decl ''SolanaSendTxn'' ''solana_kit'' Self run_msg_async_interface"

definition StorkGetPriceTool :: tool_decl where
  "StorkGetPriceTool = decl ''StorkGetPriceTool'' ''solana_kit'' Self_input run_msg_async_interface"

definition BackpackGetAccountBalancesTool :: tool_decl where
  "BackpackGetAccountBalancesTool = decl ''BackpackGetAccountBalancesTool'' ''solana_kit'' Self run_msg_async_interface"

definition BackpackRequestWithdrawalTool :: tool_decl where
  "BackpackRequestWithdrawalTool = decl ''BackpackRequestWithdrawalTool'' ''solana_kit'' Self_input run_msg_async_interface"

definition BackpackGetAccountSettingsTool :: tool_decl where
  "BackpackGetAccountSettingsTool = decl ''BackpackGetAccountSettingsTool'' ''solana_kit'' Self_input run_msg_async_interface"

definition BackpackUpdateAccountSettingsTool :: tool_decl where
  "BackpackUpdateAccountSettingsTool = decl ''BackpackUpdateAccountSettingsTool'' ''solana_kit'' Self_input run_msg_async_interface"

definition BackpackGetBorrowLendPositionsTool :: tool_decl where
  "BackpackGetBorrowLendPositionsTool = decl ''BackpackGetBorrowLendPositionsTool'' ''solana_kit'' Self_input run_msg_async_interface"

definition BackpackExecuteBorrowLendTool :: tool_decl where
  "BackpackExecuteBorrowLendTool = decl ''BackpackExecuteBorrowLendTool'' ''solana_kit'' Self run_msg_async_interface"

definition BackpackGetFillHistoryTool :: tool_decl where
  "BackpackGetFillHistoryTool = decl ''BackpackGetFillHistoryTool'' ''solana_kit'' Self_input run_msg_async_interface"

definition BackpackGetBorrowPositionHistoryTool :: tool_decl where
  "BackpackGetBorrowPositionHistoryTool = decl ''BackpackGetBorrowPositionHistoryTool'' ''solana_kit'' Self_input run_msg_async_interface"

definition BackpackGetFundingPaymentsTool :: tool_decl where
  "BackpackGetFundingPaymentsTool = decl ''BackpackGetFundingPaymentsTool'' ''solana_kit'' Self_input run_msg_async_interface"

definition BackpackGetOrderHistoryTool :: tool_decl where
  "BackpackGetOrderHistoryTool = decl ''BackpackGetOrderHistoryTool'' ''solana_kit'' Self_input run_msg_async_interface"

definition BackpackGetPnlHistoryTool :: tool_decl where
  "BackpackGetPnlHistoryTool = decl ''BackpackGetPnlHistoryTool'' ''solana_kit'' Self_input run_msg_async_interface"

definition BackpackGetSettlementHistoryTool :: tool_decl where
  "BackpackGetSettlementHistoryTool = decl ''BackpackGetSettlementHistoryTool'' ''solana_kit'' Self_input run_msg_async_interface"

definition BackpackGetUsersOpenOrdersTool :: tool_decl where
  "BackpackGetUsersOpenOrdersTool = decl ''BackpackGetUsersOpenOrdersTool'' ''solana_kit'' Self_input run_msg_async_interface"

definition BackpackExecuteOrderTool :: tool_decl where
  "BackpackExecuteOrderTool = decl ''BackpackExecuteOrderTool'' ''solana_kit'' Self_input run_msg_async_interface"

definition BackpackCancelOpenOrderTool :: tool_decl where
  "BackpackCancelOpenOrderTool = decl ''BackpackCancelOpenOrderTool'' ''solana_kit'' Self_input run_msg_async_interface"

definition BackpackGetOpenOrdersTool :: tool_decl where
  "BackpackGetOpenOrdersTool = decl ''BackpackGetOpenOrdersTool'' ''solana_kit'' Self_input run_msg_async_interface"

definition BackpackCancelOpenOrdersTool :: tool_decl where
  "BackpackCancelOpenOrdersTool = decl ''BackpackCancelOpenOrdersTool'' ''solana_kit'' Self_input run_msg_async_interface"

definition BackpackGetSupportedAssetsTool :: tool_decl where
  "BackpackGetSupportedAssetsTool = decl ''BackpackGetSupportedAssetsTool'' ''solana_kit'' Self_input run_msg_async_interface"

definition BackpackGetTickerInformationTool :: tool_decl where
  "BackpackGetTickerInformationTool = decl ''BackpackGetTickerInformationTool'' ''solana_kit'' Self_input run_msg_async_interface"

definition BackpackGetMarketsTool :: tool_decl where
  "BackpackGetMarketsTool = decl ''BackpackGetMarketsTool'' ''solana_kit'' Self_input run_msg_async_interface"

definition BackpackGetMarketTool :: tool_decl where
  "BackpackGetMarketTool = decl ''BackpackGetMarketTool'' ''solana_kit'' Self_input run_msg_async_interface"

definition BackpackGetTickersTool :: tool_decl where
  "BackpackGetTickersTool = decl ''BackpackGetTickersTool'' ''solana_kit'' Self run_msg_async_interface"

definition BackpackGetDepthTool :: tool_decl where
  "BackpackGetDepthTool = decl ''BackpackGetDepthTool'' ''solana_kit'' Self run_msg_async_interface"

definition BackpackGetKlinesTool :: tool_decl where
  "BackpackGetKlinesTool = decl ''BackpackGetKlinesTool'' ''solana_kit'' Self_input run_msg_async_interface"

definition BackpackGetMarkPriceTool :: tool_decl where
  "BackpackGetMarkPriceTool = decl ''BackpackGetMarkPriceTool'' ''solana_kit'' Self run_msg_async_interface"

definition BackpackGetOpenInterestTool :: tool_decl where
  "BackpackGetOpenInterestTool = decl ''BackpackGetOpenInterestTool'' ''solana_kit'' Self run_msg_async_interface"

definition BackpackGetFundingIntervalRatesTool :: tool_decl where
  "BackpackGetFundingIntervalRatesTool = decl ''BackpackGetFundingIntervalRatesTool'' ''solana_kit'' Self run_msg_async_interface"

definition BackpackGetStatusTool :: tool_decl where
  "BackpackGetStatusTool = decl ''BackpackGetStatusTool'' ''solana_kit'' Self run_msg_async_interface"

definition BackpackSendPingTool :: tool_decl where
  "BackpackSendPingTool = decl ''BackpackSendPingTool'' ''solana_kit'' Self_input run_msg_async_interface"

definition BackpackGetSystemTimeTool :: tool_decl where
  "BackpackGetSystemTimeTool = decl ''BackpackGetSystemTimeTool'' ''solana_kit'' Self run_msg_async_interface"

definition BackpackGetRecentTradesTool :: tool_decl where
  "BackpackGetRecentTradesTool = decl ''BackpackGetRecentTradesTool'' ''solana_kit'' Self run_msg_async_interface"

definition BackpackGetHistoricalTradesTool :: tool_decl where
  "BackpackGetHistoricalTradesTool = decl ''BackpackGetHistoricalTradesTool'' ''solana_kit'' Self run_msg_async_interface"

definition BackpackGetCollateralInfoTool :: tool_decl where
  "BackpackGetCollateralInfoTool = decl ''BackpackGetCollateralInfoTool'' ''solana_kit'' Self run_msg_async_interface"

definition BackpackGetAccountDepositsTool :: tool_decl where
  "BackpackGetAccountDepositsTool = decl ''BackpackGetAccountDepositsTool'' ''solana_kit'' Self_input run_msg_async_interface"

definition BackpackGetOpenPositionsTool :: tool_decl where
  "BackpackGetOpenPositionsTool = decl ''BackpackGetOpenPositionsTool'' ''solana_kit'' Self run_msg_async_interface"

definition BackpackGetBorrowHistoryTool :: tool_decl where
  "BackpackGetBorrowHistoryTool = decl ''BackpackGetBorrowHistoryTool'' ''solana_kit'' Self_input run_msg_async_interface"

definition BackpackGetInterestHistoryTool :: tool_decl where
  "BackpackGetInterestHistoryTool = decl ''BackpackGetInterestHistoryTool'' ''solana_kit'' Self run_msg_async_interface"

definition ClosePerpTradeShortTool :: tool_decl where
  "ClosePerpTradeShortTool = decl ''ClosePerpTradeShortTool'' ''solana_kit'' Self run_msg_async_interface"

definition ClosePerpTradeLongTool :: tool_decl where
  "ClosePerpTradeLongTool = decl ''ClosePerpTradeLongTool'' ''solana_kit'' Self run_msg_async_interface"

definition OpenPerpTradeLongTool :: tool_decl where
  "OpenPerpTradeLongTool = decl ''OpenPerpTradeLongTool'' ''solana_kit'' Self run_msg_async_interface"

definition OpenPerpTradeShortTool :: tool_decl where
  "OpenPerpTradeShortTool = decl ''OpenPerpTradeShortTool'' ''solana_kit'' Self run_msg_async_interface"

definition Create3LandCollectionTool :: tool_decl where
  "Create3LandCollectionTool = decl ''Create3LandCollectionTool'' ''solana_kit'' Self run_msg_async_interface"

definition Create3LandNFTTool :: tool_decl where
  "Create3LandNFTTool = decl ''Create3LandNFTTool'' ''solana_kit'' Self run_msg_via_arun"

definition CreateDriftUserAccountTool :: tool_decl where
  "CreateDriftUserAccountTool = decl ''CreateDriftUserAccountTool'' ''solana_kit'' Self run_msg_async_interface"

definition DepositToDriftUserAccountTool :: tool_decl where
  "DepositToDriftUserAccountTool = decl ''DepositToDriftUserAccountTool'' ''solana_kit'' Self run_msg_async_interface"

definition WithdrawFromDriftUserAccountTool :: tool_decl where
  "WithdrawFromDriftUserAccountTool = decl ''WithdrawFromDriftUserAccountTool'' ''solana_kit'' Self run_msg_async_interface"

definition TradeUsingDriftPerpAccountTool :: tool_decl where
  "TradeUsingDriftPerpAccountTool = decl ''TradeUsingDriftPerpAccountTool'' ''solana_kit'' Self run_msg_async_interface"

definition CheckIfDriftAccountExistsTool :: tool_decl where
  "CheckIfDriftAccountExistsTool = decl ''CheckIfDriftAccountExistsTool'' ''solana_kit'' Self run_msg_via_arun"

definition DriftUserAccountInfoTool :: tool_decl where
  "DriftUserAccountInfoTool = decl ''DriftUserAccountInfoTool'' ''solana_kit'' Self run_msg_via_arun"

definition GetAvailableDriftMarketsTool :: tool_decl where
  "GetAvailableDriftMarketsTool = decl ''GetAvailableDriftMarketsTool'' ''solana_kit'' Self run_msg_via_arun"

definition StakeToDriftInsuranceFundTool :: tool_decl where
  "StakeToDriftInsuranceFundTool = decl ''StakeToDriftInsuranceFundTool'' ''solana_kit'' Self run_msg_async_interface"

definition RequestUnstakeFromDriftInsuranceFundTool :: tool_decl where
  "RequestUnstakeFromDriftInsuranceFundTool = decl ''RequestUnstakeFromDriftInsuranceFundTool'' ''solana_kit'' Self run_msg_async_interface"

definition UnstakeFromDriftInsuranceFundTool :: tool_decl where
  "UnstakeFromDriftInsuranceFundTool = decl ''UnstakeFromDriftInsuranceFundTool'' ''solana_kit'' Self run_msg_async_interface"

definition DriftSwapSpotTokenTool :: tool_decl where
  "DriftSwapSpotTokenTool = decl ''DriftSwapSpotTokenTool'' ''solana_kit'' Self run_msg_async_interface"

definition GetDriftPerpMarketFundingRateTool :: tool_decl where
  "GetDriftPerpMarketFundingRateTool = decl ''GetDriftPerpMarketFundingRateTool'' ''solana_kit'' Self run_msg_async_interface"

definition GetDriftEntryQuoteOfPerpTradeTool :: tool_decl where
  "GetDriftEntryQuoteOfPerpTradeTool = decl ''GetDriftEntryQuoteOfPerpTradeTool'' ''solana_kit'' Self run_msg_async_interface"

definition GetDriftLendBorrowApyTool :: tool_decl where
  "GetDriftLendBorrowApyTool = decl ''GetDriftLendBorrowApyTool'' ''solana_kit'' Self run_msg_async_interface"

definition CreateDriftVaultTool :: tool_decl where
  "CreateDriftVaultTool = decl ''CreateDriftVaultTool'' ''solana_kit'' Self run_msg_async_interface"

definition UpdateDriftVaultDelegateTool :: tool_decl where
  "UpdateDriftVaultDelegateTool = decl ''UpdateDriftVaultDelegateTool'' ''solana_kit'' Self run_msg_async_interface"

definition UpdateDriftVaultTool :: tool_decl where
  "UpdateDriftVaultTool = decl ''UpdateDriftVaultTool'' ''solana_kit'' Self run_msg_via_arun"

definition GetDriftVaultInfoTool :: tool_decl where
  "GetDriftVaultInfoTool = decl ''GetDriftVaultInfoTool'' ''solana_kit'' Self run_msg_async_interface"

definition DepositIntoDriftVaultTool :: tool_decl where
  "DepositIntoDriftVaultTool = decl ''DepositIntoDriftVaultTool'' ''solana_kit'' Self run_msg_async_interface"

definition RequestWithdrawalFromDriftVaultTool :: tool_decl where
  "RequestWithdrawalFromDriftVaultTool = decl ''RequestWithdrawalFromDriftVaultTool'' ''solana_kit'' Self run_msg_async_interface"

definition WithdrawFromDriftVaultTool :: tool_decl where
  "WithdrawFromDriftVaultTool = decl ''WithdrawFromDriftVaultTool'' ''solana_kit'' Self run_msg_async_interface"

definition DeriveDriftVaultAddressTool :: tool_decl where
  "DeriveDriftVaultAddressTool = decl ''DeriveDriftVaultAddressTool'' ''solana_kit'' Self run_msg_async_interface"

definition TradeUsingDelegatedDriftVaultTool :: tool_decl where
  "TradeUsingDelegatedDriftVaultTool = decl ''TradeUsingDelegatedDriftVaultTool'' ''solana_kit'' Self run_msg_async_interface"

definition FlashOpenTradeTool :: tool_decl where
  "FlashOpenTradeTool = decl ''FlashOpenTradeTool'' ''solana_kit'' Self run_msg_via_arun"

definition FlashCloseTradeTool :: tool_decl where
  "FlashCloseTradeTool = decl ''FlashCloseTradeTool'' ''solana_kit'' Self run_msg_async_interface"

definition ResolveAllDomainsTool :: tool_decl where
  "ResolveAllDomainsTool = decl ''ResolveAllDomainsTool'' ''solana_kit'' Self run_msg_async_interface"

definition GetOwnedDomainsForTLDTool :: tool_decl where
  "GetOwnedDomainsForTLDTool = decl ''GetOwnedDomainsForTLDTool'' ''solana_kit'' Self_input run_msg_async_interface"

definition GetAllDomainsTLDsTool :: tool_decl where
  "GetAllDomainsTLDsTool = decl ''GetAllDomainsTLDsTool'' ''solana_kit'' Self run_msg_async_interface"

definition GetOwnedAllDomainsTool :: tool_decl where
  "GetOwnedAllDomainsTool = decl ''GetOwnedAllDomainsTool'' ''solana_kit'' Self run_msg_async_interface"

definition LightProtocolSendCompressedAirdropTool :: tool_decl where
  "LightProtocolSendCompressedAirdropTool = decl ''LightProtocolSendCompressedAirdropTool'' ''solana_kit'' Self_input run_msg_async_interface"

definition ManifestCreateMarketTool :: tool_decl where
  "ManifestCreateMarketTool = decl ''ManifestCreateMarketTool'' ''solana_kit'' Self_input run_msg_async_interface"

definition ManifestPlaceLimitOrderTool :: tool_decl where
  "ManifestPlaceLimitOrderTool = decl ''ManifestPlaceLimitOrderTool'' ''solana_kit'' Self_input run_msg_async_interface"

definition ManifestPlaceBatchOrdersTool :: tool_decl where
  "ManifestPlaceBatchOrdersTool = decl ''ManifestPlaceBatchOrdersTool'' ''solana_kit'' Self_input run_msg_async_interface"

definition ManifestCancelAllOrdersTool :: tool_decl where
  "ManifestCancelAllOrdersTool = decl ''ManifestCancelAllOrdersTool'' ''solana_kit'' Self_input run_msg_async_interface"

definition ManifestWithdrawAllTool :: tool_decl where
  "ManifestWithdrawAllTool = decl ''ManifestWithdrawAllTool'' ''solana_kit'' Self_input run_msg_async_interface"

definition OpenBookCreateMarketTool :: tool_decl where
  "OpenBookCreateMarketTool = decl ''OpenBookCreateMarketTool'' ''solana_kit'' Self_input run_msg_async_interface"

definition OrcaClosePositionTool :: tool_decl where
  "OrcaClosePositionTool = decl ''OrcaClosePositionTool'' ''solana_kit'' Self_input run_msg_async_interface"

definition OrcaCreateClmmTool :: tool_decl where
  "OrcaCreateClmmTool = decl ''OrcaCreateClmmTool'' ''solana_kit'' Self_input run_msg_async_interface"

definition OrcaCreateLiquidityPoolTool :: tool_decl where
  "OrcaCreateLiquidityPoolTool = decl ''OrcaCreateLiquidityPoolTool'' ''solana_kit'' Self_input run_msg_async_interface"

definition OrcaFetchPositionsTool :: tool_decl where
  "OrcaFetchPositionsTool = decl ''OrcaFetchPositionsTool'' ''solana_kit'' Self_input run_msg_async_interface"

definition OrcaOpenCenteredPositionTool :: tool_decl where
  "OrcaOpenCenteredPositionTool = decl ''OrcaOpenCenteredPositionTool'' ''solana_kit'' Self_input run_msg_async_interface"

definition OrcaOpenSingleSidedPositionTool :: tool_decl where
  "OrcaOpenSingleSidedPositionTool = decl ''OrcaOpenSingleSidedPositionTool'' ''solana_kit'' Self_input run_msg_async_interface"

definition CoingeckoGetTrendingTokensTool :: tool_decl where
  "CoingeckoGetTrendingTokensTool = decl ''CoingeckoGetTrendingTokensTool'' ''agent_kit'' Self_input run_msg_async_interface"

definition CoingeckoGetTrendingPoolsTool :: tool_decl where
  "CoingeckoGetTrendingPoolsTool = decl ''CoingeckoGetTrendingPoolsTool'' ''agent_kit'' Self_input run_msg_async_interface"

definition CoingeckoGetTopGainersTool :: tool_decl where
  "CoingeckoGetTopGainersTool = decl ''CoingeckoGetTopGainersTool'' ''agent_kit'' Self_input run_msg_async_interface"

definition CoingeckoGetTokenPriceDataTool :: tool_decl where
  "CoingeckoGetTokenPriceDataTool = decl ''CoingeckoGetTokenPriceDataTool'' ''agent_kit'' Self_input run_msg_async_interface"

definition CoingeckoGetTokenInfoTool :: tool_decl where
  "CoingeckoGetTokenInfoTool = decl ''CoingeckoGetTokenInfoTool'' ''agent_kit'' Self_input run_msg_async_interface"

definition CoingeckoGetLatestPoolsTool :: tool_decl where
  "CoingeckoGetLatestPoolsTool = decl ''CoingeckoGetLatestPoolsTool'' ''agent_kit'' Self_input run_msg_async_interface"

definition ElfaAiPingApiTool :: tool_decl where
  "ElfaAiPingApiTool = decl ''ElfaAiPingApiTool'' ''agent_kit'' Self_input run_msg_async_interface"

definition ElfaAiGetApiKeyStatusTool :: tool_decl where
  "ElfaAiGetApiKeyStatusTool = decl ''ElfaAiGetApiKeyStatusTool'' ''agent_kit'' Self_input run_msg_async_interface"

definition ElfaAiGetSmartMentionsTool :: tool_decl where
  "ElfaAiGetSmartMentionsTool = decl ''ElfaAiGetSmartMentionsTool'' ''agent_kit'' Self_input run_msg_async_interface"

definition ElfaAiGetTopMentionsByTickerTool :: tool_decl where
  "ElfaAiGetTopMentionsByTickerTool = decl ''ElfaAiGetTopMentionsByTickerTool'' ''agent_kit'' Self_input run_msg_async_interface"

definition ElfaAiSearchMentionsByKeywordsTool :: tool_decl where
  "ElfaAiSearchMentionsByKeywordsTool = decl ''ElfaAiSearchMentionsByKeywordsTool'' ''agent_kit'' Self_input run_msg_async_interface"

definition ElfaAiGetTrendingTokensTool :: tool_decl where
  "ElfaAiGetTrendingTokensTool = decl ''ElfaAiGetTrendingTokensTool'' ''agent_kit'' Self_input run_msg_async_interface"

definition ElfaAiGetSmartTwitterAccountStatsTool :: tool_decl where
  "ElfaAiGetSmartTwitterAccountStatsTool = decl ''ElfaAiGetSmartTwitterAccountStatsTool'' ''agent_kit'' Self_input run_msg_async_interface"

definition FluxBeamCreatePoolTool :: tool_decl where
  "FluxBeamCreatePoolTool = decl ''FluxBeamCreatePoolTool'' ''agent_kit'' Self_input run_msg_async_interface"

definition LuloLendTool :: tool_decl where
  "LuloLendTool = decl ''LuloLendTool'' ''agent_kit'' Self_input run_msg_async_interface"

definition LuloWithdrawTool :: tool_decl where
  "LuloWithdrawTool = decl ''LuloWithdrawTool'' ''agent_kit'' Self_input run_msg_async_interface"

definition declared_tools :: "tool_decl list" where
  "declared_tools =
     [SolanaBalanceTool,
      SolanaTransferTool,
      SolanaDeployTokenTool,
      SolanaTradeTool,
      SolanaFaucetTool,
      SolanaStakeTool,
      SolanaGetWalletAddressTool,
      SolanaCreateImageTool,
      SolanaTPSCalculatorTool,
      SolanaPumpFunTokenTool,
      SolanaFetchPriceTool,
      SolanaTokenDataTool,
      SolanaTokenDataByTickerTool,
      SolanaMeteoraDLMMTool,
      SolanaRaydiumBuyTool,
      SolanaRaydiumSellTool,
      SolanaBurnAndCloseTool,
      SolanaBurnAndCloseMultipleTool,
      SolanaCreateGibworkTaskTool,
      SolanaBuyUsingMoonshotTool,
      SolanaSellUsingMoonshotTool,
      SolanaPythGetPriceTool,
      SolanaHeliusGetBalancesTool,
      SolanaHeliusGetAddressNameTool,
      SolanaHeliusGetNftEventsTool,
      SolanaHeliusGetMintlistsTool,
      SolanaHeliusGetNFTFingerprintTool,
      SolanaHeliusGetActiveListingsTool,
      SolanaHeliusGetNFTMetadataTool,
      SolanaHeliusGetRawTransactionsTool,
      SolanaHeliusGetParsedTransactionsTool,
      SolanaHeliusGetParsedTransactionHistoryTool,
      SolanaHeliusCreateWebhookTool,
      SolanaHeliusGetAllWebhooksTool,
      SolanaHeliusGetWebhookTool,
      SolanaHeliusEditWebhookTool,
      SolanaHeliusDeleteWebhookTool,
      SolanaFetchTokenReportSummaryTool,
      SolanaFetchTokenDetailedReportTool,
      SolanaGetPumpCurveStateTool,
      SolanaCalculatePumpCurvePriceTool,
      SolanaBuyTokenTool,
      SolanaSellTokenTool,
      SolanaSNSResolveTool,
      SolanaSNSRegisterDomainTool,
      SolanaSNSGetFavouriteDomainTool,
      SolanaSNSGetAllDomainsTool,
      SolanaDeployCollectionTool,
      SolanaGetMetaplexAssetTool,
      SolanaGetMetaplexAssetsByCreatorTool,
      SolanaGetMetaplexAssetsByAuthorityTool,
      SolanaMintMetaplexCoreNFTTool,
      SolanaDeBridgeCreateTransactionTool,
      SolanaDeBridgeExecuteTransactionTool,
      SolanaDeBridgeCheckTransactionStatusTool,
      SolanaCybersCreateCoinTool,
      SolanaGetTipAccounts,
      SolanaGetRandomTipAccount,
      SolanaGetBundleStatuses,
      SolanaSendBundle,
      SolanaGetInflightBundleStatuses,
      SolanaSendTxn,
      StorkGetPriceTool,
      BackpackGetAccountBalancesTool,
      BackpackRequestWithdrawalTool,
      BackpackGetAccountSettingsTool,
      BackpackUpdateAccountSettingsTool,
      BackpackGetBorrowLendPositionsTool,
      BackpackExecuteBorrowLendTool,
      BackpackGetFillHistoryTool,
      BackpackGetBorrowPositionHistoryTool,
      BackpackGetFundingPaymentsTool,
      BackpackGetOrderHistoryTool,
      BackpackGetPnlHistoryTool,
      BackpackGetSettlementHistoryTool,
      BackpackGetUsersOpenOrdersTool,
      BackpackExecuteOrderTool,
      BackpackCancelOpenOrderTool,
      BackpackGetOpenOrdersTool,
      BackpackCancelOpenOrdersTool,
      BackpackGetSupportedAssetsTool,
      BackpackGetTickerInformationTool,
      BackpackGetMarketsTool,
      BackpackGetMarketTool,
      BackpackGetTickersTool,
      BackpackGetDepthTool,
      BackpackGetKlinesTool,
      BackpackGetMarkPriceTool,
      BackpackGetOpenInterestTool,
      BackpackGetFundingIntervalRatesTool,
      BackpackGetStatusTool,
      BackpackSendPingTool,
      BackpackGetSystemTimeTool,
      BackpackGetRecentTradesTool,
      BackpackGetHistoricalTradesTool,
      BackpackGetCollateralInfoTool,
      BackpackGetAccountDepositsTool,
      BackpackGetOpenPositionsTool,
      BackpackGetBorrowHistoryTool,
      BackpackGetInterestHistoryTool,
      ClosePerpTradeShortTool,
      ClosePerpTradeLongTool,
      OpenPerpTradeLongTool,
      OpenPerpTradeShortTool,
      Create3LandCollectionTool,
      Create3LandNFTTool,
      CreateDriftUserAccountTool,
      DepositToDriftUserAccountTool,
      WithdrawFromDriftUserAccountTool,
      TradeUsingDriftPerpAccountTool,
      CheckIfDriftAccountExistsTool,
      DriftUserAccountInfoTool,
      GetAvailableDriftMarketsTool,
      StakeToDriftInsuranceFundTool,
      RequestUnstakeFromDriftInsuranceFundTool,
      UnstakeFromDriftInsuranceFundTool,
      DriftSwapSpotTokenTool,
      GetDriftPerpMarketFundingRateTool,
      GetDriftEntryQuoteOfPerpTradeTool,
      GetDriftLendBorrowApyTool,
      CreateDriftVaultTool,
      UpdateDriftVaultDelegateTool,
      UpdateDriftVaultTool,
      GetDriftVaultInfoTool,
      DepositIntoDriftVaultTool,
      RequestWithdrawalFromDriftVaultTool,
      WithdrawFromDriftVaultTool,
      DeriveDriftVaultAddressTool,
      TradeUsingDelegatedDriftVaultTool,
      FlashOpenTradeTool,
      FlashCloseTradeTool,
      ResolveAllDomainsTool,
      GetOwnedDomainsForTLDTool,
      GetAllDomainsTLDsTool,
      GetOwnedAllDomainsTool,
      LightProtocolSendCompressedAirdropTool,
      ManifestCreateMarketTool,
      ManifestPlaceLimitOrderTool,
      ManifestPlaceBatchOrdersTool,
      ManifestCancelAllOrdersTool,
      ManifestWithdrawAllTool,
      OpenBookCreateMarketTool,
      OrcaClosePositionTool,
      OrcaCreateClmmTool,
      OrcaCreateLiquidityPoolTool,
      OrcaFetchPositionsTool,
      OrcaOpenCenteredPositionTool,
      OrcaOpenSingleSidedPositionTool,
      CoingeckoGetTrendingTokensTool,
      CoingeckoGetTrendingPoolsTool,
      CoingeckoGetTopGainersTool,
      CoingeckoGetTokenPriceDataTool,
      CoingeckoGetTokenInfoTool,
      CoingeckoGetLatestPoolsTool,
      ElfaAiPingApiTool,
      ElfaAiGetApiKeyStatusTool,
      ElfaAiGetSmartMentionsTool,
      ElfaAiGetTopMentionsByTickerTool,
      ElfaAiSearchMentionsByKeywordsTool,
      ElfaAiGetTrendingTokensTool,
      ElfaAiGetSmartTwitterAccountStatsTool,
      FluxBeamCreatePoolTool,
      LuloLendTool,
      LuloWithdrawTool]"

text \<open>
  A call of a method with the positional arguments of the caller after \<open>self\<close>:
  \<open>None\<close> for a call without argument, \<open>Some input\<close> for a call with the input
  string, which is how the host framework calls \<open>_run\<close> and \<open>_arun\<close>. When the
  arguments do not fit the parameters the interpreter raises a \<open>TypeError\<close>, whose
  text names the method, before the body of the method is entered.
\<close>

fun accepts :: "params \<Rightarrow> string option \<Rightarrow> bool" where
  "accepts Self None = True"
| "accepts Self (Some input) = False"
| "accepts Self_input None = False"
| "accepts Self_input (Some input) = True"

definition arity_error :: "env \<Rightarrow> string \<Rightarrow> string \<Rightarrow> pyexc" where
  "arity_error E c method =
     Exc ''TypeError'' (interp_msg E ''arguments'' (PStr (c @ ''.'' @ method))) None"

text \<open>
  \<open>_run\<close>: the body is the same statement in every class, it raises at once and
  touches neither its input nor the agent kit.
\<close>

definition tool_run :: "env \<Rightarrow> tool_decl \<Rightarrow> string option \<Rightarrow> kit \<Rightarrow> outcome" where
  "tool_run E t arg K =
     (if accepts (decl_run_params t) arg
      then raise (Exc ''NotImplementedError'' (decl_run_msg t) None) []
      else raise (arity_error E (decl_class t) ''_run'') [])"

text \<open>
  The asynchronous method of a class, which in every class is one \<open>try\<close> statement
  with one handler \<open>except Exception as e: return ...\<close>: \<open>async def _arun(self, input:
  str)\<close>, \<open>async def _arun(self)\<close> or, in three classes that define no \<open>_arun\<close>,
  \<open>async def call(self, input: str)\<close>, whose handler returns \<open>json.dumps(...)\<close>. The
  first component is the block under \<open>try:\<close>, the second what the handler returns.
\<close>

datatype entry_point =
    Arun "env \<Rightarrow> kit \<Rightarrow> string \<Rightarrow> pyval comp" "string \<Rightarrow> pyexc \<Rightarrow> pyval"
  | Arun_no_input "env \<Rightarrow> kit \<Rightarrow> pyval comp" "pyexc \<Rightarrow> pyval"
  | Call_method "env \<Rightarrow> kit \<Rightarrow> string \<Rightarrow> pyval comp" "env \<Rightarrow> pyexc \<Rightarrow> pyexc + pyval"

text \<open>
  What the handler of a class returns, by the keys of the dict it builds: \<open>status\<close>
  (\<open>"error"\<close>), \<open>message\<close> and \<open>code\<close>; \<open>status\<close> (\<open>"error"\<close>) and \<open>message\<close>; or a
  dict without an error status and without a code (the key of the result with
  \<open>None\<close>, \<open>[]\<close> or \<open>False\<close>, and in most classes a message).
\<close>

datatype error_kind = Status_message_code | Status_message | No_error_status

text \<open>
  An adapter: its class, the schema it passes to \<open>validate_input\<close> when it calls it,
  its asynchronous method and the kind of its handler.
\<close>

record adapter =
  adapter_class :: tool_decl
  adapter_schema :: "schema option"
  adapter_entry :: entry_point
  adapter_error :: error_kind

definition adapter :: "tool_decl \<Rightarrow> schema option \<Rightarrow> entry_point \<Rightarrow> error_kind \<Rightarrow> adapter" where
  "adapter c S m k =
     \<lparr>adapter_class = c, adapter_schema = S, adapter_entry = m, adapter_error = k\<rparr>"

text \<open>The adapters of the module, in the order of the class statements.\<close>

definition adapters :: "adapter list" where
  "adapters =
     [adapter SolanaBalanceTool None
        (Arun SolanaBalanceTool_try (\<lambda>input. error_result)) Status_message_code,
      adapter SolanaTransferTool (Some transfer_schema)
        (Arun SolanaTransferTool_try (\<lambda>input. error_result)) Status_message_code,
      adapter SolanaDeployTokenTool (Some deploy_token_schema)
        (Arun SolanaDeployTokenTool_try (\<lambda>input. error_result)) Status_message_code,
      adapter SolanaTradeTool (Some SolanaTradeTool_schema)
        (Arun SolanaTradeTool_try SolanaTradeTool_except) Status_message_code,
      adapter SolanaFaucetTool None
        (Arun_no_input SolanaFaucetTool_try SolanaFaucetTool_except) Status_message_code,
      adapter SolanaStakeTool None
        (Arun SolanaStakeTool_try (\<lambda>input. error_result)) Status_message_code,
      adapter SolanaGetWalletAddressTool None
        (Arun_no_input SolanaGetWalletAddressTool_try SolanaGetWalletAddressTool_except) Status_message_code,
      adapter SolanaCreateImageTool (Some SolanaCreateImageTool_schema)
        (Arun SolanaCreateImageTool_try SolanaCreateImageTool_except) Status_message_code,
      adapter SolanaTPSCalculatorTool None
        (Arun_no_input SolanaTPSCalculatorTool_try SolanaTPSCalculatorTool_except) Status_message_code,
      adapter SolanaPumpFunTokenTool (Some SolanaPumpFunTokenTool_schema)
        (Arun SolanaPumpFunTokenTool_try SolanaPumpFunTokenTool_except) Status_message_code,
      adapter SolanaFetchPriceTool (Some SolanaFetchPriceTool_schema)
        (Call_method SolanaFetchPriceTool_try SolanaFetchPriceTool_except) Status_message_code,
      adapter SolanaTokenDataTool (Some SolanaTokenDataTool_schema)
        (Call_method SolanaTokenDataTool_try SolanaTokenDataTool_except) Status_message_code,
      adapter SolanaTokenDataByTickerTool (Some SolanaTokenDataByTickerTool_schema)
        (Call_method SolanaTokenDataByTickerTool_try SolanaTokenDataByTickerTool_except) Status_message_code,
      adapter SolanaMeteoraDLMMTool (Some meteora_schema)
        (Arun SolanaMeteoraDLMMTool_try meteora_error_result) Status_message_code,
      adapter SolanaRaydiumBuyTool None
        (Arun SolanaRaydiumBuyTool_try SolanaRaydiumBuyTool_except) Status_message_code,
      adapter SolanaRaydiumSellTool None
        (Arun SolanaRaydiumSellTool_try SolanaRaydiumSellTool_except) Status_message_code,
      adapter SolanaBurnAndCloseTool None
        (Arun SolanaBurnAndCloseTool_try (\<lambda>input. error_result)) Status_message_code,
      adapter SolanaBurnAndCloseMultipleTool (Some SolanaBurnAndCloseMultipleTool_schema)
        (Arun SolanaBurnAndCloseMultipleTool_try SolanaBurnAndCloseMultipleTool_except) Status_message_code,
      adapter SolanaCreateGibworkTaskTool (Some SolanaCreateGibworkTaskTool_schema)
        (Arun SolanaCreateGibworkTaskTool_try SolanaCreateGibworkTaskTool_except) Status_message_code,
      adapter SolanaBuyUsingMoonshotTool (Some SolanaBuyUsingMoonshotTool_schema)
        (Arun SolanaBuyUsingMoonshotTool_try SolanaBuyUsingMoonshotTool_except) Status_message_code,
      adapter SolanaSellUsingMoonshotTool (Some SolanaSellUsingMoonshotTool_schema)
        (Arun SolanaSellUsingMoonshotTool_try SolanaSellUsingMoonshotTool_except) Status_message_code,
      adapter SolanaPythGetPriceTool (Some SolanaPythGetPriceTool_schema)
        (Arun SolanaPythGetPriceTool_try SolanaPythGetPriceTool_except) Status_message,
      adapter SolanaHeliusGetBalancesTool (Some SolanaHeliusGetBalancesTool_schema)
        (Arun SolanaHeliusGetBalancesTool_try SolanaHeliusGetBalancesTool_except) Status_message,
      adapter SolanaHeliusGetAddressNameTool (Some SolanaHeliusGetAddressNameTool_schema)
        (Arun SolanaHeliusGetAddressNameTool_try SolanaHeliusGetAddressNameTool_except) Status_message,
      adapter SolanaHeliusGetNftEventsTool (Some SolanaHeliusGetNftEventsTool_schema)
        (Arun SolanaHeliusGetNftEventsTool_try SolanaHeliusGetNftEventsTool_except) Status_message,
      adapter SolanaHeliusGetMintlistsTool (Some SolanaHeliusGetMintlistsTool_schema)
        (Arun SolanaHeliusGetMintlistsTool_try SolanaHeliusGetMintlistsTool_except) Status_message,
      adapter SolanaHeliusGetNFTFingerprintTool (Some SolanaHeliusGetNFTFingerprintTool_schema)
        (Arun SolanaHeliusGetNFTFingerprintTool_try SolanaHeliusGetNFTFingerprintTool_except) Status_message,
      adapter SolanaHeliusGetActiveListingsTool (Some SolanaHeliusGetActiveListingsTool_schema)
        (Arun SolanaHeliusGetActiveListingsTool_try SolanaHeliusGetActiveListingsTool_except) Status_message,
      adapter SolanaHeliusGetNFTMetadataTool (Some SolanaHeliusGetNFTMetadataTool_schema)
        (Arun SolanaHeliusGetNFTMetadataTool_try SolanaHeliusGetNFTMetadataTool_except) Status_message,
      adapter SolanaHeliusGetRawTransactionsTool (Some SolanaHeliusGetRawTransactionsTool_schema)
        (Arun SolanaHeliusGetRawTransactionsTool_try SolanaHeliusGetRawTransactionsTool_except) Status_message,
      adapter SolanaHeliusGetParsedTransactionsTool (Some SolanaHeliusGetParsedTransactionsTool_schema)
        (Arun SolanaHeliusGetParsedTransactionsTool_try SolanaHeliusGetParsedTransactionsTool_except) Status_message,
      adapter SolanaHeliusGetParsedTransactionHistoryTool (Some SolanaHeliusGetParsedTransactionHistoryTool_schema)
        (Arun SolanaHeliusGetParsedTransactionHistoryTool_try SolanaHeliusGetParsedTransactionHistoryTool_except) Status_message,
      adapter SolanaHeliusCreateWebhookTool (Some SolanaHeliusCreateWebhookTool_schema)
        (Arun SolanaHeliusCreateWebhookTool_try SolanaHeliusCreateWebhookTool_except) Status_message,
      adapter SolanaHeliusGetAllWebhooksTool None
        (Arun_no_input SolanaHeliusGetAllWebhooksTool_try SolanaHeliusGetAllWebhooksTool_except) Status_message,
      adapter SolanaHeliusGetWebhookTool (Some SolanaHeliusGetWebhookTool_schema)
        (Arun SolanaHeliusGetWebhookTool_try SolanaHeliusGetWebhookTool_except) Status_message,
      adapter SolanaHeliusEditWebhookTool (Some SolanaHeliusEditWebhookTool_schema)
        (Arun SolanaHeliusEditWebhookTool_try SolanaHeliusEditWebhookTool_except) Status_message,
      adapter SolanaHeliusDeleteWebhookTool (Some SolanaHeliusDeleteWebhookTool_schema)
        (Arun SolanaHeliusDeleteWebhookTool_try SolanaHeliusDeleteWebhookTool_except) Status_message,
      adapter SolanaFetchTokenReportSummaryTool (Some SolanaFetchTokenReportSummaryTool_schema)
        (Arun SolanaFetchTokenReportSummaryTool_try SolanaFetchTokenReportSummaryTool_except) Status_message,
      adapter SolanaFetchTokenDetailedReportTool (Some SolanaFetchTokenDetailedReportTool_schema)
        (Arun SolanaFetchTokenDetailedReportTool_try SolanaFetchTokenDetailedReportTool_except) Status_message,
      adapter SolanaGetPumpCurveStateTool (Some SolanaGetPumpCurveStateTool_schema)
        (Arun SolanaGetPumpCurveStateTool_try SolanaGetPumpCurveStateTool_except) Status_message,
      adapter SolanaCalculatePumpCurvePriceTool (Some SolanaCalculatePumpCurvePriceTool_schema)
        (Arun SolanaCalculatePumpCurvePriceTool_try SolanaCalculatePumpCurvePriceTool_except) Status_message,
      adapter SolanaBuyTokenTool (Some SolanaBuyTokenTool_schema)
        (Arun SolanaBuyTokenTool_try SolanaBuyTokenTool_except) Status_message,
      adapter SolanaSellTokenTool (Some SolanaSellTokenTool_schema)
        (Arun SolanaSellTokenTool_try SolanaSellTokenTool_except) Status_message,
      adapter SolanaSNSResolveTool (Some SolanaSNSResolveTool_schema)
        (Arun SolanaSNSResolveTool_try SolanaSNSResolveTool_except) No_error_status,
      adapter SolanaSNSRegisterDomainTool (Some SolanaSNSRegisterDomainTool_schema)
        (Arun SolanaSNSRegisterDomainTool_try SolanaSNSRegisterDomainTool_except) No_error_status,
      adapter SolanaSNSGetFavouriteDomainTool (Some SolanaSNSGetFavouriteDomainTool_schema)
        (Arun SolanaSNSGetFavouriteDomainTool_try SolanaSNSGetFavouriteDomainTool_except) No_error_status,
      adapter SolanaSNSGetAllDomainsTool (Some SolanaSNSGetAllDomainsTool_schema)
        (Arun SolanaSNSGetAllDomainsTool_try SolanaSNSGetAllDomainsTool_except) No_error_status,
      adapter SolanaDeployCollectionTool (Some SolanaDeployCollectionTool_schema)
        (Arun SolanaDeployCollectionTool_try SolanaDeployCollectionTool_except) No_error_status,
      adapter SolanaGetMetaplexAssetTool (Some SolanaGetMetaplexAssetTool_schema)
        (Arun SolanaGetMetaplexAssetTool_try SolanaGetMetaplexAssetTool_except) No_error_status,
      adapter SolanaGetMetaplexAssetsByCreatorTool (Some SolanaGetMetaplexAssetsByCreatorTool_schema)
        (Arun SolanaGetMetaplexAssetsByCreatorTool_try SolanaGetMetaplexAssetsByCreatorTool_except) No_error_status,
      adapter SolanaGetMetaplexAssetsByAuthorityTool (Some SolanaGetMetaplexAssetsByAuthorityTool_schema)
        (Arun SolanaGetMetaplexAssetsByAuthorityTool_try SolanaGetMetaplexAssetsByAuthorityTool_except) No_error_status,
      adapter SolanaMintMetaplexCoreNFTTool (Some SolanaMintMetaplexCoreNFTTool_schema)
        (Arun SolanaMintMetaplexCoreNFTTool_try SolanaMintMetaplexCoreNFTTool_except) No_error_status,
      adapter SolanaDeBridgeCreateTransactionTool (Some SolanaDeBridgeCreateTransactionTool_schema)
        (Arun SolanaDeBridgeCreateTransactionTool_try SolanaDeBridgeCreateTransactionTool_except) No_error_status,
      adapter SolanaDeBridgeExecuteTransactionTool (Some SolanaDeBridgeExecuteTransactionTool_schema)
        (Arun SolanaDeBridgeExecuteTransactionTool_try SolanaDeBridgeExecuteTransactionTool_except) No_error_status,
      adapter SolanaDeBridgeCheckTransactionStatusTool (Some SolanaDeBridgeCheckTransactionStatusTool_schema)
        (Arun SolanaDeBridgeCheckTransactionStatusTool_try SolanaDeBridgeCheckTransactionStatusTool_except) No_error_status,
      adapter SolanaCybersCreateCoinTool (Some SolanaCybersCreateCoinTool_schema)
        (Arun SolanaCybersCreateCoinTool_try SolanaCybersCreateCoinTool_except) No_error_status,
      adapter SolanaGetTipAccounts None
        (Arun_no_input SolanaGetTipAccounts_try SolanaGetTipAccounts_except) No_error_status,
      adapter SolanaGetRandomTipAccount None
        (Arun_no_input SolanaGetRandomTipAccount_try SolanaGetRandomTipAccount_except) No_error_status,
      adapter SolanaGetBundleStatuses (Some SolanaGetBundleStatuses_schema)
        (Arun SolanaGetBundleStatuses_try SolanaGetBundleStatuses_except) No_error_status,
      adapter SolanaSendBundle (Some SolanaSendBundle_schema)
        (Arun SolanaSendBundle_try SolanaSendBundle_except) No_error_status,
      adapter SolanaGetInflightBundleStatuses (Some SolanaGetInflightBundleStatuses_schema)
        (Arun SolanaGetInflightBundleStatuses_try SolanaGetInflightBundleStatuses_except) No_error_status,
      adapter SolanaSendTxn (Some SolanaSendTxn_schema)
        (Arun SolanaSendTxn_try SolanaSendTxn_except) No_error_status,
      adapter StorkGetPriceTool None
        (Arun StorkGetPriceTool_try StorkGetPriceTool_except) Status_message,
      adapter BackpackGetAccountBalancesTool None
        (Arun_no_input BackpackGetAccountBalancesTool_try BackpackGetAccountBalancesTool_except) No_error_status,
      adapter BackpackRequestWithdrawalTool (Some BackpackRequestWithdrawalTool_schema)
        (Arun BackpackRequestWithdrawalTool_try BackpackRequestWithdrawalTool_except) No_error_status,
      adapter BackpackGetAccountSettingsTool None
        (Arun_no_input BackpackGetAccountSettingsTool_try BackpackGetAccountSettingsTool_except) No_error_status,
      adapter BackpackUpdateAccountSettingsTool None
        (Arun BackpackUpdateAccountSettingsTool_try BackpackUpdateAccountSettingsTool_except) No_error_status,
      adapter BackpackGetBorrowLendPositionsTool None
        (Arun_no_input BackpackGetBorrowLendPositionsTool_try BackpackGetBorrowLendPositionsTool_except) No_error_status,
      adapter BackpackExecuteBorrowLendTool (Some BackpackExecuteBorrowLendTool_schema)
        (Arun BackpackExecuteBorrowLendTool_try BackpackExecuteBorrowLendTool_except) No_error_status,
      adapter BackpackGetFillHistoryTool None
        (Arun BackpackGetFillHistoryTool_try BackpackGetFillHistoryTool_except) No_error_status,
      adapter BackpackGetBorrowPositionHistoryTool None
        (Arun BackpackGetBorrowPositionHistoryTool_try BackpackGetBorrowPositionHistoryTool_except) No_error_status,
      adapter BackpackGetFundingPaymentsTool None
        (Arun BackpackGetFundingPaymentsTool_try BackpackGetFundingPaymentsTool_except) No_error_status,
      adapter BackpackGetOrderHistoryTool None
        (Arun BackpackGetOrderHistoryTool_try BackpackGetOrderHistoryTool_except) No_error_status,
      adapter BackpackGetPnlHistoryTool None
        (Arun BackpackGetPnlHistoryTool_try BackpackGetPnlHistoryTool_except) No_error_status,
      adapter BackpackGetSettlementHistoryTool None
        (Arun BackpackGetSettlementHistoryTool_try BackpackGetSettlementHistoryTool_except) No_error_status,
      adapter BackpackGetUsersOpenOrdersTool None
        (Arun BackpackGetUsersOpenOrdersTool_try BackpackGetUsersOpenOrdersTool_except) No_error_status,
      adapter BackpackExecuteOrderTool None
        (Arun BackpackExecuteOrderTool_try BackpackExecuteOrderTool_except) No_error_status,
      adapter BackpackCancelOpenOrderTool None
        (Arun BackpackCancelOpenOrderTool_try BackpackCancelOpenOrderTool_except) No_error_status,
      adapter BackpackGetOpenOrdersTool None
        (Arun BackpackGetOpenOrdersTool_try BackpackGetOpenOrdersTool_except) No_error_status,
      adapter BackpackCancelOpenOrdersTool None
        (Arun BackpackCancelOpenOrdersTool_try BackpackCancelOpenOrdersTool_except) No_error_status,
      adapter BackpackGetSupportedAssetsTool None
        (Arun_no_input BackpackGetSupportedAssetsTool_try BackpackGetSupportedAssetsTool_except) No_error_status,
      adapter BackpackGetTickerInformationTool None
        (Arun BackpackGetTickerInformationTool_try BackpackGetTickerInformationTool_except) No_error_status,
      adapter BackpackGetMarketsTool None
        (Arun_no_input BackpackGetMarketsTool_try BackpackGetMarketsTool_except) No_error_status,
      adapter BackpackGetMarketTool None
        (Arun BackpackGetMarketTool_try BackpackGetMarketTool_except) No_error_status,
      adapter BackpackGetTickersTool None
        (Arun_no_input BackpackGetTickersTool_try BackpackGetTickersTool_except) No_error_status,
      adapter BackpackGetDepthTool (Some BackpackGetDepthTool_schema)
        (Arun BackpackGetDepthTool_try BackpackGetDepthTool_except) No_error_status,
      adapter BackpackGetKlinesTool (Some BackpackGetKlinesTool_schema)
        (Arun BackpackGetKlinesTool_try BackpackGetKlinesTool_except) No_error_status,
      adapter BackpackGetMarkPriceTool (Some BackpackGetMarkPriceTool_schema)
        (Arun BackpackGetMarkPriceTool_try BackpackGetMarkPriceTool_except) No_error_status,
      adapter BackpackGetOpenInterestTool (Some BackpackGetOpenInterestTool_schema)
        (Arun BackpackGetOpenInterestTool_try BackpackGetOpenInterestTool_except) No_error_status,
      adapter BackpackGetFundingIntervalRatesTool (Some BackpackGetFundingIntervalRatesTool_schema)
        (Arun BackpackGetFundingIntervalRatesTool_try BackpackGetFundingIntervalRatesTool_except) No_error_status,
      adapter BackpackGetStatusTool None
        (Arun_no_input BackpackGetStatusTool_try BackpackGetStatusTool_except) No_error_status,
      adapter BackpackSendPingTool None
        (Arun_no_input BackpackSendPingTool_try BackpackSendPingTool_except) No_error_status,
      adapter BackpackGetSystemTimeTool None
        (Arun_no_input BackpackGetSystemTimeTool_try BackpackGetSystemTimeTool_except) No_error_status,
      adapter BackpackGetRecentTradesTool (Some BackpackGetRecentTradesTool_schema)
        (Arun BackpackGetRecentTradesTool_try BackpackGetRecentTradesTool_except) No_error_status,
      adapter BackpackGetHistoricalTradesTool (Some BackpackGetHistoricalTradesTool_schema)
        (Arun BackpackGetHistoricalTradesTool_try BackpackGetHistoricalTradesTool_except) No_error_status,
      adapter BackpackGetCollateralInfoTool (Some BackpackGetCollateralInfoTool_schema)
        (Arun BackpackGetCollateralInfoTool_try BackpackGetCollateralInfoTool_except) No_error_status,
      adapter BackpackGetAccountDepositsTool (Some BackpackGetAccountDepositsTool_schema)
        (Arun BackpackGetAccountDepositsTool_try BackpackGetAccountDepositsTool_except) No_error_status,
      adapter BackpackGetOpenPositionsTool None
        (Arun_no_input BackpackGetOpenPositionsTool_try BackpackGetOpenPositionsTool_except) No_error_status,
      adapter BackpackGetBorrowHistoryTool None
        (Arun BackpackGetBorrowHistoryTool_try BackpackGetBorrowHistoryTool_except) No_error_status,
      adapter BackpackGetInterestHistoryTool None
        (Arun BackpackGetInterestHistoryTool_try BackpackGetInterestHistoryTool_except) No_error_status,
      adapter ClosePerpTradeShortTool (Some ClosePerpTradeShortTool_schema)
        (Arun ClosePerpTradeShortTool_try ClosePerpTradeShortTool_except) No_error_status,
      adapter ClosePerpTradeLongTool (Some ClosePerpTradeLongTool_schema)
        (Arun ClosePerpTradeLongTool_try ClosePerpTradeLongTool_except) No_error_status,
      adapter OpenPerpTradeLongTool (Some OpenPerpTradeLongTool_schema)
        (Arun OpenPerpTradeLongTool_try OpenPerpTradeLongTool_except) No_error_status,
      adapter OpenPerpTradeShortTool (Some OpenPerpTradeShortTool_schema)
        (Arun OpenPerpTradeShortTool_try OpenPerpTradeShortTool_except) No_error_status,
      adapter Create3LandCollectionTool (Some Create3LandCollectionTool_schema)
        (Arun Create3LandCollectionTool_try Create3LandCollectionTool_except) No_error_status,
      adapter Create3LandNFTTool (Some Create3LandNFTTool_schema)
        (Arun Create3LandNFTTool_try Create3LandNFTTool_except) No_error_status,
      adapter CreateDriftUserAccountTool (Some CreateDriftUserAccountTool_schema)
        (Arun CreateDriftUserAccountTool_try CreateDriftUserAccountTool_except) No_error_status,
      adapter DepositToDriftUserAccountTool (Some DepositToDriftUserAccountTool_schema)
        (Arun DepositToDriftUserAccountTool_try DepositToDriftUserAccountTool_except) No_error_status,
      adapter WithdrawFromDriftUserAccountTool (Some WithdrawFromDriftUserAccountTool_schema)
        (Arun WithdrawFromDriftUserAccountTool_try WithdrawFromDriftUserAccountTool_except) No_error_status,
      adapter TradeUsingDriftPerpAccountTool (Some TradeUsingDriftPerpAccountTool_schema)
        (Arun TradeUsingDriftPerpAccountTool_try TradeUsingDriftPerpAccountTool_except) No_error_status,
      adapter CheckIfDriftAccountExistsTool None
        (Arun_no_input CheckIfDriftAccountExistsTool_try CheckIfDriftAccountExistsTool_except) No_error_status,
      adapter DriftUserAccountInfoTool None
        (Arun_no_input DriftUserAccountInfoTool_try DriftUserAccountInfoTool_except) No_error_status,
      adapter GetAvailableDriftMarketsTool None
        (Arun_no_input GetAvailableDriftMarketsTool_try GetAvailableDriftMarketsTool_except) No_error_status,
      adapter StakeToDriftInsuranceFundTool (Some StakeToDriftInsuranceFundTool_schema)
        (Arun StakeToDriftInsuranceFundTool_try StakeToDriftInsuranceFundTool_except) No_error_status,
      adapter RequestUnstakeFromDriftInsuranceFundTool (Some RequestUnstakeFromDriftInsuranceFundTool_schema)
        (Arun RequestUnstakeFromDriftInsuranceFundTool_try RequestUnstakeFromDriftInsuranceFundTool_except) No_error_status,
      adapter UnstakeFromDriftInsuranceFundTool (Some UnstakeFromDriftInsuranceFundTool_schema)
        (Arun UnstakeFromDriftInsuranceFundTool_try UnstakeFromDriftInsuranceFundTool_except) No_error_status,
      adapter DriftSwapSpotTokenTool (Some DriftSwapSpotTokenTool_schema)
        (Arun DriftSwapSpotTokenTool_try DriftSwapSpotTokenTool_except) No_error_status,
      adapter GetDriftPerpMarketFundingRateTool (Some GetDriftPerpMarketFundingRateTool_schema)
        (Arun GetDriftPerpMarketFundingRateTool_try GetDriftPerpMarketFundingRateTool_except) No_error_status,
      adapter GetDriftEntryQuoteOfPerpTradeTool (Some GetDriftEntryQuoteOfPerpTradeTool_schema)
        (Arun GetDriftEntryQuoteOfPerpTradeTool_try GetDriftEntryQuoteOfPerpTradeTool_except) No_error_status,
      adapter GetDriftLendBorrowApyTool (Some GetDriftLendBorrowApyTool_schema)
        (Arun GetDriftLendBorrowApyTool_try GetDriftLendBorrowApyTool_except) No_error_status,
      adapter CreateDriftVaultTool (Some CreateDriftVaultTool_schema)
        (Arun CreateDriftVaultTool_try CreateDriftVaultTool_except) No_error_status,
      adapter UpdateDriftVaultDelegateTool (Some UpdateDriftVaultDelegateTool_schema)
        (Arun UpdateDriftVaultDelegateTool_try UpdateDriftVaultDelegateTool_except) No_error_status,
      adapter UpdateDriftVaultTool (Some UpdateDriftVaultTool_schema)
        (Arun UpdateDriftVaultTool_try UpdateDriftVaultTool_except) No_error_status,
      adapter GetDriftVaultInfoTool (Some GetDriftVaultInfoTool_schema)
        (Arun GetDriftVaultInfoTool_try GetDriftVaultInfoTool_except) No_error_status,
      adapter DepositIntoDriftVaultTool (Some DepositIntoDriftVaultTool_schema)
        (Arun DepositIntoDriftVaultTool_try DepositIntoDriftVaultTool_except) No_error_status,
      adapter RequestWithdrawalFromDriftVaultTool (Some RequestWithdrawalFromDriftVaultTool_schema)
        (Arun RequestWithdrawalFromDriftVaultTool_try RequestWithdrawalFromDriftVaultTool_except) No_error_status,
      adapter WithdrawFromDriftVaultTool (Some WithdrawFromDriftVaultTool_schema)
        (Arun WithdrawFromDriftVaultTool_try WithdrawFromDriftVaultTool_except) No_error_status,
      adapter DeriveDriftVaultAddressTool (Some DeriveDriftVaultAddressTool_schema)
        (Arun DeriveDriftVaultAddressTool_try DeriveDriftVaultAddressTool_except) No_error_status,
      adapter TradeUsingDelegatedDriftVaultTool (Some TradeUsingDelegatedDriftVaultTool_schema)
        (Arun TradeUsingDelegatedDriftVaultTool_try TradeUsingDelegatedDriftVaultTool_except) No_error_status,
      adapter FlashOpenTradeTool (Some FlashOpenTradeTool_schema)
        (Arun FlashOpenTradeTool_try FlashOpenTradeTool_except) No_error_status,
      adapter FlashCloseTradeTool (Some FlashCloseTradeTool_schema)
        (Arun FlashCloseTradeTool_try FlashCloseTradeTool_except) No_error_status,
      adapter ResolveAllDomainsTool (Some ResolveAllDomainsTool_schema)
        (Arun ResolveAllDomainsTool_try ResolveAllDomainsTool_except) No_error_status,
      adapter GetOwnedDomainsForTLDTool (Some GetOwnedDomainsForTLDTool_schema)
        (Arun GetOwnedDomainsForTLDTool_try GetOwnedDomainsForTLDTool_except) No_error_status,
      adapter GetAllDomainsTLDsTool None
        (Arun_no_input GetAllDomainsTLDsTool_try GetAllDomainsTLDsTool_except) No_error_status,
      adapter GetOwnedAllDomainsTool (Some GetOwnedAllDomainsTool_schema)
        (Arun GetOwnedAllDomainsTool_try GetOwnedAllDomainsTool_except) No_error_status,
      adapter LightProtocolSendCompressedAirdropTool (Some LightProtocolSendCompressedAirdropTool_schema)
        (Arun LightProtocolSendCompressedAirdropTool_try LightProtocolSendCompressedAirdropTool_except) No_error_status,
      adapter ManifestCreateMarketTool (Some ManifestCreateMarketTool_schema)
        (Arun ManifestCreateMarketTool_try ManifestCreateMarketTool_except) No_error_status,
      adapter ManifestPlaceLimitOrderTool (Some ManifestPlaceLimitOrderTool_schema)
        (Arun ManifestPlaceLimitOrderTool_try ManifestPlaceLimitOrderTool_except) No_error_status,
      adapter ManifestPlaceBatchOrdersTool (Some ManifestPlaceBatchOrdersTool_schema)
        (Arun ManifestPlaceBatchOrdersTool_try ManifestPlaceBatchOrdersTool_except) No_error_status,
      adapter ManifestCancelAllOrdersTool (Some ManifestCancelAllOrdersTool_schema)
        (Arun ManifestCancelAllOrdersTool_try ManifestCancelAllOrdersTool_except) No_error_status,
      adapter ManifestWithdrawAllTool (Some ManifestWithdrawAllTool_schema)
        (Arun ManifestWithdrawAllTool_try ManifestWithdrawAllTool_except) No_error_status,
      adapter OpenBookCreateMarketTool None
        (Arun OpenBookCreateMarketTool_try OpenBookCreateMarketTool_except) No_error_status,
      adapter OrcaClosePositionTool (Some OrcaClosePositionTool_schema)
        (Arun OrcaClosePositionTool_try OrcaClosePositionTool_except) No_error_status,
      adapter OrcaCreateClmmTool (Some OrcaCreateClmmTool_schema)
        (Arun OrcaCreateClmmTool_try OrcaCreateClmmTool_except) No_error_status,
      adapter OrcaCreateLiquidityPoolTool (Some OrcaCreateLiquidityPoolTool_schema)
        (Arun OrcaCreateLiquidityPoolTool_try OrcaCreateLiquidityPoolTool_except) No_error_status,
      adapter OrcaFetchPositionsTool None
        (Arun OrcaFetchPositionsTool_try OrcaFetchPositionsTool_except) No_error_status,
      adapter OrcaOpenCenteredPositionTool (Some OrcaOpenCenteredPositionTool_schema)
        (Arun OrcaOpenCenteredPositionTool_try OrcaOpenCenteredPositionTool_except) No_error_status,
      adapter OrcaOpenSingleSidedPositionTool (Some OrcaOpenSingleSidedPositionTool_schema)
        (Arun OrcaOpenSingleSidedPositionTool_try OrcaOpenSingleSidedPositionTool_except) No_error_status,
      adapter CoingeckoGetTrendingTokensTool None
        (Arun CoingeckoGetTrendingTokensTool_try (\<lambda>input. coingecko_trending_error_result)) No_error_status,
      adapter CoingeckoGetTrendingPoolsTool (Some CoingeckoGetTrendingPoolsTool_schema)
        (Arun CoingeckoGetTrendingPoolsTool_try CoingeckoGetTrendingPoolsTool_except) No_error_status,
      adapter CoingeckoGetTopGainersTool (Some CoingeckoGetTopGainersTool_schema)
        (Arun CoingeckoGetTopGainersTool_try CoingeckoGetTopGainersTool_except) No_error_status,
      adapter CoingeckoGetTokenPriceDataTool (Some CoingeckoGetTokenPriceDataTool_schema)
        (Arun CoingeckoGetTokenPriceDataTool_try CoingeckoGetTokenPriceDataTool_except) No_error_status,
      adapter CoingeckoGetTokenInfoTool (Some CoingeckoGetTokenInfoTool_schema)
        (Arun CoingeckoGetTokenInfoTool_try CoingeckoGetTokenInfoTool_except) No_error_status,
      adapter CoingeckoGetLatestPoolsTool None
        (Arun CoingeckoGetLatestPoolsTool_try CoingeckoGetLatestPoolsTool_except) No_error_status,
      adapter ElfaAiPingApiTool None
        (Arun ElfaAiPingApiTool_try ElfaAiPingApiTool_except) No_error_status,
      adapter ElfaAiGetApiKeyStatusTool None
        (Arun ElfaAiGetApiKeyStatusTool_try ElfaAiGetApiKeyStatusTool_except) No_error_status,
      adapter ElfaAiGetSmartMentionsTool None
        (Arun ElfaAiGetSmartMentionsTool_try ElfaAiGetSmartMentionsTool_except) No_error_status,
      adapter ElfaAiGetTopMentionsByTickerTool None
        (Arun ElfaAiGetTopMentionsByTickerTool_try ElfaAiGetTopMentionsByTickerTool_except) No_error_status,
      adapter ElfaAiSearchMentionsByKeywordsTool None
        (Arun ElfaAiSearchMentionsByKeywordsTool_try ElfaAiSearchMentionsByKeywordsTool_except) No_error_status,
      adapter ElfaAiGetTrendingTokensTool None
        (Arun ElfaAiGetTrendingTokensTool_try ElfaAiGetTrendingTokensTool_except) No_error_status,
      adapter ElfaAiGetSmartTwitterAccountStatsTool None
        (Arun ElfaAiGetSmartTwitterAccountStatsTool_try ElfaAiGetSmartTwitterAccountStatsTool_except) No_error_status,
      adapter FluxBeamCreatePoolTool None
        (Arun FluxBeamCreatePoolTool_try FluxBeamCreatePoolTool_except) No_error_status,
      adapter LuloLendTool None
        (Arun LuloLendTool_try LuloLendTool_except) No_error_status,
      adapter LuloWithdrawTool None
        (Arun LuloWithdrawTool_try LuloWithdrawTool_except) No_error_status]"

text \<open>The call of the asynchronous method of an adapter.\<close>

fun entry_call :: "string \<Rightarrow> entry_point \<Rightarrow> env \<Rightarrow> kit \<Rightarrow> string option \<Rightarrow> outcome" where
  "entry_call c (Arun body h) E K (Some input) = try_except (body E K input) (h input)"
| "entry_call c (Arun body h) E K None = raise (arity_error E c ''_arun'') []"
| "entry_call c (Arun_no_input body h) E K None = try_except (body E K) h"
| "entry_call c (Arun_no_input body h) E K (Some input) = raise (arity_error E c ''_arun'') []"
| "entry_call c (Call_method body h) E K (Some input) =
     try_except_raising (body E K input) (h E)"
| "entry_call c (Call_method body h) E K None = raise (arity_error E c ''call'') []"

definition adapter_call :: "adapter \<Rightarrow> env \<Rightarrow> kit \<Rightarrow> string option \<Rightarrow> outcome" where
  "adapter_call a E K arg =
     entry_call (decl_class (adapter_class a)) (adapter_entry a) E K arg"

text \<open>
  The block under \<open>try:\<close> of the method and what its handler makes of an
  exception, for a call with the given input string (which a method without the
  parameter does not see).
\<close>

fun entry_body :: "entry_point \<Rightarrow> env \<Rightarrow> kit \<Rightarrow> string \<Rightarrow> pyval comp" where
  "entry_body (Arun body h) E K input = body E K input"
| "entry_body (Arun_no_input body h) E K input = body E K"
| "entry_body (Call_method body h) E K input = body E K input"

fun entry_handler :: "entry_point \<Rightarrow> env \<Rightarrow> string \<Rightarrow> pyexc \<Rightarrow> pyexc + pyval" where
  "entry_handler (Arun body h) E input e = Inr (h input e)"
| "entry_handler (Arun_no_input body h) E input e = Inr (h e)"
| "entry_handler (Call_method body h) E input e = h E e"

text \<open>The input string of a call, empty when the call has no argument.\<close>

fun input_of :: "string option \<Rightarrow> string" where
  "input_of None = []"
| "input_of (Some input) = input"

text \<open>Whether a call fits the parameters of the method.\<close>

fun entry_accepts :: "entry_point \<Rightarrow> string option \<Rightarrow> bool" where
  "entry_accepts (Arun body h) arg = accepts Self_input arg"
| "entry_accepts (Arun_no_input body h) arg = accepts Self arg"
| "entry_accepts (Call_method body h) arg = accepts Self_input arg"

text \<open>Whether the method is \<open>_arun\<close>.\<close>

fun is_arun :: "entry_point \<Rightarrow> bool" where
  "is_arun (Arun body h) = True"
| "is_arun (Arun_no_input body h) = True"
| "is_arun (Call_method body h) = False"

text \<open>
  An adapter instance: its class, the keyword under which the constructor received the
  agent kit, and the agent kit it is bound to.
\<close>

record 'k tool =
  tool_class :: tool_decl
  tool_kwarg :: string
  tool_kit :: "'k"

definition new_tool :: "tool_decl \<Rightarrow> string \<Rightarrow> 'k \<Rightarrow> 'k tool" where
  "new_tool c kw k = \<lparr>tool_class = c, tool_kwarg = kw, tool_kit = k\<rparr>"

definition create_solana_tools :: "'k \<Rightarrow> 'k tool list" where
  "create_solana_tools solana_kit =
     [new_tool SolanaBalanceTool ''solana_kit'' solana_kit,
      new_tool SolanaTransferTool ''solana_kit'' solana_kit,
      new_tool SolanaDeployTokenTool ''solana_kit'' solana_kit,
      new_tool SolanaTradeTool ''solana_kit'' solana_kit,
      new_tool SolanaFaucetTool ''solana_kit'' solana_kit,
      new_tool SolanaStakeTool ''solana_kit'' solana_kit,
      new_tool SolanaPumpFunTokenTool ''solana_kit'' solana_kit,
      new_tool SolanaCreateImageTool ''solana_kit'' solana_kit,
      new_tool SolanaGetWalletAddressTool ''solana_kit'' solana_kit,
      new_tool SolanaTPSCalculatorTool ''solana_kit'' solana_kit,
      new_tool SolanaFetchPriceTool ''solana_kit'' solana_kit,
      new_tool SolanaTokenDataTool ''solana_kit'' solana_kit,
      new_tool SolanaTokenDataByTickerTool ''solana_kit'' solana_kit,
      new_tool SolanaMeteoraDLMMTool ''solana_kit'' solana_kit,
      new_tool SolanaRaydiumBuyTool ''solana_kit'' solana_kit,
      new_tool SolanaRaydiumSellTool ''solana_kit'' solana_kit,
      new_tool SolanaCreateGibworkTaskTool ''solana_kit'' solana_kit,
      new_tool SolanaSellUsingMoonshotTool ''solana_kit'' solana_kit,
      new_tool SolanaBuyUsingMoonshotTool ''solana_kit'' solana_kit,
      new_tool SolanaPythGetPriceTool ''solana_kit'' solana_kit,
      new_tool SolanaHeliusGetBalancesTool ''solana_kit'' solana_kit,
      new_tool SolanaHeliusGetAddressNameTool ''solana_kit'' solana_kit,
      new_tool SolanaHeliusGetNftEventsTool ''solana_kit'' solana_kit,
      new_tool SolanaHeliusGetMintlistsTool ''solana_kit'' solana_kit,
      new_tool SolanaHeliusGetNFTFingerprintTool ''solana_kit'' solana_kit,
      new_tool SolanaHeliusGetActiveListingsTool ''solana_kit'' solana_kit,
      new_tool SolanaHeliusGetNFTMetadataTool ''solana_kit'' solana_kit,
      new_tool SolanaHeliusGetRawTransactionsTool ''solana_kit'' solana_kit,
      new_tool SolanaHeliusGetParsedTransactionsTool ''solana_kit'' solana_kit,
      new_tool SolanaHeliusGetParsedTransactionHistoryTool ''solana_kit'' solana_kit,
      new_tool SolanaHeliusCreateWebhookTool ''solana_kit'' solana_kit,
      new_tool SolanaHeliusGetAllWebhooksTool ''solana_kit'' solana_kit,
      new_tool SolanaHeliusGetWebhookTool ''solana_kit'' solana_kit,
      new_tool SolanaHeliusEditWebhookTool ''solana_kit'' solana_kit,
      new_tool SolanaHeliusDeleteWebhookTool ''solana_kit'' solana_kit,
      new_tool SolanaFetchTokenReportSummaryTool ''solana_kit'' solana_kit,
      new_tool SolanaFetchTokenDetailedReportTool ''solana_kit'' solana_kit,
      new_tool SolanaGetPumpCurveStateTool ''solana_kit'' solana_kit,
      new_tool SolanaCalculatePumpCurvePriceTool ''solana_kit'' solana_kit,
      new_tool SolanaBuyTokenTool ''solana_kit'' solana_kit,
      new_tool SolanaSellTokenTool ''solana_kit'' solana_kit,
      new_tool SolanaSNSGetAllDomainsTool ''solana_kit'' solana_kit,
      new_tool SolanaSNSRegisterDomainTool ''solana_kit'' solana_kit,
      new_tool SolanaSNSGetFavouriteDomainTool ''solana_kit'' solana_kit,
      new_tool SolanaSNSResolveTool ''solana_kit'' solana_kit,
      new_tool SolanaGetMetaplexAssetsByAuthorityTool ''solana_kit'' solana_kit,
      new_tool SolanaGetMetaplexAssetsByCreatorTool ''solana_kit'' solana_kit,
      new_tool SolanaGetMetaplexAssetTool ''solana_kit'' solana_kit,
      new_tool SolanaMintMetaplexCoreNFTTool ''solana_kit'' solana_kit,
      new_tool SolanaDeployCollectionTool ''solana_kit'' solana_kit,
      new_tool SolanaDeBridgeCreateTransactionTool ''solana_kit'' solana_kit,
      new_tool SolanaDeBridgeCheckTransactionStatusTool ''solana_kit'' solana_kit,
      new_tool SolanaDeBridgeExecuteTransactionTool ''solana_kit'' solana_kit,
      new_tool SolanaCybersCreateCoinTool ''solana_kit'' solana_kit,
      new_tool SolanaGetTipAccounts ''solana_kit'' solana_kit,
      new_tool SolanaGetRandomTipAccount ''solana_kit'' solana_kit,
      new_tool SolanaGetBundleStatuses ''solana_kit'' solana_kit,
      new_tool SolanaSendBundle ''solana_kit'' solana_kit,
      new_tool SolanaGetInflightBundleStatuses ''solana_kit'' solana_kit,
      new_tool SolanaSendTxn ''solana_kit'' solana_kit,
      new_tool StorkGetPriceTool ''solana_kit'' solana_kit,
      new_tool BackpackCancelOpenOrdersTool ''solana_kit'' solana_kit,
      new_tool BackpackCancelOpenOrderTool ''solana_kit'' solana_kit,
      new_tool BackpackGetBorrowLendPositionsTool ''solana_kit'' solana_kit,
      new_tool BackpackGetBorrowPositionHistoryTool ''solana_kit'' solana_kit,
      new_tool BackpackGetDepthTool ''solana_kit'' solana_kit,
      new_tool BackpackGetFundingIntervalRatesTool ''solana_kit'' solana_kit,
      new_tool BackpackGetFundingPaymentsTool ''solana_kit'' solana_kit,
      new_tool BackpackGetHistoricalTradesTool ''solana_kit'' solana_kit,
      new_tool BackpackGetKlinesTool ''solana_kit'' solana_kit,
      new_tool BackpackGetMarkPriceTool ''solana_kit'' solana_kit,
      new_tool BackpackGetMarketsTool ''solana_kit'' solana_kit,
      new_tool BackpackGetOpenInterestTool ''solana_kit'' solana_kit,
      new_tool BackpackGetOpenOrdersTool ''solana_kit'' solana_kit,
      new_tool BackpackGetOrderHistoryTool ''solana_kit'' solana_kit,
      new_tool BackpackGetPnlHistoryTool ''solana_kit'' solana_kit,
      new_tool BackpackGetRecentTradesTool ''solana_kit'' solana_kit,
      new_tool BackpackGetSettlementHistoryTool ''solana_kit'' solana_kit,
      new_tool BackpackGetStatusTool ''solana_kit'' solana_kit,
      new_tool BackpackGetSupportedAssetsTool ''solana_kit'' solana_kit,
      new_tool BackpackGetSystemTimeTool ''solana_kit'' solana_kit,
      new_tool BackpackGetTickerInformationTool ''solana_kit'' solana_kit,
      new_tool BackpackGetTickersTool ''solana_kit'' solana_kit,
      new_tool BackpackGetUsersOpenOrdersTool ''solana_kit'' solana_kit,
      new_tool BackpackSendPingTool ''solana_kit'' solana_kit,
      new_tool BackpackExecuteBorrowLendTool ''solana_kit'' solana_kit,
      new_tool BackpackExecuteOrderTool ''solana_kit'' solana_kit,
      new_tool BackpackGetFillHistoryTool ''solana_kit'' solana_kit,
      new_tool BackpackGetAccountBalancesTool ''solana_kit'' solana_kit,
      new_tool BackpackRequestWithdrawalTool ''solana_kit'' solana_kit,
      new_tool BackpackGetAccountSettingsTool ''solana_kit'' solana_kit,
      new_tool BackpackUpdateAccountSettingsTool ''solana_kit'' solana_kit,
      new_tool BackpackGetCollateralInfoTool ''solana_kit'' solana_kit,
      new_tool BackpackGetAccountDepositsTool ''solana_kit'' solana_kit,
      new_tool BackpackGetOpenPositionsTool ''solana_kit'' solana_kit,
      new_tool BackpackGetBorrowHistoryTool ''solana_kit'' solana_kit,
      new_tool BackpackGetInterestHistoryTool ''solana_kit'' solana_kit,
      new_tool BackpackGetMarketTool ''solana_kit'' solana_kit,
      new_tool ClosePerpTradeLongTool ''solana_kit'' solana_kit,
      new_tool ClosePerpTradeShortTool ''solana_kit'' solana_kit,
      new_tool OpenPerpTradeLongTool ''solana_kit'' solana_kit,
      new_tool OpenPerpTradeShortTool ''solana_kit'' solana_kit,
      new_tool Create3LandCollectionTool ''solana_kit'' solana_kit,
      new_tool Create3LandNFTTool ''solana_kit'' solana_kit,
      new_tool CreateDriftUserAccountTool ''solana_kit'' solana_kit,
      new_tool DepositToDriftUserAccountTool ''solana_kit'' solana_kit,
      new_tool WithdrawFromDriftUserAccountTool ''solana_kit'' solana_kit,
      new_tool TradeUsingDriftPerpAccountTool ''solana_kit'' solana_kit,
      new_tool CheckIfDriftAccountExistsTool ''solana_kit'' solana_kit,
      new_tool DriftUserAccountInfoTool ''solana_kit'' solana_kit,
      new_tool GetAvailableDriftMarketsTool ''solana_kit'' solana_kit,
      new_tool StakeToDriftInsuranceFundTool ''solana_kit'' solana_kit,
      new_tool RequestUnstakeFromDriftInsuranceFundTool ''solana_kit'' solana_kit,
      new_tool UnstakeFromDriftInsuranceFundTool ''solana_kit'' solana_kit,
      new_tool DriftSwapSpotTokenTool ''solana_kit'' solana_kit,
      new_tool GetDriftPerpMarketFundingRateTool ''solana_kit'' solana_kit,
      new_tool GetDriftEntryQuoteOfPerpTradeTool ''solana_kit'' solana_kit,
      new_tool GetDriftLendBorrowApyTool ''solana_kit'' solana_kit,
      new_tool CreateDriftVaultTool ''solana_kit'' solana_kit,
      new_tool UpdateDriftVaultDelegateTool ''solana_kit'' solana_kit,
      new_tool UpdateDriftVaultTool ''solana_kit'' solana_kit,
      new_tool GetDriftVaultInfoTool ''solana_kit'' solana_kit,
      new_tool DepositIntoDriftVaultTool ''solana_kit'' solana_kit,
      new_tool RequestWithdrawalFromDriftVaultTool ''solana_kit'' solana_kit,
      new_tool WithdrawFromDriftVaultTool ''solana_kit'' solana_kit,
      new_tool DeriveDriftVaultAddressTool ''solana_kit'' solana_kit,
      new_tool TradeUsingDelegatedDriftVaultTool ''solana_kit'' solana_kit,
      new_tool FlashCloseTradeTool ''solana_kit'' solana_kit,
      new_tool FlashOpenTradeTool ''solana_kit'' solana_kit,
      new_tool ResolveAllDomainsTool ''solana_kit'' solana_kit,
      new_tool GetOwnedDomainsForTLDTool ''solana_kit'' solana_kit,
      new_tool GetAllDomainsTLDsTool ''solana_kit'' solana_kit,
      new_tool GetOwnedAllDomainsTool ''solana_kit'' solana_kit,
      new_tool LightProtocolSendCompressedAirdropTool ''solana_kit'' solana_kit,
      new_tool ManifestCreateMarketTool ''solana_kit'' solana_kit,
      new_tool ManifestPlaceLimitOrderTool ''solana_kit'' solana_kit,
      new_tool ManifestPlaceBatchOrdersTool ''solana_kit'' solana_kit,
      new_tool ManifestCancelAllOrdersTool ''solana_kit'' solana_kit,
      new_tool ManifestWithdrawAllTool ''solana_kit'' solana_kit,
      new_tool OpenBookCreateMarketTool ''solana_kit'' solana_kit,
      new_tool OrcaClosePositionTool ''solana_kit'' solana_kit,
      new_tool OrcaCreateClmmTool ''solana_kit'' solana_kit,
      new_tool OrcaCreateLiquidityPoolTool ''solana_kit'' solana_kit,
      new_tool OrcaFetchPositionsTool ''solana_kit'' solana_kit,
      new_tool OrcaOpenCenteredPositionTool ''solana_kit'' solana_kit,
      new_tool OrcaOpenSingleSidedPositionTool ''solana_kit'' solana_kit,
      new_tool CoingeckoGetTrendingTokensTool ''agent_kit'' solana_kit,
      new_tool CoingeckoGetTrendingPoolsTool ''agent_kit'' solana_kit,
      new_tool CoingeckoGetTopGainersTool ''agent_kit'' solana_kit,
      new_tool CoingeckoGetTokenPriceDataTool ''agent_kit'' solana_kit,
      new_tool CoingeckoGetTokenInfoTool ''agent_kit'' solana_kit,
      new_tool CoingeckoGetLatestPoolsTool ''agent_kit'' solana_kit,
      new_tool ElfaAiPingApiTool ''agent_kit'' solana_kit,
      new_tool ElfaAiGetApiKeyStatusTool ''agent_kit'' solana_kit,
      new_tool ElfaAiGetSmartMentionsTool ''agent_kit'' solana_kit,
      new_tool ElfaAiGetTopMentionsByTickerTool ''agent_kit'' solana_kit,
      new_tool ElfaAiSearchMentionsByKeywordsTool ''agent_kit'' solana_kit,
      new_tool ElfaAiGetTrendingTokensTool ''agent_kit'' solana_kit,
      new_tool ElfaAiGetSmartTwitterAccountStatsTool ''agent_kit'' solana_kit,
      new_tool FluxBeamCreatePoolTool ''agent_kit'' solana_kit,
      new_tool LuloLendTool ''agent_kit'' solana_kit,
      new_tool LuloWithdrawTool ''agent_kit'' solana_kit]"

text \<open>The name of the class of an adapter instance.\<close>

definition class_name_of :: "'k tool \<Rightarrow> string" where
  "class_name_of t = decl_class (tool_class t)"

section \<open>Stub collaborators for concrete runs\<close>

text \<open>
  A \<open>json.loads\<close> that knows the listed payloads and rejects every other string, a
  \<open>Pubkey.from_string\<close> that takes any string, and one that takes only strings of the
  length of a base58-encoded 32-byte key (32 to 44 characters), as solders does.
\<close>

definition stub_loads :: "(string \<times> pyval) list \<Rightarrow> string \<Rightarrow> pyexc + pyval" where
  "stub_loads tbl s =
     (case map_of tbl s of
        Some v \<Rightarrow> Inr v
      | None \<Rightarrow> Inl (Exc ''JSONDecodeError'' ''Expecting value: line 1 column 1 (char 0)'' None))"

fun lenient_pubkey :: "pyval \<Rightarrow> pyexc + pyval" where
  "lenient_pubkey (PStr s) = Inr (PPubkey (map of_char s))"
| "lenient_pubkey v = Inl (Exc ''TypeError'' ''argument must be str'' None)"

fun strict_pubkey :: "pyval \<Rightarrow> pyexc + pyval" where
  "strict_pubkey (PStr s) =
     (if 32 \<le> length s \<and> length s \<le> 44 then Inr (PPubkey (map of_char s))
      else Inl (Exc ''ValueError'' ''String is the wrong size'' None))"
| "strict_pubkey v = Inl (Exc ''TypeError'' ''argument must be str'' None)"

definition stub_env :: "(pyval \<Rightarrow> pyexc + pyval) \<Rightarrow> (string \<times> pyval) list \<Rightarrow> env" where
  "stub_env pk tbl =
     \<lparr>json_loads = stub_loads tbl,
      Pubkey_from_string = pk,
      int_of_str = (\<lambda>s. if s = ''5'' then Inr 5
                          else Inl (Exc ''ValueError'' ''invalid literal for int()'' None)),
      interp_msg = (\<lambda>op v. ''unsupported operand''),
      validate_nonmapping = (\<lambda>v. Inl (Exc ''TypeError'' ''input must be a mapping'' None)),
      json_dumps = (\<lambda>v. Inr ''{}''),
      Pubkey_new = (\<lambda>v. Inl (Exc ''TypeError'' ''argument must be bytes'' None)),
      str_of_val = (\<lambda>v. ''<object>''),
      str_strip = (\<lambda>s. rev (dropWhile (\<lambda>c. c = CHR '' '') (rev (dropWhile (\<lambda>c. c = CHR '' '') s)))),
      obj_dict = (\<lambda>v. Inr v),
      compare_other = (\<lambda>a b. Inl (Exc ''TypeError'' ''not supported between instances'' None))\<rparr>"

text \<open>An agent kit whose every method returns the dict \<open>{"mint": "M1"}\<close>.\<close>

definition ok_kit :: kit where
  "ok_kit c = Inr (PDict [(''mint'', PStr ''M1'')])"


text \<open>An agent kit whose every call is cancelled while it is awaited.\<close>

definition cancelled_kit :: kit where
  "cancelled_kit c = Inl (BaseExc ''CancelledError'')"

text \<open>
  An input is validated for a schema when \<open>json.loads\<close> parses it and the statement
  \<open>validate_input(data, schema)\<close> returns without raising.
\<close>

definition validated :: "env \<Rightarrow> schema \<Rightarrow> string \<Rightarrow> bool" where
  "validated E S input =
     (case json_loads E input of
        Inl e \<Rightarrow> False
      | Inr v \<Rightarrow> (case validate_stmt E v S of Inl e \<Rightarrow> False | Inr d \<Rightarrow> True))"

text \<open>The parsed payloads of the concrete runs.\<close>

definition transfer_abc_5 :: "(string \<times> pyval) list" where
  "transfer_abc_5 = [(''to'', PStr ''ABC''), (''amount'', PInt 5)]"

definition transfer_abc_0 :: "(string \<times> pyval) list" where
  "transfer_abc_0 = [(''to'', PStr ''ABC''), (''amount'', PInt 0)]"

definition transfer_abc_only :: "(string \<times> pyval) list" where
  "transfer_abc_only = [(''to'', PStr ''ABC'')]"

definition deploy_0_1000 :: "(string \<times> pyval) list" where
  "deploy_0_1000 = [(''decimals'', PInt 0), (''initialSupply'', PInt 1000)]"

definition deploy_9_1 :: "(string \<times> pyval) list" where
  "deploy_9_1 = [(''decimals'', PInt 9), (''initialSupply'', PInt 1)]"

definition meteora_pool :: "string \<Rightarrow> (string \<times> pyval) list" where
  "meteora_pool a =
     [(''bin_step'', PInt 5),
      (''token_a_mint'', PStr ''7S3d7xxFPgFhVde8XwDoQG9N7kF8Vo48ghAhoNxd34Zp''),
      (''token_b_mint'', PStr ''A1b1xxFPgFhVde8XwDoQG9N7kF8Vo48ghAhoNxd34Zp''),
      (''initial_price'', PFloat (123 / 100)),
      (''price_rounding_up'', PBool True),
      (''fee_bps'', PInt 300),
      (''activation_type'', PStr a),
      (''has_alpha_vault'', PBool False)]"

text \<open>The payload strings the stub \<open>json.loads\<close> knows, with what they parse to.\<close>

definition in_transfer_abc_5 :: string where
  "in_transfer_abc_5 = ''{\"to\": \"ABC\", \"amount\": 5}''"

definition in_transfer_abc_0 :: string where
  "in_transfer_abc_0 = ''{\"to\": \"ABC\", \"amount\": 0}''"

definition in_transfer_abc_only :: string where
  "in_transfer_abc_only = ''{\"to\": \"ABC\"}''"

definition in_deploy_0_1000 :: string where
  "in_deploy_0_1000 = ''{\"decimals\": 0, \"initialSupply\": 1000}''"

definition in_deploy_9_1 :: string where
  "in_deploy_9_1 = ''{\"decimals\": 9, \"initialSupply\": 1}''"

definition in_pool_slot :: string where
  "in_pool_slot = ''pool with activation_type Slot''"

definition in_pool_delayed :: string where
  "in_pool_delayed = ''pool with activation_type Delayed''"

definition payloads :: "(string \<times> pyval) list" where
  "payloads =
     [(in_transfer_abc_5, PDict transfer_abc_5),
      (in_transfer_abc_0, PDict transfer_abc_0),
      (in_transfer_abc_only, PDict transfer_abc_only),
      (in_deploy_0_1000, PDict deploy_0_1000),
      (in_deploy_9_1, PDict deploy_9_1),
      (in_pool_slot, PDict (meteora_pool ''Slot'')),
      (in_pool_delayed, PDict (meteora_pool ''Delayed''))]"

text \<open>More payloads, for the runs of the properties that range over the table.\<close>

definition transfer_abc_5_xyz :: "(string \<times> pyval) list" where
  "transfer_abc_5_xyz = [(''to'', PStr ''ABC''), (''amount'', PInt 5), (''mint'', PStr ''XYZ'')]"

definition openbook_ints :: "(string \<times> pyval) list" where
  "openbook_ints = [(''base_mint'', PInt 1), (''quote_mint'', PInt 2)]"

definition in_transfer_abc_5_xyz :: string where
  "in_transfer_abc_5_xyz = ''{\"to\": \"ABC\", \"amount\": 5, \"mint\": \"XYZ\"}''"

definition in_empty_object :: string where
  "in_empty_object = ''{}''"

definition in_openbook_ints :: string where
  "in_openbook_ints = ''{\"base_mint\": 1, \"quote_mint\": 2}''"

definition more_payloads :: "(string \<times> pyval) list" where
  "more_payloads =
     [(in_transfer_abc_5_xyz, PDict transfer_abc_5_xyz),
      (in_empty_object, PDict []),
      (in_openbook_ints, PDict openbook_ints)]"

text \<open>
  The first field of the schema, in its order, that is required and absent from the
  mapping.
\<close>

definition first_missing :: "(string \<times> pyval) list \<Rightarrow> schema \<Rightarrow> string option" where
  "first_missing d S =
     map_option fst (List.find (\<lambda>(g, r). required r \<and> map_of d g = None) S)"

text \<open>
  The error result as the spec words it: an error status, the message, and the code of
  the exception, or \<open>UNKNOWN_ERROR\<close> when the exception has none. It is compared below
  with what the handlers of the adapters build.
\<close>

definition error_envelope :: "string \<Rightarrow> pyval option \<Rightarrow> pyval" where
  "error_envelope m code =
     PDict [(''status'', PStr ''error''),
            (''message'', PStr m),
            (''code'', case code of None \<Rightarrow> PStr ''UNKNOWN_ERROR'' | Some v \<Rightarrow> v)]"

section \<open>Notions used in the statements\<close>

text \<open>
  A block under \<open>try:\<close> validates with the schema \<open>S\<close> when it begins with
  \<open>data = json.loads(input)\<close> and \<open>validate_input(data, S)\<close> (the schema literal, which
  evaluates to the same value wherever it stands, is written before or after the first
  of the two) and goes on with the mapping as the call of \<open>validate_input\<close> left it.
\<close>

definition validates :: "schema \<Rightarrow> (env \<Rightarrow> kit \<Rightarrow> string \<Rightarrow> pyval comp) \<Rightarrow> bool" where
  "validates S body =
     (\<exists>F. \<forall>E K input. body E K input =
        bnd (lift (json_loads E input)) (\<lambda>parsed.
        bnd (lift (validate_stmt E parsed S)) (F E K input)))"

fun entry_validates :: "schema \<Rightarrow> entry_point \<Rightarrow> bool" where
  "entry_validates S (Arun body h) = validates S body"
| "entry_validates S (Arun_no_input body h) = False"
| "entry_validates S (Call_method body h) = validates S body"

text \<open>A computation that makes no call on the agent kit, and one that makes at most one.\<close>

definition calls_nothing :: "'a comp \<Rightarrow> bool" where
  "calls_nothing m = (\<forall>cs. snd (m cs) = cs)"

definition calls_at_most_once :: "'a comp \<Rightarrow> bool" where
  "calls_at_most_once m = (\<forall>cs. length (snd (m cs)) \<le> Suc (length cs))"

text \<open>
  Whether a returned value is the error result of the given kind for an exception with
  message \<open>m\<close> and code attribute \<open>code\<close>: the three keys \<open>status\<close>, \<open>message\<close>, \<open>code\<close>
  with the status \<open>"error"\<close>, a message that ends with \<open>m\<close> and the code, or
  \<open>"UNKNOWN_ERROR"\<close> when the exception has none; the two keys \<open>status\<close> and \<open>message\<close>
  with the status \<open>"error"\<close> and the message \<open>m\<close>; or a dict with no error status and no
  code, whose message, when it has one, ends with \<open>m\<close>.
\<close>

definition message_ends :: "(string \<times> pyval) list \<Rightarrow> string \<Rightarrow> bool" where
  "message_ends d m =
     (case map_of d ''message'' of Some (PStr s) \<Rightarrow> suffix m s | _ \<Rightarrow> False)"

fun error_result_ok :: "error_kind \<Rightarrow> string \<Rightarrow> pyval option \<Rightarrow> pyval \<Rightarrow> bool" where
  "error_result_ok Status_message_code m code (PDict d) =
     (map fst d = [''status'', ''message'', ''code''] \<and>
      map_of d ''status'' = Some (PStr ''error'') \<and>
      message_ends d m \<and>
      map_of d ''code'' = Some (case code of None \<Rightarrow> PStr ''UNKNOWN_ERROR'' | Some v \<Rightarrow> v))"
| "error_result_ok Status_message m code (PDict d) =
     (d = [(''status'', PStr ''error''), (''message'', PStr m)])"
| "error_result_ok No_error_status m code (PDict d) =
     (map_of d ''status'' \<noteq> Some (PStr ''error'') \<and>
      map_of d ''code'' = None \<and>
      (map_of d ''message'' = None \<or> message_ends d m))"
| "error_result_ok k m code v = False"

section \<open>Basic facts about computations\<close>

lemma bnd_lift_Inl: "bnd (lift (Inl e)) f cs = (Inl e, cs)"
  by (simp add: bnd_def lift_def)

lemma bnd_lift_Inr: "bnd (lift (Inr x)) f cs = f x cs"
  by (simp add: bnd_def lift_def)

lemma bnd_ret: "bnd (ret x) f cs = f x cs"
  by (simp add: bnd_def ret_def)

lemma bnd_raise: "bnd (raise e) f cs = (Inl e, cs)"
  by (simp add: bnd_def raise_def)

lemma bnd_await_kit:
  "bnd (await_kit K c) f cs =
     (case K c of Inl e \<Rightarrow> (Inl e, cs @ [c]) | Inr v \<Rightarrow> f v (cs @ [c]))"
  by (simp add: bnd_def await_kit_def split: sum.splits)

lemma bnd_lift_cases:
  "bnd (lift r) f cs = (case r of Inl e \<Rightarrow> (Inl e, cs) | Inr x \<Rightarrow> f x cs)"
  by (simp add: bnd_def lift_def split: sum.splits)

lemma ret_app: "ret x cs = (Inr x, cs)"
  by (simp add: ret_def)

lemma raise_app: "raise e cs = (Inl e, cs)"
  by (simp add: raise_def)

lemma bnd_Pair_Inr: "bnd (Pair (Inr x)) f = f x"
  by (rule ext) (simp add: bnd_def)

lemma bnd_Pair_Inl: "bnd (Pair (Inl e)) f = Pair (Inl e)"
  by (rule ext) (simp add: bnd_def)

lemma bnd_lift_Inr_fun: "bnd (lift (Inr x)) f = f x"
  by (rule ext) (simp add: bnd_lift_Inr)

lemma bnd_ret_fun: "bnd (ret x) f = f x"
  by (rule ext) (simp add: bnd_ret)

lemmas comp_simps = bnd_lift_Inl bnd_lift_Inr bnd_ret bnd_raise bnd_await_kit
  bnd_lift_Inr_fun bnd_ret_fun bnd_Pair_Inr bnd_Pair_Inl


lemma try_except_calls: "snd (try_except body h) = snd (body [])"
  by (simp add: try_except_def split: prod.splits sum.splits pyexc.splits)

section \<open>Calls on the agent kit\<close>

lemma calls_nothing_lift: "calls_nothing (lift r)"
  by (simp add: calls_nothing_def lift_def)

lemma calls_nothing_ret: "calls_nothing (ret x)"
  by (simp add: calls_nothing_def ret_def)

lemma calls_nothing_raise: "calls_nothing (raise e)"
  by (simp add: calls_nothing_def raise_def)

lemma calls_nothing_bnd:
  assumes "calls_nothing m" and "\<forall>x. calls_nothing (f x)"
  shows "calls_nothing (bnd m f)"
  unfolding calls_nothing_def
proof
  fix cs
  obtain r cs' where m: "m cs = (r, cs')" by (cases "m cs")
  from assms(1) m have cs': "cs' = cs" by (auto simp: calls_nothing_def dest: spec [of _ cs])
  show "snd (bnd m f cs) = cs"
  proof (cases r)
    case (Inl e)
    with m cs' show ?thesis by (simp add: bnd_def)
  next
    case (Inr x)
    from assms(2) have "snd (f x cs) = cs" by (simp add: calls_nothing_def)
    with Inr m cs' show ?thesis by (simp add: bnd_def)
  qed
qed

lemma calls_nothing_if:
  "calls_nothing a \<Longrightarrow> calls_nothing b \<Longrightarrow> calls_nothing (if c then a else b)"
  by simp

lemma calls_once_await: "calls_at_most_once (await_kit K c)"
  by (simp add: calls_at_most_once_def await_kit_def)

lemma calls_once_call: "calls_at_most_once (call_kit K c)"
  by (simp add: calls_at_most_once_def call_kit_def)

lemma calls_once_attr: "calls_at_most_once (await_kit_attr K a)"
  by (simp add: calls_at_most_once_def await_kit_attr_def await_kit_def)

lemma calls_once_image: "calls_at_most_once (create_image K p s n)"
  by (simp add: calls_at_most_once_def create_image_def await_kit_def)

lemma calls_once_nothing: "calls_nothing m \<Longrightarrow> calls_at_most_once m"
  by (simp add: calls_nothing_def calls_at_most_once_def)

lemma calls_once_bnd_before:
  assumes "calls_nothing m" and "\<forall>x. calls_at_most_once (f x)"
  shows "calls_at_most_once (bnd m f)"
  unfolding calls_at_most_once_def
proof
  fix cs
  obtain r cs' where m: "m cs = (r, cs')" by (cases "m cs")
  from assms(1) m have cs': "cs' = cs" by (auto simp: calls_nothing_def dest: spec [of _ cs])
  show "length (snd (bnd m f cs)) \<le> Suc (length cs)"
  proof (cases r)
    case (Inl e)
    with m cs' show ?thesis by (simp add: bnd_def)
  next
    case (Inr x)
    from assms(2) have "length (snd (f x cs)) \<le> Suc (length cs)"
      by (simp add: calls_at_most_once_def)
    with Inr m cs' show ?thesis by (simp add: bnd_def)
  qed
qed

lemma calls_once_bnd_after:
  assumes "calls_at_most_once m" and "\<forall>x. calls_nothing (f x)"
  shows "calls_at_most_once (bnd m f)"
  unfolding calls_at_most_once_def
proof
  fix cs
  obtain r cs' where m: "m cs = (r, cs')" by (cases "m cs")
  from assms(1) m have cs': "length cs' \<le> Suc (length cs)"
    by (auto simp: calls_at_most_once_def dest: spec [of _ cs])
  show "length (snd (bnd m f cs)) \<le> Suc (length cs)"
  proof (cases r)
    case (Inl e)
    with m cs' show ?thesis by (simp add: bnd_def)
  next
    case (Inr x)
    from assms(2) have "snd (f x cs') = cs'" by (simp add: calls_nothing_def)
    with Inr m cs' show ?thesis by (simp add: bnd_def)
  qed
qed

lemmas calls_simps = calls_nothing_lift calls_nothing_ret calls_nothing_raise calls_nothing_bnd
  calls_nothing_if calls_once_await calls_once_call calls_once_attr calls_once_image
  calls_once_bnd_before calls_once_bnd_after calls_once_nothing

text \<open>What a block that validates does when parsing or validation raises.\<close>

lemma validates_parse_fails:
  assumes "validates S body" and "json_loads E input = Inl e"
  shows "body E K input [] = (Inl e, [])"
proof -
  from assms(1) obtain F where
    "body E K input = bnd (lift (json_loads E input)) (\<lambda>parsed.
        bnd (lift (validate_stmt E parsed S)) (F E K input))"
    unfolding validates_def by blast
  with assms(2) show ?thesis by (simp add: bnd_lift_Inl)
qed

lemma validates_validation_fails:
  assumes "validates S body" and "json_loads E input = Inr parsed"
    and "validate_stmt E parsed S = Inl e"
  shows "body E K input [] = (Inl e, [])"
proof -
  from assms(1) obtain F where
    "body E K input = bnd (lift (json_loads E input)) (\<lambda>parsed.
        bnd (lift (validate_stmt E parsed S)) (F E K input))"
    unfolding validates_def by blast
  with assms(2,3) show ?thesis by (simp add: bnd_lift_Inl bnd_lift_Inr)
qed

lemma validates_calls:
  assumes "validates S body" and "snd (body E K input []) \<noteq> []"
  shows "validated E S input"
proof (cases "json_loads E input")
  case (Inl e)
  from validates_parse_fails [OF assms(1) Inl] assms(2) show ?thesis by simp
next
  case parsed: (Inr v)
  show ?thesis
  proof (cases "validate_stmt E v S")
    case (Inl e)
    from validates_validation_fails [OF assms(1) parsed Inl] assms(2) show ?thesis by simp
  next
    case (Inr data)
    with parsed show ?thesis by (simp add: validated_def)
  qed
qed


lemma try_except_catches:
  "body [] = (Inl (Exc c m code), cs) \<Longrightarrow> try_except body h = (Inr (h (Exc c m code)), cs)"
  by (simp add: try_except_def)


lemma try_except_raising_returns:
  "body [] = (Inr v, cs) \<Longrightarrow> try_except_raising body h = (Inr v, cs)"
  by (simp add: try_except_raising_def)

lemma try_except_raising_catches:
  "body [] = (Inl (Exc c m code), cs) \<Longrightarrow>
   try_except_raising body h = (h (Exc c m code), cs)"
  by (simp add: try_except_raising_def)

lemma try_except_raising_calls: "snd (try_except_raising body h) = snd (body [])"
  by (simp add: try_except_raising_def split: prod.splits sum.splits pyexc.splits)

text \<open>The selectors of a row of the table.\<close>

lemma adapter_sel:
  "adapter_class (adapter c S m k) = c"
  "adapter_schema (adapter c S m k) = S"
  "adapter_entry (adapter c S m k) = m"
  "adapter_error (adapter c S m k) = k"
  by (simp_all add: adapter_def)

section \<open>The rows of the table\<close>

text \<open>
  For each class: its block validates with its schema, the block makes at most one call
  on the agent kit, and its handler returns an error result of the kind the table gives.
\<close>

lemma error_result_kind: "error_result_ok Status_message_code m code (error_result (Exc c m code))"
  by (simp add: error_result_def message_ends_def split: option.splits)

lemma meteora_error_result_kind:
  "error_result_ok Status_message_code m code (meteora_error_result input (Exc c m code))"
proof -
  have "suffix m (''Failed to process input: '' @ input @ ''. Error: '' @ m)"
    by (rule suffixI [of _ "''Failed to process input: '' @ input @ ''. Error: ''"]) simp
  then show ?thesis
    by (simp add: meteora_error_result_def message_ends_def split: option.splits)
qed

lemma coingecko_trending_error_result_kind:
  "error_result_ok No_error_status m code (coingecko_trending_error_result (Exc c m code))"
  by (simp add: coingecko_trending_error_result_def message_ends_def suffix_Cons)

lemma SolanaBalanceTool_calls: "calls_at_most_once (SolanaBalanceTool_try E K input)"
  unfolding SolanaBalanceTool_try_def by (simp add: calls_simps split del: if_split)

lemma SolanaTransferTool_validates: "validates transfer_schema SolanaTransferTool_try"
  unfolding validates_def SolanaTransferTool_try_def by (intro exI allI) (rule refl)

lemma SolanaTransferTool_calls: "calls_at_most_once (SolanaTransferTool_try E K input)"
  unfolding SolanaTransferTool_try_def transfer_mint_address_def by (simp add: calls_simps split del: if_split)

lemma SolanaDeployTokenTool_validates: "validates deploy_token_schema SolanaDeployTokenTool_try"
  unfolding validates_def SolanaDeployTokenTool_try_def by (intro exI allI) (rule refl)

lemma SolanaDeployTokenTool_calls: "calls_at_most_once (SolanaDeployTokenTool_try E K input)"
  unfolding SolanaDeployTokenTool_try_def by (simp add: calls_simps split del: if_split)

lemma SolanaTradeTool_validates: "validates SolanaTradeTool_schema SolanaTradeTool_try"
  unfolding validates_def SolanaTradeTool_try_def by (intro exI allI) (rule refl)

lemma SolanaTradeTool_calls: "calls_at_most_once (SolanaTradeTool_try E K input)"
  unfolding SolanaTradeTool_try_def by (simp add: calls_simps split del: if_split)

lemma SolanaTradeTool_kind:
  "error_result_ok Status_message_code m code (SolanaTradeTool_except input (Exc c m code))"
  by (simp add: SolanaTradeTool_except_def message_ends_def suffix_Cons split: option.splits)

lemma SolanaFaucetTool_calls: "calls_at_most_once (SolanaFaucetTool_try E K)"
  unfolding SolanaFaucetTool_try_def by (simp add: calls_simps split del: if_split)

lemma SolanaFaucetTool_kind:
  "error_result_ok Status_message_code m code (SolanaFaucetTool_except (Exc c m code))"
  by (simp add: SolanaFaucetTool_except_def message_ends_def suffix_Cons split: option.splits)

lemma SolanaStakeTool_calls: "calls_at_most_once (SolanaStakeTool_try E K input)"
  unfolding SolanaStakeTool_try_def by (simp add: calls_simps split del: if_split)

lemma SolanaGetWalletAddressTool_calls: "calls_at_most_once (SolanaGetWalletAddressTool_try E K)"
  unfolding SolanaGetWalletAddressTool_try_def by (simp add: calls_simps split del: if_split)

lemma SolanaGetWalletAddressTool_kind:
  "error_result_ok Status_message_code m code (SolanaGetWalletAddressTool_except (Exc c m code))"
  by (simp add: SolanaGetWalletAddressTool_except_def message_ends_def suffix_Cons split: option.splits)

lemma SolanaCreateImageTool_validates: "validates SolanaCreateImageTool_schema SolanaCreateImageTool_try"
  unfolding validates_def SolanaCreateImageTool_try_def by (intro exI allI) (rule refl)

lemma SolanaCreateImageTool_calls: "calls_at_most_once (SolanaCreateImageTool_try E K input)"
  unfolding SolanaCreateImageTool_try_def by (simp add: calls_simps split del: if_split)

lemma SolanaCreateImageTool_kind:
  "error_result_ok Status_message_code m code (SolanaCreateImageTool_except input (Exc c m code))"
  by (simp add: SolanaCreateImageTool_except_def message_ends_def suffix_Cons split: option.splits)

lemma SolanaTPSCalculatorTool_calls: "calls_at_most_once (SolanaTPSCalculatorTool_try E K)"
  unfolding SolanaTPSCalculatorTool_try_def by (simp add: calls_simps split del: if_split)

lemma SolanaTPSCalculatorTool_kind:
  "error_result_ok Status_message_code m code (SolanaTPSCalculatorTool_except (Exc c m code))"
  by (simp add: SolanaTPSCalculatorTool_except_def message_ends_def suffix_Cons split: option.splits)

lemma SolanaPumpFunTokenTool_validates: "validates SolanaPumpFunTokenTool_schema SolanaPumpFunTokenTool_try"
  unfolding validates_def SolanaPumpFunTokenTool_try_def by (intro exI allI) (rule refl)

lemma SolanaPumpFunTokenTool_calls: "calls_at_most_once (SolanaPumpFunTokenTool_try E K input)"
  unfolding SolanaPumpFunTokenTool_try_def by (simp add: calls_simps split del: if_split)

lemma SolanaPumpFunTokenTool_kind:
  "error_result_ok Status_message_code m code (SolanaPumpFunTokenTool_except input (Exc c m code))"
  by (simp add: SolanaPumpFunTokenTool_except_def message_ends_def suffix_Cons split: option.splits)

lemma SolanaFetchPriceTool_validates: "validates SolanaFetchPriceTool_schema SolanaFetchPriceTool_try"
  unfolding validates_def SolanaFetchPriceTool_try_def by (intro exI allI) (rule refl)

lemma SolanaFetchPriceTool_calls: "calls_at_most_once (SolanaFetchPriceTool_try E K input)"
  unfolding SolanaFetchPriceTool_try_def by (simp add: calls_simps split del: if_split)

lemma SolanaTokenDataTool_validates: "validates SolanaTokenDataTool_schema SolanaTokenDataTool_try"
  unfolding validates_def SolanaTokenDataTool_try_def by (intro exI allI) (rule refl)

lemma SolanaTokenDataTool_calls: "calls_at_most_once (SolanaTokenDataTool_try E K input)"
  unfolding SolanaTokenDataTool_try_def by (simp add: calls_simps split del: if_split)

lemma SolanaTokenDataByTickerTool_validates: "validates SolanaTokenDataByTickerTool_schema SolanaTokenDataByTickerTool_try"
  unfolding validates_def SolanaTokenDataByTickerTool_try_def by (intro exI allI) (rule refl)

lemma SolanaTokenDataByTickerTool_calls: "calls_at_most_once (SolanaTokenDataByTickerTool_try E K input)"
  unfolding SolanaTokenDataByTickerTool_try_def by (simp add: calls_simps split del: if_split)

lemma SolanaMeteoraDLMMTool_validates: "validates meteora_schema SolanaMeteoraDLMMTool_try"
  unfolding validates_def SolanaMeteoraDLMMTool_try_def by (intro exI allI) (rule refl)

lemma SolanaMeteoraDLMMTool_calls: "calls_at_most_once (SolanaMeteoraDLMMTool_try E K input)"
  unfolding SolanaMeteoraDLMMTool_try_def by (simp add: calls_simps split del: if_split)

lemma SolanaRaydiumBuyTool_calls: "calls_at_most_once (SolanaRaydiumBuyTool_try E K input)"
  unfolding SolanaRaydiumBuyTool_try_def by (simp add: calls_simps split del: if_split)

lemma SolanaRaydiumBuyTool_kind:
  "error_result_ok Status_message_code m code (SolanaRaydiumBuyTool_except input (Exc c m code))"
  by (simp add: SolanaRaydiumBuyTool_except_def message_ends_def suffix_Cons split: option.splits)

lemma SolanaRaydiumSellTool_calls: "calls_at_most_once (SolanaRaydiumSellTool_try E K input)"
  unfolding SolanaRaydiumSellTool_try_def by (simp add: calls_simps split del: if_split)

lemma SolanaRaydiumSellTool_kind:
  "error_result_ok Status_message_code m code (SolanaRaydiumSellTool_except input (Exc c m code))"
  by (simp add: SolanaRaydiumSellTool_except_def message_ends_def suffix_Cons split: option.splits)

lemma SolanaBurnAndCloseTool_calls: "calls_at_most_once (SolanaBurnAndCloseTool_try E K input)"
  unfolding SolanaBurnAndCloseTool_try_def by (simp add: calls_simps split del: if_split)

lemma SolanaBurnAndCloseMultipleTool_validates: "validates SolanaBurnAndCloseMultipleTool_schema SolanaBurnAndCloseMultipleTool_try"
  unfolding validates_def SolanaBurnAndCloseMultipleTool_try_def by (intro exI allI) (rule refl)

lemma SolanaBurnAndCloseMultipleTool_calls: "calls_at_most_once (SolanaBurnAndCloseMultipleTool_try E K input)"
  unfolding SolanaBurnAndCloseMultipleTool_try_def by (simp add: calls_simps split del: if_split)

lemma SolanaBurnAndCloseMultipleTool_kind:
  "error_result_ok Status_message_code m code (SolanaBurnAndCloseMultipleTool_except input (Exc c m code))"
  by (simp add: SolanaBurnAndCloseMultipleTool_except_def message_ends_def suffix_Cons split: option.splits)

lemma SolanaCreateGibworkTaskTool_validates: "validates SolanaCreateGibworkTaskTool_schema SolanaCreateGibworkTaskTool_try"
  unfolding validates_def SolanaCreateGibworkTaskTool_try_def by (intro exI allI) (rule refl)

lemma SolanaCreateGibworkTaskTool_calls: "calls_at_most_once (SolanaCreateGibworkTaskTool_try E K input)"
  unfolding SolanaCreateGibworkTaskTool_try_def by (simp add: calls_simps split del: if_split)

lemma SolanaCreateGibworkTaskTool_kind:
  "error_result_ok Status_message_code m code (SolanaCreateGibworkTaskTool_except input (Exc c m code))"
  by (simp add: SolanaCreateGibworkTaskTool_except_def message_ends_def suffix_Cons split: option.splits)

lemma SolanaBuyUsingMoonshotTool_validates: "validates SolanaBuyUsingMoonshotTool_schema SolanaBuyUsingMoonshotTool_try"
  unfolding validates_def SolanaBuyUsingMoonshotTool_try_def by (intro exI allI) (rule refl)

lemma SolanaBuyUsingMoonshotTool_calls: "calls_at_most_once (SolanaBuyUsingMoonshotTool_try E K input)"
  unfolding SolanaBuyUsingMoonshotTool_try_def by (simp add: calls_simps split del: if_split)

lemma SolanaBuyUsingMoonshotTool_kind:
  "error_result_ok Status_message_code m code (SolanaBuyUsingMoonshotTool_except input (Exc c m code))"
  by (simp add: SolanaBuyUsingMoonshotTool_except_def message_ends_def suffix_Cons split: option.splits)

lemma SolanaSellUsingMoonshotTool_validates: "validates SolanaSellUsingMoonshotTool_schema SolanaSellUsingMoonshotTool_try"
  unfolding validates_def SolanaSellUsingMoonshotTool_try_def by (intro exI allI) (rule refl)

lemma SolanaSellUsingMoonshotTool_calls: "calls_at_most_once (SolanaSellUsingMoonshotTool_try E K input)"
  unfolding SolanaSellUsingMoonshotTool_try_def by (simp add: calls_simps split del: if_split)

lemma SolanaSellUsingMoonshotTool_kind:
  "error_result_ok Status_message_code m code (SolanaSellUsingMoonshotTool_except input (Exc c m code))"
  by (simp add: SolanaSellUsingMoonshotTool_except_def message_ends_def suffix_Cons split: option.splits)

lemma SolanaPythGetPriceTool_validates: "validates SolanaPythGetPriceTool_schema SolanaPythGetPriceTool_try"
  unfolding validates_def SolanaPythGetPriceTool_try_def by (intro exI allI) (rule refl)

lemma SolanaPythGetPriceTool_calls: "calls_at_most_once (SolanaPythGetPriceTool_try E K input)"
  unfolding SolanaPythGetPriceTool_try_def by (simp add: calls_simps split del: if_split)

lemma SolanaPythGetPriceTool_kind:
  "error_result_ok Status_message m code (SolanaPythGetPriceTool_except input (Exc c m code))"
  by (simp add: SolanaPythGetPriceTool_except_def message_ends_def suffix_Cons split: option.splits)

lemma SolanaHeliusGetBalancesTool_validates: "validates SolanaHeliusGetBalancesTool_schema SolanaHeliusGetBalancesTool_try"
  unfolding validates_def SolanaHeliusGetBalancesTool_try_def by (intro exI allI) (rule refl)

lemma SolanaHeliusGetBalancesTool_calls: "calls_at_most_once (SolanaHeliusGetBalancesTool_try E K input)"
  unfolding SolanaHeliusGetBalancesTool_try_def by (simp add: calls_simps split del: if_split)

lemma SolanaHeliusGetBalancesTool_kind:
  "error_result_ok Status_message m code (SolanaHeliusGetBalancesTool_except input (Exc c m code))"
  by (simp add: SolanaHeliusGetBalancesTool_except_def message_ends_def suffix_Cons split: option.splits)

lemma SolanaHeliusGetAddressNameTool_validates: "validates SolanaHeliusGetAddressNameTool_schema SolanaHeliusGetAddressNameTool_try"
  unfolding validates_def SolanaHeliusGetAddressNameTool_try_def by (intro exI allI) (rule refl)

lemma SolanaHeliusGetAddressNameTool_calls: "calls_at_most_once (SolanaHeliusGetAddressNameTool_try E K input)"
  unfolding SolanaHeliusGetAddressNameTool_try_def by (simp add: calls_simps split del: if_split)

lemma SolanaHeliusGetAddressNameTool_kind:
  "error_result_ok Status_message m code (SolanaHeliusGetAddressNameTool_except input (Exc c m code))"
  by (simp add: SolanaHeliusGetAddressNameTool_except_def message_ends_def suffix_Cons split: option.splits)

lemma SolanaHeliusGetNftEventsTool_validates: "validates SolanaHeliusGetNftEventsTool_schema SolanaHeliusGetNftEventsTool_try"
  unfolding validates_def SolanaHeliusGetNftEventsTool_try_def by (intro exI allI) (rule refl)

lemma SolanaHeliusGetNftEventsTool_calls: "calls_at_most_once (SolanaHeliusGetNftEventsTool_try E K input)"
  unfolding SolanaHeliusGetNftEventsTool_try_def by (simp add: calls_simps split del: if_split)

lemma SolanaHeliusGetNftEventsTool_kind:
  "error_result_ok Status_message m code (SolanaHeliusGetNftEventsTool_except input (Exc c m code))"
  by (simp add: SolanaHeliusGetNftEventsTool_except_def message_ends_def suffix_Cons split: option.splits)

lemma SolanaHeliusGetMintlistsTool_validates: "validates SolanaHeliusGetMintlistsTool_schema SolanaHeliusGetMintlistsTool_try"
  unfolding validates_def SolanaHeliusGetMintlistsTool_try_def by (intro exI allI) (rule refl)

lemma SolanaHeliusGetMintlistsTool_calls: "calls_at_most_once (SolanaHeliusGetMintlistsTool_try E K input)"
  unfolding SolanaHeliusGetMintlistsTool_try_def by (simp add: calls_simps split del: if_split)

lemma SolanaHeliusGetMintlistsTool_kind:
  "error_result_ok Status_message m code (SolanaHeliusGetMintlistsTool_except input (Exc c m code))"
  by (simp add: SolanaHeliusGetMintlistsTool_except_def message_ends_def suffix_Cons split: option.splits)

lemma SolanaHeliusGetNFTFingerprintTool_validates: "validates SolanaHeliusGetNFTFingerprintTool_schema SolanaHeliusGetNFTFingerprintTool_try"
  unfolding validates_def SolanaHeliusGetNFTFingerprintTool_try_def by (intro exI allI) (rule refl)

lemma SolanaHeliusGetNFTFingerprintTool_calls: "calls_at_most_once (SolanaHeliusGetNFTFingerprintTool_try E K input)"
  unfolding SolanaHeliusGetNFTFingerprintTool_try_def by (simp add: calls_simps split del: if_split)

lemma SolanaHeliusGetNFTFingerprintTool_kind:
  "error_result_ok Status_message m code (SolanaHeliusGetNFTFingerprintTool_except input (Exc c m code))"
  by (simp add: SolanaHeliusGetNFTFingerprintTool_except_def message_ends_def suffix_Cons split: option.splits)

lemma SolanaHeliusGetActiveListingsTool_validates: "validates SolanaHeliusGetActiveListingsTool_schema SolanaHeliusGetActiveListingsTool_try"
  unfolding validates_def SolanaHeliusGetActiveListingsTool_try_def by (intro exI allI) (rule refl)

lemma SolanaHeliusGetActiveListingsTool_calls: "calls_at_most_once (SolanaHeliusGetActiveListingsTool_try E K input)"
  unfolding SolanaHeliusGetActiveListingsTool_try_def by (simp add: calls_simps split del: if_split)

lemma SolanaHeliusGetActiveListingsTool_kind:
  "error_result_ok Status_message m code (SolanaHeliusGetActiveListingsTool_except input (Exc c m code))"
  by (simp add: SolanaHeliusGetActiveListingsTool_except_def message_ends_def suffix_Cons split: option.splits)

lemma SolanaHeliusGetNFTMetadataTool_validates: "validates SolanaHeliusGetNFTMetadataTool_schema SolanaHeliusGetNFTMetadataTool_try"
  unfolding validates_def SolanaHeliusGetNFTMetadataTool_try_def by (intro exI allI) (rule refl)

lemma SolanaHeliusGetNFTMetadataTool_calls: "calls_at_most_once (SolanaHeliusGetNFTMetadataTool_try E K input)"
  unfolding SolanaHeliusGetNFTMetadataTool_try_def by (simp add: calls_simps split del: if_split)

lemma SolanaHeliusGetNFTMetadataTool_kind:
  "error_result_ok Status_message m code (SolanaHeliusGetNFTMetadataTool_except input (Exc c m code))"
  by (simp add: SolanaHeliusGetNFTMetadataTool_except_def message_ends_def suffix_Cons split: option.splits)

lemma SolanaHeliusGetRawTransactionsTool_validates: "validates SolanaHeliusGetRawTransactionsTool_schema SolanaHeliusGetRawTransactionsTool_try"
  unfolding validates_def SolanaHeliusGetRawTransactionsTool_try_def by (intro exI allI) (rule refl)

lemma SolanaHeliusGetRawTransactionsTool_calls: "calls_at_most_once (SolanaHeliusGetRawTransactionsTool_try E K input)"
  unfolding SolanaHeliusGetRawTransactionsTool_try_def by (simp add: calls_simps split del: if_split)

lemma SolanaHeliusGetRawTransactionsTool_kind:
  "error_result_ok Status_message m code (SolanaHeliusGetRawTransactionsTool_except input (Exc c m code))"
  by (simp add: SolanaHeliusGetRawTransactionsTool_except_def message_ends_def suffix_Cons split: option.splits)

lemma SolanaHeliusGetParsedTransactionsTool_validates: "validates SolanaHeliusGetParsedTransactionsTool_schema SolanaHeliusGetParsedTransactionsTool_try"
  unfolding validates_def SolanaHeliusGetParsedTransactionsTool_try_def by (intro exI allI) (rule refl)

lemma SolanaHeliusGetParsedTransactionsTool_calls: "calls_at_most_once (SolanaHeliusGetParsedTransactionsTool_try E K input)"
  unfolding SolanaHeliusGetParsedTransactionsTool_try_def by (simp add: calls_simps split del: if_split)

lemma SolanaHeliusGetParsedTransactionsTool_kind:
  "error_result_ok Status_message m code (SolanaHeliusGetParsedTransactionsTool_except input (Exc c m code))"
  by (simp add: SolanaHeliusGetParsedTransactionsTool_except_def message_ends_def suffix_Cons split: option.splits)

lemma SolanaHeliusGetParsedTransactionHistoryTool_validates: "validates SolanaHeliusGetParsedTransactionHistoryTool_schema SolanaHeliusGetParsedTransactionHistoryTool_try"
  unfolding validates_def SolanaHeliusGetParsedTransactionHistoryTool_try_def by (intro exI allI) (rule refl)

lemma SolanaHeliusGetParsedTransactionHistoryTool_calls: "calls_at_most_once (SolanaHeliusGetParsedTransactionHistoryTool_try E K input)"
  unfolding SolanaHeliusGetParsedTransactionHistoryTool_try_def by (simp add: calls_simps split del: if_split)

lemma SolanaHeliusGetParsedTransactionHistoryTool_kind:
  "error_result_ok Status_message m code (SolanaHeliusGetParsedTransactionHistoryTool_except input (Exc c m code))"
  by (simp add: SolanaHeliusGetParsedTransactionHistoryTool_except_def message_ends_def suffix_Cons split: option.splits)

lemma SolanaHeliusCreateWebhookTool_validates: "validates SolanaHeliusCreateWebhookTool_schema SolanaHeliusCreateWebhookTool_try"
  unfolding validates_def SolanaHeliusCreateWebhookTool_try_def by (intro exI allI) (rule refl)

lemma SolanaHeliusCreateWebhookTool_calls: "calls_at_most_once (SolanaHeliusCreateWebhookTool_try E K input)"
  unfolding SolanaHeliusCreateWebhookTool_try_def by (simp add: calls_simps split del: if_split)

lemma SolanaHeliusCreateWebhookTool_kind:
  "error_result_ok Status_message m code (SolanaHeliusCreateWebhookTool_except input (Exc c m code))"
  by (simp add: SolanaHeliusCreateWebhookTool_except_def message_ends_def suffix_Cons split: option.splits)

lemma SolanaHeliusGetAllWebhooksTool_calls: "calls_at_most_once (SolanaHeliusGetAllWebhooksTool_try E K)"
  unfolding SolanaHeliusGetAllWebhooksTool_try_def by (simp add: calls_simps split del: if_split)

lemma SolanaHeliusGetAllWebhooksTool_kind:
  "error_result_ok Status_message m code (SolanaHeliusGetAllWebhooksTool_except (Exc c m code))"
  by (simp add: SolanaHeliusGetAllWebhooksTool_except_def message_ends_def suffix_Cons split: option.splits)

lemma SolanaHeliusGetWebhookTool_validates: "validates SolanaHeliusGetWebhookTool_schema SolanaHeliusGetWebhookTool_try"
  unfolding validates_def SolanaHeliusGetWebhookTool_try_def by (intro exI allI) (rule refl)

lemma SolanaHeliusGetWebhookTool_calls: "calls_at_most_once (SolanaHeliusGetWebhookTool_try E K input)"
  unfolding SolanaHeliusGetWebhookTool_try_def by (simp add: calls_simps split del: if_split)

lemma SolanaHeliusGetWebhookTool_kind:
  "error_result_ok Status_message m code (SolanaHeliusGetWebhookTool_except input (Exc c m code))"
  by (simp add: SolanaHeliusGetWebhookTool_except_def message_ends_def suffix_Cons split: option.splits)

lemma SolanaHeliusEditWebhookTool_validates: "validates SolanaHeliusEditWebhookTool_schema SolanaHeliusEditWebhookTool_try"
  unfolding validates_def SolanaHeliusEditWebhookTool_try_def by (intro exI allI) (rule refl)

lemma SolanaHeliusEditWebhookTool_calls: "calls_at_most_once (SolanaHeliusEditWebhookTool_try E K input)"
  unfolding SolanaHeliusEditWebhookTool_try_def by (simp add: calls_simps split del: if_split)

lemma SolanaHeliusEditWebhookTool_kind:
  "error_result_ok Status_message m code (SolanaHeliusEditWebhookTool_except input (Exc c m code))"
  by (simp add: SolanaHeliusEditWebhookTool_except_def message_ends_def suffix_Cons split: option.splits)

lemma SolanaHeliusDeleteWebhookTool_validates: "validates SolanaHeliusDeleteWebhookTool_schema SolanaHeliusDeleteWebhookTool_try"
  unfolding validates_def SolanaHeliusDeleteWebhookTool_try_def by (intro exI allI) (rule refl)

lemma SolanaHeliusDeleteWebhookTool_calls: "calls_at_most_once (SolanaHeliusDeleteWebhookTool_try E K input)"
  unfolding SolanaHeliusDeleteWebhookTool_try_def by (simp add: calls_simps split del: if_split)

lemma SolanaHeliusDeleteWebhookTool_kind:
  "error_result_ok Status_message m code (SolanaHeliusDeleteWebhookTool_except input (Exc c m code))"
  by (simp add: SolanaHeliusDeleteWebhookTool_except_def message_ends_def suffix_Cons split: option.splits)

lemma SolanaFetchTokenReportSummaryTool_validates: "validates SolanaFetchTokenReportSummaryTool_schema SolanaFetchTokenReportSummaryTool_try"
  unfolding validates_def SolanaFetchTokenReportSummaryTool_try_def by (intro exI allI) (rule refl)

lemma SolanaFetchTokenReportSummaryTool_calls: "calls_at_most_once (SolanaFetchTokenReportSummaryTool_try E K input)"
  unfolding SolanaFetchTokenReportSummaryTool_try_def by (simp add: calls_simps split del: if_split)

lemma SolanaFetchTokenReportSummaryTool_kind:
  "error_result_ok Status_message m code (SolanaFetchTokenReportSummaryTool_except input (Exc c m code))"
  by (simp add: SolanaFetchTokenReportSummaryTool_except_def message_ends_def suffix_Cons split: option.splits)

lemma SolanaFetchTokenDetailedReportTool_validates: "validates SolanaFetchTokenDetailedReportTool_schema SolanaFetchTokenDetailedReportTool_try"
  unfolding validates_def SolanaFetchTokenDetailedReportTool_try_def by (intro exI allI) (rule refl)

lemma SolanaFetchTokenDetailedReportTool_calls: "calls_at_most_once (SolanaFetchTokenDetailedReportTool_try E K input)"
  unfolding SolanaFetchTokenDetailedReportTool_try_def by (simp add: calls_simps split del: if_split)

lemma SolanaFetchTokenDetailedReportTool_kind:
  "error_result_ok Status_message m code (SolanaFetchTokenDetailedReportTool_except input (Exc c m code))"
  by (simp add: SolanaFetchTokenDetailedReportTool_except_def message_ends_def suffix_Cons split: option.splits)

lemma SolanaGetPumpCurveStateTool_validates: "validates SolanaGetPumpCurveStateTool_schema SolanaGetPumpCurveStateTool_try"
  unfolding validates_def SolanaGetPumpCurveStateTool_try_def by (intro exI allI) (rule refl)

lemma SolanaGetPumpCurveStateTool_calls: "calls_at_most_once (SolanaGetPumpCurveStateTool_try E K input)"
  unfolding SolanaGetPumpCurveStateTool_try_def by (simp add: calls_simps split del: if_split)

lemma SolanaGetPumpCurveStateTool_kind:
  "error_result_ok Status_message m code (SolanaGetPumpCurveStateTool_except input (Exc c m code))"
  by (simp add: SolanaGetPumpCurveStateTool_except_def message_ends_def suffix_Cons split: option.splits)

lemma SolanaCalculatePumpCurvePriceTool_validates: "validates SolanaCalculatePumpCurvePriceTool_schema SolanaCalculatePumpCurvePriceTool_try"
  unfolding validates_def SolanaCalculatePumpCurvePriceTool_try_def by (intro exI allI) (rule refl)

lemma SolanaCalculatePumpCurvePriceTool_calls: "calls_at_most_once (SolanaCalculatePumpCurvePriceTool_try E K input)"
  unfolding SolanaCalculatePumpCurvePriceTool_try_def by (simp add: calls_simps split del: if_split)

lemma SolanaCalculatePumpCurvePriceTool_kind:
  "error_result_ok Status_message m code (SolanaCalculatePumpCurvePriceTool_except input (Exc c m code))"
  by (simp add: SolanaCalculatePumpCurvePriceTool_except_def message_ends_def suffix_Cons split: option.splits)

lemma SolanaBuyTokenTool_validates: "validates SolanaBuyTokenTool_schema SolanaBuyTokenTool_try"
  unfolding validates_def SolanaBuyTokenTool_try_def by (intro exI allI) (rule refl)

lemma SolanaBuyTokenTool_calls: "calls_at_most_once (SolanaBuyTokenTool_try E K input)"
  unfolding SolanaBuyTokenTool_try_def by (simp add: calls_simps split del: if_split)

lemma SolanaBuyTokenTool_kind:
  "error_result_ok Status_message m code (SolanaBuyTokenTool_except input (Exc c m code))"
  by (simp add: SolanaBuyTokenTool_except_def message_ends_def suffix_Cons split: option.splits)

lemma SolanaSellTokenTool_validates: "validates SolanaSellTokenTool_schema SolanaSellTokenTool_try"
  unfolding validates_def SolanaSellTokenTool_try_def by (intro exI allI) (rule refl)

lemma SolanaSellTokenTool_calls: "calls_at_most_once (SolanaSellTokenTool_try E K input)"
  unfolding SolanaSellTokenTool_try_def by (simp add: calls_simps split del: if_split)

lemma SolanaSellTokenTool_kind:
  "error_result_ok Status_message m code (SolanaSellTokenTool_except input (Exc c m code))"
  by (simp add: SolanaSellTokenTool_except_def message_ends_def suffix_Cons split: option.splits)

lemma SolanaSNSResolveTool_validates: "validates SolanaSNSResolveTool_schema SolanaSNSResolveTool_try"
  unfolding validates_def SolanaSNSResolveTool_try_def by (intro exI allI) (rule refl)

lemma SolanaSNSResolveTool_calls: "calls_at_most_once (SolanaSNSResolveTool_try E K input)"
  unfolding SolanaSNSResolveTool_try_def by (simp add: calls_simps split del: if_split)

lemma SolanaSNSResolveTool_kind:
  "error_result_ok No_error_status m code (SolanaSNSResolveTool_except input (Exc c m code))"
  by (simp add: SolanaSNSResolveTool_except_def message_ends_def suffix_Cons split: option.splits)

lemma SolanaSNSRegisterDomainTool_validates: "validates SolanaSNSRegisterDomainTool_schema SolanaSNSRegisterDomainTool_try"
  unfolding validates_def SolanaSNSRegisterDomainTool_try_def by (intro exI allI) (rule refl)

lemma SolanaSNSRegisterDomainTool_calls: "calls_at_most_once (SolanaSNSRegisterDomainTool_try E K input)"
  unfolding SolanaSNSRegisterDomainTool_try_def by (simp add: calls_simps split del: if_split)

lemma SolanaSNSRegisterDomainTool_kind:
  "error_result_ok No_error_status m code (SolanaSNSRegisterDomainTool_except input (Exc c m code))"
  by (simp add: SolanaSNSRegisterDomainTool_except_def message_ends_def suffix_Cons split: option.splits)

lemma SolanaSNSGetFavouriteDomainTool_validates: "validates SolanaSNSGetFavouriteDomainTool_schema SolanaSNSGetFavouriteDomainTool_try"
  unfolding validates_def SolanaSNSGetFavouriteDomainTool_try_def by (intro exI allI) (rule refl)

lemma SolanaSNSGetFavouriteDomainTool_calls: "calls_at_most_once (SolanaSNSGetFavouriteDomainTool_try E K input)"
  unfolding SolanaSNSGetFavouriteDomainTool_try_def by (simp add: calls_simps split del: if_split)

lemma SolanaSNSGetFavouriteDomainTool_kind:
  "error_result_ok No_error_status m code (SolanaSNSGetFavouriteDomainTool_except input (Exc c m code))"
  by (simp add: SolanaSNSGetFavouriteDomainTool_except_def message_ends_def suffix_Cons split: option.splits)

lemma SolanaSNSGetAllDomainsTool_validates: "validates SolanaSNSGetAllDomainsTool_schema SolanaSNSGetAllDomainsTool_try"
  unfolding validates_def SolanaSNSGetAllDomainsTool_try_def by (intro exI allI) (rule refl)

lemma SolanaSNSGetAllDomainsTool_calls: "calls_at_most_once (SolanaSNSGetAllDomainsTool_try E K input)"
  unfolding SolanaSNSGetAllDomainsTool_try_def by (simp add: calls_simps split del: if_split)

lemma SolanaSNSGetAllDomainsTool_kind:
  "error_result_ok No_error_status m code (SolanaSNSGetAllDomainsTool_except input (Exc c m code))"
  by (simp add: SolanaSNSGetAllDomainsTool_except_def message_ends_def suffix_Cons split: option.splits)

lemma SolanaDeployCollectionTool_validates: "validates SolanaDeployCollectionTool_schema SolanaDeployCollectionTool_try"
  unfolding validates_def SolanaDeployCollectionTool_try_def by (intro exI allI) (rule refl)

lemma SolanaDeployCollectionTool_calls: "calls_at_most_once (SolanaDeployCollectionTool_try E K input)"
  unfolding SolanaDeployCollectionTool_try_def by (simp add: calls_simps split del: if_split)

lemma SolanaDeployCollectionTool_kind:
  "error_result_ok No_error_status m code (SolanaDeployCollectionTool_except input (Exc c m code))"
  by (simp add: SolanaDeployCollectionTool_except_def message_ends_def suffix_Cons split: option.splits)

lemma SolanaGetMetaplexAssetTool_validates: "validates SolanaGetMetaplexAssetTool_schema SolanaGetMetaplexAssetTool_try"
  unfolding validates_def SolanaGetMetaplexAssetTool_try_def by (intro exI allI) (rule refl)

lemma SolanaGetMetaplexAssetTool_calls: "calls_at_most_once (SolanaGetMetaplexAssetTool_try E K input)"
  unfolding SolanaGetMetaplexAssetTool_try_def by (simp add: calls_simps split del: if_split)

lemma SolanaGetMetaplexAssetTool_kind:
  "error_result_ok No_error_status m code (SolanaGetMetaplexAssetTool_except input (Exc c m code))"
  by (simp add: SolanaGetMetaplexAssetTool_except_def message_ends_def suffix_Cons split: option.splits)

lemma SolanaGetMetaplexAssetsByCreatorTool_validates: "validates SolanaGetMetaplexAssetsByCreatorTool_schema SolanaGetMetaplexAssetsByCreatorTool_try"
  unfolding validates_def SolanaGetMetaplexAssetsByCreatorTool_try_def by (intro exI allI) (rule refl)

lemma SolanaGetMetaplexAssetsByCreatorTool_calls: "calls_at_most_once (SolanaGetMetaplexAssetsByCreatorTool_try E K input)"
  unfolding SolanaGetMetaplexAssetsByCreatorTool_try_def by (simp add: calls_simps split del: if_split)

lemma SolanaGetMetaplexAssetsByCreatorTool_kind:
  "error_result_ok No_error_status m code (SolanaGetMetaplexAssetsByCreatorTool_except input (Exc c m code))"
  by (simp add: SolanaGetMetaplexAssetsByCreatorTool_except_def message_ends_def suffix_Cons split: option.splits)

lemma SolanaGetMetaplexAssetsByAuthorityTool_validates: "validates SolanaGetMetaplexAssetsByAuthorityTool_schema SolanaGetMetaplexAssetsByAuthorityTool_try"
  unfolding validates_def SolanaGetMetaplexAssetsByAuthorityTool_try_def by (intro exI allI) (rule refl)

lemma SolanaGetMetaplexAssetsByAuthorityTool_calls: "calls_at_most_once (SolanaGetMetaplexAssetsByAuthorityTool_try E K input)"
  unfolding SolanaGetMetaplexAssetsByAuthorityTool_try_def by (simp add: calls_simps split del: if_split)

lemma SolanaGetMetaplexAssetsByAuthorityTool_kind:
  "error_result_ok No_error_status m code (SolanaGetMetaplexAssetsByAuthorityTool_except input (Exc c m code))"
  by (simp add: SolanaGetMetaplexAssetsByAuthorityTool_except_def message_ends_def suffix_Cons split: option.splits)

lemma SolanaMintMetaplexCoreNFTTool_validates: "validates SolanaMintMetaplexCoreNFTTool_schema SolanaMintMetaplexCoreNFTTool_try"
  unfolding validates_def SolanaMintMetaplexCoreNFTTool_try_def by (intro exI allI) (rule refl)

lemma SolanaMintMetaplexCoreNFTTool_calls: "calls_at_most_once (SolanaMintMetaplexCoreNFTTool_try E K input)"
  unfolding SolanaMintMetaplexCoreNFTTool_try_def by (simp add: calls_simps split del: if_split)

lemma SolanaMintMetaplexCoreNFTTool_kind:
  "error_result_ok No_error_status m code (SolanaMintMetaplexCoreNFTTool_except input (Exc c m code))"
  by (simp add: SolanaMintMetaplexCoreNFTTool_except_def message_ends_def suffix_Cons split: option.splits)

lemma SolanaDeBridgeCreateTransactionTool_validates: "validates SolanaDeBridgeCreateTransactionTool_schema SolanaDeBridgeCreateTransactionTool_try"
  unfolding validates_def SolanaDeBridgeCreateTransactionTool_try_def by (intro exI allI) (rule refl)

lemma SolanaDeBridgeCreateTransactionTool_calls: "calls_at_most_once (SolanaDeBridgeCreateTransactionTool_try E K input)"
  unfolding SolanaDeBridgeCreateTransactionTool_try_def by (simp add: calls_simps split del: if_split)

lemma SolanaDeBridgeCreateTransactionTool_kind:
  "error_result_ok No_error_status m code (SolanaDeBridgeCreateTransactionTool_except input (Exc c m code))"
  by (simp add: SolanaDeBridgeCreateTransactionTool_except_def message_ends_def suffix_Cons split: option.splits)

lemma SolanaDeBridgeExecuteTransactionTool_validates: "validates SolanaDeBridgeExecuteTransactionTool_schema SolanaDeBridgeExecuteTransactionTool_try"
  unfolding validates_def SolanaDeBridgeExecuteTransactionTool_try_def by (intro exI allI) (rule refl)

lemma SolanaDeBridgeExecuteTransactionTool_calls: "calls_at_most_once (SolanaDeBridgeExecuteTransactionTool_try E K input)"
  unfolding SolanaDeBridgeExecuteTransactionTool_try_def by (simp add: calls_simps split del: if_split)

lemma SolanaDeBridgeExecuteTransactionTool_kind:
  "error_result_ok No_error_status m code (SolanaDeBridgeExecuteTransactionTool_except input (Exc c m code))"
  by (simp add: SolanaDeBridgeExecuteTransactionTool_except_def message_ends_def suffix_Cons split: option.splits)

lemma SolanaDeBridgeCheckTransactionStatusTool_validates: "validates SolanaDeBridgeCheckTransactionStatusTool_schema SolanaDeBridgeCheckTransactionStatusTool_try"
  unfolding validates_def SolanaDeBridgeCheckTransactionStatusTool_try_def by (intro exI allI) (rule refl)

lemma SolanaDeBridgeCheckTransactionStatusTool_calls: "calls_at_most_once (SolanaDeBridgeCheckTransactionStatusTool_try E K input)"
  unfolding SolanaDeBridgeCheckTransactionStatusTool_try_def by (simp add: calls_simps split del: if_split)

lemma SolanaDeBridgeCheckTransactionStatusTool_kind:
  "error_result_ok No_error_status m code (SolanaDeBridgeCheckTransactionStatusTool_except input (Exc c m code))"
  by (simp add: SolanaDeBridgeCheckTransactionStatusTool_except_def message_ends_def suffix_Cons split: option.splits)

lemma SolanaCybersCreateCoinTool_validates: "validates SolanaCybersCreateCoinTool_schema SolanaCybersCreateCoinTool_try"
  unfolding validates_def SolanaCybersCreateCoinTool_try_def by (intro exI allI) (rule refl)

lemma SolanaCybersCreateCoinTool_calls: "calls_at_most_once (SolanaCybersCreateCoinTool_try E K input)"
  unfolding SolanaCybersCreateCoinTool_try_def by (simp add: calls_simps split del: if_split)

lemma SolanaCybersCreateCoinTool_kind:
  "error_result_ok No_error_status m code (SolanaCybersCreateCoinTool_except input (Exc c m code))"
  by (simp add: SolanaCybersCreateCoinTool_except_def message_ends_def suffix_Cons split: option.splits)

lemma SolanaGetTipAccounts_calls: "calls_at_most_once (SolanaGetTipAccounts_try E K)"
  unfolding SolanaGetTipAccounts_try_def by (simp add: calls_simps split del: if_split)

lemma SolanaGetTipAccounts_kind:
  "error_result_ok No_error_status m code (SolanaGetTipAccounts_except (Exc c m code))"
  by (simp add: SolanaGetTipAccounts_except_def message_ends_def suffix_Cons split: option.splits)

lemma SolanaGetRandomTipAccount_calls: "calls_at_most_once (SolanaGetRandomTipAccount_try E K)"
  unfolding SolanaGetRandomTipAccount_try_def by (simp add: calls_simps split del: if_split)

lemma SolanaGetRandomTipAccount_kind:
  "error_result_ok No_error_status m code (SolanaGetRandomTipAccount_except (Exc c m code))"
  by (simp add: SolanaGetRandomTipAccount_except_def message_ends_def suffix_Cons split: option.splits)

lemma SolanaGetBundleStatuses_validates: "validates SolanaGetBundleStatuses_schema SolanaGetBundleStatuses_try"
  unfolding validates_def SolanaGetBundleStatuses_try_def by (intro exI allI) (rule refl)

lemma SolanaGetBundleStatuses_calls: "calls_at_most_once (SolanaGetBundleStatuses_try E K input)"
  unfolding SolanaGetBundleStatuses_try_def by (simp add: calls_simps split del: if_split)

lemma SolanaGetBundleStatuses_kind:
  "error_result_ok No_error_status m code (SolanaGetBundleStatuses_except input (Exc c m code))"
  by (simp add: SolanaGetBundleStatuses_except_def message_ends_def suffix_Cons split: option.splits)

lemma SolanaSendBundle_validates: "validates SolanaSendBundle_schema SolanaSendBundle_try"
  unfolding validates_def SolanaSendBundle_try_def by (intro exI allI) (rule refl)

lemma SolanaSendBundle_calls: "calls_at_most_once (SolanaSendBundle_try E K input)"
  unfolding SolanaSendBundle_try_def by (simp add: calls_simps split del: if_split)

lemma SolanaSendBundle_kind:
  "error_result_ok No_error_status m code (SolanaSendBundle_except input (Exc c m code))"
  by (simp add: SolanaSendBundle_except_def message_ends_def suffix_Cons split: option.splits)

lemma SolanaGetInflightBundleStatuses_validates: "validates SolanaGetInflightBundleStatuses_schema SolanaGetInflightBundleStatuses_try"
  unfolding validates_def SolanaGetInflightBundleStatuses_try_def by (intro exI allI) (rule refl)

lemma SolanaGetInflightBundleStatuses_calls: "calls_at_most_once (SolanaGetInflightBundleStatuses_try E K input)"
  unfolding SolanaGetInflightBundleStatuses_try_def by (simp add: calls_simps split del: if_split)

lemma SolanaGetInflightBundleStatuses_kind:
  "error_result_ok No_error_status m code (SolanaGetInflightBundleStatuses_except input (Exc c m code))"
  by (simp add: SolanaGetInflightBundleStatuses_except_def message_ends_def suffix_Cons split: option.splits)

lemma SolanaSendTxn_validates: "validates SolanaSendTxn_schema SolanaSendTxn_try"
  unfolding validates_def SolanaSendTxn_try_def by (intro exI allI) (rule refl)

lemma SolanaSendTxn_calls: "calls_at_most_once (SolanaSendTxn_try E K input)"
  unfolding SolanaSendTxn_try_def by (simp add: calls_simps split del: if_split)

lemma SolanaSendTxn_kind:
  "error_result_ok No_error_status m code (SolanaSendTxn_except input (Exc c m code))"
  by (simp add: SolanaSendTxn_except_def message_ends_def suffix_Cons split: option.splits)

lemma StorkGetPriceTool_calls: "calls_at_most_once (StorkGetPriceTool_try E K input)"
  unfolding StorkGetPriceTool_try_def by (simp add: calls_simps split del: if_split)

lemma StorkGetPriceTool_kind:
  "error_result_ok Status_message m code (StorkGetPriceTool_except input (Exc c m code))"
  by (simp add: StorkGetPriceTool_except_def message_ends_def suffix_Cons split: option.splits)

lemma BackpackGetAccountBalancesTool_calls: "calls_at_most_once (BackpackGetAccountBalancesTool_try E K)"
  unfolding BackpackGetAccountBalancesTool_try_def by (simp add: calls_simps split del: if_split)

lemma BackpackGetAccountBalancesTool_kind:
  "error_result_ok No_error_status m code (BackpackGetAccountBalancesTool_except (Exc c m code))"
  by (simp add: BackpackGetAccountBalancesTool_except_def message_ends_def suffix_Cons split: option.splits)

lemma BackpackRequestWithdrawalTool_validates: "validates BackpackRequestWithdrawalTool_schema BackpackRequestWithdrawalTool_try"
  unfolding validates_def BackpackRequestWithdrawalTool_try_def by (intro exI allI) (rule refl)

lemma BackpackRequestWithdrawalTool_calls: "calls_at_most_once (BackpackRequestWithdrawalTool_try E K input)"
  unfolding BackpackRequestWithdrawalTool_try_def by (simp add: calls_simps split del: if_split)

lemma BackpackRequestWithdrawalTool_kind:
  "error_result_ok No_error_status m code (BackpackRequestWithdrawalTool_except input (Exc c m code))"
  by (simp add: BackpackRequestWithdrawalTool_except_def message_ends_def suffix_Cons split: option.splits)

lemma BackpackGetAccountSettingsTool_calls: "calls_at_most_once (BackpackGetAccountSettingsTool_try E K)"
  unfolding BackpackGetAccountSettingsTool_try_def by (simp add: calls_simps split del: if_split)

lemma BackpackGetAccountSettingsTool_kind:
  "error_result_ok No_error_status m code (BackpackGetAccountSettingsTool_except (Exc c m code))"
  by (simp add: BackpackGetAccountSettingsTool_except_def message_ends_def suffix_Cons split: option.splits)

lemma BackpackUpdateAccountSettingsTool_calls: "calls_at_most_once (BackpackUpdateAccountSettingsTool_try E K input)"
  unfolding BackpackUpdateAccountSettingsTool_try_def by (simp add: calls_simps split del: if_split)

lemma BackpackUpdateAccountSettingsTool_kind:
  "error_result_ok No_error_status m code (BackpackUpdateAccountSettingsTool_except input (Exc c m code))"
  by (simp add: BackpackUpdateAccountSettingsTool_except_def message_ends_def suffix_Cons split: option.splits)

lemma BackpackGetBorrowLendPositionsTool_calls: "calls_at_most_once (BackpackGetBorrowLendPositionsTool_try E K)"
  unfolding BackpackGetBorrowLendPositionsTool_try_def by (simp add: calls_simps split del: if_split)

lemma BackpackGetBorrowLendPositionsTool_kind:
  "error_result_ok No_error_status m code (BackpackGetBorrowLendPositionsTool_except (Exc c m code))"
  by (simp add: BackpackGetBorrowLendPositionsTool_except_def message_ends_def suffix_Cons split: option.splits)

lemma BackpackExecuteBorrowLendTool_validates: "validates BackpackExecuteBorrowLendTool_schema BackpackExecuteBorrowLendTool_try"
  unfolding validates_def BackpackExecuteBorrowLendTool_try_def by (intro exI allI) (rule refl)

lemma BackpackExecuteBorrowLendTool_calls: "calls_at_most_once (BackpackExecuteBorrowLendTool_try E K input)"
  unfolding BackpackExecuteBorrowLendTool_try_def by (simp add: calls_simps split del: if_split)

lemma BackpackExecuteBorrowLendTool_kind:
  "error_result_ok No_error_status m code (BackpackExecuteBorrowLendTool_except input (Exc c m code))"
  by (simp add: BackpackExecuteBorrowLendTool_except_def message_ends_def suffix_Cons split: option.splits)

lemma BackpackGetFillHistoryTool_calls: "calls_at_most_once (BackpackGetFillHistoryTool_try E K input)"
  unfolding BackpackGetFillHistoryTool_try_def by (simp add: calls_simps split del: if_split)

lemma BackpackGetFillHistoryTool_kind:
  "error_result_ok No_error_status m code (BackpackGetFillHistoryTool_except input (Exc c m code))"
  by (simp add: BackpackGetFillHistoryTool_except_def message_ends_def suffix_Cons split: option.splits)

lemma BackpackGetBorrowPositionHistoryTool_calls: "calls_at_most_once (BackpackGetBorrowPositionHistoryTool_try E K input)"
  unfolding BackpackGetBorrowPositionHistoryTool_try_def by (simp add: calls_simps split del: if_split)

lemma BackpackGetBorrowPositionHistoryTool_kind:
  "error_result_ok No_error_status m code (BackpackGetBorrowPositionHistoryTool_except input (Exc c m code))"
  by (simp add: BackpackGetBorrowPositionHistoryTool_except_def message_ends_def suffix_Cons split: option.splits)

lemma BackpackGetFundingPaymentsTool_calls: "calls_at_most_once (BackpackGetFundingPaymentsTool_try E K input)"
  unfolding BackpackGetFundingPaymentsTool_try_def by (simp add: calls_simps split del: if_split)

lemma BackpackGetFundingPaymentsTool_kind:
  "error_result_ok No_error_status m code (BackpackGetFundingPaymentsTool_except input (Exc c m code))"
  by (simp add: BackpackGetFundingPaymentsTool_except_def message_ends_def suffix_Cons split: option.splits)

lemma BackpackGetOrderHistoryTool_calls: "calls_at_most_once (BackpackGetOrderHistoryTool_try E K input)"
  unfolding BackpackGetOrderHistoryTool_try_def by (simp add: calls_simps split del: if_split)

lemma BackpackGetOrderHistoryTool_kind:
  "error_result_ok No_error_status m code (BackpackGetOrderHistoryTool_except input (Exc c m code))"
  by (simp add: BackpackGetOrderHistoryTool_except_def message_ends_def suffix_Cons split: option.splits)

lemma BackpackGetPnlHistoryTool_calls: "calls_at_most_once (BackpackGetPnlHistoryTool_try E K input)"
  unfolding BackpackGetPnlHistoryTool_try_def by (simp add: calls_simps split del: if_split)

lemma BackpackGetPnlHistoryTool_kind:
  "error_result_ok No_error_status m code (BackpackGetPnlHistoryTool_except input (Exc c m code))"
  by (simp add: BackpackGetPnlHistoryTool_except_def message_ends_def suffix_Cons split: option.splits)

lemma BackpackGetSettlementHistoryTool_calls: "calls_at_most_once (BackpackGetSettlementHistoryTool_try E K input)"
  unfolding BackpackGetSettlementHistoryTool_try_def by (simp add: calls_simps split del: if_split)

lemma BackpackGetSettlementHistoryTool_kind:
  "error_result_ok No_error_status m code (BackpackGetSettlementHistoryTool_except input (Exc c m code))"
  by (simp add: BackpackGetSettlementHistoryTool_except_def message_ends_def suffix_Cons split: option.splits)

lemma BackpackGetUsersOpenOrdersTool_calls: "calls_at_most_once (BackpackGetUsersOpenOrdersTool_try E K input)"
  unfolding BackpackGetUsersOpenOrdersTool_try_def by (simp add: calls_simps split del: if_split)

lemma BackpackGetUsersOpenOrdersTool_kind:
  "error_result_ok No_error_status m code (BackpackGetUsersOpenOrdersTool_except input (Exc c m code))"
  by (simp add: BackpackGetUsersOpenOrdersTool_except_def message_ends_def suffix_Cons split: option.splits)

lemma BackpackExecuteOrderTool_calls: "calls_at_most_once (BackpackExecuteOrderTool_try E K input)"
  unfolding BackpackExecuteOrderTool_try_def by (simp add: calls_simps split del: if_split)

lemma BackpackExecuteOrderTool_kind:
  "error_result_ok No_error_status m code (BackpackExecuteOrderTool_except input (Exc c m code))"
  by (simp add: BackpackExecuteOrderTool_except_def message_ends_def suffix_Cons split: option.splits)

lemma BackpackCancelOpenOrderTool_calls: "calls_at_most_once (BackpackCancelOpenOrderTool_try E K input)"
  unfolding BackpackCancelOpenOrderTool_try_def by (simp add: calls_simps split del: if_split)

lemma BackpackCancelOpenOrderTool_kind:
  "error_result_ok No_error_status m code (BackpackCancelOpenOrderTool_except input (Exc c m code))"
  by (simp add: BackpackCancelOpenOrderTool_except_def message_ends_def suffix_Cons split: option.splits)

lemma BackpackGetOpenOrdersTool_calls: "calls_at_most_once (BackpackGetOpenOrdersTool_try E K input)"
  unfolding BackpackGetOpenOrdersTool_try_def by (simp add: calls_simps split del: if_split)

lemma BackpackGetOpenOrdersTool_kind:
  "error_result_ok No_error_status m code (BackpackGetOpenOrdersTool_except input (Exc c m code))"
  by (simp add: BackpackGetOpenOrdersTool_except_def message_ends_def suffix_Cons split: option.splits)

lemma BackpackCancelOpenOrdersTool_calls: "calls_at_most_once (BackpackCancelOpenOrdersTool_try E K input)"
  unfolding BackpackCancelOpenOrdersTool_try_def by (simp add: calls_simps split del: if_split)

lemma BackpackCancelOpenOrdersTool_kind:
  "error_result_ok No_error_status m code (BackpackCancelOpenOrdersTool_except input (Exc c m code))"
  by (simp add: BackpackCancelOpenOrdersTool_except_def message_ends_def suffix_Cons split: option.splits)

lemma BackpackGetSupportedAssetsTool_calls: "calls_at_most_once (BackpackGetSupportedAssetsTool_try E K)"
  unfolding BackpackGetSupportedAssetsTool_try_def by (simp add: calls_simps split del: if_split)

lemma BackpackGetSupportedAssetsTool_kind:
  "error_result_ok No_error_status m code (BackpackGetSupportedAssetsTool_except (Exc c m code))"
  by (simp add: BackpackGetSupportedAssetsTool_except_def message_ends_def suffix_Cons split: option.splits)

lemma BackpackGetTickerInformationTool_calls: "calls_at_most_once (BackpackGetTickerInformationTool_try E K input)"
  unfolding BackpackGetTickerInformationTool_try_def by (simp add: calls_simps split del: if_split)

lemma BackpackGetTickerInformationTool_kind:
  "error_result_ok No_error_status m code (BackpackGetTickerInformationTool_except input (Exc c m code))"
  by (simp add: BackpackGetTickerInformationTool_except_def message_ends_def suffix_Cons split: option.splits)

lemma BackpackGetMarketsTool_calls: "calls_at_most_once (BackpackGetMarketsTool_try E K)"
  unfolding BackpackGetMarketsTool_try_def by (simp add: calls_simps split del: if_split)

lemma BackpackGetMarketsTool_kind:
  "error_result_ok No_error_status m code (BackpackGetMarketsTool_except (Exc c m code))"
  by (simp add: BackpackGetMarketsTool_except_def message_ends_def suffix_Cons split: option.splits)

lemma BackpackGetMarketTool_calls: "calls_at_most_once (BackpackGetMarketTool_try E K input)"
  unfolding BackpackGetMarketTool_try_def by (simp add: calls_simps split del: if_split)

lemma BackpackGetMarketTool_kind:
  "error_result_ok No_error_status m code (BackpackGetMarketTool_except input (Exc c m code))"
  by (simp add: BackpackGetMarketTool_except_def message_ends_def suffix_Cons split: option.splits)

lemma BackpackGetTickersTool_calls: "calls_at_most_once (BackpackGetTickersTool_try E K)"
  unfolding BackpackGetTickersTool_try_def by (simp add: calls_simps split del: if_split)

lemma BackpackGetTickersTool_kind:
  "error_result_ok No_error_status m code (BackpackGetTickersTool_except (Exc c m code))"
  by (simp add: BackpackGetTickersTool_except_def message_ends_def suffix_Cons split: option.splits)

lemma BackpackGetDepthTool_validates: "validates BackpackGetDepthTool_schema BackpackGetDepthTool_try"
  unfolding validates_def BackpackGetDepthTool_try_def by (intro exI allI) (rule refl)

lemma BackpackGetDepthTool_calls: "calls_at_most_once (BackpackGetDepthTool_try E K input)"
  unfolding BackpackGetDepthTool_try_def by (simp add: calls_simps split del: if_split)

lemma BackpackGetDepthTool_kind:
  "error_result_ok No_error_status m code (BackpackGetDepthTool_except input (Exc c m code))"
  by (simp add: BackpackGetDepthTool_except_def message_ends_def suffix_Cons split: option.splits)

lemma BackpackGetKlinesTool_validates: "validates BackpackGetKlinesTool_schema BackpackGetKlinesTool_try"
  unfolding validates_def BackpackGetKlinesTool_try_def by (intro exI allI) (rule refl)

lemma BackpackGetKlinesTool_calls: "calls_at_most_once (BackpackGetKlinesTool_try E K input)"
  unfolding BackpackGetKlinesTool_try_def by (simp add: calls_simps split del: if_split)

lemma BackpackGetKlinesTool_kind:
  "error_result_ok No_error_status m code (BackpackGetKlinesTool_except input (Exc c m code))"
  by (simp add: BackpackGetKlinesTool_except_def message_ends_def suffix_Cons split: option.splits)

lemma BackpackGetMarkPriceTool_validates: "validates BackpackGetMarkPriceTool_schema BackpackGetMarkPriceTool_try"
  unfolding validates_def BackpackGetMarkPriceTool_try_def by (intro exI allI) (rule refl)

lemma BackpackGetMarkPriceTool_calls: "calls_at_most_once (BackpackGetMarkPriceTool_try E K input)"
  unfolding BackpackGetMarkPriceTool_try_def by (simp add: calls_simps split del: if_split)

lemma BackpackGetMarkPriceTool_kind:
  "error_result_ok No_error_status m code (BackpackGetMarkPriceTool_except input (Exc c m code))"
  by (simp add: BackpackGetMarkPriceTool_except_def message_ends_def suffix_Cons split: option.splits)

lemma BackpackGetOpenInterestTool_validates: "validates BackpackGetOpenInterestTool_schema BackpackGetOpenInterestTool_try"
  unfolding validates_def BackpackGetOpenInterestTool_try_def by (intro exI allI) (rule refl)

lemma BackpackGetOpenInterestTool_calls: "calls_at_most_once (BackpackGetOpenInterestTool_try E K input)"
  unfolding BackpackGetOpenInterestTool_try_def by (simp add: calls_simps split del: if_split)

lemma BackpackGetOpenInterestTool_kind:
  "error_result_ok No_error_status m code (BackpackGetOpenInterestTool_except input (Exc c m code))"
  by (simp add: BackpackGetOpenInterestTool_except_def message_ends_def suffix_Cons split: option.splits)

lemma BackpackGetFundingIntervalRatesTool_validates: "validates BackpackGetFundingIntervalRatesTool_schema BackpackGetFundingIntervalRatesTool_try"
  unfolding validates_def BackpackGetFundingIntervalRatesTool_try_def by (intro exI allI) (rule refl)

lemma BackpackGetFundingIntervalRatesTool_calls: "calls_at_most_once (BackpackGetFundingIntervalRatesTool_try E K input)"
  unfolding BackpackGetFundingIntervalRatesTool_try_def by (simp add: calls_simps split del: if_split)

lemma BackpackGetFundingIntervalRatesTool_kind:
  "error_result_ok No_error_status m code (BackpackGetFundingIntervalRatesTool_except input (Exc c m code))"
  by (simp add: BackpackGetFundingIntervalRatesTool_except_def message_ends_def suffix_Cons split: option.splits)

lemma BackpackGetStatusTool_calls: "calls_at_most_once (BackpackGetStatusTool_try E K)"
  unfolding BackpackGetStatusTool_try_def by (simp add: calls_simps split del: if_split)

lemma BackpackGetStatusTool_kind:
  "error_result_ok No_error_status m code (BackpackGetStatusTool_except (Exc c m code))"
  by (simp add: BackpackGetStatusTool_except_def message_ends_def suffix_Cons split: option.splits)

lemma BackpackSendPingTool_calls: "calls_at_most_once (BackpackSendPingTool_try E K)"
  unfolding BackpackSendPingTool_try_def by (simp add: calls_simps split del: if_split)

lemma BackpackSendPingTool_kind:
  "error_result_ok No_error_status m code (BackpackSendPingTool_except (Exc c m code))"
  by (simp add: BackpackSendPingTool_except_def message_ends_def suffix_Cons split: option.splits)

lemma BackpackGetSystemTimeTool_calls: "calls_at_most_once (BackpackGetSystemTimeTool_try E K)"
  unfolding BackpackGetSystemTimeTool_try_def by (simp add: calls_simps split del: if_split)

lemma BackpackGetSystemTimeTool_kind:
  "error_result_ok No_error_status m code (BackpackGetSystemTimeTool_except (Exc c m code))"
  by (simp add: BackpackGetSystemTimeTool_except_def message_ends_def suffix_Cons split: option.splits)

lemma BackpackGetRecentTradesTool_validates: "validates BackpackGetRecentTradesTool_schema BackpackGetRecentTradesTool_try"
  unfolding validates_def BackpackGetRecentTradesTool_try_def by (intro exI allI) (rule refl)

lemma BackpackGetRecentTradesTool_calls: "calls_at_most_once (BackpackGetRecentTradesTool_try E K input)"
  unfolding BackpackGetRecentTradesTool_try_def by (simp add: calls_simps split del: if_split)

lemma BackpackGetRecentTradesTool_kind:
  "error_result_ok No_error_status m code (BackpackGetRecentTradesTool_except input (Exc c m code))"
  by (simp add: BackpackGetRecentTradesTool_except_def message_ends_def suffix_Cons split: option.splits)

lemma BackpackGetHistoricalTradesTool_validates: "validates BackpackGetHistoricalTradesTool_schema BackpackGetHistoricalTradesTool_try"
  unfolding validates_def BackpackGetHistoricalTradesTool_try_def by (intro exI allI) (rule refl)

lemma BackpackGetHistoricalTradesTool_calls: "calls_at_most_once (BackpackGetHistoricalTradesTool_try E K input)"
  unfolding BackpackGetHistoricalTradesTool_try_def by (simp add: calls_simps split del: if_split)

lemma BackpackGetHistoricalTradesTool_kind:
  "error_result_ok No_error_status m code (BackpackGetHistoricalTradesTool_except input (Exc c m code))"
  by (simp add: BackpackGetHistoricalTradesTool_except_def message_ends_def suffix_Cons split: option.splits)

lemma BackpackGetCollateralInfoTool_validates: "validates BackpackGetCollateralInfoTool_schema BackpackGetCollateralInfoTool_try"
  unfolding validates_def BackpackGetCollateralInfoTool_try_def by (intro exI allI) (rule refl)

lemma BackpackGetCollateralInfoTool_calls: "calls_at_most_once (BackpackGetCollateralInfoTool_try E K input)"
  unfolding BackpackGetCollateralInfoTool_try_def by (simp add: calls_simps split del: if_split)

lemma BackpackGetCollateralInfoTool_kind:
  "error_result_ok No_error_status m code (BackpackGetCollateralInfoTool_except input (Exc c m code))"
  by (simp add: BackpackGetCollateralInfoTool_except_def message_ends_def suffix_Cons split: option.splits)

lemma BackpackGetAccountDepositsTool_validates: "validates BackpackGetAccountDepositsTool_schema BackpackGetAccountDepositsTool_try"
  unfolding validates_def BackpackGetAccountDepositsTool_try_def by (intro exI allI) (rule refl)

lemma BackpackGetAccountDepositsTool_calls: "calls_at_most_once (BackpackGetAccountDepositsTool_try E K input)"
  unfolding BackpackGetAccountDepositsTool_try_def by (simp add: calls_simps split del: if_split)

lemma BackpackGetAccountDepositsTool_kind:
  "error_result_ok No_error_status m code (BackpackGetAccountDepositsTool_except input (Exc c m code))"
  by (simp add: BackpackGetAccountDepositsTool_except_def message_ends_def suffix_Cons split: option.splits)

lemma BackpackGetOpenPositionsTool_calls: "calls_at_most_once (BackpackGetOpenPositionsTool_try E K)"
  unfolding BackpackGetOpenPositionsTool_try_def by (simp add: calls_simps split del: if_split)

lemma BackpackGetOpenPositionsTool_kind:
  "error_result_ok No_error_status m code (BackpackGetOpenPositionsTool_except (Exc c m code))"
  by (simp add: BackpackGetOpenPositionsTool_except_def message_ends_def suffix_Cons split: option.splits)

lemma BackpackGetBorrowHistoryTool_calls: "calls_at_most_once (BackpackGetBorrowHistoryTool_try E K input)"
  unfolding BackpackGetBorrowHistoryTool_try_def by (simp add: calls_simps split del: if_split)

lemma BackpackGetBorrowHistoryTool_kind:
  "error_result_ok No_error_status m code (BackpackGetBorrowHistoryTool_except input (Exc c m code))"
  by (simp add: BackpackGetBorrowHistoryTool_except_def message_ends_def suffix_Cons split: option.splits)

lemma BackpackGetInterestHistoryTool_calls: "calls_at_most_once (BackpackGetInterestHistoryTool_try E K input)"
  unfolding BackpackGetInterestHistoryTool_try_def by (simp add: calls_simps split del: if_split)

lemma BackpackGetInterestHistoryTool_kind:
  "error_result_ok No_error_status m code (BackpackGetInterestHistoryTool_except input (Exc c m code))"
  by (simp add: BackpackGetInterestHistoryTool_except_def message_ends_def suffix_Cons split: option.splits)

lemma ClosePerpTradeShortTool_validates: "validates ClosePerpTradeShortTool_schema ClosePerpTradeShortTool_try"
  unfolding validates_def ClosePerpTradeShortTool_try_def by (intro exI allI) (rule refl)

lemma ClosePerpTradeShortTool_calls: "calls_at_most_once (ClosePerpTradeShortTool_try E K input)"
  unfolding ClosePerpTradeShortTool_try_def by (simp add: calls_simps split del: if_split)

lemma ClosePerpTradeShortTool_kind:
  "error_result_ok No_error_status m code (ClosePerpTradeShortTool_except input (Exc c m code))"
  by (simp add: ClosePerpTradeShortTool_except_def message_ends_def suffix_Cons split: option.splits)

lemma ClosePerpTradeLongTool_validates: "validates ClosePerpTradeLongTool_schema ClosePerpTradeLongTool_try"
  unfolding validates_def ClosePerpTradeLongTool_try_def by (intro exI allI) (rule refl)

lemma ClosePerpTradeLongTool_calls: "calls_at_most_once (ClosePerpTradeLongTool_try E K input)"
  unfolding ClosePerpTradeLongTool_try_def by (simp add: calls_simps split del: if_split)

lemma ClosePerpTradeLongTool_kind:
  "error_result_ok No_error_status m code (ClosePerpTradeLongTool_except input (Exc c m code))"
  by (simp add: ClosePerpTradeLongTool_except_def message_ends_def suffix_Cons split: option.splits)

lemma OpenPerpTradeLongTool_validates: "validates OpenPerpTradeLongTool_schema OpenPerpTradeLongTool_try"
  unfolding validates_def OpenPerpTradeLongTool_try_def by (intro exI allI) (rule refl)

lemma OpenPerpTradeLongTool_calls: "calls_at_most_once (OpenPerpTradeLongTool_try E K input)"
  unfolding OpenPerpTradeLongTool_try_def by (simp add: calls_simps split del: if_split)

lemma OpenPerpTradeLongTool_kind:
  "error_result_ok No_error_status m code (OpenPerpTradeLongTool_except input (Exc c m code))"
  by (simp add: OpenPerpTradeLongTool_except_def message_ends_def suffix_Cons split: option.splits)

lemma OpenPerpTradeShortTool_validates: "validates OpenPerpTradeShortTool_schema OpenPerpTradeShortTool_try"
  unfolding validates_def OpenPerpTradeShortTool_try_def by (intro exI allI) (rule refl)

lemma OpenPerpTradeShortTool_calls: "calls_at_most_once (OpenPerpTradeShortTool_try E K input)"
  unfolding OpenPerpTradeShortTool_try_def by (simp add: calls_simps split del: if_split)

lemma OpenPerpTradeShortTool_kind:
  "error_result_ok No_error_status m code (OpenPerpTradeShortTool_except input (Exc c m code))"
  by (simp add: OpenPerpTradeShortTool_except_def message_ends_def suffix_Cons split: option.splits)

lemma Create3LandCollectionTool_validates: "validates Create3LandCollectionTool_schema Create3LandCollectionTool_try"
  unfolding validates_def Create3LandCollectionTool_try_def by (intro exI allI) (rule refl)

lemma Create3LandCollectionTool_calls: "calls_at_most_once (Create3LandCollectionTool_try E K input)"
  unfolding Create3LandCollectionTool_try_def by (simp add: calls_simps split del: if_split)

lemma Create3LandCollectionTool_kind:
  "error_result_ok No_error_status m code (Create3LandCollectionTool_except input (Exc c m code))"
  by (simp add: Create3LandCollectionTool_except_def message_ends_def suffix_Cons split: option.splits)

lemma Create3LandNFTTool_validates: "validates Create3LandNFTTool_schema Create3LandNFTTool_try"
  unfolding validates_def Create3LandNFTTool_try_def by (intro exI allI) (rule refl)

lemma Create3LandNFTTool_calls: "calls_at_most_once (Create3LandNFTTool_try E K input)"
  unfolding Create3LandNFTTool_try_def by (simp add: calls_simps split del: if_split)

lemma Create3LandNFTTool_kind:
  "error_result_ok No_error_status m code (Create3LandNFTTool_except input (Exc c m code))"
  by (simp add: Create3LandNFTTool_except_def message_ends_def suffix_Cons split: option.splits)

lemma CreateDriftUserAccountTool_validates: "validates CreateDriftUserAccountTool_schema CreateDriftUserAccountTool_try"
  unfolding validates_def CreateDriftUserAccountTool_try_def by (intro exI allI) (rule refl)

lemma CreateDriftUserAccountTool_calls: "calls_at_most_once (CreateDriftUserAccountTool_try E K input)"
  unfolding CreateDriftUserAccountTool_try_def by (simp add: calls_simps split del: if_split)

lemma CreateDriftUserAccountTool_kind:
  "error_result_ok No_error_status m code (CreateDriftUserAccountTool_except input (Exc c m code))"
  by (simp add: CreateDriftUserAccountTool_except_def message_ends_def suffix_Cons split: option.splits)

lemma DepositToDriftUserAccountTool_validates: "validates DepositToDriftUserAccountTool_schema DepositToDriftUserAccountTool_try"
  unfolding validates_def DepositToDriftUserAccountTool_try_def by (intro exI allI) (rule refl)

lemma DepositToDriftUserAccountTool_calls: "calls_at_most_once (DepositToDriftUserAccountTool_try E K input)"
  unfolding DepositToDriftUserAccountTool_try_def by (simp add: calls_simps split del: if_split)

lemma DepositToDriftUserAccountTool_kind:
  "error_result_ok No_error_status m code (DepositToDriftUserAccountTool_except input (Exc c m code))"
  by (simp add: DepositToDriftUserAccountTool_except_def message_ends_def suffix_Cons split: option.splits)

lemma WithdrawFromDriftUserAccountTool_validates: "validates WithdrawFromDriftUserAccountTool_schema WithdrawFromDriftUserAccountTool_try"
  unfolding validates_def WithdrawFromDriftUserAccountTool_try_def by (intro exI allI) (rule refl)

lemma WithdrawFromDriftUserAccountTool_calls: "calls_at_most_once (WithdrawFromDriftUserAccountTool_try E K input)"
  unfolding WithdrawFromDriftUserAccountTool_try_def by (simp add: calls_simps split del: if_split)

lemma WithdrawFromDriftUserAccountTool_kind:
  "error_result_ok No_error_status m code (WithdrawFromDriftUserAccountTool_except input (Exc c m code))"
  by (simp add: WithdrawFromDriftUserAccountTool_except_def message_ends_def suffix_Cons split: option.splits)

lemma TradeUsingDriftPerpAccountTool_validates: "validates TradeUsingDriftPerpAccountTool_schema TradeUsingDriftPerpAccountTool_try"
  unfolding validates_def TradeUsingDriftPerpAccountTool_try_def by (intro exI allI) (rule refl)

lemma TradeUsingDriftPerpAccountTool_calls: "calls_at_most_once (TradeUsingDriftPerpAccountTool_try E K input)"
  unfolding TradeUsingDriftPerpAccountTool_try_def by (simp add: calls_simps split del: if_split)

lemma TradeUsingDriftPerpAccountTool_kind:
  "error_result_ok No_error_status m code (TradeUsingDriftPerpAccountTool_except input (Exc c m code))"
  by (simp add: TradeUsingDriftPerpAccountTool_except_def message_ends_def suffix_Cons split: option.splits)

lemma CheckIfDriftAccountExistsTool_calls: "calls_at_most_once (CheckIfDriftAccountExistsTool_try E K)"
  unfolding CheckIfDriftAccountExistsTool_try_def by (simp add: calls_simps split del: if_split)

lemma CheckIfDriftAccountExistsTool_kind:
  "error_result_ok No_error_status m code (CheckIfDriftAccountExistsTool_except (Exc c m code))"
  by (simp add: CheckIfDriftAccountExistsTool_except_def message_ends_def suffix_Cons split: option.splits)

lemma DriftUserAccountInfoTool_calls: "calls_at_most_once (DriftUserAccountInfoTool_try E K)"
  unfolding DriftUserAccountInfoTool_try_def by (simp add: calls_simps split del: if_split)

lemma DriftUserAccountInfoTool_kind:
  "error_result_ok No_error_status m code (DriftUserAccountInfoTool_except (Exc c m code))"
  by (simp add: DriftUserAccountInfoTool_except_def message_ends_def suffix_Cons split: option.splits)

lemma GetAvailableDriftMarketsTool_calls: "calls_at_most_once (GetAvailableDriftMarketsTool_try E K)"
  unfolding GetAvailableDriftMarketsTool_try_def by (simp add: calls_simps split del: if_split)

lemma GetAvailableDriftMarketsTool_kind:
  "error_result_ok No_error_status m code (GetAvailableDriftMarketsTool_except (Exc c m code))"
  by (simp add: GetAvailableDriftMarketsTool_except_def message_ends_def suffix_Cons split: option.splits)

lemma StakeToDriftInsuranceFundTool_validates: "validates StakeToDriftInsuranceFundTool_schema StakeToDriftInsuranceFundTool_try"
  unfolding validates_def StakeToDriftInsuranceFundTool_try_def by (intro exI allI) (rule refl)

lemma StakeToDriftInsuranceFundTool_calls: "calls_at_most_once (StakeToDriftInsuranceFundTool_try E K input)"
  unfolding StakeToDriftInsuranceFundTool_try_def by (simp add: calls_simps split del: if_split)

lemma StakeToDriftInsuranceFundTool_kind:
  "error_result_ok No_error_status m code (StakeToDriftInsuranceFundTool_except input (Exc c m code))"
  by (simp add: StakeToDriftInsuranceFundTool_except_def message_ends_def suffix_Cons split: option.splits)

lemma RequestUnstakeFromDriftInsuranceFundTool_validates: "validates RequestUnstakeFromDriftInsuranceFundTool_schema RequestUnstakeFromDriftInsuranceFundTool_try"
  unfolding validates_def RequestUnstakeFromDriftInsuranceFundTool_try_def by (intro exI allI) (rule refl)

lemma RequestUnstakeFromDriftInsuranceFundTool_calls: "calls_at_most_once (RequestUnstakeFromDriftInsuranceFundTool_try E K input)"
  unfolding RequestUnstakeFromDriftInsuranceFundTool_try_def by (simp add: calls_simps split del: if_split)

lemma RequestUnstakeFromDriftInsuranceFundTool_kind:
  "error_result_ok No_error_status m code (RequestUnstakeFromDriftInsuranceFundTool_except input (Exc c m code))"
  by (simp add: RequestUnstakeFromDriftInsuranceFundTool_except_def message_ends_def suffix_Cons split: option.splits)

lemma UnstakeFromDriftInsuranceFundTool_validates: "validates UnstakeFromDriftInsuranceFundTool_schema UnstakeFromDriftInsuranceFundTool_try"
  unfolding validates_def UnstakeFromDriftInsuranceFundTool_try_def by (intro exI allI) (rule refl)

lemma UnstakeFromDriftInsuranceFundTool_calls: "calls_at_most_once (UnstakeFromDriftInsuranceFundTool_try E K input)"
  unfolding UnstakeFromDriftInsuranceFundTool_try_def by (simp add: calls_simps split del: if_split)

lemma UnstakeFromDriftInsuranceFundTool_kind:
  "error_result_ok No_error_status m code (UnstakeFromDriftInsuranceFundTool_except input (Exc c m code))"
  by (simp add: UnstakeFromDriftInsuranceFundTool_except_def message_ends_def suffix_Cons split: option.splits)

lemma DriftSwapSpotTokenTool_validates: "validates DriftSwapSpotTokenTool_schema DriftSwapSpotTokenTool_try"
  unfolding validates_def DriftSwapSpotTokenTool_try_def by (intro exI allI) (rule refl)

lemma DriftSwapSpotTokenTool_calls: "calls_at_most_once (DriftSwapSpotTokenTool_try E K input)"
  unfolding DriftSwapSpotTokenTool_try_def by (simp add: calls_simps split del: if_split)

lemma DriftSwapSpotTokenTool_kind:
  "error_result_ok No_error_status m code (DriftSwapSpotTokenTool_except input (Exc c m code))"
  by (simp add: DriftSwapSpotTokenTool_except_def message_ends_def suffix_Cons split: option.splits)

lemma GetDriftPerpMarketFundingRateTool_validates: "validates GetDriftPerpMarketFundingRateTool_schema GetDriftPerpMarketFundingRateTool_try"
  unfolding validates_def GetDriftPerpMarketFundingRateTool_try_def by (intro exI allI) (rule refl)

lemma GetDriftPerpMarketFundingRateTool_calls: "calls_at_most_once (GetDriftPerpMarketFundingRateTool_try E K input)"
  unfolding GetDriftPerpMarketFundingRateTool_try_def by (simp add: calls_simps split del: if_split)

lemma GetDriftPerpMarketFundingRateTool_kind:
  "error_result_ok No_error_status m code (GetDriftPerpMarketFundingRateTool_except input (Exc c m code))"
  by (simp add: GetDriftPerpMarketFundingRateTool_except_def message_ends_def suffix_Cons split: option.splits)

lemma GetDriftEntryQuoteOfPerpTradeTool_validates: "validates GetDriftEntryQuoteOfPerpTradeTool_schema GetDriftEntryQuoteOfPerpTradeTool_try"
  unfolding validates_def GetDriftEntryQuoteOfPerpTradeTool_try_def by (intro exI allI) (rule refl)

lemma GetDriftEntryQuoteOfPerpTradeTool_calls: "calls_at_most_once (GetDriftEntryQuoteOfPerpTradeTool_try E K input)"
  unfolding GetDriftEntryQuoteOfPerpTradeTool_try_def by (simp add: calls_simps split del: if_split)

lemma GetDriftEntryQuoteOfPerpTradeTool_kind:
  "error_result_ok No_error_status m code (GetDriftEntryQuoteOfPerpTradeTool_except input (Exc c m code))"
  by (simp add: GetDriftEntryQuoteOfPerpTradeTool_except_def message_ends_def suffix_Cons split: option.splits)

lemma GetDriftLendBorrowApyTool_validates: "validates GetDriftLendBorrowApyTool_schema GetDriftLendBorrowApyTool_try"
  unfolding validates_def GetDriftLendBorrowApyTool_try_def by (intro exI allI) (rule refl)

lemma GetDriftLendBorrowApyTool_calls: "calls_at_most_once (GetDriftLendBorrowApyTool_try E K input)"
  unfolding GetDriftLendBorrowApyTool_try_def by (simp add: calls_simps split del: if_split)

lemma GetDriftLendBorrowApyTool_kind:
  "error_result_ok No_error_status m code (GetDriftLendBorrowApyTool_except input (Exc c m code))"
  by (simp add: GetDriftLendBorrowApyTool_except_def message_ends_def suffix_Cons split: option.splits)

lemma CreateDriftVaultTool_validates: "validates CreateDriftVaultTool_schema CreateDriftVaultTool_try"
  unfolding validates_def CreateDriftVaultTool_try_def by (intro exI allI) (rule refl)

lemma CreateDriftVaultTool_calls: "calls_at_most_once (CreateDriftVaultTool_try E K input)"
  unfolding CreateDriftVaultTool_try_def by (simp add: calls_simps split del: if_split)

lemma CreateDriftVaultTool_kind:
  "error_result_ok No_error_status m code (CreateDriftVaultTool_except input (Exc c m code))"
  by (simp add: CreateDriftVaultTool_except_def message_ends_def suffix_Cons split: option.splits)

lemma UpdateDriftVaultDelegateTool_validates: "validates UpdateDriftVaultDelegateTool_schema UpdateDriftVaultDelegateTool_try"
  unfolding validates_def UpdateDriftVaultDelegateTool_try_def by (intro exI allI) (rule refl)

lemma UpdateDriftVaultDelegateTool_calls: "calls_at_most_once (UpdateDriftVaultDelegateTool_try E K input)"
  unfolding UpdateDriftVaultDelegateTool_try_def by (simp add: calls_simps split del: if_split)

lemma UpdateDriftVaultDelegateTool_kind:
  "error_result_ok No_error_status m code (UpdateDriftVaultDelegateTool_except input (Exc c m code))"
  by (simp add: UpdateDriftVaultDelegateTool_except_def message_ends_def suffix_Cons split: option.splits)

lemma UpdateDriftVaultTool_validates: "validates UpdateDriftVaultTool_schema UpdateDriftVaultTool_try"
  unfolding validates_def UpdateDriftVaultTool_try_def by (intro exI allI) (rule refl)

lemma UpdateDriftVaultTool_calls: "calls_at_most_once (UpdateDriftVaultTool_try E K input)"
  unfolding UpdateDriftVaultTool_try_def by (simp add: calls_simps split del: if_split)

lemma UpdateDriftVaultTool_kind:
  "error_result_ok No_error_status m code (UpdateDriftVaultTool_except input (Exc c m code))"
  by (simp add: UpdateDriftVaultTool_except_def message_ends_def suffix_Cons split: option.splits)

lemma GetDriftVaultInfoTool_validates: "validates GetDriftVaultInfoTool_schema GetDriftVaultInfoTool_try"
  unfolding validates_def GetDriftVaultInfoTool_try_def by (intro exI allI) (rule refl)

lemma GetDriftVaultInfoTool_calls: "calls_at_most_once (GetDriftVaultInfoTool_try E K input)"
  unfolding GetDriftVaultInfoTool_try_def by (simp add: calls_simps split del: if_split)

lemma GetDriftVaultInfoTool_kind:
  "error_result_ok No_error_status m code (GetDriftVaultInfoTool_except input (Exc c m code))"
  by (simp add: GetDriftVaultInfoTool_except_def message_ends_def suffix_Cons split: option.splits)

lemma DepositIntoDriftVaultTool_validates: "validates DepositIntoDriftVaultTool_schema DepositIntoDriftVaultTool_try"
  unfolding validates_def DepositIntoDriftVaultTool_try_def by (intro exI allI) (rule refl)

lemma DepositIntoDriftVaultTool_calls: "calls_at_most_once (DepositIntoDriftVaultTool_try E K input)"
  unfolding DepositIntoDriftVaultTool_try_def by (simp add: calls_simps split del: if_split)

lemma DepositIntoDriftVaultTool_kind:
  "error_result_ok No_error_status m code (DepositIntoDriftVaultTool_except input (Exc c m code))"
  by (simp add: DepositIntoDriftVaultTool_except_def message_ends_def suffix_Cons split: option.splits)

lemma RequestWithdrawalFromDriftVaultTool_validates: "validates RequestWithdrawalFromDriftVaultTool_schema RequestWithdrawalFromDriftVaultTool_try"
  unfolding validates_def RequestWithdrawalFromDriftVaultTool_try_def by (intro exI allI) (rule refl)

lemma RequestWithdrawalFromDriftVaultTool_calls: "calls_at_most_once (RequestWithdrawalFromDriftVaultTool_try E K input)"
  unfolding RequestWithdrawalFromDriftVaultTool_try_def by (simp add: calls_simps split del: if_split)

lemma RequestWithdrawalFromDriftVaultTool_kind:
  "error_result_ok No_error_status m code (RequestWithdrawalFromDriftVaultTool_except input (Exc c m code))"
  by (simp add: RequestWithdrawalFromDriftVaultTool_except_def message_ends_def suffix_Cons split: option.splits)

lemma WithdrawFromDriftVaultTool_validates: "validates WithdrawFromDriftVaultTool_schema WithdrawFromDriftVaultTool_try"
  unfolding validates_def WithdrawFromDriftVaultTool_try_def by (intro exI allI) (rule refl)

lemma WithdrawFromDriftVaultTool_calls: "calls_at_most_once (WithdrawFromDriftVaultTool_try E K input)"
  unfolding WithdrawFromDriftVaultTool_try_def by (simp add: calls_simps split del: if_split)

lemma WithdrawFromDriftVaultTool_kind:
  "error_result_ok No_error_status m code (WithdrawFromDriftVaultTool_except input (Exc c m code))"
  by (simp add: WithdrawFromDriftVaultTool_except_def message_ends_def suffix_Cons split: option.splits)

lemma DeriveDriftVaultAddressTool_validates: "validates DeriveDriftVaultAddressTool_schema DeriveDriftVaultAddressTool_try"
  unfolding validates_def DeriveDriftVaultAddressTool_try_def by (intro exI allI) (rule refl)

lemma DeriveDriftVaultAddressTool_calls: "calls_at_most_once (DeriveDriftVaultAddressTool_try E K input)"
  unfolding DeriveDriftVaultAddressTool_try_def by (simp add: calls_simps split del: if_split)

lemma DeriveDriftVaultAddressTool_kind:
  "error_result_ok No_error_status m code (DeriveDriftVaultAddressTool_except input (Exc c m code))"
  by (simp add: DeriveDriftVaultAddressTool_except_def message_ends_def suffix_Cons split: option.splits)

lemma TradeUsingDelegatedDriftVaultTool_validates: "validates TradeUsingDelegatedDriftVaultTool_schema TradeUsingDelegatedDriftVaultTool_try"
  unfolding validates_def TradeUsingDelegatedDriftVaultTool_try_def by (intro exI allI) (rule refl)

lemma TradeUsingDelegatedDriftVaultTool_calls: "calls_at_most_once (TradeUsingDelegatedDriftVaultTool_try E K input)"
  unfolding TradeUsingDelegatedDriftVaultTool_try_def by (simp add: calls_simps split del: if_split)

lemma TradeUsingDelegatedDriftVaultTool_kind:
  "error_result_ok No_error_status m code (TradeUsingDelegatedDriftVaultTool_except input (Exc c m code))"
  by (simp add: TradeUsingDelegatedDriftVaultTool_except_def message_ends_def suffix_Cons split: option.splits)

lemma FlashOpenTradeTool_validates: "validates FlashOpenTradeTool_schema FlashOpenTradeTool_try"
  unfolding validates_def FlashOpenTradeTool_try_def by (intro exI allI) (rule refl)

lemma FlashOpenTradeTool_calls: "calls_at_most_once (FlashOpenTradeTool_try E K input)"
  unfolding FlashOpenTradeTool_try_def by (simp add: calls_simps split del: if_split)

lemma FlashOpenTradeTool_kind:
  "error_result_ok No_error_status m code (FlashOpenTradeTool_except input (Exc c m code))"
  by (simp add: FlashOpenTradeTool_except_def message_ends_def suffix_Cons split: option.splits)

lemma FlashCloseTradeTool_validates: "validates FlashCloseTradeTool_schema FlashCloseTradeTool_try"
  unfolding validates_def FlashCloseTradeTool_try_def by (intro exI allI) (rule refl)

lemma FlashCloseTradeTool_calls: "calls_at_most_once (FlashCloseTradeTool_try E K input)"
  unfolding FlashCloseTradeTool_try_def by (simp add: calls_simps split del: if_split)

lemma FlashCloseTradeTool_kind:
  "error_result_ok No_error_status m code (FlashCloseTradeTool_except input (Exc c m code))"
  by (simp add: FlashCloseTradeTool_except_def message_ends_def suffix_Cons split: option.splits)

lemma ResolveAllDomainsTool_validates: "validates ResolveAllDomainsTool_schema ResolveAllDomainsTool_try"
  unfolding validates_def ResolveAllDomainsTool_try_def by (intro exI allI) (rule refl)

lemma ResolveAllDomainsTool_calls: "calls_at_most_once (ResolveAllDomainsTool_try E K input)"
  unfolding ResolveAllDomainsTool_try_def by (simp add: calls_simps split del: if_split)

lemma ResolveAllDomainsTool_kind:
  "error_result_ok No_error_status m code (ResolveAllDomainsTool_except input (Exc c m code))"
  by (simp add: ResolveAllDomainsTool_except_def message_ends_def suffix_Cons split: option.splits)

lemma GetOwnedDomainsForTLDTool_validates: "validates GetOwnedDomainsForTLDTool_schema GetOwnedDomainsForTLDTool_try"
  unfolding validates_def GetOwnedDomainsForTLDTool_try_def by (intro exI allI) (rule refl)

lemma GetOwnedDomainsForTLDTool_calls: "calls_at_most_once (GetOwnedDomainsForTLDTool_try E K input)"
  unfolding GetOwnedDomainsForTLDTool_try_def by (simp add: calls_simps split del: if_split)

lemma GetOwnedDomainsForTLDTool_kind:
  "error_result_ok No_error_status m code (GetOwnedDomainsForTLDTool_except input (Exc c m code))"
  by (simp add: GetOwnedDomainsForTLDTool_except_def message_ends_def suffix_Cons split: option.splits)

lemma GetAllDomainsTLDsTool_calls: "calls_at_most_once (GetAllDomainsTLDsTool_try E K)"
  unfolding GetAllDomainsTLDsTool_try_def by (simp add: calls_simps split del: if_split)

lemma GetAllDomainsTLDsTool_kind:
  "error_result_ok No_error_status m code (GetAllDomainsTLDsTool_except (Exc c m code))"
  by (simp add: GetAllDomainsTLDsTool_except_def message_ends_def suffix_Cons split: option.splits)

lemma GetOwnedAllDomainsTool_validates: "validates GetOwnedAllDomainsTool_schema GetOwnedAllDomainsTool_try"
  unfolding validates_def GetOwnedAllDomainsTool_try_def by (intro exI allI) (rule refl)

lemma GetOwnedAllDomainsTool_calls: "calls_at_most_once (GetOwnedAllDomainsTool_try E K input)"
  unfolding GetOwnedAllDomainsTool_try_def by (simp add: calls_simps split del: if_split)

lemma GetOwnedAllDomainsTool_kind:
  "error_result_ok No_error_status m code (GetOwnedAllDomainsTool_except input (Exc c m code))"
  by (simp add: GetOwnedAllDomainsTool_except_def message_ends_def suffix_Cons split: option.splits)

lemma LightProtocolSendCompressedAirdropTool_validates: "validates LightProtocolSendCompressedAirdropTool_schema LightProtocolSendCompressedAirdropTool_try"
  unfolding validates_def LightProtocolSendCompressedAirdropTool_try_def by (intro exI allI) (rule refl)

lemma LightProtocolSendCompressedAirdropTool_calls: "calls_at_most_once (LightProtocolSendCompressedAirdropTool_try E K input)"
  unfolding LightProtocolSendCompressedAirdropTool_try_def by (simp add: calls_simps split del: if_split)

lemma LightProtocolSendCompressedAirdropTool_kind:
  "error_result_ok No_error_status m code (LightProtocolSendCompressedAirdropTool_except input (Exc c m code))"
  by (simp add: LightProtocolSendCompressedAirdropTool_except_def message_ends_def suffix_Cons split: option.splits)

lemma ManifestCreateMarketTool_validates: "validates ManifestCreateMarketTool_schema ManifestCreateMarketTool_try"
  unfolding validates_def ManifestCreateMarketTool_try_def by (intro exI allI) (rule refl)

lemma ManifestCreateMarketTool_calls: "calls_at_most_once (ManifestCreateMarketTool_try E K input)"
  unfolding ManifestCreateMarketTool_try_def by (simp add: calls_simps split del: if_split)

lemma ManifestCreateMarketTool_kind:
  "error_result_ok No_error_status m code (ManifestCreateMarketTool_except input (Exc c m code))"
  by (simp add: ManifestCreateMarketTool_except_def message_ends_def suffix_Cons split: option.splits)

lemma ManifestPlaceLimitOrderTool_validates: "validates ManifestPlaceLimitOrderTool_schema ManifestPlaceLimitOrderTool_try"
  unfolding validates_def ManifestPlaceLimitOrderTool_try_def by (intro exI allI) (rule refl)

lemma ManifestPlaceLimitOrderTool_calls: "calls_at_most_once (ManifestPlaceLimitOrderTool_try E K input)"
  unfolding ManifestPlaceLimitOrderTool_try_def by (simp add: calls_simps split del: if_split)

lemma ManifestPlaceLimitOrderTool_kind:
  "error_result_ok No_error_status m code (ManifestPlaceLimitOrderTool_except input (Exc c m code))"
  by (simp add: ManifestPlaceLimitOrderTool_except_def message_ends_def suffix_Cons split: option.splits)

lemma ManifestPlaceBatchOrdersTool_validates: "validates ManifestPlaceBatchOrdersTool_schema ManifestPlaceBatchOrdersTool_try"
  unfolding validates_def ManifestPlaceBatchOrdersTool_try_def by (intro exI allI) (rule refl)

lemma ManifestPlaceBatchOrdersTool_calls: "calls_at_most_once (ManifestPlaceBatchOrdersTool_try E K input)"
  unfolding ManifestPlaceBatchOrdersTool_try_def by (simp add: calls_simps split del: if_split)

lemma ManifestPlaceBatchOrdersTool_kind:
  "error_result_ok No_error_status m code (ManifestPlaceBatchOrdersTool_except input (Exc c m code))"
  by (simp add: ManifestPlaceBatchOrdersTool_except_def message_ends_def suffix_Cons split: option.splits)

lemma ManifestCancelAllOrdersTool_validates: "validates ManifestCancelAllOrdersTool_schema ManifestCancelAllOrdersTool_try"
  unfolding validates_def ManifestCancelAllOrdersTool_try_def by (intro exI allI) (rule refl)

lemma ManifestCancelAllOrdersTool_calls: "calls_at_most_once (ManifestCancelAllOrdersTool_try E K input)"
  unfolding ManifestCancelAllOrdersTool_try_def by (simp add: calls_simps split del: if_split)

lemma ManifestCancelAllOrdersTool_kind:
  "error_result_ok No_error_status m code (ManifestCancelAllOrdersTool_except input (Exc c m code))"
  by (simp add: ManifestCancelAllOrdersTool_except_def message_ends_def suffix_Cons split: option.splits)

lemma ManifestWithdrawAllTool_validates: "validates ManifestWithdrawAllTool_schema ManifestWithdrawAllTool_try"
  unfolding validates_def ManifestWithdrawAllTool_try_def by (intro exI allI) (rule refl)

lemma ManifestWithdrawAllTool_calls: "calls_at_most_once (ManifestWithdrawAllTool_try E K input)"
  unfolding ManifestWithdrawAllTool_try_def by (simp add: calls_simps split del: if_split)

lemma ManifestWithdrawAllTool_kind:
  "error_result_ok No_error_status m code (ManifestWithdrawAllTool_except input (Exc c m code))"
  by (simp add: ManifestWithdrawAllTool_except_def message_ends_def suffix_Cons split: option.splits)

lemma OpenBookCreateMarketTool_calls: "calls_at_most_once (OpenBookCreateMarketTool_try E K input)"
  unfolding OpenBookCreateMarketTool_try_def by (simp add: calls_simps split del: if_split)

lemma OpenBookCreateMarketTool_kind:
  "error_result_ok No_error_status m code (OpenBookCreateMarketTool_except input (Exc c m code))"
  by (simp add: OpenBookCreateMarketTool_except_def message_ends_def suffix_Cons split: option.splits)

lemma OrcaClosePositionTool_validates: "validates OrcaClosePositionTool_schema OrcaClosePositionTool_try"
  unfolding validates_def OrcaClosePositionTool_try_def by (intro exI allI) (rule refl)

lemma OrcaClosePositionTool_calls: "calls_at_most_once (OrcaClosePositionTool_try E K input)"
  unfolding OrcaClosePositionTool_try_def by (simp add: calls_simps split del: if_split)

lemma OrcaClosePositionTool_kind:
  "error_result_ok No_error_status m code (OrcaClosePositionTool_except input (Exc c m code))"
  by (simp add: OrcaClosePositionTool_except_def message_ends_def suffix_Cons split: option.splits)

lemma OrcaCreateClmmTool_validates: "validates OrcaCreateClmmTool_schema OrcaCreateClmmTool_try"
  unfolding validates_def OrcaCreateClmmTool_try_def by (intro exI allI) (rule refl)

lemma OrcaCreateClmmTool_calls: "calls_at_most_once (OrcaCreateClmmTool_try E K input)"
  unfolding OrcaCreateClmmTool_try_def by (simp add: calls_simps split del: if_split)

lemma OrcaCreateClmmTool_kind:
  "error_result_ok No_error_status m code (OrcaCreateClmmTool_except input (Exc c m code))"
  by (simp add: OrcaCreateClmmTool_except_def message_ends_def suffix_Cons split: option.splits)

lemma OrcaCreateLiquidityPoolTool_validates: "validates OrcaCreateLiquidityPoolTool_schema OrcaCreateLiquidityPoolTool_try"
  unfolding validates_def OrcaCreateLiquidityPoolTool_try_def by (intro exI allI) (rule refl)

lemma OrcaCreateLiquidityPoolTool_calls: "calls_at_most_once (OrcaCreateLiquidityPoolTool_try E K input)"
  unfolding OrcaCreateLiquidityPoolTool_try_def by (simp add: calls_simps split del: if_split)

lemma OrcaCreateLiquidityPoolTool_kind:
  "error_result_ok No_error_status m code (OrcaCreateLiquidityPoolTool_except input (Exc c m code))"
  by (simp add: OrcaCreateLiquidityPoolTool_except_def message_ends_def suffix_Cons split: option.splits)

lemma OrcaFetchPositionsTool_calls: "calls_at_most_once (OrcaFetchPositionsTool_try E K input)"
  unfolding OrcaFetchPositionsTool_try_def by (simp add: calls_simps split del: if_split)

lemma OrcaFetchPositionsTool_kind:
  "error_result_ok No_error_status m code (OrcaFetchPositionsTool_except input (Exc c m code))"
  by (simp add: OrcaFetchPositionsTool_except_def message_ends_def suffix_Cons split: option.splits)

lemma OrcaOpenCenteredPositionTool_validates: "validates OrcaOpenCenteredPositionTool_schema OrcaOpenCenteredPositionTool_try"
  unfolding validates_def OrcaOpenCenteredPositionTool_try_def by (intro exI allI) (rule refl)

lemma OrcaOpenCenteredPositionTool_calls: "calls_at_most_once (OrcaOpenCenteredPositionTool_try E K input)"
  unfolding OrcaOpenCenteredPositionTool_try_def by (simp add: calls_simps split del: if_split)

lemma OrcaOpenCenteredPositionTool_kind:
  "error_result_ok No_error_status m code (OrcaOpenCenteredPositionTool_except input (Exc c m code))"
  by (simp add: OrcaOpenCenteredPositionTool_except_def message_ends_def suffix_Cons split: option.splits)

lemma OrcaOpenSingleSidedPositionTool_validates: "validates OrcaOpenSingleSidedPositionTool_schema OrcaOpenSingleSidedPositionTool_try"
  unfolding validates_def OrcaOpenSingleSidedPositionTool_try_def by (intro exI allI) (rule refl)

lemma OrcaOpenSingleSidedPositionTool_calls: "calls_at_most_once (OrcaOpenSingleSidedPositionTool_try E K input)"
  unfolding OrcaOpenSingleSidedPositionTool_try_def by (simp add: calls_simps split del: if_split)

lemma OrcaOpenSingleSidedPositionTool_kind:
  "error_result_ok No_error_status m code (OrcaOpenSingleSidedPositionTool_except input (Exc c m code))"
  by (simp add: OrcaOpenSingleSidedPositionTool_except_def message_ends_def suffix_Cons split: option.splits)

lemma CoingeckoGetTrendingTokensTool_calls: "calls_at_most_once (CoingeckoGetTrendingTokensTool_try E K input)"
  unfolding CoingeckoGetTrendingTokensTool_try_def by (simp add: calls_simps split del: if_split)

lemma CoingeckoGetTrendingPoolsTool_validates: "validates CoingeckoGetTrendingPoolsTool_schema CoingeckoGetTrendingPoolsTool_try"
  unfolding validates_def CoingeckoGetTrendingPoolsTool_try_def by (intro exI allI) (rule refl)

lemma CoingeckoGetTrendingPoolsTool_calls: "calls_at_most_once (CoingeckoGetTrendingPoolsTool_try E K input)"
  unfolding CoingeckoGetTrendingPoolsTool_try_def by (simp add: calls_simps split del: if_split)

lemma CoingeckoGetTrendingPoolsTool_kind:
  "error_result_ok No_error_status m code (CoingeckoGetTrendingPoolsTool_except input (Exc c m code))"
  by (simp add: CoingeckoGetTrendingPoolsTool_except_def message_ends_def suffix_Cons split: option.splits)

lemma CoingeckoGetTopGainersTool_validates: "validates CoingeckoGetTopGainersTool_schema CoingeckoGetTopGainersTool_try"
  unfolding validates_def CoingeckoGetTopGainersTool_try_def by (intro exI allI) (rule refl)

lemma CoingeckoGetTopGainersTool_calls: "calls_at_most_once (CoingeckoGetTopGainersTool_try E K input)"
  unfolding CoingeckoGetTopGainersTool_try_def by (simp add: calls_simps split del: if_split)

lemma CoingeckoGetTopGainersTool_kind:
  "error_result_ok No_error_status m code (CoingeckoGetTopGainersTool_except input (Exc c m code))"
  by (simp add: CoingeckoGetTopGainersTool_except_def message_ends_def suffix_Cons split: option.splits)

lemma CoingeckoGetTokenPriceDataTool_validates: "validates CoingeckoGetTokenPriceDataTool_schema CoingeckoGetTokenPriceDataTool_try"
  unfolding validates_def CoingeckoGetTokenPriceDataTool_try_def by (intro exI allI) (rule refl)

lemma CoingeckoGetTokenPriceDataTool_calls: "calls_at_most_once (CoingeckoGetTokenPriceDataTool_try E K input)"
  unfolding CoingeckoGetTokenPriceDataTool_try_def by (simp add: calls_simps split del: if_split)

lemma CoingeckoGetTokenPriceDataTool_kind:
  "error_result_ok No_error_status m code (CoingeckoGetTokenPriceDataTool_except input (Exc c m code))"
  by (simp add: CoingeckoGetTokenPriceDataTool_except_def message_ends_def suffix_Cons split: option.splits)

lemma CoingeckoGetTokenInfoTool_validates: "validates CoingeckoGetTokenInfoTool_schema CoingeckoGetTokenInfoTool_try"
  unfolding validates_def CoingeckoGetTokenInfoTool_try_def by (intro exI allI) (rule refl)

lemma CoingeckoGetTokenInfoTool_calls: "calls_at_most_once (CoingeckoGetTokenInfoTool_try E K input)"
  unfolding CoingeckoGetTokenInfoTool_try_def by (simp add: calls_simps split del: if_split)

lemma CoingeckoGetTokenInfoTool_kind:
  "error_result_ok No_error_status m code (CoingeckoGetTokenInfoTool_except input (Exc c m code))"
  by (simp add: CoingeckoGetTokenInfoTool_except_def message_ends_def suffix_Cons split: option.splits)

lemma CoingeckoGetLatestPoolsTool_calls: "calls_at_most_once (CoingeckoGetLatestPoolsTool_try E K input)"
  unfolding CoingeckoGetLatestPoolsTool_try_def by (simp add: calls_simps split del: if_split)

lemma CoingeckoGetLatestPoolsTool_kind:
  "error_result_ok No_error_status m code (CoingeckoGetLatestPoolsTool_except input (Exc c m code))"
  by (simp add: CoingeckoGetLatestPoolsTool_except_def message_ends_def suffix_Cons split: option.splits)

lemma ElfaAiPingApiTool_calls: "calls_at_most_once (ElfaAiPingApiTool_try E K input)"
  unfolding ElfaAiPingApiTool_try_def by (simp add: calls_simps split del: if_split)

lemma ElfaAiPingApiTool_kind:
  "error_result_ok No_error_status m code (ElfaAiPingApiTool_except input (Exc c m code))"
  by (simp add: ElfaAiPingApiTool_except_def message_ends_def suffix_Cons split: option.splits)

lemma ElfaAiGetApiKeyStatusTool_calls: "calls_at_most_once (ElfaAiGetApiKeyStatusTool_try E K input)"
  unfolding ElfaAiGetApiKeyStatusTool_try_def by (simp add: calls_simps split del: if_split)

lemma ElfaAiGetApiKeyStatusTool_kind:
  "error_result_ok No_error_status m code (ElfaAiGetApiKeyStatusTool_except input (Exc c m code))"
  by (simp add: ElfaAiGetApiKeyStatusTool_except_def message_ends_def suffix_Cons split: option.splits)

lemma ElfaAiGetSmartMentionsTool_calls: "calls_at_most_once (ElfaAiGetSmartMentionsTool_try E K input)"
  unfolding ElfaAiGetSmartMentionsTool_try_def by (simp add: calls_simps split del: if_split)

lemma ElfaAiGetSmartMentionsTool_kind:
  "error_result_ok No_error_status m code (ElfaAiGetSmartMentionsTool_except input (Exc c m code))"
  by (simp add: ElfaAiGetSmartMentionsTool_except_def message_ends_def suffix_Cons split: option.splits)

lemma ElfaAiGetTopMentionsByTickerTool_calls: "calls_at_most_once (ElfaAiGetTopMentionsByTickerTool_try E K input)"
  unfolding ElfaAiGetTopMentionsByTickerTool_try_def by (simp add: calls_simps split del: if_split)

lemma ElfaAiGetTopMentionsByTickerTool_kind:
  "error_result_ok No_error_status m code (ElfaAiGetTopMentionsByTickerTool_except input (Exc c m code))"
  by (simp add: ElfaAiGetTopMentionsByTickerTool_except_def message_ends_def suffix_Cons split: option.splits)

lemma ElfaAiSearchMentionsByKeywordsTool_calls: "calls_at_most_once (ElfaAiSearchMentionsByKeywordsTool_try E K input)"
  unfolding ElfaAiSearchMentionsByKeywordsTool_try_def by (simp add: calls_simps split del: if_split)

lemma ElfaAiSearchMentionsByKeywordsTool_kind:
  "error_result_ok No_error_status m code (ElfaAiSearchMentionsByKeywordsTool_except input (Exc c m code))"
  by (simp add: ElfaAiSearchMentionsByKeywordsTool_except_def message_ends_def suffix_Cons split: option.splits)

lemma ElfaAiGetTrendingTokensTool_calls: "calls_at_most_once (ElfaAiGetTrendingTokensTool_try E K input)"
  unfolding ElfaAiGetTrendingTokensTool_try_def by (simp add: calls_simps split del: if_split)

lemma ElfaAiGetTrendingTokensTool_kind:
  "error_result_ok No_error_status m code (ElfaAiGetTrendingTokensTool_except input (Exc c m code))"
  by (simp add: ElfaAiGetTrendingTokensTool_except_def message_ends_def suffix_Cons split: option.splits)

lemma ElfaAiGetSmartTwitterAccountStatsTool_calls: "calls_at_most_once (ElfaAiGetSmartTwitterAccountStatsTool_try E K input)"
  unfolding ElfaAiGetSmartTwitterAccountStatsTool_try_def by (simp add: calls_simps split del: if_split)

lemma ElfaAiGetSmartTwitterAccountStatsTool_kind:
  "error_result_ok No_error_status m code (ElfaAiGetSmartTwitterAccountStatsTool_except input (Exc c m code))"
  by (simp add: ElfaAiGetSmartTwitterAccountStatsTool_except_def message_ends_def suffix_Cons split: option.splits)

lemma FluxBeamCreatePoolTool_calls: "calls_at_most_once (FluxBeamCreatePoolTool_try E K input)"
  unfolding FluxBeamCreatePoolTool_try_def by (simp add: calls_simps split del: if_split)

lemma FluxBeamCreatePoolTool_kind:
  "error_result_ok No_error_status m code (FluxBeamCreatePoolTool_except input (Exc c m code))"
  by (simp add: FluxBeamCreatePoolTool_except_def message_ends_def suffix_Cons split: option.splits)

lemma LuloLendTool_calls: "calls_at_most_once (LuloLendTool_try E K input)"
  unfolding LuloLendTool_try_def by (simp add: calls_simps split del: if_split)

lemma LuloLendTool_kind:
  "error_result_ok No_error_status m code (LuloLendTool_except input (Exc c m code))"
  by (simp add: LuloLendTool_except_def message_ends_def suffix_Cons split: option.splits)

lemma LuloWithdrawTool_calls: "calls_at_most_once (LuloWithdrawTool_try E K input)"
  unfolding LuloWithdrawTool_try_def by (simp add: calls_simps split del: if_split)

lemma LuloWithdrawTool_kind:
  "error_result_ok No_error_status m code (LuloWithdrawTool_except input (Exc c m code))"
  by (simp add: LuloWithdrawTool_except_def message_ends_def suffix_Cons split: option.splits)

lemmas rows_validate =
  SolanaTransferTool_validates SolanaDeployTokenTool_validates SolanaTradeTool_validates
  SolanaCreateImageTool_validates SolanaPumpFunTokenTool_validates
  SolanaFetchPriceTool_validates SolanaTokenDataTool_validates
  SolanaTokenDataByTickerTool_validates SolanaMeteoraDLMMTool_validates
  SolanaBurnAndCloseMultipleTool_validates SolanaCreateGibworkTaskTool_validates
  SolanaBuyUsingMoonshotTool_validates SolanaSellUsingMoonshotTool_validates
  SolanaPythGetPriceTool_validates SolanaHeliusGetBalancesTool_validates
  SolanaHeliusGetAddressNameTool_validates SolanaHeliusGetNftEventsTool_validates
  SolanaHeliusGetMintlistsTool_validates SolanaHeliusGetNFTFingerprintTool_validates
  SolanaHeliusGetActiveListingsTool_validates SolanaHeliusGetNFTMetadataTool_validates
  SolanaHeliusGetRawTransactionsTool_validates SolanaHeliusGetParsedTransactionsTool_validates
  SolanaHeliusGetParsedTransactionHistoryTool_validates SolanaHeliusCreateWebhookTool_validates
  SolanaHeliusGetWebhookTool_validates SolanaHeliusEditWebhookTool_validates
  SolanaHeliusDeleteWebhookTool_validates SolanaFetchTokenReportSummaryTool_validates
  SolanaFetchTokenDetailedReportTool_validates SolanaGetPumpCurveStateTool_validates
  SolanaCalculatePumpCurvePriceTool_validates SolanaBuyTokenTool_validates
  SolanaSellTokenTool_validates SolanaSNSResolveTool_validates
  SolanaSNSRegisterDomainTool_validates SolanaSNSGetFavouriteDomainTool_validates
  SolanaSNSGetAllDomainsTool_validates SolanaDeployCollectionTool_validates
  SolanaGetMetaplexAssetTool_validates SolanaGetMetaplexAssetsByCreatorTool_validates
  SolanaGetMetaplexAssetsByAuthorityTool_validates SolanaMintMetaplexCoreNFTTool_validates
  SolanaDeBridgeCreateTransactionTool_validates SolanaDeBridgeExecuteTransactionTool_validates
  SolanaDeBridgeCheckTransactionStatusTool_validates SolanaCybersCreateCoinTool_validates
  SolanaGetBundleStatuses_validates SolanaSendBundle_validates
  SolanaGetInflightBundleStatuses_validates SolanaSendTxn_validates
  BackpackRequestWithdrawalTool_validates BackpackExecuteBorrowLendTool_validates
  BackpackGetDepthTool_validates BackpackGetKlinesTool_validates
  BackpackGetMarkPriceTool_validates BackpackGetOpenInterestTool_validates
  BackpackGetFundingIntervalRatesTool_validates BackpackGetRecentTradesTool_validates
  BackpackGetHistoricalTradesTool_validates BackpackGetCollateralInfoTool_validates
  BackpackGetAccountDepositsTool_validates ClosePerpTradeShortTool_validates
  ClosePerpTradeLongTool_validates OpenPerpTradeLongTool_validates
  OpenPerpTradeShortTool_validates Create3LandCollectionTool_validates
  Create3LandNFTTool_validates CreateDriftUserAccountTool_validates
  DepositToDriftUserAccountTool_validates WithdrawFromDriftUserAccountTool_validates
  TradeUsingDriftPerpAccountTool_validates StakeToDriftInsuranceFundTool_validates
  RequestUnstakeFromDriftInsuranceFundTool_validates
  UnstakeFromDriftInsuranceFundTool_validates DriftSwapSpotTokenTool_validates
  GetDriftPerpMarketFundingRateTool_validates GetDriftEntryQuoteOfPerpTradeTool_validates
  GetDriftLendBorrowApyTool_validates CreateDriftVaultTool_validates
  UpdateDriftVaultDelegateTool_validates UpdateDriftVaultTool_validates
  GetDriftVaultInfoTool_validates DepositIntoDriftVaultTool_validates
  RequestWithdrawalFromDriftVaultTool_validates WithdrawFromDriftVaultTool_validates
  DeriveDriftVaultAddressTool_validates TradeUsingDelegatedDriftVaultTool_validates
  FlashOpenTradeTool_validates FlashCloseTradeTool_validates ResolveAllDomainsTool_validates
  GetOwnedDomainsForTLDTool_validates GetOwnedAllDomainsTool_validates
  LightProtocolSendCompressedAirdropTool_validates ManifestCreateMarketTool_validates
  ManifestPlaceLimitOrderTool_validates ManifestPlaceBatchOrdersTool_validates
  ManifestCancelAllOrdersTool_validates ManifestWithdrawAllTool_validates
  OrcaClosePositionTool_validates OrcaCreateClmmTool_validates
  OrcaCreateLiquidityPoolTool_validates OrcaOpenCenteredPositionTool_validates
  OrcaOpenSingleSidedPositionTool_validates CoingeckoGetTrendingPoolsTool_validates
  CoingeckoGetTopGainersTool_validates CoingeckoGetTokenPriceDataTool_validates
  CoingeckoGetTokenInfoTool_validates

lemmas rows_call_once =
  SolanaBalanceTool_calls SolanaTransferTool_calls SolanaDeployTokenTool_calls
  SolanaTradeTool_calls SolanaFaucetTool_calls SolanaStakeTool_calls
  SolanaGetWalletAddressTool_calls SolanaCreateImageTool_calls SolanaTPSCalculatorTool_calls
  SolanaPumpFunTokenTool_calls SolanaFetchPriceTool_calls SolanaTokenDataTool_calls
  SolanaTokenDataByTickerTool_calls SolanaMeteoraDLMMTool_calls SolanaRaydiumBuyTool_calls
  SolanaRaydiumSellTool_calls SolanaBurnAndCloseTool_calls SolanaBurnAndCloseMultipleTool_calls
  SolanaCreateGibworkTaskTool_calls SolanaBuyUsingMoonshotTool_calls
  SolanaSellUsingMoonshotTool_calls SolanaPythGetPriceTool_calls
  SolanaHeliusGetBalancesTool_calls SolanaHeliusGetAddressNameTool_calls
  SolanaHeliusGetNftEventsTool_calls SolanaHeliusGetMintlistsTool_calls
  SolanaHeliusGetNFTFingerprintTool_calls SolanaHeliusGetActiveListingsTool_calls
  SolanaHeliusGetNFTMetadataTool_calls SolanaHeliusGetRawTransactionsTool_calls
  SolanaHeliusGetParsedTransactionsTool_calls SolanaHeliusGetParsedTransactionHistoryTool_calls
  SolanaHeliusCreateWebhookTool_calls SolanaHeliusGetAllWebhooksTool_calls
  SolanaHeliusGetWebhookTool_calls SolanaHeliusEditWebhookTool_calls
  SolanaHeliusDeleteWebhookTool_calls SolanaFetchTokenReportSummaryTool_calls
  SolanaFetchTokenDetailedReportTool_calls SolanaGetPumpCurveStateTool_calls
  SolanaCalculatePumpCurvePriceTool_calls SolanaBuyTokenTool_calls SolanaSellTokenTool_calls
  SolanaSNSResolveTool_calls SolanaSNSRegisterDomainTool_calls
  SolanaSNSGetFavouriteDomainTool_calls SolanaSNSGetAllDomainsTool_calls
  SolanaDeployCollectionTool_calls SolanaGetMetaplexAssetTool_calls
  SolanaGetMetaplexAssetsByCreatorTool_calls SolanaGetMetaplexAssetsByAuthorityTool_calls
  SolanaMintMetaplexCoreNFTTool_calls SolanaDeBridgeCreateTransactionTool_calls
  SolanaDeBridgeExecuteTransactionTool_calls SolanaDeBridgeCheckTransactionStatusTool_calls
  SolanaCybersCreateCoinTool_calls SolanaGetTipAccounts_calls SolanaGetRandomTipAccount_calls
  SolanaGetBundleStatuses_calls SolanaSendBundle_calls SolanaGetInflightBundleStatuses_calls
  SolanaSendTxn_calls StorkGetPriceTool_calls BackpackGetAccountBalancesTool_calls
  BackpackRequestWithdrawalTool_calls BackpackGetAccountSettingsTool_calls
  BackpackUpdateAccountSettingsTool_calls BackpackGetBorrowLendPositionsTool_calls
  BackpackExecuteBorrowLendTool_calls BackpackGetFillHistoryTool_calls
  BackpackGetBorrowPositionHistoryTool_calls BackpackGetFundingPaymentsTool_calls
  BackpackGetOrderHistoryTool_calls BackpackGetPnlHistoryTool_calls
  BackpackGetSettlementHistoryTool_calls BackpackGetUsersOpenOrdersTool_calls
  BackpackExecuteOrderTool_calls BackpackCancelOpenOrderTool_calls
  BackpackGetOpenOrdersTool_calls BackpackCancelOpenOrdersTool_calls
  BackpackGetSupportedAssetsTool_calls BackpackGetTickerInformationTool_calls
  BackpackGetMarketsTool_calls BackpackGetMarketTool_calls BackpackGetTickersTool_calls
  BackpackGetDepthTool_calls BackpackGetKlinesTool_calls BackpackGetMarkPriceTool_calls
  BackpackGetOpenInterestTool_calls BackpackGetFundingIntervalRatesTool_calls
  BackpackGetStatusTool_calls BackpackSendPingTool_calls BackpackGetSystemTimeTool_calls
  BackpackGetRecentTradesTool_calls BackpackGetHistoricalTradesTool_calls
  BackpackGetCollateralInfoTool_calls BackpackGetAccountDepositsTool_calls
  BackpackGetOpenPositionsTool_calls BackpackGetBorrowHistoryTool_calls
  BackpackGetInterestHistoryTool_calls ClosePerpTradeShortTool_calls
  ClosePerpTradeLongTool_calls OpenPerpTradeLongTool_calls OpenPerpTradeShortTool_calls
  Create3LandCollectionTool_calls Create3LandNFTTool_calls CreateDriftUserAccountTool_calls
  DepositToDriftUserAccountTool_calls WithdrawFromDriftUserAccountTool_calls
  TradeUsingDriftPerpAccountTool_calls CheckIfDriftAccountExistsTool_calls
  DriftUserAccountInfoTool_calls GetAvailableDriftMarketsTool_calls
  StakeToDriftInsuranceFundTool_calls RequestUnstakeFromDriftInsuranceFundTool_calls
  UnstakeFromDriftInsuranceFundTool_calls DriftSwapSpotTokenTool_calls
  GetDriftPerpMarketFundingRateTool_calls GetDriftEntryQuoteOfPerpTradeTool_calls
  GetDriftLendBorrowApyTool_calls CreateDriftVaultTool_calls UpdateDriftVaultDelegateTool_calls
  UpdateDriftVaultTool_calls GetDriftVaultInfoTool_calls DepositIntoDriftVaultTool_calls
  RequestWithdrawalFromDriftVaultTool_calls WithdrawFromDriftVaultTool_calls
  DeriveDriftVaultAddressTool_calls TradeUsingDelegatedDriftVaultTool_calls
  FlashOpenTradeTool_calls FlashCloseTradeTool_calls ResolveAllDomainsTool_calls
  GetOwnedDomainsForTLDTool_calls GetAllDomainsTLDsTool_calls GetOwnedAllDomainsTool_calls
  LightProtocolSendCompressedAirdropTool_calls ManifestCreateMarketTool_calls
  ManifestPlaceLimitOrderTool_calls ManifestPlaceBatchOrdersTool_calls
  ManifestCancelAllOrdersTool_calls ManifestWithdrawAllTool_calls
  OpenBookCreateMarketTool_calls OrcaClosePositionTool_calls OrcaCreateClmmTool_calls
  OrcaCreateLiquidityPoolTool_calls OrcaFetchPositionsTool_calls
  OrcaOpenCenteredPositionTool_calls OrcaOpenSingleSidedPositionTool_calls
  CoingeckoGetTrendingTokensTool_calls CoingeckoGetTrendingPoolsTool_calls
  CoingeckoGetTopGainersTool_calls CoingeckoGetTokenPriceDataTool_calls
  CoingeckoGetTokenInfoTool_calls CoingeckoGetLatestPoolsTool_calls ElfaAiPingApiTool_calls
  ElfaAiGetApiKeyStatusTool_calls ElfaAiGetSmartMentionsTool_calls
  ElfaAiGetTopMentionsByTickerTool_calls ElfaAiSearchMentionsByKeywordsTool_calls
  ElfaAiGetTrendingTokensTool_calls ElfaAiGetSmartTwitterAccountStatsTool_calls
  FluxBeamCreatePoolTool_calls LuloLendTool_calls LuloWithdrawTool_calls

lemmas rows_kind =
  error_result_kind meteora_error_result_kind coingecko_trending_error_result_kind
  SolanaTradeTool_kind SolanaFaucetTool_kind SolanaGetWalletAddressTool_kind
  SolanaCreateImageTool_kind SolanaTPSCalculatorTool_kind SolanaPumpFunTokenTool_kind
  SolanaRaydiumBuyTool_kind SolanaRaydiumSellTool_kind SolanaBurnAndCloseMultipleTool_kind
  SolanaCreateGibworkTaskTool_kind SolanaBuyUsingMoonshotTool_kind
  SolanaSellUsingMoonshotTool_kind SolanaPythGetPriceTool_kind SolanaHeliusGetBalancesTool_kind
  SolanaHeliusGetAddressNameTool_kind SolanaHeliusGetNftEventsTool_kind
  SolanaHeliusGetMintlistsTool_kind SolanaHeliusGetNFTFingerprintTool_kind
  SolanaHeliusGetActiveListingsTool_kind SolanaHeliusGetNFTMetadataTool_kind
  SolanaHeliusGetRawTransactionsTool_kind SolanaHeliusGetParsedTransactionsTool_kind
  SolanaHeliusGetParsedTransactionHistoryTool_kind SolanaHeliusCreateWebhookTool_kind
  SolanaHeliusGetAllWebhooksTool_kind SolanaHeliusGetWebhookTool_kind
  SolanaHeliusEditWebhookTool_kind SolanaHeliusDeleteWebhookTool_kind
  SolanaFetchTokenReportSummaryTool_kind SolanaFetchTokenDetailedReportTool_kind
  SolanaGetPumpCurveStateTool_kind SolanaCalculatePumpCurvePriceTool_kind
  SolanaBuyTokenTool_kind SolanaSellTokenTool_kind SolanaSNSResolveTool_kind
  SolanaSNSRegisterDomainTool_kind SolanaSNSGetFavouriteDomainTool_kind
  SolanaSNSGetAllDomainsTool_kind SolanaDeployCollectionTool_kind
  SolanaGetMetaplexAssetTool_kind SolanaGetMetaplexAssetsByCreatorTool_kind
  SolanaGetMetaplexAssetsByAuthorityTool_kind SolanaMintMetaplexCoreNFTTool_kind
  SolanaDeBridgeCreateTransactionTool_kind SolanaDeBridgeExecuteTransactionTool_kind
  SolanaDeBridgeCheckTransactionStatusTool_kind SolanaCybersCreateCoinTool_kind
  SolanaGetTipAccounts_kind SolanaGetRandomTipAccount_kind SolanaGetBundleStatuses_kind
  SolanaSendBundle_kind SolanaGetInflightBundleStatuses_kind SolanaSendTxn_kind
  StorkGetPriceTool_kind BackpackGetAccountBalancesTool_kind BackpackRequestWithdrawalTool_kind
  BackpackGetAccountSettingsTool_kind BackpackUpdateAccountSettingsTool_kind
  BackpackGetBorrowLendPositionsTool_kind BackpackExecuteBorrowLendTool_kind
  BackpackGetFillHistoryTool_kind BackpackGetBorrowPositionHistoryTool_kind
  BackpackGetFundingPaymentsTool_kind BackpackGetOrderHistoryTool_kind
  BackpackGetPnlHistoryTool_kind BackpackGetSettlementHistoryTool_kind
  BackpackGetUsersOpenOrdersTool_kind BackpackExecuteOrderTool_kind
  BackpackCancelOpenOrderTool_kind BackpackGetOpenOrdersTool_kind
  BackpackCancelOpenOrdersTool_kind BackpackGetSupportedAssetsTool_kind
  BackpackGetTickerInformationTool_kind BackpackGetMarketsTool_kind BackpackGetMarketTool_kind
  BackpackGetTickersTool_kind BackpackGetDepthTool_kind BackpackGetKlinesTool_kind
  BackpackGetMarkPriceTool_kind BackpackGetOpenInterestTool_kind
  BackpackGetFundingIntervalRatesTool_kind BackpackGetStatusTool_kind BackpackSendPingTool_kind
  BackpackGetSystemTimeTool_kind BackpackGetRecentTradesTool_kind
  BackpackGetHistoricalTradesTool_kind BackpackGetCollateralInfoTool_kind
  BackpackGetAccountDepositsTool_kind BackpackGetOpenPositionsTool_kind
  BackpackGetBorrowHistoryTool_kind BackpackGetInterestHistoryTool_kind
  ClosePerpTradeShortTool_kind ClosePerpTradeLongTool_kind OpenPerpTradeLongTool_kind
  OpenPerpTradeShortTool_kind Create3LandCollectionTool_kind Create3LandNFTTool_kind
  CreateDriftUserAccountTool_kind DepositToDriftUserAccountTool_kind
  WithdrawFromDriftUserAccountTool_kind TradeUsingDriftPerpAccountTool_kind
  CheckIfDriftAccountExistsTool_kind DriftUserAccountInfoTool_kind
  GetAvailableDriftMarketsTool_kind StakeToDriftInsuranceFundTool_kind
  RequestUnstakeFromDriftInsuranceFundTool_kind UnstakeFromDriftInsuranceFundTool_kind
  DriftSwapSpotTokenTool_kind GetDriftPerpMarketFundingRateTool_kind
  GetDriftEntryQuoteOfPerpTradeTool_kind GetDriftLendBorrowApyTool_kind
  CreateDriftVaultTool_kind UpdateDriftVaultDelegateTool_kind UpdateDriftVaultTool_kind
  GetDriftVaultInfoTool_kind DepositIntoDriftVaultTool_kind
  RequestWithdrawalFromDriftVaultTool_kind WithdrawFromDriftVaultTool_kind
  DeriveDriftVaultAddressTool_kind TradeUsingDelegatedDriftVaultTool_kind
  FlashOpenTradeTool_kind FlashCloseTradeTool_kind ResolveAllDomainsTool_kind
  GetOwnedDomainsForTLDTool_kind GetAllDomainsTLDsTool_kind GetOwnedAllDomainsTool_kind
  LightProtocolSendCompressedAirdropTool_kind ManifestCreateMarketTool_kind
  ManifestPlaceLimitOrderTool_kind ManifestPlaceBatchOrdersTool_kind
  ManifestCancelAllOrdersTool_kind ManifestWithdrawAllTool_kind OpenBookCreateMarketTool_kind
  OrcaClosePositionTool_kind OrcaCreateClmmTool_kind OrcaCreateLiquidityPoolTool_kind
  OrcaFetchPositionsTool_kind OrcaOpenCenteredPositionTool_kind
  OrcaOpenSingleSidedPositionTool_kind CoingeckoGetTrendingPoolsTool_kind
  CoingeckoGetTopGainersTool_kind CoingeckoGetTokenPriceDataTool_kind
  CoingeckoGetTokenInfoTool_kind CoingeckoGetLatestPoolsTool_kind ElfaAiPingApiTool_kind
  ElfaAiGetApiKeyStatusTool_kind ElfaAiGetSmartMentionsTool_kind
  ElfaAiGetTopMentionsByTickerTool_kind ElfaAiSearchMentionsByKeywordsTool_kind
  ElfaAiGetTrendingTokensTool_kind ElfaAiGetSmartTwitterAccountStatsTool_kind
  FluxBeamCreatePoolTool_kind LuloLendTool_kind LuloWithdrawTool_kind

text \<open>The same facts for the table as a whole.\<close>

lemma adapters_validate:
  "list_all (\<lambda>a. case adapter_schema a of None \<Rightarrow> True
                | Some S \<Rightarrow> entry_validates S (adapter_entry a)) adapters"
  by (simp add: adapters_def adapter_sel rows_validate)

lemma adapters_call_once:
  "list_all (\<lambda>a. \<forall>E K input. calls_at_most_once (entry_body (adapter_entry a) E K input))
     adapters"
  by (simp add: adapters_def adapter_sel rows_call_once)

lemma adapters_kind:
  "list_all (\<lambda>a. is_arun (adapter_entry a) \<longrightarrow>
       (\<forall>E input c m code. \<exists>v.
          entry_handler (adapter_entry a) E input (Exc c m code) = Inr v \<and>
          error_result_ok (adapter_error a) m code v)) adapters"
  by (simp add: adapters_def adapter_sel rows_kind)

section \<open>Facts about the table of adapters\<close>

text \<open>A computation that is a chain of pure steps makes no call.\<close>

lemma snd_bnd_lift:
  "snd (bnd (lift r) f cs) = (case r of Inl e \<Rightarrow> cs | Inr x \<Rightarrow> snd (f x cs))"
  by (simp add: bnd_def lift_def split: sum.splits)

lemma snd_bnd_await:
  "snd (bnd (await_kit K c) f cs) =
     (case K c of Inl e \<Rightarrow> cs @ [c] | Inr v \<Rightarrow> snd (f v (cs @ [c])))"
  by (simp add: bnd_def await_kit_def split: sum.splits)

lemma snd_bnd_ret: "snd (bnd (ret x) f cs) = snd (f x cs)"
  by (simp add: bnd_def ret_def)

lemma snd_bnd_raise: "snd (bnd (raise e) f cs) = cs"
  by (simp add: bnd_def raise_def)

text \<open>The rows of the table that have a schema, and the calls of a row.\<close>

lemma adapter_validates:
  assumes "a \<in> set adapters" and "adapter_schema a = Some S"
  shows "entry_validates S (adapter_entry a)"
proof -
  from adapters_validate assms(1)
  have "case adapter_schema a of None \<Rightarrow> True | Some S \<Rightarrow> entry_validates S (adapter_entry a)"
    by (simp add: list_all_iff)
  with assms(2) show ?thesis by simp
qed

lemma adapter_calls_once:
  assumes "a \<in> set adapters"
  shows "length (snd (entry_body (adapter_entry a) E K input [])) \<le> 1"
proof -
  from adapters_call_once assms
  have "calls_at_most_once (entry_body (adapter_entry a) E K input)"
    by (simp add: list_all_iff)
  from this [unfolded calls_at_most_once_def, THEN spec, of "[]"] show ?thesis by simp
qed

lemma entry_call_calls:
  "snd (entry_call c m E K arg) =
     (if entry_accepts m arg then snd (entry_body m E K (input_of arg) []) else [])"
  by (cases m; cases arg)
    (simp_all add: try_except_calls try_except_raising_calls raise_def)

lemma entry_validates_body:
  assumes "entry_validates S m"
  shows "validates S (entry_body m)" and "entry_accepts m arg = (arg \<noteq> None)"
proof -
  from assms obtain body where b: "validates S body"
    and e: "\<And>E K input. entry_body m E K input = body E K input"
    and a: "entry_accepts m arg = (arg \<noteq> None)"
    by (cases m; cases arg) auto
  from b obtain F where F: "\<And>E K input. body E K input =
        bnd (lift (json_loads E input)) (\<lambda>parsed.
        bnd (lift (validate_stmt E parsed S)) (F E K input))"
    unfolding validates_def by blast
  show "entry_accepts m arg = (arg \<noteq> None)" by (rule a)
  show "validates S (entry_body m)"
    unfolding validates_def
    by (rule exI [of _ F]) (simp add: e F)
qed

text \<open>The kind of the handler of a row.\<close>

lemma adapter_kind:
  assumes "a \<in> set adapters" and "is_arun (adapter_entry a)"
  shows "\<exists>v. entry_handler (adapter_entry a) E input (Exc c m code) = Inr v \<and>
           error_result_ok (adapter_error a) m code v"
  using adapters_kind assms by (simp add: list_all_iff)

text \<open>The row of the transfer adapter and the method written out.\<close>

lemma transfer_row_call:
  "adapter_call
     (adapter SolanaTransferTool (Some transfer_schema)
        (Arun SolanaTransferTool_try (\<lambda>input. error_result)) Status_message_code)
     E K (Some input) = SolanaTransferTool_arun E K input"
  by (simp add: adapter_call_def adapter_sel SolanaTransferTool_arun_def)

text \<open>What the stub \<open>json.loads\<close> answers.\<close>

lemma stub_loads_simps:
  "json_loads (stub_env pk payloads) in_transfer_abc_only = Inr (PDict transfer_abc_only)"
  "json_loads (stub_env pk payloads) in_transfer_abc_5 = Inr (PDict transfer_abc_5)"
  "json_loads (stub_env pk payloads) in_transfer_abc_0 = Inr (PDict transfer_abc_0)"
  "json_loads (stub_env pk payloads) in_deploy_0_1000 = Inr (PDict deploy_0_1000)"
  "json_loads (stub_env pk payloads) in_deploy_9_1 = Inr (PDict deploy_9_1)"
  "json_loads (stub_env pk payloads) in_pool_slot = Inr (PDict (meteora_pool ''Slot''))"
  "json_loads (stub_env pk payloads) in_pool_delayed = Inr (PDict (meteora_pool ''Delayed''))"
  by (simp_all add: stub_env_def stub_loads_def payloads_def in_transfer_abc_5_def
      in_transfer_abc_0_def in_transfer_abc_only_def in_deploy_0_1000_def in_deploy_9_1_def
      in_pool_slot_def in_pool_delayed_def)

lemma more_loads_simps:
  "json_loads (stub_env pk more_payloads) in_transfer_abc_5_xyz = Inr (PDict transfer_abc_5_xyz)"
  "json_loads (stub_env pk more_payloads) in_empty_object = Inr (PDict [])"
  "json_loads (stub_env pk more_payloads) in_openbook_ints = Inr (PDict openbook_ints)"
  by (simp_all add: stub_env_def stub_loads_def more_payloads_def in_transfer_abc_5_xyz_def
      in_empty_object_def in_openbook_ints_def)

section \<open>The validator\<close>

lemma check_required_ok:
  "check_required d S = Inr () \<Longrightarrow> (f, r) \<in> set S \<Longrightarrow> required r \<Longrightarrow> map_of d f \<noteq> None"
  by (induction S) (auto split: if_splits)

lemma check_types_ok:
  "check_types d S = Inr () \<Longrightarrow> (f, r) \<in> set S \<Longrightarrow> map_of d f = Some v \<Longrightarrow>
     type_of_py v \<in> Some ` set (rtype r)"
  by (induction S) (auto split: if_splits option.splits)

lemma check_bounds_ok:
  "check_bounds d S = Inr () \<Longrightarrow> (f, r) \<in> set S \<Longrightarrow> map_of d f = Some v \<Longrightarrow>
     \<not> below_min v r \<and> \<not> above_max v r"
  by (induction S) (auto split: if_splits option.splits)

lemma check_bounds_pass:
  "list_all (\<lambda>(f, r). case map_of d f of None \<Rightarrow> True
        | Some v \<Rightarrow> \<not> below_min v r \<and> \<not> above_max v r) S
     \<Longrightarrow> check_bounds d S = Inr ()"
  by (induction S) (auto split: option.splits)

lemma check_bounds_fail:
  "check_bounds d S = Inl e \<Longrightarrow>
     \<exists>g r w. (g, r) \<in> set S \<and> map_of d g = Some w \<and>
       (below_min w r \<and> e = ValidationError (''Value below minimum for field: '' @ g) \<or>
        above_max w r \<and> e = ValidationError (''Value above maximum for field: '' @ g))"
proof (induction S)
  case Nil
  then show ?case by simp
next
  case (Cons a S)
  obtain f r where a: "a = (f, r)" by (cases a)
  let ?P = "\<lambda>g r w. map_of d g = Some w \<and>
       (below_min w r \<and> e = ValidationError (''Value below minimum for field: '' @ g) \<or>
        above_max w r \<and> e = ValidationError (''Value above maximum for field: '' @ g))"
  have tail: "check_bounds d S = Inl e \<Longrightarrow> ?case"
  proof -
    assume "check_bounds d S = Inl e"
    from Cons.IH [OF this] obtain g r' w where "(g, r') \<in> set S" and "?P g r' w"
      by blast
    then have "(g, r') \<in> set (a # S) \<and> ?P g r' w" by simp
    then show ?case by blast
  qed
  show ?case
  proof (cases "map_of d f")
    case None
    with Cons.prems a have "check_bounds d S = Inl e" by simp
    then show ?thesis by (rule tail)
  next
    case (Some v)
    show ?thesis
    proof (cases "below_min v r \<or> above_max v r")
      case True
      with Cons.prems a Some have "(f, r) \<in> set (a # S) \<and> ?P f r v"
        by (auto split: if_splits)
      then show ?thesis by blast
    next
      case False
      with Cons.prems a Some have "check_bounds d S = Inl e" by simp
      then show ?thesis by (rule tail)
    qed
  qed
qed

lemma validate_input_ok:
  "validate_input d S = Inr () \<longleftrightarrow>
     check_required d S = Inr () \<and> check_types d S = Inr () \<and> check_bounds d S = Inr ()"
  by (auto simp: validate_input_def split: sum.splits)

lemma check_required_raises:
  "check_required d S = Inl e \<Longrightarrow> \<exists>m. e = ValidationError m"
  by (induction S) (auto split: if_splits)

lemma check_types_raises:
  "check_types d S = Inl e \<Longrightarrow> \<exists>m. e = ValidationError m"
  by (induction S) (auto split: if_splits option.splits)

lemma check_bounds_raises:
  "check_bounds d S = Inl e \<Longrightarrow> \<exists>m. e = ValidationError m"
  by (induction S) (auto split: if_splits option.splits)

lemma validate_input_raises:
  "validate_input d S = Inl e \<Longrightarrow> \<exists>m. e = ValidationError m"
  by (auto simp: validate_input_def split: sum.splits
      dest: check_required_raises check_types_raises check_bounds_raises)

lemma first_missing_Some:
  "first_missing d S = Some g \<Longrightarrow> \<exists>r. (g, r) \<in> set S \<and> required r \<and> map_of d g = None"
  by (induction S) (auto simp: first_missing_def split: if_splits)

lemma first_missing_exists:
  "(f, r) \<in> set S \<Longrightarrow> required r \<Longrightarrow> map_of d f = None \<Longrightarrow> \<exists>g. first_missing d S = Some g"
  by (induction S) (auto simp: first_missing_def split: if_splits)

lemma check_required_first_missing:
  "first_missing d S = Some g \<Longrightarrow>
     check_required d S = Inl (ValidationError (''Missing required field: '' @ g))"
  by (induction S) (auto simp: first_missing_def split: if_splits)

lemma validate_first_missing:
  "first_missing d S = Some g \<Longrightarrow>
     validate_input d S = Inl (ValidationError (''Missing required field: '' @ g))"
  by (simp add: validate_input_def check_required_first_missing)

lemma validated_required_typed:
  assumes "validate_input d S = Inr ()" and "(f, r) \<in> set S" and "required r"
  shows "\<exists>v. map_of d f = Some v \<and> type_of_py v \<in> Some ` set (rtype r)"
proof -
  from assms(1) have req: "check_required d S = Inr ()" and ty: "check_types d S = Inr ()"
    by (simp_all add: validate_input_ok)
  from check_required_ok [OF req assms(2,3)] obtain v where v: "map_of d f = Some v"
    by auto
  with check_types_ok [OF ty assms(2)] show ?thesis by blast
qed

lemma type_str: "type_of_py v \<in> Some ` set [T_str] \<Longrightarrow> \<exists>s. v = PStr s"
  by (cases v) auto

lemma type_int: "type_of_py v \<in> Some ` set [T_int] \<Longrightarrow> \<exists>i. v = PInt i"
  by (cases v) auto

text \<open>What the adapters that validate do when validation raises.\<close>

lemma transfer_invalid:
  assumes "json_loads E input = Inr (PDict d)" and "validate_input d transfer_schema = Inl e"
  shows "SolanaTransferTool_arun E K input = (Inr (error_result e), [])"
proof -
  from validate_input_raises [OF assms(2)] obtain m where "e = ValidationError m" ..
  with assms show ?thesis
    by (simp add: SolanaTransferTool_arun_def SolanaTransferTool_try_def try_except_def comp_simps validate_input_call_def
        ValidationError_def)
qed

lemma deploy_invalid:
  assumes "json_loads E input = Inr (PDict d)" and "validate_input d deploy_token_schema = Inl e"
  shows "SolanaDeployTokenTool_arun E K input = (Inr (error_result e), [])"
proof -
  from validate_input_raises [OF assms(2)] obtain m where "e = ValidationError m" ..
  with assms show ?thesis
    by (simp add: SolanaDeployTokenTool_arun_def SolanaDeployTokenTool_try_def try_except_def comp_simps validate_input_call_def
        ValidationError_def)
qed

lemma meteora_invalid:
  assumes "json_loads E input = Inr (PDict d)" and "validate_input d meteora_schema = Inl e"
  shows "SolanaMeteoraDLMMTool_arun E K input = (Inr (meteora_error_result input e), [])"
proof -
  from validate_input_raises [OF assms(2)] obtain m where "e = ValidationError m" ..
  with assms show ?thesis
    by (simp add: SolanaMeteoraDLMMTool_arun_def SolanaMeteoraDLMMTool_try_def try_except_def comp_simps validate_input_call_def
        ValidationError_def)
qed

lemma error_result_validation:
  "error_result (ValidationError m) =
     PDict [(''status'', PStr ''error''), (''message'', PStr m), (''code'', PStr ''UNKNOWN_ERROR'')]"
  by (simp add: error_result_def ValidationError_def)

text \<open>
  The field that \<open>first_missing\<close> gives is required and absent, and every field that
  the schema lists before it is present or not required.
\<close>

lemma first_missing_split:
  "first_missing d S = Some g \<Longrightarrow>
     \<exists>S1 r S2. S = S1 @ (g, r) # S2 \<and> required r \<and> map_of d g = None \<and>
       list_all (\<lambda>(f, r'). \<not> (required r' \<and> map_of d f = None)) S1"
proof (induction S)
  case Nil
  then show ?case by (simp add: first_missing_def)
next
  case (Cons x S)
  obtain f r where x: "x = (f, r)" by (cases x)
  show ?case
  proof (cases "required r \<and> map_of d f = None")
    case True
    with Cons.prems x have "g = f" by (simp add: first_missing_def)
    with True x have "x # S = [] @ (g, r) # S \<and> required r \<and> map_of d g = None \<and>
       list_all (\<lambda>(f, r'). \<not> (required r' \<and> map_of d f = None)) []"
      by simp
    then show ?thesis by blast
  next
    case False
    with Cons.prems x have "first_missing d S = Some g" by (simp add: first_missing_def)
    from Cons.IH [OF this] obtain S1 r' S2 where
      s: "S = S1 @ (g, r') # S2" "required r'" "map_of d g = None"
        "list_all (\<lambda>(f, r'). \<not> (required r' \<and> map_of d f = None)) S1"
      by blast
    from s False x have "x # S = (x # S1) @ (g, r') # S2 \<and> required r' \<and> map_of d g = None \<and>
       list_all (\<lambda>(f, r'). \<not> (required r' \<and> map_of d f = None)) (x # S1)"
      by simp
    then show ?thesis by blast
  qed
qed

text \<open>What an adapter that validates does when validation raises.\<close>

lemma adapter_validation_fails:
  assumes "a \<in> set adapters" and "adapter_schema a = Some S"
    and "json_loads E input = Inr (PDict d)" and "validate_input d S = Inl e"
  shows "adapter_call a E K (Some input) = (entry_handler (adapter_entry a) E input e, [])"
proof -
  from validate_input_raises [OF assms(4)] obtain m where e: "e = Exc ''ValidationError'' m None"
    by (auto simp: ValidationError_def)
  from assms(4) have s: "validate_stmt E (PDict d) S = Inl e"
    by (simp add: validate_input_call_def)
  note v = adapter_validates [OF assms(1,2)]
  show ?thesis
  proof (cases "adapter_entry a")
    case (Arun body h)
    with v have "validates S body" by simp
    from validates_validation_fails [OF this assms(3) s]
    have "body E K input [] = (Inl (Exc ''ValidationError'' m None), [])" by (simp add: e)
    from try_except_catches [of "body E K input", OF this] Arun e show ?thesis
      by (simp add: adapter_call_def)
  next
    case (Arun_no_input body h)
    with v show ?thesis by simp
  next
    case (Call_method body h)
    with v have "validates S body" by simp
    from validates_validation_fails [OF this assms(3) s]
    have "body E K input [] = (Inl (Exc ''ValidationError'' m None), [])" by (simp add: e)
    from try_except_raising_catches [of "body E K input", OF this] Call_method e show ?thesis
      by (simp add: adapter_call_def)
  qed
qed

lemma burn_missing_token_account:
  assumes "json_loads E input = Inr (PDict d)" and "map_of d ''token_account'' = None"
  shows "SolanaBurnAndCloseTool_arun E K input =
     (Inr (error_envelope ''Missing required field: token_account'' None), [])"
  using assms
  by (simp add: SolanaBurnAndCloseTool_arun_def SolanaBurnAndCloseTool_try_def try_except_def
      comp_simps error_result_def error_envelope_def)

text \<open>
  C4, as the code and the spec have it. When a field that the schema marks required is
  absent from the mapping, validation fails with the message
  \<open>Missing required field: <name>\<close> for the first field of the schema, in its order, that
  is required and absent: that one field when it is the only one. Every adapter that
  passes the schema to \<open>validate_input\<close> then returns what its handler makes of that
  exception, an error result of the kind of the adapter, and makes no call on the agent
  kit. The burn-and-close adapter, which checks its one field itself, does the same for
  \<open>token_account\<close>.
\<close>

theorem missing_required_field:
  assumes "(f, r) \<in> set S" and "required r" and "map_of d f = None"
  shows "\<exists>g. first_missing d S = Some g \<and>
      (\<exists>S1 r' S2. S = S1 @ (g, r') # S2 \<and> required r' \<and> map_of d g = None \<and>
         list_all (\<lambda>(f', r''). \<not> (required r'' \<and> map_of d f' = None)) S1) \<and>
      ((\<forall>f' r'. (f', r') \<in> set S \<and> required r' \<and> map_of d f' = None \<longrightarrow> f' = f) \<longrightarrow> g = f) \<and>
      validate_input d S = Inl (ValidationError (''Missing required field: '' @ g)) \<and>
      (\<forall>a E K input.
         a \<in> set adapters \<and> adapter_schema a = Some S \<and> json_loads E input = Inr (PDict d) \<longrightarrow>
         adapter_call a E K (Some input) =
           (entry_handler (adapter_entry a) E input
              (ValidationError (''Missing required field: '' @ g)), []) \<and>
         (is_arun (adapter_entry a) \<longrightarrow>
            (\<exists>v. entry_handler (adapter_entry a) E input
                   (ValidationError (''Missing required field: '' @ g)) = Inr v \<and>
                 error_result_ok (adapter_error a) (''Missing required field: '' @ g) None v))) \<and>
      (\<forall>E K input d'.
         json_loads E input = Inr (PDict d') \<and> map_of d' ''token_account'' = None \<longrightarrow>
         SolanaBurnAndCloseTool_arun E K input =
           (Inr (error_envelope ''Missing required field: token_account'' None), []))"
proof -
  from first_missing_exists [OF assms] obtain g where g: "first_missing d S = Some g" ..
  note sp = first_missing_split [OF g]
  from first_missing_Some [OF g] obtain r' where r': "(g, r') \<in> set S" "required r'" "map_of d g = None"
    by blast
  have only: "(\<forall>f' r'. (f', r') \<in> set S \<and> required r' \<and> map_of d f' = None \<longrightarrow> f' = f) \<longrightarrow> g = f"
    using r' by blast
  note v = validate_first_missing [OF g]
  have ad: "\<forall>a E K input.
         a \<in> set adapters \<and> adapter_schema a = Some S \<and> json_loads E input = Inr (PDict d) \<longrightarrow>
         adapter_call a E K (Some input) =
           (entry_handler (adapter_entry a) E input
              (ValidationError (''Missing required field: '' @ g)), []) \<and>
         (is_arun (adapter_entry a) \<longrightarrow>
            (\<exists>v. entry_handler (adapter_entry a) E input
                   (ValidationError (''Missing required field: '' @ g)) = Inr v \<and>
                 error_result_ok (adapter_error a) (''Missing required field: '' @ g) None v))"
  proof (intro allI impI)
    fix a and E :: env and K input
    assume h: "a \<in> set adapters \<and> adapter_schema a = Some S \<and>
      json_loads E input = Inr (PDict d)"
    then have h1: "a \<in> set adapters" and h2: "adapter_schema a = Some S"
      and h3: "json_loads E input = Inr (PDict d)" by simp_all
    have c: "adapter_call a E K (Some input) =
           (entry_handler (adapter_entry a) E input
              (ValidationError (''Missing required field: '' @ g)), [])"
      by (rule adapter_validation_fails [OF h1 h2 h3 v])
    have k: "is_arun (adapter_entry a) \<longrightarrow>
            (\<exists>v. entry_handler (adapter_entry a) E input
                   (ValidationError (''Missing required field: '' @ g)) = Inr v \<and>
                 error_result_ok (adapter_error a) (''Missing required field: '' @ g) None v)"
      using adapter_kind [OF h1, of E input "''ValidationError''" "''Missing required field: '' @ g" None]
      by (simp add: ValidationError_def)
    from c k show "adapter_call a E K (Some input) =
           (entry_handler (adapter_entry a) E input
              (ValidationError (''Missing required field: '' @ g)), []) \<and>
         (is_arun (adapter_entry a) \<longrightarrow>
            (\<exists>v. entry_handler (adapter_entry a) E input
                   (ValidationError (''Missing required field: '' @ g)) = Inr v \<and>
                 error_result_ok (adapter_error a) (''Missing required field: '' @ g) None v))"
      by (rule conjI)
  qed
  have bu: "\<forall>E K input d'.
         json_loads E input = Inr (PDict d') \<and> map_of d' ''token_account'' = None \<longrightarrow>
         SolanaBurnAndCloseTool_arun E K input =
           (Inr (error_envelope ''Missing required field: token_account'' None), [])"
    using burn_missing_token_account by blast
  from g sp only v ad bu show ?thesis by (intro exI [of _ g] conjI)
qed

theorem missing_required_field_witness:
  "(''amount'', \<lparr>rtype = [T_int], required = True, rmin = Some 1, rmax = None\<rparr>)
     \<in> set transfer_schema \<and>
   map_of transfer_abc_only ''amount'' = None \<and>
   validate_input transfer_abc_only transfer_schema =
     Inl (ValidationError ''Missing required field: amount'') \<and>
   adapter SolanaTransferTool (Some transfer_schema)
     (Arun SolanaTransferTool_try (\<lambda>input. error_result)) Status_message_code
     \<in> set adapters \<and>
   SolanaTransferTool_arun (stub_env lenient_pubkey payloads) ok_kit in_transfer_abc_only =
     (Inr (PDict [(''status'', PStr ''error''),
                  (''message'', PStr ''Missing required field: amount''),
                  (''code'', PStr ''UNKNOWN_ERROR'')]), [])"
proof -
  let ?E = "stub_env lenient_pubkey payloads"
  let ?a = "adapter SolanaTransferTool (Some transfer_schema)
     (Arun SolanaTransferTool_try (\<lambda>input. error_result)) Status_message_code"
  have h1: "json_loads ?E in_transfer_abc_only = Inr (PDict transfer_abc_only)"
    by (rule stub_loads_simps)
  have h2: "(''amount'', \<lparr>rtype = [T_int], required = True, rmin = Some 1, rmax = None\<rparr>)
     \<in> set transfer_schema"
    by (simp add: transfer_schema_def)
  have h3: "required \<lparr>rtype = [T_int], required = True, rmin = Some 1, rmax = None\<rparr>" by simp
  have h4: "map_of transfer_abc_only ''amount'' = None" by (simp add: transfer_abc_only_def)
  have fm: "first_missing transfer_abc_only transfer_schema = Some ''amount''"
    by (simp add: first_missing_def transfer_abc_only_def transfer_schema_def)
  have r: "?a \<in> set adapters" by (simp add: adapters_def)
  have s: "adapter_schema ?a = Some transfer_schema" by (simp add: adapter_sel)
  from missing_required_field [OF h2 h3 h4] fm
  have v: "validate_input transfer_abc_only transfer_schema =
       Inl (ValidationError ''Missing required field: amount'')"
    and c: "adapter_call ?a ?E ok_kit (Some in_transfer_abc_only) =
       (entry_handler (adapter_entry ?a) ?E in_transfer_abc_only
          (ValidationError ''Missing required field: amount''), [])"
    using r s h1 by auto
  from c have "SolanaTransferTool_arun ?E ok_kit in_transfer_abc_only =
     (Inr (PDict [(''status'', PStr ''error''),
                  (''message'', PStr ''Missing required field: amount''),
                  (''code'', PStr ''UNKNOWN_ERROR'')]), [])"
    by (simp add: transfer_row_call adapter_sel error_result_def ValidationError_def)
  with h2 h4 v r show ?thesis by (intro conjI)
qed

text \<open>
  The sentence of the spec fails when two required fields are absent: validation raises one
  exception, whose message names one field. The empty mapping lacks \<open>amount\<close>, which the
  transfer schema marks required, and the message names \<open>to\<close>.
\<close>

theorem missing_required_field_counterexample:
  "(''amount'', \<lparr>rtype = [T_int], required = True, rmin = Some 1, rmax = None\<rparr>)
     \<in> set transfer_schema \<and>
   map_of ([] :: (string \<times> pyval) list) ''amount'' = None \<and>
   validate_input [] transfer_schema = Inl (ValidationError ''Missing required field: to'') \<and>
   validate_input [] transfer_schema \<noteq> Inl (ValidationError ''Missing required field: amount'')"
  by (simp add: transfer_schema_def validate_input_def ValidationError_def)

lemma below_min_iff:
  "num_of v = Some x \<Longrightarrow> below_min v r \<longleftrightarrow> (\<exists>lo. rmin r = Some lo \<and> x < of_int lo)"
  by (simp add: below_min_def split: option.splits)

lemma above_max_iff:
  "num_of v = Some x \<Longrightarrow> above_max v r \<longleftrightarrow> (\<exists>hi. rmax r = Some hi \<and> of_int hi < x)"
  by (simp add: above_max_def split: option.splits)

lemma check_bounds_pass_all:
  assumes "\<forall>(g, r') \<in> set S. \<forall>w. map_of d g = Some w \<longrightarrow> \<not> below_min w r' \<and> \<not> above_max w r'"
  shows "check_bounds d S = Inr ()"
proof (rule check_bounds_pass)
  from assms show "list_all (\<lambda>(f, r). case map_of d f of None \<Rightarrow> True
        | Some v \<Rightarrow> \<not> below_min v r \<and> \<not> above_max v r) S"
    by (auto simp: list_all_iff split: option.splits)
qed

lemma out_of_bounds_fails:
  assumes "(f, r) \<in> set S" and "map_of d f = Some v" and "below_min v r \<or> above_max v r"
  shows "\<exists>e. validate_input d S = Inl e"
proof (cases "validate_input d S")
  case (Inl e)
  then show ?thesis by blast
next
  case (Inr u)
  then have "check_bounds d S = Inr ()" by (simp add: validate_input_ok)
  from check_bounds_ok [OF this assms(1,2)] assms(3) show ?thesis by blast
qed

text \<open>
  C5. The bounds of a schema field are inclusive. For a number present in the input, the
  minimum is violated exactly when the value is strictly below it and the maximum exactly
  when the value is strictly above it; a violation makes validation fail; when the
  required fields are present and the types conform, validation fails only with a message
  that names a field whose value is outside its bounds, and passes when every number is
  within its bounds. When validation fails, the transfer adapter returns the error result
  and makes no call on the agent kit.
\<close>

theorem bounds_inclusive:
  assumes "(f, r) \<in> set S" and "map_of d f = Some v" and "num_of v = Some x"
  shows "(below_min v r \<longleftrightarrow> (\<exists>lo. rmin r = Some lo \<and> x < of_int lo)) \<and>
    (above_max v r \<longleftrightarrow> (\<exists>hi. rmax r = Some hi \<and> of_int hi < x)) \<and>
    (below_min v r \<or> above_max v r \<longrightarrow> (\<exists>e. validate_input d S = Inl e)) \<and>
    (check_required d S = Inr () \<and> check_types d S = Inr () \<longrightarrow>
       ((\<forall>(g, r') \<in> set S. \<forall>w. map_of d g = Some w \<longrightarrow> \<not> below_min w r' \<and> \<not> above_max w r')
          \<longrightarrow> validate_input d S = Inr ()) \<and>
       (\<forall>e. validate_input d S = Inl e \<longrightarrow>
          (\<exists>g r' w. (g, r') \<in> set S \<and> map_of d g = Some w \<and>
             (below_min w r' \<and> e = ValidationError (''Value below minimum for field: '' @ g) \<or>
              above_max w r' \<and> e = ValidationError (''Value above maximum for field: '' @ g))))) \<and>
    (\<forall>e. S = transfer_schema \<and> json_loads E input = Inr (PDict d) \<and> validate_input d S = Inl e
       \<longrightarrow> SolanaTransferTool_arun E K input = (Inr (error_result e), []))"
proof -
  note a = below_min_iff [OF assms(3), of r] above_max_iff [OF assms(3), of r]
  have b: "below_min v r \<or> above_max v r \<longrightarrow> (\<exists>e. validate_input d S = Inl e)"
    using out_of_bounds_fails [OF assms(1,2)] by blast
  have c: "check_required d S = Inr () \<and> check_types d S = Inr () \<longrightarrow>
       ((\<forall>(g, r') \<in> set S. \<forall>w. map_of d g = Some w \<longrightarrow> \<not> below_min w r' \<and> \<not> above_max w r')
          \<longrightarrow> validate_input d S = Inr ()) \<and>
       (\<forall>e. validate_input d S = Inl e \<longrightarrow>
          (\<exists>g r' w. (g, r') \<in> set S \<and> map_of d g = Some w \<and>
             (below_min w r' \<and> e = ValidationError (''Value below minimum for field: '' @ g) \<or>
              above_max w r' \<and> e = ValidationError (''Value above maximum for field: '' @ g))))"
  proof (intro impI conjI allI)
    assume ok: "check_required d S = Inr () \<and> check_types d S = Inr ()"
    assume "\<forall>(g, r') \<in> set S. \<forall>w. map_of d g = Some w \<longrightarrow> \<not> below_min w r' \<and> \<not> above_max w r'"
    from check_bounds_pass_all [OF this] ok show "validate_input d S = Inr ()"
      by (simp add: validate_input_ok)
  next
    fix e
    assume ok: "check_required d S = Inr () \<and> check_types d S = Inr ()"
      and "validate_input d S = Inl e"
    then have "check_bounds d S = Inl e" by (simp add: validate_input_def)
    then show "\<exists>g r' w. (g, r') \<in> set S \<and> map_of d g = Some w \<and>
             (below_min w r' \<and> e = ValidationError (''Value below minimum for field: '' @ g) \<or>
              above_max w r' \<and> e = ValidationError (''Value above maximum for field: '' @ g))"
      by (rule check_bounds_fail)
  qed
  have t: "\<forall>e. S = transfer_schema \<and> json_loads E input = Inr (PDict d) \<and> validate_input d S = Inl e
       \<longrightarrow> SolanaTransferTool_arun E K input = (Inr (error_result e), [])"
    using transfer_invalid by blast
  from a b c t show ?thesis by blast
qed

text \<open>
  The two scenarios of the spec: amount 0 is below the minimum 1 of the transfer schema,
  the message names \<open>amount\<close> and the agent kit is not called; decimals 0 and 9, the two
  ends of the range of the deploy-token schema, pass.
\<close>

theorem bounds_inclusive_witness:
  "(''amount'', \<lparr>rtype = [T_int], required = True, rmin = Some 1, rmax = None\<rparr>) \<in> set transfer_schema \<and>
   map_of transfer_abc_0 ''amount'' = Some (PInt 0) \<and> num_of (PInt 0) = Some 0 \<and>
   validate_input transfer_abc_0 transfer_schema =
     Inl (ValidationError ''Value below minimum for field: amount'') \<and>
   SolanaTransferTool_arun (stub_env lenient_pubkey payloads) ok_kit in_transfer_abc_0 =
     (Inr (PDict [(''status'', PStr ''error''),
                  (''message'', PStr ''Value below minimum for field: amount''),
                  (''code'', PStr ''UNKNOWN_ERROR'')]), []) \<and>
   validate_input deploy_0_1000 deploy_token_schema = Inr () \<and>
   validate_input deploy_9_1 deploy_token_schema = Inr ()"
proof -
  have h1: "(''amount'', \<lparr>rtype = [T_int], required = True, rmin = Some 1, rmax = None\<rparr>) \<in> set transfer_schema"
    by (simp add: transfer_schema_def)
  have h2: "map_of transfer_abc_0 ''amount'' = Some (PInt 0)" by (simp add: transfer_abc_0_def)
  have h3: "num_of (PInt 0) = Some 0" by simp
  have v: "validate_input transfer_abc_0 transfer_schema =
     Inl (ValidationError ''Value below minimum for field: amount'')"
    by (simp add: validate_input_def transfer_abc_0_def transfer_schema_def below_min_def above_max_def)
  have j: "json_loads (stub_env lenient_pubkey payloads) in_transfer_abc_0 = Inr (PDict transfer_abc_0)"
    by (rule stub_loads_simps)
  have d0: "validate_input deploy_0_1000 deploy_token_schema = Inr ()"
    by (simp add: validate_input_def deploy_0_1000_def deploy_token_schema_def below_min_def above_max_def)
  have d9: "validate_input deploy_9_1 deploy_token_schema = Inr ()"
    by (simp add: validate_input_def deploy_9_1_def deploy_token_schema_def below_min_def above_max_def)
  from bounds_inclusive [OF h1 h2 h3, of "stub_env lenient_pubkey payloads" in_transfer_abc_0 ok_kit]
    h1 h2 h3 v j d0 d9
  show ?thesis by (simp add: error_result_validation)
qed

section \<open>The Meteora DLMM pool adapter\<close>

text \<open>
  C8. On a validated input the field \<open>activation_type\<close> is a string. \<open>Slot\<close> and
  \<open>Timestamp\<close> are mapped to the enum members of the same name and
  \<open>create_meteora_dlmm_pool\<close> is called once with that member and the other fields of
  the input; any other string gives an error result whose message lists the valid
  options, and the agent kit is not called.
\<close>

theorem meteora_activation_type:
  assumes "json_loads E input = Inr (PDict d)"
    and "validate_input d meteora_schema = Inr ()"
  shows "\<exists>s x1 x2 x3 x4 x5 x6 x7.
    map_of d ''activation_type'' = Some (PStr s) \<and>
    map_of d ''bin_step'' = Some x1 \<and> map_of d ''token_a_mint'' = Some x2 \<and>
    map_of d ''token_b_mint'' = Some x3 \<and> map_of d ''initial_price'' = Some x4 \<and>
    map_of d ''price_rounding_up'' = Some x5 \<and> map_of d ''fee_bps'' = Some x6 \<and>
    map_of d ''has_alpha_vault'' = Some x7 \<and>
    (\<forall>a. s = ''Slot'' \<and> a = Slot \<or> s = ''Timestamp'' \<and> a = Timestamp \<longrightarrow>
       snd (SolanaMeteoraDLMMTool_arun E K input) =
         [Call ''create_meteora_dlmm_pool'' []
            [(''bin_step'', x1), (''token_a_mint'', x2), (''token_b_mint'', x3),
             (''initial_price'', x4), (''price_rounding_up'', x5), (''fee_bps'', x6),
             (''activation_type'', PActivationType a), (''has_alpha_vault'', x7),
             (''activation_point'',
                case map_of d ''activation_point'' of None \<Rightarrow> PNone | Some p \<Rightarrow> p)]]) \<and>
    (s \<noteq> ''Slot'' \<and> s \<noteq> ''Timestamp'' \<longrightarrow>
       SolanaMeteoraDLMMTool_arun E K input =
         (Inr (PDict [(''status'', PStr ''error''),
                      (''message'', PStr (''Failed to process input: '' @ input @
                         ''. Error: Invalid activation_type. Valid options are: Slot, Timestamp.'')),
                      (''code'', PStr ''UNKNOWN_ERROR'')]), []))"
proof -
  note v = validated_required_typed [OF assms(2)]
  obtain a where a: "map_of d ''activation_type'' = Some a"
    and "type_of_py a \<in> Some ` set [T_str]"
    using v [of "''activation_type''"
        "\<lparr>rtype = [T_str], required = True, rmin = None, rmax = None\<rparr>"]
    by (auto simp: meteora_schema_def)
  then obtain s where s: "a = PStr s" using type_str by blast
  obtain x1 where x1: "map_of d ''bin_step'' = Some x1"
    using v [of "''bin_step''" "\<lparr>rtype = [T_int], required = True, rmin = None, rmax = None\<rparr>"]
    by (auto simp: meteora_schema_def)
  obtain x2 where x2: "map_of d ''token_a_mint'' = Some x2"
    using v [of "''token_a_mint''" "\<lparr>rtype = [T_str], required = True, rmin = None, rmax = None\<rparr>"]
    by (auto simp: meteora_schema_def)
  obtain x3 where x3: "map_of d ''token_b_mint'' = Some x3"
    using v [of "''token_b_mint''" "\<lparr>rtype = [T_str], required = True, rmin = None, rmax = None\<rparr>"]
    by (auto simp: meteora_schema_def)
  obtain x4 where x4: "map_of d ''initial_price'' = Some x4"
    using v [of "''initial_price''" "\<lparr>rtype = [T_float], required = True, rmin = None, rmax = None\<rparr>"]
    by (auto simp: meteora_schema_def)
  obtain x5 where x5: "map_of d ''price_rounding_up'' = Some x5"
    using v [of "''price_rounding_up''" "\<lparr>rtype = [T_bool], required = True, rmin = None, rmax = None\<rparr>"]
    by (auto simp: meteora_schema_def)
  obtain x6 where x6: "map_of d ''fee_bps'' = Some x6"
    using v [of "''fee_bps''" "\<lparr>rtype = [T_int], required = True, rmin = None, rmax = None\<rparr>"]
    by (auto simp: meteora_schema_def)
  obtain x7 where x7: "map_of d ''has_alpha_vault'' = Some x7"
    using v [of "''has_alpha_vault''" "\<lparr>rtype = [T_bool], required = True, rmin = None, rmax = None\<rparr>"]
    by (auto simp: meteora_schema_def)
  note facts = assms a s x1 x2 x3 x4 x5 x6 x7
  let ?kw = "\<lambda>a. [(''bin_step'', x1), (''token_a_mint'', x2), (''token_b_mint'', x3),
             (''initial_price'', x4), (''price_rounding_up'', x5), (''fee_bps'', x6),
             (''activation_type'', PActivationType a), (''has_alpha_vault'', x7),
             (''activation_point'',
                case map_of d ''activation_point'' of None \<Rightarrow> PNone | Some p \<Rightarrow> p)]"
  have bad: "s \<noteq> ''Slot'' \<and> s \<noteq> ''Timestamp'' \<longrightarrow>
       SolanaMeteoraDLMMTool_arun E K input =
         (Inr (PDict [(''status'', PStr ''error''),
                      (''message'', PStr (''Failed to process input: '' @ input @
                         ''. Error: Invalid activation_type. Valid options are: Slot, Timestamp.'')),
                      (''code'', PStr ''UNKNOWN_ERROR'')]), [])"
    using facts
    by (simp add: SolanaMeteoraDLMMTool_arun_def SolanaMeteoraDLMMTool_try_def try_except_def comp_simps
        validate_input_call_def raise_def meteora_error_result_def)
  have slot: "s = ''Slot'' \<Longrightarrow> snd (SolanaMeteoraDLMMTool_arun E K input) =
         [Call ''create_meteora_dlmm_pool'' [] (?kw Slot)]"
    using facts
    by (simp add: SolanaMeteoraDLMMTool_arun_def SolanaMeteoraDLMMTool_try_def try_except_def comp_simps
        validate_input_call_def ret_def split: sum.splits option.splits pyexc.splits)
  have ts: "s = ''Timestamp'' \<Longrightarrow> snd (SolanaMeteoraDLMMTool_arun E K input) =
         [Call ''create_meteora_dlmm_pool'' [] (?kw Timestamp)]"
    using facts
    by (simp add: SolanaMeteoraDLMMTool_arun_def SolanaMeteoraDLMMTool_try_def try_except_def comp_simps
        validate_input_call_def ret_def split: sum.splits option.splits pyexc.splits)
  have good: "\<forall>a. s = ''Slot'' \<and> a = Slot \<or> s = ''Timestamp'' \<and> a = Timestamp \<longrightarrow>
       snd (SolanaMeteoraDLMMTool_arun E K input) =
         [Call ''create_meteora_dlmm_pool'' [] (?kw a)]"
    using slot ts by blast
  from a s have a': "map_of d ''activation_type'' = Some (PStr s)" by simp
  show ?thesis
    apply (intro exI conjI)
              apply (rule a')
             apply (rule x1)
            apply (rule x2)
           apply (rule x3)
          apply (rule x4)
         apply (rule x5)
        apply (rule x6)
       apply (rule x7)
     apply (rule good)
    apply (rule bad)
    done
qed

lemma meteora_pool_valid: "validate_input (meteora_pool a) meteora_schema = Inr ()"
  by (simp add: validate_input_def meteora_pool_def meteora_schema_def below_min_def
      above_max_def)

theorem meteora_activation_type_witness:
  "json_loads (stub_env lenient_pubkey payloads) in_pool_slot = Inr (PDict (meteora_pool ''Slot'')) \<and>
   validate_input (meteora_pool ''Slot'') meteora_schema = Inr () \<and>
   snd (SolanaMeteoraDLMMTool_arun (stub_env lenient_pubkey payloads) ok_kit in_pool_slot) =
     [Call ''create_meteora_dlmm_pool'' []
        [(''bin_step'', PInt 5),
         (''token_a_mint'', PStr ''7S3d7xxFPgFhVde8XwDoQG9N7kF8Vo48ghAhoNxd34Zp''),
         (''token_b_mint'', PStr ''A1b1xxFPgFhVde8XwDoQG9N7kF8Vo48ghAhoNxd34Zp''),
         (''initial_price'', PFloat (123 / 100)),
         (''price_rounding_up'', PBool True),
         (''fee_bps'', PInt 300),
         (''activation_type'', PActivationType Slot),
         (''has_alpha_vault'', PBool False),
         (''activation_point'', PNone)]] \<and>
   json_loads (stub_env lenient_pubkey payloads) in_pool_delayed =
     Inr (PDict (meteora_pool ''Delayed'')) \<and>
   SolanaMeteoraDLMMTool_arun (stub_env lenient_pubkey payloads) ok_kit in_pool_delayed =
     (Inr (PDict [(''status'', PStr ''error''),
                  (''message'', PStr (''Failed to process input: '' @ in_pool_delayed @
                     ''. Error: Invalid activation_type. Valid options are: Slot, Timestamp.'')),
                  (''code'', PStr ''UNKNOWN_ERROR'')]), [])"
proof -
  let ?d = "meteora_pool ''Slot''"
  have h1: "json_loads (stub_env lenient_pubkey payloads) in_pool_slot = Inr (PDict ?d)"
    by (rule stub_loads_simps)
  have h2: "validate_input ?d meteora_schema = Inr ()"
    by (rule meteora_pool_valid)
  from meteora_activation_type [OF h1 h2, of ok_kit]
  obtain s x1 x2 x3 x4 x5 x6 x7 where
    m: "map_of ?d ''activation_type'' = Some (PStr s)"
      "map_of ?d ''bin_step'' = Some x1" "map_of ?d ''token_a_mint'' = Some x2"
      "map_of ?d ''token_b_mint'' = Some x3" "map_of ?d ''initial_price'' = Some x4"
      "map_of ?d ''price_rounding_up'' = Some x5" "map_of ?d ''fee_bps'' = Some x6"
      "map_of ?d ''has_alpha_vault'' = Some x7"
    and g: "\<forall>a. s = ''Slot'' \<and> a = Slot \<or> s = ''Timestamp'' \<and> a = Timestamp \<longrightarrow>
       snd (SolanaMeteoraDLMMTool_arun (stub_env lenient_pubkey payloads) ok_kit in_pool_slot) =
         [Call ''create_meteora_dlmm_pool'' []
            [(''bin_step'', x1), (''token_a_mint'', x2), (''token_b_mint'', x3),
             (''initial_price'', x4), (''price_rounding_up'', x5), (''fee_bps'', x6),
             (''activation_type'', PActivationType a), (''has_alpha_vault'', x7),
             (''activation_point'',
                case map_of ?d ''activation_point'' of None \<Rightarrow> PNone | Some p \<Rightarrow> p)]]"
    by (elim exE conjE) (rule that)
  from m have v: "s = ''Slot''" "x1 = PInt 5"
      "x2 = PStr ''7S3d7xxFPgFhVde8XwDoQG9N7kF8Vo48ghAhoNxd34Zp''"
      "x3 = PStr ''A1b1xxFPgFhVde8XwDoQG9N7kF8Vo48ghAhoNxd34Zp''"
      "x4 = PFloat (123 / 100)" "x5 = PBool True" "x6 = PInt 300" "x7 = PBool False"
    by (simp_all add: meteora_pool_def)
  have p: "map_of ?d ''activation_point'' = None" by (simp add: meteora_pool_def)
  from g v(1) have "snd (SolanaMeteoraDLMMTool_arun (stub_env lenient_pubkey payloads) ok_kit in_pool_slot) =
         [Call ''create_meteora_dlmm_pool'' []
            [(''bin_step'', x1), (''token_a_mint'', x2), (''token_b_mint'', x3),
             (''initial_price'', x4), (''price_rounding_up'', x5), (''fee_bps'', x6),
             (''activation_type'', PActivationType Slot), (''has_alpha_vault'', x7),
             (''activation_point'',
                case map_of ?d ''activation_point'' of None \<Rightarrow> PNone | Some p \<Rightarrow> p)]]"
    by blast
  with h1 h2 v p have slot_run:
    "json_loads (stub_env lenient_pubkey payloads) in_pool_slot = Inr (PDict ?d) \<and>
     validate_input ?d meteora_schema = Inr () \<and>
     snd (SolanaMeteoraDLMMTool_arun (stub_env lenient_pubkey payloads) ok_kit in_pool_slot) =
     [Call ''create_meteora_dlmm_pool'' []
        [(''bin_step'', PInt 5),
         (''token_a_mint'', PStr ''7S3d7xxFPgFhVde8XwDoQG9N7kF8Vo48ghAhoNxd34Zp''),
         (''token_b_mint'', PStr ''A1b1xxFPgFhVde8XwDoQG9N7kF8Vo48ghAhoNxd34Zp''),
         (''initial_price'', PFloat (123 / 100)),
         (''price_rounding_up'', PBool True),
         (''fee_bps'', PInt 300),
         (''activation_type'', PActivationType Slot),
         (''has_alpha_vault'', PBool False),
         (''activation_point'', PNone)]]"
    by simp
  let ?e = "meteora_pool ''Delayed''"
  have k1: "json_loads (stub_env lenient_pubkey payloads) in_pool_delayed = Inr (PDict ?e)"
    by (rule stub_loads_simps)
  have k2: "validate_input ?e meteora_schema = Inr ()"
    by (rule meteora_pool_valid)
  from meteora_activation_type [OF k1 k2, of ok_kit]
  obtain s' where
    m': "map_of ?e ''activation_type'' = Some (PStr s')"
    and b': "s' \<noteq> ''Slot'' \<and> s' \<noteq> ''Timestamp'' \<longrightarrow>
       SolanaMeteoraDLMMTool_arun (stub_env lenient_pubkey payloads) ok_kit in_pool_delayed =
         (Inr (PDict [(''status'', PStr ''error''),
                      (''message'', PStr (''Failed to process input: '' @ in_pool_delayed @
                         ''. Error: Invalid activation_type. Valid options are: Slot, Timestamp.'')),
                      (''code'', PStr ''UNKNOWN_ERROR'')]), [])"
    by (elim exE conjE) (rule that)
  from m' have "s' = ''Delayed''" by (simp add: meteora_pool_def)
  with b' have delayed_run:
    "SolanaMeteoraDLMMTool_arun (stub_env lenient_pubkey payloads) ok_kit in_pool_delayed =
         (Inr (PDict [(''status'', PStr ''error''),
                      (''message'', PStr (''Failed to process input: '' @ in_pool_delayed @
                         ''. Error: Invalid activation_type. Valid options are: Slot, Timestamp.'')),
                      (''code'', PStr ''UNKNOWN_ERROR'')]), [])"
    by simp
  from slot_run k1 delayed_run show ?thesis by (intro conjI) simp_all
qed

section \<open>The deploy-token adapter\<close>

lemma deploy_valid_decimals:
  assumes "validate_input d deploy_token_schema = Inr ()"
  shows "\<exists>dec. map_of d ''decimals'' = Some (PInt dec) \<and> 0 \<le> dec \<and> dec \<le> 9"
proof -
  let ?r = "\<lparr>rtype = [T_int], required = True, rmin = Some 0, rmax = Some 9\<rparr>"
  have mem: "(''decimals'', ?r) \<in> set deploy_token_schema"
    by (simp add: deploy_token_schema_def)
  from validated_required_typed [OF assms mem] obtain v where
    v: "map_of d ''decimals'' = Some v" and "type_of_py v \<in> Some ` set [T_int]"
    by auto
  then obtain dec where dec: "v = PInt dec" using type_int by blast
  from assms have "check_bounds d deploy_token_schema = Inr ()"
    by (simp add: validate_input_ok)
  from check_bounds_ok [OF this mem v] dec have "0 \<le> dec \<and> dec \<le> 9"
    by (simp add: below_min_def above_max_def)
  with v dec show ?thesis by simp
qed

text \<open>The run of the adapter on a validated mapping, by the answer of the agent kit.\<close>

lemma deploy_valid_run:
  assumes "json_loads E input = Inr (PDict d)"
    and "validate_input d deploy_token_schema = Inr ()"
    and "map_of d ''decimals'' = Some dec"
  shows "SolanaDeployTokenTool_arun E K input =
     (case K (Call ''deploy_token'' [dec] []) of
        Inl (Exc c m code) \<Rightarrow> Inr (error_result (Exc c m code))
      | Inl (BaseExc c) \<Rightarrow> Inl (BaseExc c)
      | Inr token_details \<Rightarrow>
          (case py_getitem E token_details ''mint'' of
             Inl e \<Rightarrow> Inr (error_result e)
           | Inr mint \<Rightarrow>
               Inr (PDict [(''status'', PStr ''success''),
                           (''message'', PStr ''Token deployed successfully''),
                           (''mintAddress'', mint),
                           (''decimals'', dec)])),
      [Call ''deploy_token'' [dec] []])"
proof -
  have g: "\<And>v. py_getitem E v ''mint'' = Inl (BaseExc c) \<Longrightarrow> False" for c
    by (erule py_getitem.elims) (auto split: option.splits)
  show ?thesis
    using assms g
    by (auto simp: SolanaDeployTokenTool_arun_def SolanaDeployTokenTool_try_def try_except_def comp_simps
        validate_input_call_def ret_def split: sum.splits pyexc.splits)
qed

text \<open>
  C10. On an input that passes validation, \<open>deploy_token\<close> is called once, with the
  value of \<open>decimals\<close> as its only argument. Another validated input with the same
  \<open>decimals\<close> gives the same call and the same result, whatever its \<open>initialSupply\<close>.
  When the agent kit returns a mapping with a key \<open>mint\<close>, the success result carries
  that value as \<open>mintAddress\<close> together with the decimals used.
\<close>

theorem deploy_token_ignores_initial_supply:
  assumes "json_loads E input = Inr (PDict d)"
    and "validate_input d deploy_token_schema = Inr ()"
  shows "\<exists>dec. map_of d ''decimals'' = Some (PInt dec) \<and> 0 \<le> dec \<and> dec \<le> 9 \<and>
    snd (SolanaDeployTokenTool_arun E K input) = [Call ''deploy_token'' [PInt dec] []] \<and>
    (\<forall>td mint. K (Call ''deploy_token'' [PInt dec] []) = Inr td \<and>
         py_getitem E td ''mint'' = Inr mint \<longrightarrow>
       fst (SolanaDeployTokenTool_arun E K input) =
         Inr (PDict [(''status'', PStr ''success''),
                     (''message'', PStr ''Token deployed successfully''),
                     (''mintAddress'', mint),
                     (''decimals'', PInt dec)])) \<and>
    (\<forall>input' d'. json_loads E input' = Inr (PDict d') \<and>
         validate_input d' deploy_token_schema = Inr () \<and>
         map_of d' ''decimals'' = map_of d ''decimals'' \<longrightarrow>
       SolanaDeployTokenTool_arun E K input' = SolanaDeployTokenTool_arun E K input)"
proof -
  from deploy_valid_decimals [OF assms(2)] obtain dec where
    dec: "map_of d ''decimals'' = Some (PInt dec)" and range: "0 \<le> dec" "dec \<le> 9"
    by blast
  note run = deploy_valid_run [OF assms dec, of K]
  have calls: "snd (SolanaDeployTokenTool_arun E K input) = [Call ''deploy_token'' [PInt dec] []]"
    by (simp add: run)
  have ok: "\<forall>td mint. K (Call ''deploy_token'' [PInt dec] []) = Inr td \<and>
         py_getitem E td ''mint'' = Inr mint \<longrightarrow>
       fst (SolanaDeployTokenTool_arun E K input) =
         Inr (PDict [(''status'', PStr ''success''),
                     (''message'', PStr ''Token deployed successfully''),
                     (''mintAddress'', mint),
                     (''decimals'', PInt dec)])"
    by (simp add: run)
  have same: "\<forall>input' d'. json_loads E input' = Inr (PDict d') \<and>
         validate_input d' deploy_token_schema = Inr () \<and>
         map_of d' ''decimals'' = map_of d ''decimals'' \<longrightarrow>
       SolanaDeployTokenTool_arun E K input' = SolanaDeployTokenTool_arun E K input"
  proof (intro allI impI)
    fix input' d'
    assume h: "json_loads E input' = Inr (PDict d') \<and>
         validate_input d' deploy_token_schema = Inr () \<and>
         map_of d' ''decimals'' = map_of d ''decimals''"
    then have "map_of d' ''decimals'' = Some (PInt dec)" using dec by simp
    with h have "SolanaDeployTokenTool_arun E K input' =
      (case K (Call ''deploy_token'' [PInt dec] []) of
        Inl (Exc c m code) \<Rightarrow> Inr (error_result (Exc c m code))
      | Inl (BaseExc c) \<Rightarrow> Inl (BaseExc c)
      | Inr token_details \<Rightarrow>
          (case py_getitem E token_details ''mint'' of
             Inl e \<Rightarrow> Inr (error_result e)
           | Inr mint \<Rightarrow>
               Inr (PDict [(''status'', PStr ''success''),
                           (''message'', PStr ''Token deployed successfully''),
                           (''mintAddress'', mint),
                           (''decimals'', PInt dec)])),
      [Call ''deploy_token'' [PInt dec] []])"
      using deploy_valid_run by blast
    with run show "SolanaDeployTokenTool_arun E K input' = SolanaDeployTokenTool_arun E K input"
      by simp
  qed
  show ?thesis
    apply (intro exI conjI)
        apply (rule dec)
       apply (rule range(1))
      apply (rule range(2))
     apply (rule calls)
     apply (rule ok)
    apply (rule same)
    done
qed

theorem deploy_token_ignores_initial_supply_witness:
  "json_loads (stub_env lenient_pubkey payloads) in_deploy_9_1 = Inr (PDict deploy_9_1) \<and>
   validate_input deploy_9_1 deploy_token_schema = Inr () \<and>
   SolanaDeployTokenTool_arun (stub_env lenient_pubkey payloads) ok_kit in_deploy_9_1 =
     (Inr (PDict [(''status'', PStr ''success''),
                  (''message'', PStr ''Token deployed successfully''),
                  (''mintAddress'', PStr ''M1''),
                  (''decimals'', PInt 9)]),
      [Call ''deploy_token'' [PInt 9] []])"
proof -
  let ?E = "stub_env lenient_pubkey payloads"
  have h1: "json_loads ?E in_deploy_9_1 = Inr (PDict deploy_9_1)"
    by (rule stub_loads_simps)
  have h2: "validate_input deploy_9_1 deploy_token_schema = Inr ()"
    by (simp add: validate_input_def deploy_9_1_def deploy_token_schema_def below_min_def
        above_max_def)
  from deploy_token_ignores_initial_supply [OF h1 h2, of ok_kit] obtain dec where
    d: "map_of deploy_9_1 ''decimals'' = Some (PInt dec)"
    and c: "snd (SolanaDeployTokenTool_arun ?E ok_kit in_deploy_9_1) =
              [Call ''deploy_token'' [PInt dec] []]"
    and r: "\<forall>td mint. ok_kit (Call ''deploy_token'' [PInt dec] []) = Inr td \<and>
         py_getitem ?E td ''mint'' = Inr mint \<longrightarrow>
       fst (SolanaDeployTokenTool_arun ?E ok_kit in_deploy_9_1) =
         Inr (PDict [(''status'', PStr ''success''),
                     (''message'', PStr ''Token deployed successfully''),
                     (''mintAddress'', mint),
                     (''decimals'', PInt dec)])"
    by (elim exE conjE) (rule that)
  from d have dec: "dec = 9" by (simp add: deploy_9_1_def)
  have "ok_kit (Call ''deploy_token'' [PInt dec] []) = Inr (PDict [(''mint'', PStr ''M1'')]) \<and>
        py_getitem ?E (PDict [(''mint'', PStr ''M1'')]) ''mint'' = Inr (PStr ''M1'')"
    by (simp add: ok_kit_def)
  with r have "fst (SolanaDeployTokenTool_arun ?E ok_kit in_deploy_9_1) =
         Inr (PDict [(''status'', PStr ''success''),
                     (''message'', PStr ''Token deployed successfully''),
                     (''mintAddress'', PStr ''M1''),
                     (''decimals'', PInt dec)])"
    by blast
  with c dec h1 h2 show ?thesis by (simp add: prod_eq_iff)
qed

section \<open>The transfer adapter\<close>

text \<open>The run of the adapter on a validated mapping that has no \<open>mint\<close>.\<close>

lemma transfer_run_no_mint:
  assumes "json_loads E input = Inr (PDict d)"
    and "validate_input d transfer_schema = Inr ()"
    and "map_of d ''mint'' = None"
    and "map_of d ''to'' = Some to" and "map_of d ''amount'' = Some amt"
  shows "SolanaTransferTool_arun E K input =
     (case Pubkey_from_string E to of
        Inl (Exc c m code) \<Rightarrow> (Inr (error_result (Exc c m code)), [])
      | Inl (BaseExc c) \<Rightarrow> (Inl (BaseExc c), [])
      | Inr k \<Rightarrow>
          (case K (Call ''transfer'' [k, amt, PNone] []) of
             Inl (Exc c m code) \<Rightarrow> Inr (error_result (Exc c m code))
           | Inl (BaseExc c) \<Rightarrow> Inl (BaseExc c)
           | Inr t \<Rightarrow>
               Inr (PDict [(''status'', PStr ''success''),
                           (''message'', PStr ''Transfer completed successfully''),
                           (''amount'', amt),
                           (''recipient'', to),
                           (''token'', PStr ''SOL''),
                           (''transaction'', t)]),
           [Call ''transfer'' [k, amt, PNone] []]))"
  using assms
  by (simp add: SolanaTransferTool_arun_def SolanaTransferTool_try_def transfer_mint_address_def try_except_def comp_simps
      validate_input_call_def ret_app split: sum.splits pyexc.splits)

lemma transfer_abc_5_valid: "validate_input transfer_abc_5 transfer_schema = Inr ()"
  by (simp add: validate_input_def transfer_abc_5_def transfer_schema_def below_min_def
      above_max_def)

text \<open>
  C3, as the code has it. On the input \<open>{"to": "ABC", "amount": 5}\<close> validation succeeds.
  When \<open>Pubkey.from_string\<close> accepts \<open>"ABC"\<close> and gives the key \<open>k\<close>, and the agent kit
  returns \<open>t\<close>, \<open>transfer\<close> is called exactly once, with \<open>k\<close>, 5 and \<open>None\<close>, and the
  result is a success that echoes amount 5, recipient \<open>"ABC"\<close> and token \<open>"SOL"\<close>. When
  \<open>Pubkey.from_string\<close> rejects \<open>"ABC"\<close>, the result is the error result of that
  exception and the agent kit is not called.
\<close>

theorem transfer_round_trip:
  assumes "json_loads E input = Inr (PDict transfer_abc_5)"
  shows "validate_input transfer_abc_5 transfer_schema = Inr () \<and>
    (\<forall>k t. Pubkey_from_string E (PStr ''ABC'') = Inr k \<and>
         K (Call ''transfer'' [k, PInt 5, PNone] []) = Inr t \<longrightarrow>
       SolanaTransferTool_arun E K input =
         (Inr (PDict [(''status'', PStr ''success''),
                      (''message'', PStr ''Transfer completed successfully''),
                      (''amount'', PInt 5),
                      (''recipient'', PStr ''ABC''),
                      (''token'', PStr ''SOL''),
                      (''transaction'', t)]),
          [Call ''transfer'' [k, PInt 5, PNone] []])) \<and>
    (\<forall>c m code. Pubkey_from_string E (PStr ''ABC'') = Inl (Exc c m code) \<longrightarrow>
       SolanaTransferTool_arun E K input = (Inr (error_result (Exc c m code)), []))"
proof -
  have m: "map_of transfer_abc_5 ''mint'' = None"
    "map_of transfer_abc_5 ''to'' = Some (PStr ''ABC'')"
    "map_of transfer_abc_5 ''amount'' = Some (PInt 5)"
    by (simp_all add: transfer_abc_5_def)
  note run = transfer_run_no_mint [OF assms transfer_abc_5_valid m, of K]
  show ?thesis
    by (simp add: transfer_abc_5_valid run)
qed

theorem transfer_round_trip_witness:
  "json_loads (stub_env lenient_pubkey payloads) in_transfer_abc_5 = Inr (PDict transfer_abc_5) \<and>
   SolanaTransferTool_arun (stub_env lenient_pubkey payloads) ok_kit in_transfer_abc_5 =
     (Inr (PDict [(''status'', PStr ''success''),
                  (''message'', PStr ''Transfer completed successfully''),
                  (''amount'', PInt 5),
                  (''recipient'', PStr ''ABC''),
                  (''token'', PStr ''SOL''),
                  (''transaction'', PDict [(''mint'', PStr ''M1'')])]),
      [Call ''transfer'' [PPubkey [65, 66, 67], PInt 5, PNone] []])"
proof -
  let ?E = "stub_env lenient_pubkey payloads"
  have h: "json_loads ?E in_transfer_abc_5 = Inr (PDict transfer_abc_5)"
    by (rule stub_loads_simps)
  have p: "Pubkey_from_string ?E (PStr ''ABC'') = Inr (PPubkey [65, 66, 67]) \<and>
      ok_kit (Call ''transfer'' [PPubkey [65, 66, 67], PInt 5, PNone] []) =
        Inr (PDict [(''mint'', PStr ''M1'')])"
    by (simp add: stub_env_def ok_kit_def)
  from transfer_round_trip [OF h, of ok_kit] p h show ?thesis by blast
qed

text \<open>
  The scenario of the spec fails where \<open>Pubkey.from_string\<close> does what solders does with a
  string that is not the base58 form of 32 bytes: the adapter returns an error result
  and \<open>transfer\<close> is not called.
\<close>

theorem transfer_round_trip_counterexample:
  "SolanaTransferTool_arun (stub_env strict_pubkey payloads) ok_kit in_transfer_abc_5 =
     (Inr (PDict [(''status'', PStr ''error''),
                  (''message'', PStr ''String is the wrong size''),
                  (''code'', PStr ''UNKNOWN_ERROR'')]), [])"
proof -
  let ?E = "stub_env strict_pubkey payloads"
  have h: "json_loads ?E in_transfer_abc_5 = Inr (PDict transfer_abc_5)"
    by (rule stub_loads_simps)
  have m: "map_of transfer_abc_5 ''mint'' = None"
    "map_of transfer_abc_5 ''to'' = Some (PStr ''ABC'')"
    "map_of transfer_abc_5 ''amount'' = Some (PInt 5)"
    by (simp_all add: transfer_abc_5_def)
  have p: "Pubkey_from_string ?E (PStr ''ABC'') =
      Inl (Exc ''ValueError'' ''String is the wrong size'' None)"
    by (simp add: stub_env_def)
  show ?thesis
    by (simp add: transfer_run_no_mint [OF h transfer_abc_5_valid m] p error_result_def)
qed

section \<open>Validation leaves the input as it is\<close>

text \<open>The runs of the transfer adapter on a validated mapping that has \<open>mint\<close>.\<close>

lemma transfer_run_mint:
  assumes "json_loads E input = Inr (PDict d)"
    and "validate_input d transfer_schema = Inr ()"
    and "map_of d ''mint'' = Some mt" and "py_truthy mt"
    and "map_of d ''to'' = Some to" and "map_of d ''amount'' = Some amt"
    and "Pubkey_from_string E to = Inr k" and "Pubkey_from_string E mt = Inr mk"
    and "K (Call ''transfer'' [k, amt, mk] []) = Inr t"
  shows "SolanaTransferTool_arun E K input =
     (Inr (PDict [(''status'', PStr ''success''),
                  (''message'', PStr ''Transfer completed successfully''),
                  (''amount'', amt),
                  (''recipient'', to),
                  (''token'', mt),
                  (''transaction'', t)]),
      [Call ''transfer'' [k, amt, mk] []])"
  using assms
  by (simp add: SolanaTransferTool_arun_def SolanaTransferTool_try_def transfer_mint_address_def
      try_except_def comp_simps validate_input_call_def ret_app)

lemma transfer_run_falsy_mint:
  assumes "json_loads E input = Inr (PDict d)"
    and "validate_input d transfer_schema = Inr ()"
    and "map_of d ''mint'' = Some mt" and "\<not> py_truthy mt"
    and "map_of d ''to'' = Some to" and "map_of d ''amount'' = Some amt"
    and "Pubkey_from_string E to = Inr k"
    and "K (Call ''transfer'' [k, amt, mt] []) = Inr t"
  shows "SolanaTransferTool_arun E K input =
     (Inr (PDict [(''status'', PStr ''success''),
                  (''message'', PStr ''Transfer completed successfully''),
                  (''amount'', amt),
                  (''recipient'', to),
                  (''token'', mt),
                  (''transaction'', t)]),
      [Call ''transfer'' [k, amt, mt] []])"
  using assms
  by (simp add: SolanaTransferTool_arun_def SolanaTransferTool_try_def transfer_mint_address_def
      try_except_def comp_simps validate_input_call_def ret_app)

lemma transfer_run_default_mint:
  assumes "json_loads E input = Inr (PDict d)"
    and "validate_input d transfer_schema = Inr ()"
    and "map_of d ''mint'' = None"
    and "map_of d ''to'' = Some to" and "map_of d ''amount'' = Some amt"
    and "Pubkey_from_string E to = Inr k"
    and "K (Call ''transfer'' [k, amt, PNone] []) = Inr t"
  shows "SolanaTransferTool_arun E K input =
     (Inr (PDict [(''status'', PStr ''success''),
                  (''message'', PStr ''Transfer completed successfully''),
                  (''amount'', amt),
                  (''recipient'', to),
                  (''token'', PStr ''SOL''),
                  (''transaction'', t)]),
      [Call ''transfer'' [k, amt, PNone] []])"
  using assms
  by (simp add: SolanaTransferTool_arun_def SolanaTransferTool_try_def transfer_mint_address_def
      try_except_def comp_simps validate_input_call_def ret_app)

text \<open>The block of an adapter that validates goes on with the mapping as it was parsed.\<close>

lemma adapter_continues:
  assumes "a \<in> set adapters" and "adapter_schema a = Some S"
  shows "\<exists>F. (\<forall>E K input. entry_body (adapter_entry a) E K input =
          bnd (lift (json_loads E input)) (\<lambda>parsed.
          bnd (lift (validate_stmt E parsed S)) (F E K input))) \<and>
       (\<forall>E K input d. json_loads E input = Inr (PDict d) \<and> validate_input d S = Inr () \<longrightarrow>
          entry_body (adapter_entry a) E K input = F E K input (PDict d))"
proof -
  from entry_validates_body(1) [OF adapter_validates [OF assms]]
  obtain F where F: "\<And>E K input. entry_body (adapter_entry a) E K input =
          bnd (lift (json_loads E input)) (\<lambda>parsed.
          bnd (lift (validate_stmt E parsed S)) (F E K input))"
    unfolding validates_def by blast
  have "\<forall>E K input d. json_loads E input = Inr (PDict d) \<and> validate_input d S = Inr () \<longrightarrow>
          entry_body (adapter_entry a) E K input = F E K input (PDict d)"
    by (simp add: F validate_input_call_def bnd_lift_Inr_fun)
  with F show ?thesis by blast
qed

text \<open>
  C9, as the code and the spec have it. For every adapter that passes a schema to
  \<open>validate_input\<close> and every input that \<open>json.loads\<close> parses to a mapping: the call of
  \<open>validate_input\<close> leaves the mapping as it was, whether it raises or not; when it
  raises, the adapter returns what its handler makes of the exception and nothing else,
  without a call on the agent kit, so that no default is applied; when it returns, the
  statements that follow run on that same mapping. In the transfer adapter, on a
  validated mapping, the defaults of the optional field \<open>mint\<close> (\<open>None\<close> for the agent
  kit, \<open>"SOL"\<close> for the result) are applied when \<open>mint\<close> is absent; when \<open>mint\<close> is
  present its value is what the result echoes, and the agent kit receives the key
  parsed from it or, for an empty string, the empty string itself; \<open>to\<close> and \<open>amount\<close>
  are passed on and echoed as they are in the mapping.
\<close>

theorem validation_leaves_input_unchanged:
  assumes "a \<in> set adapters" and "adapter_schema a = Some S"
    and "json_loads E input = Inr (PDict d)"
  shows "validate_input_call d S = (validate_input d S, d) \<and>
    (\<forall>e. validate_input d S = Inl e \<longrightarrow>
       adapter_call a E K (Some input) = (entry_handler (adapter_entry a) E input e, [])) \<and>
    (\<exists>F. (\<forall>E K input. entry_body (adapter_entry a) E K input =
             bnd (lift (json_loads E input)) (\<lambda>parsed.
             bnd (lift (validate_stmt E parsed S)) (F E K input))) \<and>
          (validate_input d S = Inr () \<longrightarrow>
             entry_body (adapter_entry a) E K input = F E K input (PDict d))) \<and>
    (\<forall>to amt k t. validate_input d transfer_schema = Inr () \<and> map_of d ''mint'' = None \<and>
         map_of d ''to'' = Some to \<and> map_of d ''amount'' = Some amt \<and>
         Pubkey_from_string E to = Inr k \<and>
         K (Call ''transfer'' [k, amt, PNone] []) = Inr t \<longrightarrow>
       SolanaTransferTool_arun E K input =
         (Inr (PDict [(''status'', PStr ''success''),
                      (''message'', PStr ''Transfer completed successfully''),
                      (''amount'', amt),
                      (''recipient'', to),
                      (''token'', PStr ''SOL''),
                      (''transaction'', t)]),
          [Call ''transfer'' [k, amt, PNone] []])) \<and>
    (\<forall>to amt mt k mk t. validate_input d transfer_schema = Inr () \<and>
         map_of d ''mint'' = Some mt \<and> py_truthy mt \<and>
         map_of d ''to'' = Some to \<and> map_of d ''amount'' = Some amt \<and>
         Pubkey_from_string E to = Inr k \<and> Pubkey_from_string E mt = Inr mk \<and>
         K (Call ''transfer'' [k, amt, mk] []) = Inr t \<longrightarrow>
       SolanaTransferTool_arun E K input =
         (Inr (PDict [(''status'', PStr ''success''),
                      (''message'', PStr ''Transfer completed successfully''),
                      (''amount'', amt),
                      (''recipient'', to),
                      (''token'', mt),
                      (''transaction'', t)]),
          [Call ''transfer'' [k, amt, mk] []])) \<and>
    (\<forall>to amt mt k t. validate_input d transfer_schema = Inr () \<and>
         map_of d ''mint'' = Some mt \<and> \<not> py_truthy mt \<and>
         map_of d ''to'' = Some to \<and> map_of d ''amount'' = Some amt \<and>
         Pubkey_from_string E to = Inr k \<and>
         K (Call ''transfer'' [k, amt, mt] []) = Inr t \<longrightarrow>
       SolanaTransferTool_arun E K input =
         (Inr (PDict [(''status'', PStr ''success''),
                      (''message'', PStr ''Transfer completed successfully''),
                      (''amount'', amt),
                      (''recipient'', to),
                      (''token'', mt),
                      (''transaction'', t)]),
          [Call ''transfer'' [k, amt, mt] []]))"
proof -
  have a: "validate_input_call d S = (validate_input d S, d)"
    by (simp add: validate_input_call_def)
  have b: "\<forall>e. validate_input d S = Inl e \<longrightarrow>
       adapter_call a E K (Some input) = (entry_handler (adapter_entry a) E input e, [])"
    using adapter_validation_fails [OF assms] by blast
  from adapter_continues [OF assms(1,2)] assms(3)
  have c: "\<exists>F. (\<forall>E K input. entry_body (adapter_entry a) E K input =
             bnd (lift (json_loads E input)) (\<lambda>parsed.
             bnd (lift (validate_stmt E parsed S)) (F E K input))) \<and>
          (validate_input d S = Inr () \<longrightarrow>
             entry_body (adapter_entry a) E K input = F E K input (PDict d))"
    by blast
  have d1: "\<forall>to amt k t. validate_input d transfer_schema = Inr () \<and> map_of d ''mint'' = None \<and>
         map_of d ''to'' = Some to \<and> map_of d ''amount'' = Some amt \<and>
         Pubkey_from_string E to = Inr k \<and>
         K (Call ''transfer'' [k, amt, PNone] []) = Inr t \<longrightarrow>
       SolanaTransferTool_arun E K input =
         (Inr (PDict [(''status'', PStr ''success''),
                      (''message'', PStr ''Transfer completed successfully''),
                      (''amount'', amt),
                      (''recipient'', to),
                      (''token'', PStr ''SOL''),
                      (''transaction'', t)]),
          [Call ''transfer'' [k, amt, PNone] []])"
    using transfer_run_default_mint [OF assms(3)] by blast
  have d2: "\<forall>to amt mt k mk t. validate_input d transfer_schema = Inr () \<and>
         map_of d ''mint'' = Some mt \<and> py_truthy mt \<and>
         map_of d ''to'' = Some to \<and> map_of d ''amount'' = Some amt \<and>
         Pubkey_from_string E to = Inr k \<and> Pubkey_from_string E mt = Inr mk \<and>
         K (Call ''transfer'' [k, amt, mk] []) = Inr t \<longrightarrow>
       SolanaTransferTool_arun E K input =
         (Inr (PDict [(''status'', PStr ''success''),
                      (''message'', PStr ''Transfer completed successfully''),
                      (''amount'', amt),
                      (''recipient'', to),
                      (''token'', mt),
                      (''transaction'', t)]),
          [Call ''transfer'' [k, amt, mk] []])"
    using transfer_run_mint [OF assms(3)] by blast
  have d3: "\<forall>to amt mt k t. validate_input d transfer_schema = Inr () \<and>
         map_of d ''mint'' = Some mt \<and> \<not> py_truthy mt \<and>
         map_of d ''to'' = Some to \<and> map_of d ''amount'' = Some amt \<and>
         Pubkey_from_string E to = Inr k \<and>
         K (Call ''transfer'' [k, amt, mt] []) = Inr t \<longrightarrow>
       SolanaTransferTool_arun E K input =
         (Inr (PDict [(''status'', PStr ''success''),
                      (''message'', PStr ''Transfer completed successfully''),
                      (''amount'', amt),
                      (''recipient'', to),
                      (''token'', mt),
                      (''transaction'', t)]),
          [Call ''transfer'' [k, amt, mt] []])"
    using transfer_run_falsy_mint [OF assms(3)] by blast
  from a b c d1 d2 d3 show ?thesis by (intro conjI)
qed

lemma transfer_abc_5_xyz_valid: "validate_input transfer_abc_5_xyz transfer_schema = Inr ()"
  by (simp add: validate_input_def transfer_abc_5_xyz_def transfer_schema_def below_min_def
      above_max_def)

theorem validation_leaves_input_unchanged_witness:
  "adapter SolanaTransferTool (Some transfer_schema)
     (Arun SolanaTransferTool_try (\<lambda>input. error_result)) Status_message_code
     \<in> set adapters \<and>
   json_loads (stub_env lenient_pubkey more_payloads) in_transfer_abc_5_xyz =
     Inr (PDict transfer_abc_5_xyz) \<and>
   validate_input_call transfer_abc_5_xyz transfer_schema = (Inr (), transfer_abc_5_xyz) \<and>
   SolanaTransferTool_arun (stub_env lenient_pubkey more_payloads) ok_kit in_transfer_abc_5_xyz =
     (Inr (PDict [(''status'', PStr ''success''),
                  (''message'', PStr ''Transfer completed successfully''),
                  (''amount'', PInt 5),
                  (''recipient'', PStr ''ABC''),
                  (''token'', PStr ''XYZ''),
                  (''transaction'', PDict [(''mint'', PStr ''M1'')])]),
      [Call ''transfer'' [PPubkey [65, 66, 67], PInt 5, PPubkey [88, 89, 90]] []])"
proof -
  let ?E = "stub_env lenient_pubkey more_payloads"
  let ?a = "adapter SolanaTransferTool (Some transfer_schema)
     (Arun SolanaTransferTool_try (\<lambda>input. error_result)) Status_message_code"
  have r: "?a \<in> set adapters" by (simp add: adapters_def)
  have s: "adapter_schema ?a = Some transfer_schema" by (simp add: adapter_sel)
  have h: "json_loads ?E in_transfer_abc_5_xyz = Inr (PDict transfer_abc_5_xyz)"
    by (rule more_loads_simps)
  have m: "map_of transfer_abc_5_xyz ''mint'' = Some (PStr ''XYZ'')"
    "map_of transfer_abc_5_xyz ''to'' = Some (PStr ''ABC'')"
    "map_of transfer_abc_5_xyz ''amount'' = Some (PInt 5)"
    by (simp_all add: transfer_abc_5_xyz_def)
  have p: "Pubkey_from_string ?E (PStr ''ABC'') = Inr (PPubkey [65, 66, 67])"
    "Pubkey_from_string ?E (PStr ''XYZ'') = Inr (PPubkey [88, 89, 90])"
    by (simp_all add: stub_env_def)
  have k: "ok_kit (Call ''transfer'' [PPubkey [65, 66, 67], PInt 5, PPubkey [88, 89, 90]] []) =
      Inr (PDict [(''mint'', PStr ''M1'')])"
    by (simp add: ok_kit_def)
  have t: "py_truthy (PStr ''XYZ'')" by simp
  note w = validation_leaves_input_unchanged [OF r s h, of ok_kit]
  from w have f: "validate_input_call transfer_abc_5_xyz transfer_schema =
      (validate_input transfer_abc_5_xyz transfer_schema, transfer_abc_5_xyz)"
    by (rule conjunct1)
  from w have "\<forall>to amt mt k mk t. validate_input transfer_abc_5_xyz transfer_schema = Inr () \<and>
         map_of transfer_abc_5_xyz ''mint'' = Some mt \<and> py_truthy mt \<and>
         map_of transfer_abc_5_xyz ''to'' = Some to \<and>
         map_of transfer_abc_5_xyz ''amount'' = Some amt \<and>
         Pubkey_from_string ?E to = Inr k \<and> Pubkey_from_string ?E mt = Inr mk \<and>
         ok_kit (Call ''transfer'' [k, amt, mk] []) = Inr t \<longrightarrow>
       SolanaTransferTool_arun ?E ok_kit in_transfer_abc_5_xyz =
         (Inr (PDict [(''status'', PStr ''success''),
                      (''message'', PStr ''Transfer completed successfully''),
                      (''amount'', amt),
                      (''recipient'', to),
                      (''token'', mt),
                      (''transaction'', t)]),
          [Call ''transfer'' [k, amt, mk] []])"
    by (elim conjE)
  from this [rule_format, OF conjI [OF transfer_abc_5_xyz_valid conjI [OF m(1) conjI [OF t
    conjI [OF m(2) conjI [OF m(3) conjI [OF p(1) conjI [OF p(2) k]]]]]]]]
  have run: "SolanaTransferTool_arun ?E ok_kit in_transfer_abc_5_xyz =
     (Inr (PDict [(''status'', PStr ''success''),
                  (''message'', PStr ''Transfer completed successfully''),
                  (''amount'', PInt 5),
                  (''recipient'', PStr ''ABC''),
                  (''token'', PStr ''XYZ''),
                  (''transaction'', PDict [(''mint'', PStr ''M1'')])]),
      [Call ''transfer'' [PPubkey [65, 66, 67], PInt 5, PPubkey [88, 89, 90]] []])" .
  from f have f': "validate_input_call transfer_abc_5_xyz transfer_schema =
      (Inr (), transfer_abc_5_xyz)"
    by (simp add: transfer_abc_5_xyz_valid)
  from r h f' run show ?thesis by (intro conjI)
qed

text \<open>
  The sentence of the spec fails for the adapters that have no schema: the Elfa AI
  smart-mentions adapter applies the defaults of \<open>limit\<close> and \<open>offset\<close> to the empty
  mapping and calls the agent kit, and no validation has taken place.
\<close>

theorem defaults_without_validation_counterexample:
  "adapter ElfaAiGetSmartMentionsTool None
     (Arun ElfaAiGetSmartMentionsTool_try ElfaAiGetSmartMentionsTool_except) No_error_status
     \<in> set adapters \<and>
   adapter_call
     (adapter ElfaAiGetSmartMentionsTool None
        (Arun ElfaAiGetSmartMentionsTool_try ElfaAiGetSmartMentionsTool_except) No_error_status)
     (stub_env lenient_pubkey more_payloads) ok_kit (Some in_empty_object) =
     (Inr (PDict [(''mentions_data'', PDict [(''mint'', PStr ''M1'')]),
                  (''message'', PStr ''Success'')]),
      [Call ''get_smart_mentions'' [] [(''limit'', PInt 100), (''offset'', PInt 0)]])"
proof -
  have r: "adapter ElfaAiGetSmartMentionsTool None
     (Arun ElfaAiGetSmartMentionsTool_try ElfaAiGetSmartMentionsTool_except) No_error_status
     \<in> set adapters"
    by (simp add: adapters_def)
  have c: "adapter_call
     (adapter ElfaAiGetSmartMentionsTool None
        (Arun ElfaAiGetSmartMentionsTool_try ElfaAiGetSmartMentionsTool_except) No_error_status)
     (stub_env lenient_pubkey more_payloads) ok_kit (Some in_empty_object) =
     (Inr (PDict [(''mentions_data'', PDict [(''mint'', PStr ''M1'')]),
                  (''message'', PStr ''Success'')]),
      [Call ''get_smart_mentions'' [] [(''limit'', PInt 100), (''offset'', PInt 0)]])"
    by (simp add: adapter_call_def adapter_sel ElfaAiGetSmartMentionsTool_try_def
        try_except_def comp_simps more_loads_simps ok_kit_def ret_app)
  from r c show ?thesis by (rule conjI)
qed

section \<open>Validation and the call of the delegate\<close>

text \<open>
  C1, as the code has it. Every call of the asynchronous method of an adapter calls the
  agent kit at most once. For every adapter whose asynchronous method passes a schema to
  \<open>validate_input\<close> (105 methods \<open>_arun\<close> and the three methods \<open>call\<close>), the agent
  kit is called only if the call has an input string that \<open>json.loads\<close> parsed and
  \<open>validate_input\<close> accepted for the schema of the adapter, and it is not called when
  parsing or validation fails.
\<close>

theorem delegate_only_after_validation:
  assumes "a \<in> set adapters"
  shows "length (snd (adapter_call a E K arg)) \<le> 1 \<and>
     (\<forall>S. adapter_schema a = Some S \<longrightarrow>
        (snd (adapter_call a E K arg) \<noteq> [] \<longrightarrow>
           (\<exists>input. arg = Some input \<and> validated E S input)) \<and>
        (\<forall>input. arg = Some input \<and> \<not> validated E S input \<longrightarrow>
           snd (adapter_call a E K arg) = []))"
proof -
  have c: "snd (adapter_call a E K arg) =
      (if entry_accepts (adapter_entry a) arg
       then snd (entry_body (adapter_entry a) E K (input_of arg) []) else [])"
    by (simp add: adapter_call_def entry_call_calls)
  have once: "length (snd (adapter_call a E K arg)) \<le> 1"
    using adapter_calls_once [OF assms, of E K "input_of arg"] by (simp add: c)
  have val: "\<forall>S. adapter_schema a = Some S \<longrightarrow>
        (snd (adapter_call a E K arg) \<noteq> [] \<longrightarrow>
           (\<exists>input. arg = Some input \<and> validated E S input)) \<and>
        (\<forall>input. arg = Some input \<and> \<not> validated E S input \<longrightarrow>
           snd (adapter_call a E K arg) = [])"
  proof (intro allI impI)
    fix S
    assume s: "adapter_schema a = Some S"
    note b = entry_validates_body [OF adapter_validates [OF assms s]]
    have one: "snd (adapter_call a E K arg) \<noteq> [] \<longrightarrow>
        (\<exists>input. arg = Some input \<and> validated E S input)"
    proof
      assume n: "snd (adapter_call a E K arg) \<noteq> []"
      with c b(2) [of arg] obtain input where i: "arg = Some input" by (cases arg) auto
      with c n have "snd (entry_body (adapter_entry a) E K input []) \<noteq> []"
        by (simp split: if_splits)
      from validates_calls [OF b(1) this] i
      show "\<exists>input. arg = Some input \<and> validated E S input" by blast
    qed
    then have two: "\<forall>input. arg = Some input \<and> \<not> validated E S input \<longrightarrow>
        snd (adapter_call a E K arg) = []"
      by blast
    from one two
    show "(snd (adapter_call a E K arg) \<noteq> [] \<longrightarrow>
           (\<exists>input. arg = Some input \<and> validated E S input)) \<and>
        (\<forall>input. arg = Some input \<and> \<not> validated E S input \<longrightarrow>
           snd (adapter_call a E K arg) = [])"
      by (rule conjI)
  qed
  from once val show ?thesis by (rule conjI)
qed

theorem delegate_only_after_validation_witness:
  "adapter SolanaTransferTool (Some transfer_schema)
     (Arun SolanaTransferTool_try (\<lambda>input. error_result)) Status_message_code
     \<in> set adapters \<and>
   snd (SolanaTransferTool_arun (stub_env lenient_pubkey payloads) ok_kit in_transfer_abc_5) =
     [Call ''transfer'' [PPubkey [65, 66, 67], PInt 5, PNone] []] \<and>
   validated (stub_env lenient_pubkey payloads) transfer_schema in_transfer_abc_5"
proof -
  let ?E = "stub_env lenient_pubkey payloads"
  let ?a = "adapter SolanaTransferTool (Some transfer_schema)
     (Arun SolanaTransferTool_try (\<lambda>input. error_result)) Status_message_code"
  have r: "?a \<in> set adapters" by (simp add: adapters_def)
  have s: "adapter_schema ?a = Some transfer_schema" by (simp add: adapter_sel)
  have h: "json_loads ?E in_transfer_abc_5 = Inr (PDict transfer_abc_5)"
    by (rule stub_loads_simps)
  have m: "map_of transfer_abc_5 ''mint'' = None"
    "map_of transfer_abc_5 ''to'' = Some (PStr ''ABC'')"
    "map_of transfer_abc_5 ''amount'' = Some (PInt 5)"
    by (simp_all add: transfer_abc_5_def)
  have p: "Pubkey_from_string ?E (PStr ''ABC'') = Inr (PPubkey [65, 66, 67])"
    by (simp add: stub_env_def)
  have c: "snd (SolanaTransferTool_arun ?E ok_kit in_transfer_abc_5) =
     [Call ''transfer'' [PPubkey [65, 66, 67], PInt 5, PNone] []]"
    by (simp add: transfer_run_no_mint [OF h transfer_abc_5_valid m] p ok_kit_def)
  from delegate_only_after_validation [OF r, of ?E ok_kit "Some in_transfer_abc_5"] s c
  have v: "validated ?E transfer_schema in_transfer_abc_5"
    by (simp add: transfer_row_call)
  from r c v show ?thesis by (intro conjI)
qed

text \<open>
  The sentence of the spec fails in two ways. From validation to the call: the input below
  passes validation, and the Meteora adapter makes no call on the agent kit, because
  \<open>Delayed\<close> is not one of the two activation types. And for the adapters that have no
  schema, such as the stake adapter, which the spec cites: the agent kit is called and
  no schema has been checked.
\<close>

theorem delegate_iff_validation_counterexample:
  "validated (stub_env lenient_pubkey payloads) meteora_schema in_pool_delayed \<and>
   snd (SolanaMeteoraDLMMTool_arun (stub_env lenient_pubkey payloads) ok_kit in_pool_delayed)
     = [] \<and>
   adapter SolanaStakeTool None (Arun SolanaStakeTool_try (\<lambda>input. error_result))
     Status_message_code \<in> set adapters \<and>
   snd (SolanaStakeTool_arun (stub_env lenient_pubkey payloads) ok_kit ''5'') =
     [Call ''stake'' [PInt 5] []]"
proof -
  let ?E = "stub_env lenient_pubkey payloads"
  have h: "json_loads ?E in_pool_delayed = Inr (PDict (meteora_pool ''Delayed''))"
    by (rule stub_loads_simps)
  have v: "validated ?E meteora_schema in_pool_delayed"
    by (simp add: validated_def h validate_input_call_def meteora_pool_valid)
  have a: "map_of (meteora_pool ''Delayed'') ''activation_type'' = Some (PStr ''Delayed'')"
    by (simp add: meteora_pool_def)
  have n: "snd (SolanaMeteoraDLMMTool_arun ?E ok_kit in_pool_delayed) = []"
    by (simp add: SolanaMeteoraDLMMTool_arun_def SolanaMeteoraDLMMTool_try_def try_except_calls
        snd_bnd_lift snd_bnd_raise h validate_input_call_def meteora_pool_valid a)
  have r: "adapter SolanaStakeTool None (Arun SolanaStakeTool_try (\<lambda>input. error_result))
     Status_message_code \<in> set adapters"
    by (simp add: adapters_def)
  have i: "int_of_str ?E ''5'' = Inr 5" by (simp add: stub_env_def)
  have s: "snd (SolanaStakeTool_arun ?E ok_kit ''5'') = [Call ''stake'' [PInt 5] []]"
    by (simp add: SolanaStakeTool_arun_def SolanaStakeTool_try_def try_except_calls
        snd_bnd_lift snd_bnd_await i ok_kit_def ret_def)
  from v n r s show ?thesis by (intro conjI)
qed

text \<open>
  \<open>OpenBookCreateMarketTool\<close> writes a schema and does not pass it to
  \<open>validate_input\<close>, alone among the classes of the module: its row of the table has no
  schema, and the agent kit is called on an input that the schema written in the class
  rejects, with the defaults of the two optional fields.
\<close>

lemma openbook_calls_unvalidated:
  "adapter OpenBookCreateMarketTool None
     (Arun OpenBookCreateMarketTool_try OpenBookCreateMarketTool_except) No_error_status
     \<in> set adapters"
  "validate_input openbook_ints OpenBookCreateMarketTool_schema =
     Inl (ValidationError ''Invalid type for field: base_mint'')"
  "snd (adapter_call
     (adapter OpenBookCreateMarketTool None
        (Arun OpenBookCreateMarketTool_try OpenBookCreateMarketTool_except) No_error_status)
     (stub_env lenient_pubkey more_payloads) ok_kit (Some in_openbook_ints)) =
     [Call ''create_openbook_market'' []
        [(''base_mint'', PInt 1), (''quote_mint'', PInt 2), (''lot_size'', PInt 1),
         (''tick_size'', PFloat (5764607523034235 / 576460752303423488))]]"
proof -
  show "adapter OpenBookCreateMarketTool None
     (Arun OpenBookCreateMarketTool_try OpenBookCreateMarketTool_except) No_error_status
     \<in> set adapters"
    by (simp add: adapters_def)
  show "validate_input openbook_ints OpenBookCreateMarketTool_schema =
     Inl (ValidationError ''Invalid type for field: base_mint'')"
    by (simp add: validate_input_def OpenBookCreateMarketTool_schema_def openbook_ints_def)
  have m: "map_of openbook_ints ''base_mint'' = Some (PInt 1)"
    "map_of openbook_ints ''quote_mint'' = Some (PInt 2)"
    "map_of openbook_ints ''lot_size'' = None"
    "map_of openbook_ints ''tick_size'' = None"
    by (simp_all add: openbook_ints_def)
  show "snd (adapter_call
     (adapter OpenBookCreateMarketTool None
        (Arun OpenBookCreateMarketTool_try OpenBookCreateMarketTool_except) No_error_status)
     (stub_env lenient_pubkey more_payloads) ok_kit (Some in_openbook_ints)) =
     [Call ''create_openbook_market'' []
        [(''base_mint'', PInt 1), (''quote_mint'', PInt 2), (''lot_size'', PInt 1),
         (''tick_size'', PFloat (5764607523034235 / 576460752303423488))]]"
    by (simp add: adapter_call_def adapter_sel try_except_calls OpenBookCreateMarketTool_try_def
        snd_bnd_lift snd_bnd_await more_loads_simps m ok_kit_def ret_def)
qed

section \<open>Exceptions and error results\<close>




text \<open>The kinds of the handlers and the parameters of \<open>_arun\<close>, counted over the table.\<close>

lemma adapters_count:
  "length adapters = 164"
  "length (filter (\<lambda>a. is_arun (adapter_entry a)) adapters) = 161"
  "length (filter (\<lambda>a. is_arun (adapter_entry a) \<and> adapter_error a = Status_message_code)
     adapters) = 18"
  "length (filter (\<lambda>a. is_arun (adapter_entry a) \<and> adapter_error a = Status_message)
     adapters) = 23"
  "length (filter (\<lambda>a. is_arun (adapter_entry a) \<and> adapter_error a = No_error_status)
     adapters) = 120"
  "length (filter (\<lambda>a. is_arun (adapter_entry a) \<and> entry_accepts (adapter_entry a) None)
     adapters) = 20"
  "length (filter (\<lambda>a. adapter_schema a \<noteq> None) adapters) = 108"
  by (simp_all add: adapters_def adapter_sel)

text \<open>
  A call of \<open>_arun\<close> with the input string on one of the 20 classes that declare
  \<open>_arun(self)\<close> ends in the \<open>TypeError\<close> of the interpreter before the \<open>try\<close>
  statement is entered.
\<close>

lemma arun_with_input_arity:
  "adapter_call
     (adapter SolanaFaucetTool None
        (Arun_no_input SolanaFaucetTool_try SolanaFaucetTool_except) Status_message_code)
     E K (Some input) = (Inl (arity_error E ''SolanaFaucetTool'' ''_arun''), [])"
  by (simp add: adapter_call_def adapter_sel SolanaFaucetTool_def decl_def raise_def)



section \<open>The synchronous entry point\<close>

lemmas class_defs =
  SolanaBalanceTool_def SolanaTransferTool_def SolanaDeployTokenTool_def SolanaTradeTool_def
  SolanaFaucetTool_def SolanaStakeTool_def SolanaGetWalletAddressTool_def
  SolanaCreateImageTool_def SolanaTPSCalculatorTool_def SolanaPumpFunTokenTool_def
  SolanaFetchPriceTool_def SolanaTokenDataTool_def SolanaTokenDataByTickerTool_def
  SolanaMeteoraDLMMTool_def SolanaRaydiumBuyTool_def SolanaRaydiumSellTool_def
  SolanaBurnAndCloseTool_def SolanaBurnAndCloseMultipleTool_def SolanaCreateGibworkTaskTool_def
  SolanaBuyUsingMoonshotTool_def SolanaSellUsingMoonshotTool_def SolanaPythGetPriceTool_def
  SolanaHeliusGetBalancesTool_def SolanaHeliusGetAddressNameTool_def
  SolanaHeliusGetNftEventsTool_def SolanaHeliusGetMintlistsTool_def
  SolanaHeliusGetNFTFingerprintTool_def SolanaHeliusGetActiveListingsTool_def
  SolanaHeliusGetNFTMetadataTool_def SolanaHeliusGetRawTransactionsTool_def
  SolanaHeliusGetParsedTransactionsTool_def SolanaHeliusGetParsedTransactionHistoryTool_def
  SolanaHeliusCreateWebhookTool_def SolanaHeliusGetAllWebhooksTool_def
  SolanaHeliusGetWebhookTool_def SolanaHeliusEditWebhookTool_def
  SolanaHeliusDeleteWebhookTool_def SolanaFetchTokenReportSummaryTool_def
  SolanaFetchTokenDetailedReportTool_def SolanaGetPumpCurveStateTool_def
  SolanaCalculatePumpCurvePriceTool_def SolanaBuyTokenTool_def SolanaSellTokenTool_def
  SolanaSNSResolveTool_def SolanaSNSRegisterDomainTool_def SolanaSNSGetFavouriteDomainTool_def
  SolanaSNSGetAllDomainsTool_def SolanaDeployCollectionTool_def SolanaGetMetaplexAssetTool_def
  SolanaGetMetaplexAssetsByCreatorTool_def SolanaGetMetaplexAssetsByAuthorityTool_def
  SolanaMintMetaplexCoreNFTTool_def SolanaDeBridgeCreateTransactionTool_def
  SolanaDeBridgeExecuteTransactionTool_def SolanaDeBridgeCheckTransactionStatusTool_def
  SolanaCybersCreateCoinTool_def SolanaGetTipAccounts_def SolanaGetRandomTipAccount_def
  SolanaGetBundleStatuses_def SolanaSendBundle_def SolanaGetInflightBundleStatuses_def
  SolanaSendTxn_def StorkGetPriceTool_def BackpackGetAccountBalancesTool_def
  BackpackRequestWithdrawalTool_def BackpackGetAccountSettingsTool_def
  BackpackUpdateAccountSettingsTool_def BackpackGetBorrowLendPositionsTool_def
  BackpackExecuteBorrowLendTool_def BackpackGetFillHistoryTool_def
  BackpackGetBorrowPositionHistoryTool_def BackpackGetFundingPaymentsTool_def
  BackpackGetOrderHistoryTool_def BackpackGetPnlHistoryTool_def
  BackpackGetSettlementHistoryTool_def BackpackGetUsersOpenOrdersTool_def
  BackpackExecuteOrderTool_def BackpackCancelOpenOrderTool_def BackpackGetOpenOrdersTool_def
  BackpackCancelOpenOrdersTool_def BackpackGetSupportedAssetsTool_def
  BackpackGetTickerInformationTool_def BackpackGetMarketsTool_def BackpackGetMarketTool_def
  BackpackGetTickersTool_def BackpackGetDepthTool_def BackpackGetKlinesTool_def
  BackpackGetMarkPriceTool_def BackpackGetOpenInterestTool_def
  BackpackGetFundingIntervalRatesTool_def BackpackGetStatusTool_def BackpackSendPingTool_def
  BackpackGetSystemTimeTool_def BackpackGetRecentTradesTool_def
  BackpackGetHistoricalTradesTool_def BackpackGetCollateralInfoTool_def
  BackpackGetAccountDepositsTool_def BackpackGetOpenPositionsTool_def
  BackpackGetBorrowHistoryTool_def BackpackGetInterestHistoryTool_def
  ClosePerpTradeShortTool_def ClosePerpTradeLongTool_def OpenPerpTradeLongTool_def
  OpenPerpTradeShortTool_def Create3LandCollectionTool_def Create3LandNFTTool_def
  CreateDriftUserAccountTool_def DepositToDriftUserAccountTool_def
  WithdrawFromDriftUserAccountTool_def TradeUsingDriftPerpAccountTool_def
  CheckIfDriftAccountExistsTool_def DriftUserAccountInfoTool_def
  GetAvailableDriftMarketsTool_def StakeToDriftInsuranceFundTool_def
  RequestUnstakeFromDriftInsuranceFundTool_def UnstakeFromDriftInsuranceFundTool_def
  DriftSwapSpotTokenTool_def GetDriftPerpMarketFundingRateTool_def
  GetDriftEntryQuoteOfPerpTradeTool_def GetDriftLendBorrowApyTool_def CreateDriftVaultTool_def
  UpdateDriftVaultDelegateTool_def UpdateDriftVaultTool_def GetDriftVaultInfoTool_def
  DepositIntoDriftVaultTool_def RequestWithdrawalFromDriftVaultTool_def
  WithdrawFromDriftVaultTool_def DeriveDriftVaultAddressTool_def
  TradeUsingDelegatedDriftVaultTool_def FlashOpenTradeTool_def FlashCloseTradeTool_def
  ResolveAllDomainsTool_def GetOwnedDomainsForTLDTool_def GetAllDomainsTLDsTool_def
  GetOwnedAllDomainsTool_def LightProtocolSendCompressedAirdropTool_def
  ManifestCreateMarketTool_def ManifestPlaceLimitOrderTool_def ManifestPlaceBatchOrdersTool_def
  ManifestCancelAllOrdersTool_def ManifestWithdrawAllTool_def OpenBookCreateMarketTool_def
  OrcaClosePositionTool_def OrcaCreateClmmTool_def OrcaCreateLiquidityPoolTool_def
  OrcaFetchPositionsTool_def OrcaOpenCenteredPositionTool_def
  OrcaOpenSingleSidedPositionTool_def CoingeckoGetTrendingTokensTool_def
  CoingeckoGetTrendingPoolsTool_def CoingeckoGetTopGainersTool_def
  CoingeckoGetTokenPriceDataTool_def CoingeckoGetTokenInfoTool_def
  CoingeckoGetLatestPoolsTool_def ElfaAiPingApiTool_def ElfaAiGetApiKeyStatusTool_def
  ElfaAiGetSmartMentionsTool_def ElfaAiGetTopMentionsByTickerTool_def
  ElfaAiSearchMentionsByKeywordsTool_def ElfaAiGetTrendingTokensTool_def
  ElfaAiGetSmartTwitterAccountStatsTool_def FluxBeamCreatePoolTool_def LuloLendTool_def
  LuloWithdrawTool_def

lemma run_msgs_async:
  "list_all (\<lambda>t. starts_with (decl_run_msg t) ''This tool only supports async execution'')
     declared_tools"
  unfolding declared_tools_def class_defs decl_def run_msg_async_interface_def
    run_msg_via_arun_def run_msg_async_only_def
  by simp

text \<open>
  The parameters of \<open>_run\<close>: 79 classes declare \<open>_run(self)\<close> and 85 declare
  \<open>_run(self, input: str)\<close>. A call with the input string on a class of the first
  kind, such as \<open>SolanaTransferTool\<close>, ends in the \<open>TypeError\<close> of the interpreter
  before the body is entered.
\<close>

lemma run_params_count:
  "length (filter (\<lambda>t. decl_run_params t = Self) declared_tools) = 79"
  "length (filter (\<lambda>t. decl_run_params t = Self_input) declared_tools) = 85"
  unfolding declared_tools_def class_defs decl_def by simp_all

lemma run_with_input_arity:
  "tool_run E SolanaTransferTool (Some input) K =
     (Inl (arity_error E ''SolanaTransferTool'' ''_run''), [])"
  by (simp add: tool_run_def SolanaTransferTool_def decl_def raise_def)

text \<open>Whatever its arguments, a call of \<open>_run\<close> raises and makes no call on the agent kit.\<close>

lemma sync_run_raises: "\<exists>c m. tool_run E t arg K = (Inl (Exc c m None), [])"
  by (simp add: tool_run_def raise_def arity_error_def)

text \<open>
  C6, as the code has it. In every class of the module a call of \<open>_run\<close> that passes the
  arguments \<open>_run\<close> declares raises \<open>NotImplementedError\<close> at once, with the message of
  the class, which sends the caller to asynchronous execution, and makes no call on the
  agent kit.
\<close>

theorem sync_run_not_implemented:
  assumes "t \<in> set declared_tools" and "accepts (decl_run_params t) arg"
  shows "tool_run E t arg K =
       (Inl (Exc ''NotImplementedError'' (decl_run_msg t) None), []) \<and>
     starts_with (decl_run_msg t) ''This tool only supports async execution''"
  using assms run_msgs_async
  by (simp add: tool_run_def raise_def list_all_iff)

theorem sync_run_not_implemented_witness:
  "SolanaTransferTool \<in> set declared_tools \<and>
   accepts (decl_run_params SolanaTransferTool) None \<and>
   tool_run (stub_env lenient_pubkey payloads) SolanaTransferTool None ok_kit =
     (Inl (Exc ''NotImplementedError''
        ''This tool only supports async execution via _arun. Please use the async interface.''
        None), []) \<and>
   CoingeckoGetTrendingTokensTool \<in> set declared_tools \<and>
   accepts (decl_run_params CoingeckoGetTrendingTokensTool) (Some []) \<and>
   tool_run (stub_env lenient_pubkey payloads) CoingeckoGetTrendingTokensTool (Some []) ok_kit =
     (Inl (Exc ''NotImplementedError''
        ''This tool only supports async execution via _arun. Please use the async interface.''
        None), [])"
proof -
  let ?E = "stub_env lenient_pubkey payloads"
  have m: "SolanaTransferTool \<in> set declared_tools"
    "CoingeckoGetTrendingTokensTool \<in> set declared_tools"
    by (simp_all add: declared_tools_def)
  have a: "accepts (decl_run_params SolanaTransferTool) None"
    "accepts (decl_run_params CoingeckoGetTrendingTokensTool) (Some [])"
    by (simp_all add: SolanaTransferTool_def CoingeckoGetTrendingTokensTool_def decl_def)
  from sync_run_not_implemented [OF m(1) a(1), of ?E ok_kit]
  have t: "tool_run ?E SolanaTransferTool None ok_kit =
     (Inl (Exc ''NotImplementedError''
        ''This tool only supports async execution via _arun. Please use the async interface.''
        None), [])"
    by (simp add: SolanaTransferTool_def decl_def run_msg_async_interface_def)
  from sync_run_not_implemented [OF m(2) a(2), of ?E ok_kit]
  have c: "tool_run ?E CoingeckoGetTrendingTokensTool (Some []) ok_kit =
     (Inl (Exc ''NotImplementedError''
        ''This tool only supports async execution via _arun. Please use the async interface.''
        None), [])"
    by (simp add: CoingeckoGetTrendingTokensTool_def decl_def run_msg_async_interface_def)
  from m a t c show ?thesis by (intro conjI)
qed

text \<open>
  The sentence of the spec fails in its last part: \<open>_run\<close> is not the only entry point
  that raises. The handler of \<open>_arun\<close> is \<open>except Exception\<close>, so when the awaited call
  of the balance adapter is cancelled the exception, which is not an instance of
  \<open>Exception\<close>, leaves \<open>_arun\<close>.
\<close>

theorem sync_run_only_raising_counterexample:
  "SolanaBalanceTool_arun (stub_env lenient_pubkey payloads) cancelled_kit [] =
     (Inl (BaseExc ''CancelledError''), [Call ''get_balance'' [PNone] []])"
  by (simp add: SolanaBalanceTool_arun_def SolanaBalanceTool_try_def try_except_def comp_simps
      cancelled_kit_def)

section \<open>The factory\<close>

lemma factory_classes:
  "map tool_class (create_solana_tools K) =
     [SolanaBalanceTool, SolanaTransferTool, SolanaDeployTokenTool, SolanaTradeTool,
      SolanaFaucetTool, SolanaStakeTool, SolanaPumpFunTokenTool, SolanaCreateImageTool,
      SolanaGetWalletAddressTool, SolanaTPSCalculatorTool, SolanaFetchPriceTool,
      SolanaTokenDataTool, SolanaTokenDataByTickerTool, SolanaMeteoraDLMMTool,
      SolanaRaydiumBuyTool, SolanaRaydiumSellTool, SolanaCreateGibworkTaskTool,
      SolanaSellUsingMoonshotTool, SolanaBuyUsingMoonshotTool, SolanaPythGetPriceTool,
      SolanaHeliusGetBalancesTool, SolanaHeliusGetAddressNameTool,
      SolanaHeliusGetNftEventsTool, SolanaHeliusGetMintlistsTool,
      SolanaHeliusGetNFTFingerprintTool, SolanaHeliusGetActiveListingsTool,
      SolanaHeliusGetNFTMetadataTool, SolanaHeliusGetRawTransactionsTool,
      SolanaHeliusGetParsedTransactionsTool, SolanaHeliusGetParsedTransactionHistoryTool,
      SolanaHeliusCreateWebhookTool, SolanaHeliusGetAllWebhooksTool,
      SolanaHeliusGetWebhookTool, SolanaHeliusEditWebhookTool,
      SolanaHeliusDeleteWebhookTool, SolanaFetchTokenReportSummaryTool,
      SolanaFetchTokenDetailedReportTool, SolanaGetPumpCurveStateTool,
      SolanaCalculatePumpCurvePriceTool, SolanaBuyTokenTool, SolanaSellTokenTool,
      SolanaSNSGetAllDomainsTool, SolanaSNSRegisterDomainTool,
      SolanaSNSGetFavouriteDomainTool, SolanaSNSResolveTool,
      SolanaGetMetaplexAssetsByAuthorityTool, SolanaGetMetaplexAssetsByCreatorTool,
      SolanaGetMetaplexAssetTool, SolanaMintMetaplexCoreNFTTool,
      SolanaDeployCollectionTool, SolanaDeBridgeCreateTransactionTool,
      SolanaDeBridgeCheckTransactionStatusTool, SolanaDeBridgeExecuteTransactionTool,
      SolanaCybersCreateCoinTool, SolanaGetTipAccounts, SolanaGetRandomTipAccount,
      SolanaGetBundleStatuses, SolanaSendBundle, SolanaGetInflightBundleStatuses,
      SolanaSendTxn, StorkGetPriceTool, BackpackCancelOpenOrdersTool,
      BackpackCancelOpenOrderTool, BackpackGetBorrowLendPositionsTool,
      BackpackGetBorrowPositionHistoryTool, BackpackGetDepthTool,
      BackpackGetFundingIntervalRatesTool, BackpackGetFundingPaymentsTool,
      BackpackGetHistoricalTradesTool, BackpackGetKlinesTool, BackpackGetMarkPriceTool,
      BackpackGetMarketsTool, BackpackGetOpenInterestTool, BackpackGetOpenOrdersTool,
      BackpackGetOrderHistoryTool, BackpackGetPnlHistoryTool, BackpackGetRecentTradesTool,
      BackpackGetSettlementHistoryTool, BackpackGetStatusTool,
      BackpackGetSupportedAssetsTool, BackpackGetSystemTimeTool,
      BackpackGetTickerInformationTool, BackpackGetTickersTool,
      BackpackGetUsersOpenOrdersTool, BackpackSendPingTool, BackpackExecuteBorrowLendTool,
      BackpackExecuteOrderTool, BackpackGetFillHistoryTool, BackpackGetAccountBalancesTool,
      BackpackRequestWithdrawalTool, BackpackGetAccountSettingsTool,
      BackpackUpdateAccountSettingsTool, BackpackGetCollateralInfoTool,
      BackpackGetAccountDepositsTool, BackpackGetOpenPositionsTool,
      BackpackGetBorrowHistoryTool, BackpackGetInterestHistoryTool, BackpackGetMarketTool,
      ClosePerpTradeLongTool, ClosePerpTradeShortTool, OpenPerpTradeLongTool,
      OpenPerpTradeShortTool, Create3LandCollectionTool, Create3LandNFTTool,
      CreateDriftUserAccountTool, DepositToDriftUserAccountTool,
      WithdrawFromDriftUserAccountTool, TradeUsingDriftPerpAccountTool,
      CheckIfDriftAccountExistsTool, DriftUserAccountInfoTool,
      GetAvailableDriftMarketsTool, StakeToDriftInsuranceFundTool,
      RequestUnstakeFromDriftInsuranceFundTool, UnstakeFromDriftInsuranceFundTool,
      DriftSwapSpotTokenTool, GetDriftPerpMarketFundingRateTool,
      GetDriftEntryQuoteOfPerpTradeTool, GetDriftLendBorrowApyTool, CreateDriftVaultTool,
      UpdateDriftVaultDelegateTool, UpdateDriftVaultTool, GetDriftVaultInfoTool,
      DepositIntoDriftVaultTool, RequestWithdrawalFromDriftVaultTool,
      WithdrawFromDriftVaultTool, DeriveDriftVaultAddressTool,
      TradeUsingDelegatedDriftVaultTool, FlashCloseTradeTool, FlashOpenTradeTool,
      ResolveAllDomainsTool, GetOwnedDomainsForTLDTool, GetAllDomainsTLDsTool,
      GetOwnedAllDomainsTool, LightProtocolSendCompressedAirdropTool,
      ManifestCreateMarketTool, ManifestPlaceLimitOrderTool, ManifestPlaceBatchOrdersTool,
      ManifestCancelAllOrdersTool, ManifestWithdrawAllTool, OpenBookCreateMarketTool,
      OrcaClosePositionTool, OrcaCreateClmmTool, OrcaCreateLiquidityPoolTool,
      OrcaFetchPositionsTool, OrcaOpenCenteredPositionTool,
      OrcaOpenSingleSidedPositionTool, CoingeckoGetTrendingTokensTool,
      CoingeckoGetTrendingPoolsTool, CoingeckoGetTopGainersTool,
      CoingeckoGetTokenPriceDataTool, CoingeckoGetTokenInfoTool,
      CoingeckoGetLatestPoolsTool, ElfaAiPingApiTool, ElfaAiGetApiKeyStatusTool,
      ElfaAiGetSmartMentionsTool, ElfaAiGetTopMentionsByTickerTool,
      ElfaAiSearchMentionsByKeywordsTool, ElfaAiGetTrendingTokensTool,
      ElfaAiGetSmartTwitterAccountStatsTool, FluxBeamCreatePoolTool, LuloLendTool,
      LuloWithdrawTool]"
  unfolding create_solana_tools_def new_tool_def by simp

lemma factory_classes_distinct:
  "distinct (map class_name_of (create_solana_tools K))"
  unfolding create_solana_tools_def new_tool_def class_defs decl_def
  by (simp add: class_name_of_def)

lemma factory_entries:
  "list_all (\<lambda>t. tool_class t \<in> set declared_tools \<and> tool_kit t = K)
     (create_solana_tools K)"
  unfolding create_solana_tools_def new_tool_def declared_tools_def by simp

lemma factory_kwargs:
  "list_all (\<lambda>t. tool_kwarg t = decl_kit_field (tool_class t)) (create_solana_tools K)"
  unfolding create_solana_tools_def new_tool_def class_defs decl_def by simp

lemma factory_length: "length (create_solana_tools K) = 162"
  unfolding create_solana_tools_def by simp

lemma factory_order:
  "map tool_class (create_solana_tools K) = map tool_class (create_solana_tools K')"
  unfolding create_solana_tools_def new_tool_def by simp

lemma factory_covers:
  "list_all (\<lambda>c. c = SolanaBurnAndCloseTool \<or> c = SolanaBurnAndCloseMultipleTool \<or>
       c \<in> set (map tool_class (create_solana_tools K))) declared_tools"
  unfolding factory_classes declared_tools_def by simp

text \<open>
  C7, as the code has it. For one agent kit the factory returns a list of adapter
  instances in which no class occurs twice; each is an instance of a class that the
  module defines, is constructed with the keyword that names the kit field of its class,
  and is bound to that same agent kit; every class of the module other than
  \<open>SolanaBurnAndCloseTool\<close> and \<open>SolanaBurnAndCloseMultipleTool\<close> has its instance in the
  list. The order of the list is fixed by the factory and does not depend on the agent
  kit.
\<close>

theorem create_solana_tools_registry:
  "distinct (map class_name_of (create_solana_tools K)) \<and>
   list_all (\<lambda>t. tool_class t \<in> set declared_tools \<and> tool_kit t = K)
     (create_solana_tools K) \<and>
   list_all (\<lambda>t. tool_kwarg t = decl_kit_field (tool_class t)) (create_solana_tools K) \<and>
   list_all (\<lambda>c. c = SolanaBurnAndCloseTool \<or> c = SolanaBurnAndCloseMultipleTool \<or>
       c \<in> set (map tool_class (create_solana_tools K))) declared_tools \<and>
   map tool_class (create_solana_tools K) = map tool_class (create_solana_tools K')"
  using factory_classes_distinct [of K] factory_entries [of K] factory_kwargs [of K]
    factory_covers [of K] factory_order [of K K']
  by (intro conjI)

theorem create_solana_tools_registry_witness:
  "list_all (\<lambda>t. tool_class t \<in> set declared_tools \<and> tool_kit t = ok_kit)
     (create_solana_tools ok_kit) \<and>
   tool_class (hd (create_solana_tools ok_kit)) = SolanaBalanceTool \<and>
   LuloWithdrawTool \<in> set (map tool_class (create_solana_tools ok_kit))"
proof -
  have h: "tool_class (hd (create_solana_tools ok_kit)) = SolanaBalanceTool"
    by (simp add: create_solana_tools_def new_tool_def)
  have l: "LuloWithdrawTool \<in> set (map tool_class (create_solana_tools ok_kit))"
    unfolding factory_classes by simp
  from create_solana_tools_registry [of ok_kit ok_kit] h l show ?thesis by blast
qed

text \<open>
  The sentence of the spec fails twice. The module defines \<open>SolanaBurnAndCloseTool\<close> and the
  factory returns no instance of it. And the list is not in the order of the class
  statements: the tenth class of the module, \<open>SolanaPumpFunTokenTool\<close>, is the seventh
  entry of the list, before \<open>SolanaGetWalletAddressTool\<close>, the seventh class of the
  module.
\<close>

theorem factory_declaration_order_counterexample:
  "SolanaBurnAndCloseTool \<in> set declared_tools \<and>
   decl_class SolanaBurnAndCloseTool
     \<notin> set (map class_name_of (create_solana_tools ())) \<and>
   map class_name_of (take 10 (create_solana_tools ())) =
     [''SolanaBalanceTool'', ''SolanaTransferTool'', ''SolanaDeployTokenTool'',
      ''SolanaTradeTool'', ''SolanaFaucetTool'', ''SolanaStakeTool'',
      ''SolanaPumpFunTokenTool'', ''SolanaCreateImageTool'', ''SolanaGetWalletAddressTool'',
      ''SolanaTPSCalculatorTool''] \<and>
   map decl_class (take 10 declared_tools) =
     [''SolanaBalanceTool'', ''SolanaTransferTool'', ''SolanaDeployTokenTool'',
      ''SolanaTradeTool'', ''SolanaFaucetTool'', ''SolanaStakeTool'',
      ''SolanaGetWalletAddressTool'', ''SolanaCreateImageTool'', ''SolanaTPSCalculatorTool'',
      ''SolanaPumpFunTokenTool''] \<and>
   map class_name_of (create_solana_tools ()) \<noteq>
     map decl_class declared_tools"
proof -
  have a: "SolanaBurnAndCloseTool \<in> set declared_tools"
    by (simp add: declared_tools_def)
  have b: "decl_class SolanaBurnAndCloseTool
     \<notin> set (map class_name_of (create_solana_tools ()))"
    unfolding create_solana_tools_def new_tool_def class_defs decl_def
  by (simp add: class_name_of_def)
  have t1: "take 10 (create_solana_tools ()) =
     [new_tool SolanaBalanceTool ''solana_kit'' (),
      new_tool SolanaTransferTool ''solana_kit'' (),
      new_tool SolanaDeployTokenTool ''solana_kit'' (),
      new_tool SolanaTradeTool ''solana_kit'' (),
      new_tool SolanaFaucetTool ''solana_kit'' (),
      new_tool SolanaStakeTool ''solana_kit'' (),
      new_tool SolanaPumpFunTokenTool ''solana_kit'' (),
      new_tool SolanaCreateImageTool ''solana_kit'' (),
      new_tool SolanaGetWalletAddressTool ''solana_kit'' (),
      new_tool SolanaTPSCalculatorTool ''solana_kit'' ()]"
    by (simp add: create_solana_tools_def)
  have c: "map class_name_of (take 10 (create_solana_tools ())) =
     [''SolanaBalanceTool'', ''SolanaTransferTool'', ''SolanaDeployTokenTool'',
      ''SolanaTradeTool'', ''SolanaFaucetTool'', ''SolanaStakeTool'',
      ''SolanaPumpFunTokenTool'', ''SolanaCreateImageTool'', ''SolanaGetWalletAddressTool'',
      ''SolanaTPSCalculatorTool'']"
    unfolding t1
    by (simp add: new_tool_def class_name_of_def decl_def SolanaBalanceTool_def SolanaTransferTool_def
        SolanaDeployTokenTool_def SolanaTradeTool_def SolanaFaucetTool_def SolanaStakeTool_def
        SolanaPumpFunTokenTool_def SolanaCreateImageTool_def SolanaGetWalletAddressTool_def
        SolanaTPSCalculatorTool_def)
  have t2: "take 10 declared_tools =
     [SolanaBalanceTool, SolanaTransferTool, SolanaDeployTokenTool, SolanaTradeTool,
      SolanaFaucetTool, SolanaStakeTool, SolanaGetWalletAddressTool, SolanaCreateImageTool,
      SolanaTPSCalculatorTool, SolanaPumpFunTokenTool]"
    by (simp add: declared_tools_def)
  have d: "map decl_class (take 10 declared_tools) =
     [''SolanaBalanceTool'', ''SolanaTransferTool'', ''SolanaDeployTokenTool'',
      ''SolanaTradeTool'', ''SolanaFaucetTool'', ''SolanaStakeTool'',
      ''SolanaGetWalletAddressTool'', ''SolanaCreateImageTool'', ''SolanaTPSCalculatorTool'',
      ''SolanaPumpFunTokenTool'']"
    unfolding t2
    by (simp add: decl_def SolanaBalanceTool_def SolanaTransferTool_def
        SolanaDeployTokenTool_def SolanaTradeTool_def SolanaFaucetTool_def SolanaStakeTool_def
        SolanaPumpFunTokenTool_def SolanaCreateImageTool_def SolanaGetWalletAddressTool_def
        SolanaTPSCalculatorTool_def)
  have e: "map class_name_of (create_solana_tools ()) \<noteq>
     map decl_class declared_tools"
  proof
    assume "map class_name_of (create_solana_tools ()) =
     map decl_class declared_tools"
    then have "take 10 (map class_name_of (create_solana_tools ())) =
      take 10 (map decl_class declared_tools)"
      by simp
    then have "map class_name_of (take 10 (create_solana_tools ())) =
      map decl_class (take 10 declared_tools)"
      by (simp only: take_map)
    with c d show False by simp
  qed
  from a b c d e show ?thesis by (intro conjI)
qed

end
